(* ===== verification/Prelude.thy ===== *)
theory Prelude
  imports Main "HOL-Library.Monad_Syntax" "HOL-Library.Sublist"
begin

text \<open>
  Shared vocabulary of the development.  JavaScript strings are HOL strings, read as
  sequences of Latin-1 code units (0 to 255); the string functions below (trim, lower
  casing, splitting) are the ones of the language on those code units.  A computation
  that may throw returns an option, with \<open>None\<close> for the exception, and is composed
  with the option monad.  The collections \<open>js_simps\<close> and \<open>path_simps\<close> gather the facts
  the component proofs share.
\<close>

named_theorems js_simps \<open>facts about the string and list functions of the language\<close>
named_theorems path_simps \<open>facts about normalised lock paths\<close>

abbreviation slash :: char where "slash \<equiv> CHR ''/''"
abbreviation dot :: char where "dot \<equiv> CHR ''.''"
abbreviation backslash :: char where "backslash \<equiv> CHR 0x5C"

section \<open>Characters and strings\<close>

definition js_space :: "char \<Rightarrow> bool" where
  "js_space c \<longleftrightarrow> c \<in> {CHR 0x09, CHR 0x0A, CHR 0x0B, CHR 0x0C, CHR 0x0D, CHR 0x20, CHR 0xA0}"

definition js_trim :: "string \<Rightarrow> string" where
  "js_trim s = rev (dropWhile js_space (rev (dropWhile js_space s)))"

definition js_trim_end :: "string \<Rightarrow> string" where
  "js_trim_end s = rev (dropWhile js_space (rev s))"

definition js_lower_char :: "char \<Rightarrow> char" where
  "js_lower_char c = (let n = of_char c :: nat in
     if (65 \<le> n \<and> n \<le> 90) \<or> (192 \<le> n \<and> n \<le> 222 \<and> n \<noteq> 215) then char_of (n + 32) else c)"

definition js_lower :: "string \<Rightarrow> string" where
  "js_lower s = map js_lower_char s"

definition is_alpha :: "char \<Rightarrow> bool" where
  "is_alpha c \<longleftrightarrow> (let n = of_char c :: nat in (65 \<le> n \<and> n \<le> 90) \<or> (97 \<le> n \<and> n \<le> 122))"

definition is_digit :: "char \<Rightarrow> bool" where
  "is_digit c \<longleftrightarrow> (let n = of_char c :: nat in 48 \<le> n \<and> n \<le> 57)"

definition is_alnum :: "char \<Rightarrow> bool" where
  "is_alnum c \<longleftrightarrow> is_alpha c \<or> is_digit c"

fun starts_with :: "string \<Rightarrow> string \<Rightarrow> bool" where
  "starts_with [] s = True"
| "starts_with (c # p) [] = False"
| "starts_with (c # p) (d # s) = (c = d \<and> starts_with p s)"

definition ends_with :: "string \<Rightarrow> string \<Rightarrow> bool" where
  "ends_with p s \<longleftrightarrow> length p \<le> length s \<and> drop (length s - length p) s = p"

fun split_on :: "char \<Rightarrow> string \<Rightarrow> string list" where
  "split_on c [] = [[]]"
| "split_on c (x # xs) =
     (if x = c then [] # split_on c xs
      else (case split_on c xs of [] \<Rightarrow> [[x]] | w # ws \<Rightarrow> (x # w) # ws))"

fun join_with :: "string \<Rightarrow> string list \<Rightarrow> string" where
  "join_with sep [] = []"
| "join_with sep [w] = w"
| "join_with sep (w # v # ws) = w @ sep @ join_with sep (v # ws)"

text \<open>The order of texts by code units, and \<open>xs.sort()\<close>.\<close>

fun text_less :: "string \<Rightarrow> string \<Rightarrow> bool" where
  "text_less [] s = (s \<noteq> [])"
| "text_less (c # p) [] = False"
| "text_less (c # p) (d # s) = (if c = d then text_less p s else (of_char c :: nat) < of_char d)"

fun text_insert :: "string \<Rightarrow> string list \<Rightarrow> string list" where
  "text_insert x [] = [x]"
| "text_insert x (y # ys) = (if text_less y x then y # text_insert x ys else x # y # ys)"

definition text_sort :: "string list \<Rightarrow> string list" where
  "text_sort xs = foldr text_insert xs []"

lemma set_text_insert: "set (text_insert x ys) = insert x (set ys)"
  by (induction ys) auto

lemma set_text_sort [simp, js_simps]: "set (text_sort xs) = set xs"
  unfolding text_sort_def by (induction xs) (auto simp: set_text_insert)

text \<open>\<open>[...new Set(xs)]\<close> keeps the first occurrence of every value, in order.\<close>

fun uniq :: "'a list \<Rightarrow> 'a list" where
  "uniq [] = []"
| "uniq (x # xs) = x # filter (\<lambda>y. y \<noteq> x) (uniq xs)"

lemma set_uniq [simp, js_simps]: "set (uniq xs) = set xs"
  by (induction xs) auto

lemma distinct_uniq [simp, js_simps]: "distinct (uniq xs)"
  by (induction xs) auto

lemma uniq_distinct: "distinct xs \<Longrightarrow> uniq xs = xs"
  by (induction xs) (auto simp: filter_id_conv)

lemma uniq_eq_Nil [simp, js_simps]: "uniq xs = [] \<longleftrightarrow> xs = []"
  by (cases xs) auto

lemma starts_with_iff: "starts_with p s \<longleftrightarrow> (\<exists>r. s = p @ r)"
  by (induction p s rule: starts_with.induct) auto

lemma ends_with_iff: "ends_with p s \<longleftrightarrow> (\<exists>r. s = r @ p)"
proof
  assume "ends_with p s"
  then have "s = take (length s - length p) s @ p"
    unfolding ends_with_def by (metis append_take_drop_id)
  then show "\<exists>r. s = r @ p" ..
qed (auto simp: ends_with_def)

lemma starts_with_self [simp, js_simps]: "starts_with p (p @ r)"
  by (simp add: starts_with_iff)

lemma dropWhile_none: "\<forall>c \<in> set s. \<not> P c \<Longrightarrow> dropWhile P s = s"
  by (cases s) auto

lemma js_trim_no_space: "\<forall>c \<in> set s. \<not> js_space c \<Longrightarrow> js_trim s = s"
  by (simp add: js_trim_def dropWhile_none)

lemma set_js_trim: "set (js_trim s) \<subseteq> set s"
  unfolding js_trim_def by (auto dest!: set_dropWhileD)

lemma js_lower_char_slash [simp, js_simps]: "js_lower_char c = slash \<longleftrightarrow> c = slash"
proof -
  have "js_lower_char c = slash \<Longrightarrow> c = slash"
  proof (rule ccontr)
    assume eq: "js_lower_char c = slash" and ne: "c \<noteq> slash"
    then have r: "(65 \<le> (of_char c :: nat) \<and> (of_char c :: nat) \<le> 90) \<or> (192 \<le> (of_char c :: nat) \<and> (of_char c :: nat) \<le> 222)"
      by (auto simp: js_lower_char_def Let_def split: if_splits)
    with eq ne have "char_of ((of_char c :: nat) + 32) = slash"
      by (auto simp: js_lower_char_def Let_def split: if_splits)
    then have "(of_char (char_of ((of_char c :: nat) + 32)) :: nat) = of_char slash"
      by (rule arg_cong)
    then have "((of_char c :: nat) + 32) mod 256 = 47"
      by (simp add: of_char_of)
    with r show False by auto
  qed
  moreover have "js_lower_char slash = slash"
    by (simp add: js_lower_char_def)
  ultimately show ?thesis by blast
qed

section \<open>Option-valued list loops\<close>

text \<open>\<open>xs.find(p)\<close>, \<open>xs.map(f)\<close> and \<open>xs.filter(p)\<close> with callbacks that may throw.\<close>

fun opt_map :: "('a \<Rightarrow> 'b option) \<Rightarrow> 'a list \<Rightarrow> 'b list option" where
  "opt_map f [] = Some []"
| "opt_map f (x # xs) = do { y \<leftarrow> f x; ys \<leftarrow> opt_map f xs; Some (y # ys) }"

fun opt_filter :: "('a \<Rightarrow> bool option) \<Rightarrow> 'a list \<Rightarrow> 'a list option" where
  "opt_filter p [] = Some []"
| "opt_filter p (x # xs) =
     do { b \<leftarrow> p x; ys \<leftarrow> opt_filter p xs; Some (if b then x # ys else ys) }"

lemma opt_map_Some: "opt_map (\<lambda>x. Some (f x)) xs = Some (map f xs)"
  by (induction xs) auto

lemma opt_map_length: "opt_map f xs = Some ys \<Longrightarrow> length ys = length xs"
  by (induction xs arbitrary: ys) (auto simp: bind_eq_Some_conv)

lemma opt_map_in_set:
  "opt_map f xs = Some ys \<Longrightarrow> y \<in> set ys \<Longrightarrow> \<exists>x \<in> set xs. f x = Some y"
proof (induction xs arbitrary: ys)
  case (Cons x xs)
  from Cons.prems(1) obtain z zs where "f x = Some z" "opt_map f xs = Some zs" "ys = z # zs"
    by (auto simp: bind_eq_Some_conv)
  with Cons.IH [of zs] Cons.prems(2) show ?case by auto
qed simp

lemma opt_map_mem:
  "opt_map f xs = Some ys \<Longrightarrow> x \<in> set xs \<Longrightarrow> \<exists>y \<in> set ys. f x = Some y"
proof (induction xs arbitrary: ys)
  case (Cons a xs)
  from Cons.prems(1) obtain z zs where "f a = Some z" "opt_map f xs = Some zs" "ys = z # zs"
    by (auto simp: bind_eq_Some_conv)
  with Cons.IH [of zs] Cons.prems(2) show ?case by auto
qed simp

lemma opt_filter_set:
  "opt_filter p xs = Some ys \<Longrightarrow> set ys = {x \<in> set xs. p x = Some True}"
proof (induction xs arbitrary: ys)
  case (Cons x xs)
  from Cons.prems obtain b zs where b: "p x = Some b" and zs: "opt_filter p xs = Some zs"
    and ys: "ys = (if b then x # zs else zs)"
    by (auto simp: bind_eq_Some_conv)
  from Cons.IH [OF zs] b ys show ?case by (cases b) auto
qed simp

lemma find_None_not: "List.find p xs = None \<longleftrightarrow> (\<forall>x \<in> set xs. \<not> p x)"
  by (induction xs) auto

lemma find_Some_ex: "List.find p xs = Some x \<Longrightarrow> x \<in> set xs \<and> p x"
  by (induction xs) (auto split: if_splits)

end
