(* ===== verification/Paths.thy ===== *)
theory Paths
  imports Prelude
begin

text \<open>
  Model of the path helpers of \<open>lib/paths.js\<close>: normalisation of lock paths, the POSIX
  \<open>node:path\<close> functions the file calls, the file-system probes, the boundary and safety
  checks, and the overlap test every lock decision rests on.  The file system is a record
  of the results its reads return at one moment; the reads that throw return the error
  value.  The host is a POSIX one: \<open>path.sep\<close> is a slash, while
  \<open>process.platform\<close> stays a field that the code's own tests read.
\<close>

section \<open>The host: process and file system\<close>

datatype lstat_result = LstatError string | Lstat nat nat bool \<comment> \<open>error code, or dev, ino, symbolic link\<close>

record host =
  platform :: string
  process_cwd :: string
  fs_exists :: "string \<Rightarrow> bool"
  fs_realpath :: "string \<Rightarrow> string option"
  fs_lstat :: "string \<Rightarrow> lstat_result"
  fs_readdir :: "string \<Rightarrow> string list option"

section \<open>node:path on POSIX\<close>

definition push_seg :: "string list \<Rightarrow> string \<Rightarrow> string list" where
  "push_seg acc seg = (if seg = '''' \<or> seg = ''.'' then acc
     else if seg = ''..'' then butlast acc else acc @ [seg])"

definition norm_segs :: "string \<Rightarrow> string list" where
  "norm_segs p = foldl push_seg [] (split_on slash p)"

definition abs_path :: "string list \<Rightarrow> string" where
  "abs_path segs = slash # join_with ''/'' segs"

definition is_abs :: "string \<Rightarrow> bool" where
  "is_abs p = starts_with ''/'' p"

definition path_resolve :: "host \<Rightarrow> string \<Rightarrow> string" where
  "path_resolve h p = (if is_abs p then abs_path (norm_segs p)
     else abs_path (norm_segs (process_cwd h @ ''/'' @ p)))"

definition path_resolve2 :: "host \<Rightarrow> string \<Rightarrow> string \<Rightarrow> string" where
  "path_resolve2 h root p = (if is_abs p then abs_path (norm_segs p)
     else path_resolve h (root @ ''/'' @ p))"

fun relative_segs :: "string list \<Rightarrow> string list \<Rightarrow> string list" where
  "relative_segs [] bs = bs"
| "relative_segs (a # as) [] = replicate (Suc (length as)) ''..''"
| "relative_segs (a # as) (b # bs) =
     (if a = b then relative_segs as bs else replicate (Suc (length as)) ''..'' @ b # bs)"

definition path_relative :: "host \<Rightarrow> string \<Rightarrow> string \<Rightarrow> string" where
  "path_relative h a b =
     join_with ''/'' (relative_segs (norm_segs (path_resolve h a)) (norm_segs (path_resolve h b)))"

section \<open>Lists of strings\<close>

text \<open>\<open>undefined\<close> and \<open>null\<close> lists are the empty list, as \<open>normalizeList\<close> makes them.\<close>

definition normalizeList :: "string list \<Rightarrow> string list" where
  "normalizeList value = filter (\<lambda>v. v \<noteq> []) value"

definition uniqueList :: "string list \<Rightarrow> string list" where
  "uniqueList values = uniq (filter (\<lambda>v. v \<noteq> []) (map js_trim (normalizeList values)))"

section \<open>Normalisation of lock paths\<close>

definition REPOSITORY_SCOPE_LOCK_PATH :: string where
  "REPOSITORY_SCOPE_LOCK_PATH = ''.''"

definition glob_char :: "char \<Rightarrow> bool" where
  "glob_char c \<longleftrightarrow> c \<in> set ''*?[]{}!''"

definition has_glob :: "string \<Rightarrow> bool" where
  "has_glob s \<longleftrightarrow> list_ex glob_char s"

definition has_star :: "string \<Rightarrow> bool" where
  "has_star s \<longleftrightarrow> list_ex (\<lambda>c. c \<in> set ''*?'') s"

definition to_slashes :: "string \<Rightarrow> string" where
  "to_slashes s = map (\<lambda>c. if c = backslash then slash else c) s"

fun squeeze :: "string \<Rightarrow> string" where
  "squeeze (a # b # r) = (if a = slash \<and> b = slash then squeeze (b # r) else a # squeeze (b # r))"
| "squeeze s = s"

fun strip_lead :: "string \<Rightarrow> string" where
  "strip_lead (a # b # r) = (if a = dot \<and> b = slash then strip_lead r else a # b # r)"
| "strip_lead s = s"

fun drop_dots :: "string \<Rightarrow> string" where
  "drop_dots (a # b # r) =
     (if a = slash \<and> b = dot \<and> (r = [] \<or> hd r = slash) then drop_dots r else a # drop_dots (b # r))"
| "drop_dots s = s"

definition strip_tail :: "string \<Rightarrow> string" where
  "strip_tail s = rev (dropWhile (\<lambda>c. c = slash) (rev s))"

definition slash_normalized :: "string \<Rightarrow> string" where
  "slash_normalized raw = squeeze (drop_dots (strip_lead (squeeze (to_slashes raw))))"

definition normalizeLockPath :: "string \<Rightarrow> string" where
  "normalizeLockPath value =
    (let raw = js_trim value in
     if raw = [] then [] else
     let s = slash_normalized raw;
         n = strip_tail s;
         n = (if ends_with ''/**'' n \<and> \<not> has_glob (take (length n - 3) n)
              then strip_tail (take (length n - 3) n) else n)
     in if n \<noteq> [] then n else if starts_with ''/'' s then ''/'' else [])"

definition hasParentTraversalSegment :: "string \<Rightarrow> bool" where
  "hasParentTraversalSegment value = list_ex (\<lambda>seg. seg = ''..'') (split_on slash (to_slashes value))"

definition normalizeLockPathList :: "string list \<Rightarrow> string list" where
  "normalizeLockPathList values =
     uniq (filter (\<lambda>v. v \<noteq> []) (map normalizeLockPath (uniqueList values)))"

definition mergePathLists :: "string list list \<Rightarrow> string list" where
  "mergePathLists values = normalizeLockPathList (concat (map normalizeList values))"

definition firstNonEmptyList :: "string list list \<Rightarrow> string list" where
  "firstNonEmptyList values =
     (case List.find (\<lambda>l. l \<noteq> []) (map normalizeLockPathList values) of Some l \<Rightarrow> l | None \<Rightarrow> [])"

section \<open>Case sensitivity of the file system\<close>

datatype case_mode = Sensitive | Insensitive | ConservativeInsensitive

fun toggledAsciiCase :: "string \<Rightarrow> string" where
  "toggledAsciiCase [] = []"
| "toggledAsciiCase (c # s) =
     (if is_alpha c
      then (if js_lower_char c = c then char_of (of_char c - 32 :: nat) else js_lower_char c) # s
      else (case toggledAsciiCase s of [] \<Rightarrow> [] | t \<Rightarrow> c # t))"

text \<open>\<open>None\<close> when either \<open>lstat\<close> throws, with its error code.\<close>

definition sameFilesystemObject :: "host \<Rightarrow> string \<Rightarrow> string \<Rightarrow> string + bool" where
  "sameFilesystemObject h l r = (case fs_lstat h l of LstatError e \<Rightarrow> Inl e
     | Lstat d i _ \<Rightarrow> (case fs_lstat h r of LstatError e \<Rightarrow> Inl e
         | Lstat d' i' _ \<Rightarrow> Inr (d = d' \<and> i = i')))"

fun probe_case :: "host \<Rightarrow> string \<Rightarrow> string list \<Rightarrow> string list \<Rightarrow> case_mode" where
  "probe_case h root names [] = ConservativeInsensitive"
| "probe_case h root names (e # es) =
    (let t = toggledAsciiCase e in
     if t = [] \<or> t \<in> set names then probe_case h root names es
     else (case sameFilesystemObject h (path_resolve2 h root e) (path_resolve2 h root t) of
         Inr True \<Rightarrow> Insensitive
       | Inr False \<Rightarrow> Sensitive
       | Inl code \<Rightarrow> if code = ''ENOENT'' then Sensitive else probe_case h root names es))"

definition filesystemCaseModeForRoot :: "host \<Rightarrow> string \<Rightarrow> case_mode" where
  "filesystemCaseModeForRoot h cwd =
    (if cwd = [] then (if platform h = ''win32'' then Insensitive else Sensitive)
     else (case fs_realpath h (path_resolve h cwd) of None \<Rightarrow> ConservativeInsensitive
       | Some real \<Rightarrow> (case fs_readdir h real of None \<Rightarrow> ConservativeInsensitive
           | Some entries \<Rightarrow> probe_case h real entries entries)))"

definition normalizeFilesystemCase :: "host \<Rightarrow> string \<Rightarrow> string \<Rightarrow> string" where
  "normalizeFilesystemCase h value cwd =
    (if cwd \<noteq> [] then (if filesystemCaseModeForRoot h cwd = Sensitive then value else js_lower value)
     else if platform h = ''win32'' then js_lower value else value)"

definition isAbsolutePathLike :: "string \<Rightarrow> bool" where
  "isAbsolutePathLike raw \<longleftrightarrow>
    (case raw of a # b # c # _ \<Rightarrow> is_alpha a \<and> b = CHR '':'' \<and> (c = slash \<or> c = backslash) | _ \<Rightarrow> False)
    \<or> starts_with [backslash, backslash] raw \<or> starts_with ''/'' raw"

definition normalizeLockPathForCwd :: "host \<Rightarrow> string \<Rightarrow> string \<Rightarrow> string" where
  "normalizeLockPathForCwd h value cwd =
    (let raw = js_trim value; normalized = normalizeLockPath value in
     if normalized = [] \<or> cwd = [] then normalized
     else if hasParentTraversalSegment raw then normalized
     else let root = path_resolve h cwd;
              resolved = (if isAbsolutePathLike raw then path_resolve h raw
                          else path_resolve2 h root normalized);
              rel = path_relative h root resolved
          in normalizeFilesystemCase h
               (normalizeLockPath (if rel = [] then REPOSITORY_SCOPE_LOCK_PATH else rel)) root)"

definition normalizeLockPathListForCwd :: "host \<Rightarrow> string list \<Rightarrow> string \<Rightarrow> string list" where
  "normalizeLockPathListForCwd h values cwd =
     uniq (filter (\<lambda>v. v \<noteq> []) (map (\<lambda>v. normalizeLockPathForCwd h v cwd) (uniqueList values)))"

definition normalizePathForCompare :: "host \<Rightarrow> string \<Rightarrow> string \<Rightarrow> string" where
  "normalizePathForCompare h value cwd =
     normalizeFilesystemCase h
       (if cwd \<noteq> [] then normalizeLockPathForCwd h value cwd else normalizeLockPath value) cwd"

section \<open>Boundary and safety checks\<close>

definition hasAmbiguousPathPattern :: "host \<Rightarrow> string list \<Rightarrow> string \<Rightarrow> bool" where
  "hasAmbiguousPathPattern h paths cwd =
     list_ex (\<lambda>candidate. has_glob candidate
        \<and> \<not> (cwd \<noteq> [] \<and> \<not> has_star candidate \<and> fs_exists h (path_resolve2 h cwd candidate)))
       (normalizeList paths)"

definition pathRelativeEscapes :: "string \<Rightarrow> bool" where
  "pathRelativeEscapes relative \<longleftrightarrow> relative = ''..'' \<or> starts_with ''../'' relative"

definition isPathInside :: "host \<Rightarrow> string \<Rightarrow> string \<Rightarrow> bool" where
  "isPathInside h parent candidate =
    (let relative = path_relative h (path_resolve h parent) (path_resolve h candidate)
     in relative \<noteq> [] \<and> \<not> pathRelativeEscapes relative \<and> \<not> is_abs relative)"

datatype path_reason =
    RootMissing string
  | ResolvesOutside string string
  | TraversesLink string string
  | Unresolvable string
  | EmptyPath string
  | ControlCharacters string
  | StreamSyntax string
  | HomeShortcut string
  | FilesystemRoot string
  | ParentTraversal string
  | OutsideAllowedRoot string string

text \<open>The loop that walks up to the nearest existing ancestor, on the segments of the path.\<close>

function nearest_existing :: "host \<Rightarrow> string list \<Rightarrow> string list" where
  "nearest_existing h segs =
     (if \<not> fs_exists h (abs_path segs) \<and> segs \<noteq> [] then nearest_existing h (butlast segs) else segs)"
  by pat_completeness auto
termination
  by (relation "measure (\<lambda>(h, segs). length segs)") auto

declare nearest_existing.simps [simp del]

text \<open>The scan of the segments below the root: \<open>Inl\<close> when \<open>lstat\<close> throws, otherwise the first link.\<close>

fun link_scan :: "host \<Rightarrow> string \<Rightarrow> string list \<Rightarrow> unit + string option" where
  "link_scan h current [] = Inr None"
| "link_scan h current (seg # segs) =
    (let current = path_resolve2 h current seg in
     if fs_exists h current then
       (case fs_lstat h current of LstatError _ \<Rightarrow> Inl ()
        | Lstat _ _ link \<Rightarrow> if link then Inr (Some current) else link_scan h current segs)
     else link_scan h current segs)"

definition static_part :: "host \<Rightarrow> string \<Rightarrow> string \<Rightarrow> string" where
  "static_part h root normalized =
    (if hasAmbiguousPathPattern h [normalized] root
     then rev (dropWhile (\<lambda>c. c = slash \<or> c = backslash) (rev (takeWhile (\<lambda>c. \<not> glob_char c) normalized)))
     else normalized)"

definition realPathBoundaryReason :: "host \<Rightarrow> string \<Rightarrow> string \<Rightarrow> path_reason option" where
  "realPathBoundaryReason h rawPath cwd =
    (if cwd = [] then None else
     let root = path_resolve h cwd in
     if \<not> fs_exists h root then Some (RootMissing root) else
     let normalized = normalizeLockPath rawPath;
         staticValue = static_part h root normalized;
         candidate = path_resolve2 h root (if staticValue = [] then ''.'' else staticValue);
         nearest = abs_path (nearest_existing h (norm_segs candidate))
     in (case fs_realpath h root of None \<Rightarrow> Some (Unresolvable rawPath)
         | Some realRoot \<Rightarrow>
       (case fs_realpath h nearest of None \<Rightarrow> Some (Unresolvable rawPath)
         | Some realNearest \<Rightarrow>
           let relativeReal = path_relative h realRoot realNearest in
           if pathRelativeEscapes relativeReal \<or> is_abs relativeReal
           then Some (ResolvesOutside rawPath realRoot)
           else (case link_scan h root (filter (\<lambda>s. s \<noteq> []) (split_on slash (path_relative h root nearest))) of
               Inl _ \<Rightarrow> Some (Unresolvable rawPath)
             | Inr (Some current) \<Rightarrow> Some (TraversesLink rawPath current)
             | Inr None \<Rightarrow> None))))"

definition windowsStreamSyntax :: "string \<Rightarrow> string \<Rightarrow> bool" where
  "windowsStreamSyntax normalized plat =
    (plat = ''win32'' \<and>
     CHR '':'' \<in> set (case normalized of
         a # b # r \<Rightarrow> if is_alpha a \<and> b = CHR '':'' \<and> (r = [] \<or> hd r = slash) then drop 1 r else normalized
       | _ \<Rightarrow> normalized))"

definition drive_root :: "string \<Rightarrow> bool" where
  "drive_root s = (case s of a # b # r \<Rightarrow> is_alpha a \<and> b = CHR '':'' \<and> (r = [] \<or> r = ''/'') | _ \<Rightarrow> False)"

definition unsafe_path_one :: "host \<Rightarrow> string \<Rightarrow> string \<Rightarrow> path_reason option" where
  "unsafe_path_one h raw root =
    (let normalized = normalizeLockPath raw in
     if normalized = [] then Some (EmptyPath raw)
     else if list_ex (\<lambda>c. c \<in> {CHR 0x00, CHR 0x0D, CHR 0x0A}) raw then Some (ControlCharacters raw)
     else if windowsStreamSyntax normalized (platform h) then Some (StreamSyntax raw)
     else if normalized = ''~'' \<or> starts_with ''~/'' normalized then Some (HomeShortcut raw)
     else if normalized = ''.'' \<or> normalized = ''/'' \<or> drive_root normalized then Some (FilesystemRoot raw)
     else if hasParentTraversalSegment raw \<or> normalized = ''..'' \<or> starts_with ''../'' normalized
             \<or> sublist ''/../'' normalized
     then Some (ParentTraversal raw)
     else if isAbsolutePathLike normalized \<and> root \<noteq> []
             \<and> (let relative = path_relative h root (path_resolve h normalized)
                in relative = [] \<or> pathRelativeEscapes relative \<or> is_abs relative)
     then Some (OutsideAllowedRoot raw root)
     else realPathBoundaryReason h normalized root)"

fun first_reason :: "('a \<Rightarrow> 'r option) \<Rightarrow> 'a list \<Rightarrow> 'r option" where
  "first_reason f [] = None"
| "first_reason f (x # xs) = (case f x of Some r \<Rightarrow> Some r | None \<Rightarrow> first_reason f xs)"

definition unsafePathReason :: "host \<Rightarrow> string list \<Rightarrow> string \<Rightarrow> path_reason option" where
  "unsafePathReason h paths cwd =
    (let root = (if cwd = [] then [] else path_resolve h cwd)
     in first_reason (\<lambda>raw. unsafe_path_one h raw root) (normalizeList paths))"

section \<open>Overlap of path sets\<close>

definition path_overlap :: "string \<Rightarrow> string \<Rightarrow> bool" where
  "path_overlap left right \<longleftrightarrow> left = REPOSITORY_SCOPE_LOCK_PATH \<or> right = REPOSITORY_SCOPE_LOCK_PATH
     \<or> left = right \<or> starts_with (right @ ''/'') left \<or> starts_with (left @ ''/'') right"

fun overlaps :: "host \<Rightarrow> string list \<Rightarrow> string list \<Rightarrow> string \<Rightarrow> (string \<times> string) option" where
  "overlaps h [] bs cwd = None"
| "overlaps h (a # as) bs cwd =
    (case List.find (\<lambda>b. path_overlap (normalizePathForCompare h a cwd) (normalizePathForCompare h b cwd)) bs of
       Some b \<Rightarrow> Some (a, b)
     | None \<Rightarrow> overlaps h as bs cwd)"

text \<open>Equations without abstractions over evaluated data, for evaluation by the kernel.\<close>

definition overlap_test :: "host \<Rightarrow> string \<Rightarrow> string \<Rightarrow> string \<Rightarrow> bool" where
  "overlap_test h cwd left b = path_overlap left (normalizePathForCompare h b cwd)"

lemma overlaps_code [code]:
  "overlaps h [] bs cwd = None"
  "overlaps h (a # as) bs cwd = (case List.find (overlap_test h cwd (normalizePathForCompare h a cwd)) bs of
       Some b \<Rightarrow> Some (a, b) | None \<Rightarrow> overlaps h as bs cwd)"
  by (simp_all add: overlap_test_def [abs_def])

definition lock_path_for :: "host \<Rightarrow> string \<Rightarrow> string \<Rightarrow> string" where
  "lock_path_for h cwd v = normalizeLockPathForCwd h v cwd"

lemma normalizeLockPathListForCwd_code [code]: "normalizeLockPathListForCwd h values cwd =
     uniq (filter (\<lambda>v. v \<noteq> []) (map (lock_path_for h cwd) (uniqueList values)))"
  by (simp add: normalizeLockPathListForCwd_def lock_path_for_def [abs_def])

definition unsafe_from :: "host \<Rightarrow> string \<Rightarrow> string \<Rightarrow> path_reason option" where
  "unsafe_from h root raw = unsafe_path_one h raw root"

lemma unsafePathReason_code [code]: "unsafePathReason h paths cwd =
    first_reason (unsafe_from h (if cwd = [] then [] else path_resolve h cwd)) (normalizeList paths)"
  by (simp add: unsafePathReason_def unsafe_from_def [abs_def])

section \<open>Normal form of lock paths\<close>

fun no_double :: "string \<Rightarrow> bool" where
  "no_double (a # b # r) = (\<not> (a = slash \<and> b = slash) \<and> no_double (b # r))"
| "no_double s = True"

fun no_dot_seg :: "string \<Rightarrow> bool" where
  "no_dot_seg (a # b # r) =
     (\<not> (a = slash \<and> b = dot \<and> (r = [] \<or> hd r = slash)) \<and> no_dot_seg (b # r))"
| "no_dot_seg s = True"

text \<open>No backslash, no empty or \<open>.\<close> segment, no leading \<open>./\<close>, no trailing slash, no literal \<open>/**\<close>.\<close>

definition normal_path :: "string \<Rightarrow> bool" where
  "normal_path p \<longleftrightarrow> p \<noteq> [] \<and> backslash \<notin> set p \<and> no_double p \<and> no_dot_seg p
     \<and> \<not> starts_with ''./'' p \<and> last p \<noteq> slash
     \<and> \<not> (ends_with ''/**'' p \<and> \<not> has_glob (take (length p - 3) p))"

lemma hd_squeeze: "squeeze (a # r) \<noteq> [] \<and> hd (squeeze (a # r)) = a"
  by (induction "a # r" arbitrary: a r rule: squeeze.induct) auto

lemma no_double_Cons: "no_double (a # s) \<longleftrightarrow> no_double s \<and> \<not> (a = slash \<and> s \<noteq> [] \<and> hd s = slash)"
  by (cases s) auto

lemma no_double_squeeze [path_simps]: "no_double (squeeze s)"
proof (induction s rule: squeeze.induct)
  case (1 a b r)
  then show ?case using hd_squeeze [of b r] by (auto simp: no_double_Cons)
qed auto

lemma squeeze_id: "no_double s \<Longrightarrow> squeeze s = s"
  by (induction s rule: squeeze.induct) auto

lemma set_squeeze: "set (squeeze s) = set s"
  by (induction s rule: squeeze.induct) auto

lemma strip_lead_suffix: "\<exists>p. s = p @ strip_lead s"
proof (induction s rule: strip_lead.induct)
  case (1 a b r)
  then obtain p where "a = dot \<and> b = slash \<longrightarrow> r = p @ strip_lead r" by blast
  then show ?case by (cases "a = dot \<and> b = slash") (auto intro: exI [of _ "a # b # p"])
qed auto

lemma no_double_append: "no_double (p @ s) \<Longrightarrow> no_double p \<and> no_double s"
  by (induction p rule: no_double.induct) (auto simp: no_double_Cons)

lemma no_dot_seg_append: "no_dot_seg (p @ s) \<Longrightarrow> no_dot_seg s"
  by (induction p rule: no_dot_seg.induct) (auto, cases s, auto)

lemma no_double_strip_lead: "no_double s \<Longrightarrow> no_double (strip_lead s)"
  by (metis no_double_append strip_lead_suffix)

lemma strip_lead_no_lead: "\<not> starts_with ''./'' (strip_lead s)"
  by (induction s rule: strip_lead.induct) auto

lemma strip_lead_id: "\<not> starts_with ''./'' s \<Longrightarrow> strip_lead s = s"
  by (induction s rule: strip_lead.induct) auto

lemma drop_dots_hd:
  "a \<noteq> slash \<Longrightarrow> drop_dots (a # r) = a # drop_dots r"
  "drop_dots (slash # r) = [] \<or> hd (drop_dots (slash # r)) = slash"
proof -
  show "a \<noteq> slash \<Longrightarrow> drop_dots (a # r) = a # drop_dots r" by (cases r) auto
  show "drop_dots (slash # r) = [] \<or> hd (drop_dots (slash # r)) = slash"
    by (induction "slash # r" arbitrary: r rule: drop_dots.induct)
       (auto, metis drop_dots.simps(2) list.collapse)
qed

lemma drop_dots_hd_cases: "s \<noteq> [] \<Longrightarrow> drop_dots s = [] \<and> hd s = slash \<or> drop_dots s \<noteq> [] \<and> hd (drop_dots s) = hd s"
  using drop_dots_hd(1) [of "hd s" "tl s"] drop_dots_hd(2) [of "tl s"]
  by (cases "hd s = slash") (cases s; auto)+

lemma no_double_drop_dots: "no_double s \<Longrightarrow> no_double (drop_dots s)"
proof (induction s rule: drop_dots.induct)
  case (1 a b r)
  show ?case
  proof (cases "a = slash \<and> b = dot \<and> (r = [] \<or> hd r = slash)")
    case True
    then show ?thesis using 1 by (auto simp: no_double_Cons)
  next
    case False
    then have "no_double (drop_dots (b # r))" using 1 by auto
    moreover have "\<not> (a = slash \<and> b = slash)" using 1 by auto
    ultimately show ?thesis using False drop_dots_hd_cases [of "b # r"]
      by (auto simp: no_double_Cons)
  qed
qed auto

lemma no_dot_seg_Cons:
  "no_dot_seg (a # s) \<longleftrightarrow> no_dot_seg s \<and> \<not> (a = slash \<and> s \<noteq> [] \<and> hd s = dot \<and> (tl s = [] \<or> hd (tl s) = slash))"
  by (cases s) auto

lemma no_dot_seg_drop_dots: "no_dot_seg (drop_dots s)"
proof (induction s rule: drop_dots.induct)
  case (1 a b r)
  show ?case
  proof (cases "a = slash \<and> b = dot \<and> (r = [] \<or> hd r = slash)")
    case True
    then show ?thesis using 1 by auto
  next
    case False
    have "\<not> (a = slash \<and> drop_dots (b # r) \<noteq> [] \<and> hd (drop_dots (b # r)) = dot
        \<and> (tl (drop_dots (b # r)) = [] \<or> hd (tl (drop_dots (b # r))) = slash))"
    proof
      assume a: "a = slash \<and> drop_dots (b # r) \<noteq> [] \<and> hd (drop_dots (b # r)) = dot
        \<and> (tl (drop_dots (b # r)) = [] \<or> hd (tl (drop_dots (b # r))) = slash)"
      then have b: "b = dot" using drop_dots_hd_cases [of "b # r"] by auto
      then have "drop_dots (b # r) = dot # drop_dots r" by (simp add: drop_dots_hd)
      moreover from b False a have "r \<noteq> []" "hd r \<noteq> slash" by auto
      ultimately show False using a drop_dots_hd_cases [of r] by auto
    qed
    moreover have "drop_dots (a # b # r) = a # drop_dots (b # r)" using False by auto
    moreover have "no_dot_seg (drop_dots (b # r))" using 1 False by auto
    ultimately show ?thesis by (simp only: no_dot_seg_Cons simp_thms)
  qed
qed auto

lemma drop_dots_id: "no_dot_seg s \<Longrightarrow> drop_dots s = s"
  by (induction s rule: drop_dots.induct) auto

lemma set_drop_dots: "set (drop_dots s) \<subseteq> set s"
  by (induction s rule: drop_dots.induct) auto

lemma no_lead_drop_dots:
  assumes "\<not> starts_with ''./'' s" shows "\<not> starts_with ''./'' (drop_dots s)"
proof (cases s)
  case (Cons a r)
  show ?thesis
  proof (cases "a = dot")
    case True
    with Cons assms have "r = [] \<or> hd r \<noteq> slash" by (cases r) auto
    then show ?thesis using Cons True drop_dots_hd_cases [of r]
      by (cases "r = []"; cases "drop_dots r") (auto simp: drop_dots_hd)
  next
    case False
    then show ?thesis using Cons drop_dots_hd_cases [of s]
      by (cases "drop_dots s") auto
  qed
qed simp

lemma slash_normalized_eq:
  "slash_normalized raw = drop_dots (strip_lead (squeeze (to_slashes raw)))"
  by (simp add: slash_normalized_def squeeze_id no_double_drop_dots no_double_strip_lead no_double_squeeze)

lemma slash_normalized_props:
  "no_double (slash_normalized raw)" "no_dot_seg (slash_normalized raw)"
  "\<not> starts_with ''./'' (slash_normalized raw)" "backslash \<notin> set (slash_normalized raw)"
proof -
  show "no_double (slash_normalized raw)"
    by (simp add: slash_normalized_def no_double_squeeze)
  show "no_dot_seg (slash_normalized raw)" "\<not> starts_with ''./'' (slash_normalized raw)"
    by (simp_all add: slash_normalized_eq no_dot_seg_drop_dots no_lead_drop_dots strip_lead_no_lead)
  have "backslash \<notin> set (to_slashes raw)" by (auto simp: to_slashes_def)
  moreover have "set (strip_lead t) \<subseteq> set t" for t
    using strip_lead_suffix [of t] by (metis Un_iff set_append subsetI)
  ultimately show "backslash \<notin> set (slash_normalized raw)"
    using set_drop_dots set_squeeze unfolding slash_normalized_eq by blast
qed

lemma strip_tail_prefix: "\<exists>t. s = strip_tail s @ t \<and> (\<forall>c \<in> set t. c = slash)"
proof -
  let ?t = "rev (takeWhile (\<lambda>c. c = slash) (rev s))"
  have "rev (takeWhile (\<lambda>c. c = slash) (rev s) @ dropWhile (\<lambda>c. c = slash) (rev s)) = s" by simp
  then have "s = strip_tail s @ ?t" unfolding strip_tail_def by (simp only: rev_append)
  moreover have "\<forall>c \<in> set ?t. c = slash" by (auto dest: set_takeWhileD)
  ultimately show ?thesis by blast
qed

lemma strip_tail_last: "strip_tail s \<noteq> [] \<Longrightarrow> last (strip_tail s) \<noteq> slash"
  using hd_dropWhile [of "\<lambda>c. c = slash" "rev s"] by (simp add: strip_tail_def last_rev)

lemma strip_tail_id: "s = [] \<or> last s \<noteq> slash \<Longrightarrow> strip_tail s = s"
  by (cases s rule: rev_cases) (auto simp: strip_tail_def)

lemma no_dot_seg_prefix:
  "no_dot_seg (p @ t) \<Longrightarrow> t = [] \<or> hd t = slash \<Longrightarrow> no_dot_seg p"
proof (induction p rule: no_dot_seg.induct)
  case (1 a b r)
  then show ?case by (cases r) auto
qed auto

lemma cut_props:
  assumes "no_double (p @ t)" "no_dot_seg (p @ t)" "\<not> starts_with ''./'' (p @ t)"
    "backslash \<notin> set (p @ t)" "t = [] \<or> hd t = slash"
  shows "no_double p" "no_dot_seg p" "\<not> starts_with ''./'' p" "backslash \<notin> set p"
proof -
  show "no_double p" using assms(1) no_double_append by blast
  show "no_dot_seg p" using assms(2,5) no_dot_seg_prefix by blast
  show "\<not> starts_with ''./'' p" using assms(3) by (fastforce simp: starts_with_iff)
  show "backslash \<notin> set p" using assms(4) by simp
qed

lemma strip_tail_props:
  assumes "no_double s" "no_dot_seg s" "\<not> starts_with ''./'' s" "backslash \<notin> set s"
  shows "no_double (strip_tail s)" "no_dot_seg (strip_tail s)" "\<not> starts_with ''./'' (strip_tail s)"
    "backslash \<notin> set (strip_tail s)"
proof -
  obtain t where t: "s = strip_tail s @ t" "\<forall>c \<in> set t. c = slash"
    using strip_tail_prefix by blast
  then have "t = [] \<or> hd t = slash" by (cases t) auto
  note c = cut_props [of "strip_tail s" t, OF _ _ _ _ this, folded t(1)]
  show "no_double (strip_tail s)" by (rule c(1)) (rule assms)+
  show "no_dot_seg (strip_tail s)" by (rule c(2)) (rule assms)+
  show "\<not> starts_with ''./'' (strip_tail s)" by (rule c(3)) (rule assms)+
  show "backslash \<notin> set (strip_tail s)" by (rule c(4)) (rule assms)+
qed

definition normalized_body :: "string \<Rightarrow> string" where
  "normalized_body raw = (let n = strip_tail (slash_normalized raw) in
     if ends_with ''/**'' n \<and> \<not> has_glob (take (length n - 3) n) then strip_tail (take (length n - 3) n) else n)"

lemma normalizeLockPath_body:
  "normalizeLockPath v = (if js_trim v = [] then [] else
     if normalized_body (js_trim v) \<noteq> [] then normalized_body (js_trim v)
     else if starts_with ''/'' (slash_normalized (js_trim v)) then ''/'' else [])"
  by (simp add: normalizeLockPath_def normalized_body_def Let_def)

text \<open>The same steps as functions of evaluated arguments, for evaluation by the kernel.\<close>

definition drop_descendants :: "string \<Rightarrow> string" where
  "drop_descendants n =
    (if ends_with ''/**'' n \<and> \<not> has_glob (take (length n - 3) n) then strip_tail (take (length n - 3) n) else n)"

definition or_root :: "string \<Rightarrow> string \<Rightarrow> string" where
  "or_root s n = (if n \<noteq> [] then n else if starts_with ''/'' s then ''/'' else [])"

definition tail_normalized :: "string \<Rightarrow> string" where
  "tail_normalized s = or_root s (drop_descendants (strip_tail s))"

definition lock_path_of_raw :: "string \<Rightarrow> string" where
  "lock_path_of_raw raw = (if raw = [] then [] else tail_normalized (slash_normalized raw))"

lemma normalizeLockPath_steps [code]: "normalizeLockPath v = lock_path_of_raw (js_trim v)"
  by (simp add: normalizeLockPath_def lock_path_of_raw_def tail_normalized_def or_root_def drop_descendants_def Let_def)

lemma has_glob_suffix: "ends_with ''/**'' n \<Longrightarrow> has_glob n"
  by (auto simp: ends_with_iff has_glob_def glob_char_def)

lemma normal_path_body:
  assumes ne: "normalized_body raw \<noteq> []"
  shows "normal_path (normalized_body raw)"
proof -
  define n where "n = strip_tail (slash_normalized raw)"
  note np = strip_tail_props [OF slash_normalized_props, of raw, folded n_def]
  show ?thesis
  proof (cases "ends_with ''/**'' n \<and> \<not> has_glob (take (length n - 3) n)")
    case True
    define p where "p = take (length n - 3) n"
    obtain r where r: "n = r @ ''/**''" using True unfolding ends_with_iff by blast
    then have n: "n = p @ ''/**''" unfolding p_def by simp
    have "(''/**'' :: string) = [] \<or> hd ''/**'' = slash" by simp
    note pp = cut_props [OF _ _ _ _ this, of p, folded n, OF np]
    have b: "normalized_body raw = strip_tail p"
      using True by (simp add: normalized_body_def n_def p_def Let_def)
    obtain t where t: "p = strip_tail p @ t" using strip_tail_prefix by blast
    have "\<not> has_glob p" using True by (simp add: p_def)
    moreover have "has_glob (strip_tail p) \<Longrightarrow> has_glob (strip_tail p @ t)" by (simp add: has_glob_def)
    ultimately have "\<not> has_glob (strip_tail p)" unfolding t [symmetric] by blast
    then show ?thesis
      using ne strip_tail_props [OF pp] has_glob_suffix strip_tail_last unfolding b normal_path_def by blast
  next
    case False
    then have "normalized_body raw = n" unfolding normalized_body_def n_def Let_def by auto
    then show ?thesis using ne False np strip_tail_last [of "slash_normalized raw", folded n_def]
      by (auto simp: normal_path_def)
  qed
qed

lemma normalizeLockPath_cases:
  "normalizeLockPath v = [] \<or> normalizeLockPath v = ''/'' \<or> normal_path (normalizeLockPath v)"
  using normal_path_body by (simp add: normalizeLockPath_body)

lemma slash_normalized_fix: "normal_path p \<Longrightarrow> slash_normalized p = p"
proof -
  assume n: "normal_path p"
  have "to_slashes p = p"
    unfolding to_slashes_def using n by (intro map_idI) (auto simp: normal_path_def)
  then show "slash_normalized p = p" using n
    by (simp add: slash_normalized_eq normal_path_def squeeze_id strip_lead_id drop_dots_id)
qed

lemma normalized_body_fix: "normal_path p \<Longrightarrow> normalized_body p = p"
  by (auto simp: normalized_body_def slash_normalized_fix strip_tail_id normal_path_def Let_def)

lemma normalizeLockPath_fix:
  assumes "normal_path p" "js_trim p = p" shows "normalizeLockPath p = p"
  using assms(1) by (simp add: normalizeLockPath_body assms(2) normalized_body_fix normal_path_def)

lemma normalizeLockPath_const [simp, path_simps]:
  "normalizeLockPath [] = []" "normalizeLockPath ''/'' = ''/''" "normalizeLockPath ''.'' = ''.''"
  by code_simp+

lemma normalizeLockPath_idem:
  "js_trim (normalizeLockPath v) = normalizeLockPath v \<Longrightarrow>
   normalizeLockPath (normalizeLockPath v) = normalizeLockPath v"
  using normalizeLockPath_cases [of v] normalizeLockPath_fix by fastforce

section \<open>Segments\<close>

lemma split_on_ne [simp]: "split_on c s \<noteq> []"
  by (induction s) (auto split: list.splits)

lemma split_on_Cons: "a \<noteq> c \<Longrightarrow> split_on c (a # s) = (a # hd (split_on c s)) # tl (split_on c s)"
  by (auto split: list.splits)

declare split_on.simps(2) [simp del]

lemma split_on_sep [simp]: "split_on c (c # s) = [] # split_on c s"
  by (simp add: split_on.simps(2))

lemma split_on_append: "split_on c (a @ c # b) = split_on c a @ split_on c b"
proof (induction a)
  case (Cons x a)
  then show ?case by (cases "x = c") (auto simp: split_on_Cons)
qed simp

lemma split_on_word: "c \<notin> set w \<Longrightarrow> split_on c w = [w]"
  by (induction w) (auto simp: split_on_Cons)

lemma split_on_no_sep: "w \<in> set (split_on c s) \<Longrightarrow> c \<notin> set w"
proof (induction s arbitrary: w)
  case (Cons x s)
  show ?case
  proof (cases "x = c")
    case True
    then show ?thesis using Cons by auto
  next
    case False
    then have "w = x # hd (split_on c s) \<or> w \<in> set (tl (split_on c s))"
      using Cons.prems by (simp add: split_on_Cons)
    then show ?thesis using Cons.IH False by (auto dest: list.set_sel(2) [rotated])
  qed
qed simp

lemma join_split [simp]: "join_with [c] (split_on c s) = s"
proof (induction s)
  case (Cons x s)
  obtain w ws where w: "split_on c s = w # ws" by (cases "split_on c s") auto
  show ?case
  proof (cases "x = c")
    case True
    then show ?thesis using Cons w by simp
  next
    case False
    then show ?thesis using Cons w by (cases ws) (auto simp: split_on_Cons)
  qed
qed simp

lemma split_join:
  "ws \<noteq> [] \<Longrightarrow> \<forall>w \<in> set ws. c \<notin> set w \<Longrightarrow> split_on c (join_with [c] ws) = ws"
  by (induction "[c]" ws rule: join_with.induct) (auto simp: split_on_word split_on_append)

lemma join_append: "xs \<noteq> [] \<Longrightarrow> ys \<noteq> [] \<Longrightarrow> join_with sep (xs @ ys) = join_with sep xs @ sep @ join_with sep ys"
proof (induction sep xs rule: join_with.induct)
  case (2 sep w)
  then show ?case by (cases ys) auto
qed auto

lemma prefix_split_iff:
  "prefix (split_on slash a) (split_on slash b) \<longleftrightarrow> a = b \<or> starts_with (a @ ''/'') b"
proof
  assume "prefix (split_on slash a) (split_on slash b)"
  then obtain zs where zs: "split_on slash b = split_on slash a @ zs" by (auto simp: prefix_def)
  then have "b = join_with ''/'' (split_on slash a @ zs)" by (metis join_split)
  then show "a = b \<or> starts_with (a @ ''/'') b"
    by (cases "zs = []") (auto simp: join_append starts_with_iff)
next
  assume "a = b \<or> starts_with (a @ ''/'') b"
  then show "prefix (split_on slash a) (split_on slash b)"
    by (auto simp: starts_with_iff split_on_append)
qed

lemma path_overlap_segments:
  "path_overlap l r \<longleftrightarrow> l = ''.'' \<or> r = ''.'' \<or> prefix (split_on slash l) (split_on slash r)
     \<or> prefix (split_on slash r) (split_on slash l)"
  by (auto simp: path_overlap_def REPOSITORY_SCOPE_LOCK_PATH_def prefix_split_iff)

lemma path_overlap_sym [path_simps]: "path_overlap l r = path_overlap r l"
  by (auto simp: path_overlap_def)

lemma path_overlap_refl [simp, path_simps]: "path_overlap p p"
  by (simp add: path_overlap_def)

lemma overlaps_None_iff:
  "overlaps h as bs cwd = None \<longleftrightarrow>
   (\<forall>a \<in> set as. \<forall>b \<in> set bs. \<not> path_overlap (normalizePathForCompare h a cwd) (normalizePathForCompare h b cwd))"
  by (induction as) (auto simp: find_None_not split: option.splits dest: find_Some_ex)

lemma overlaps_SomeD:
  "overlaps h as bs cwd = Some (a, b) \<Longrightarrow> a \<in> set as \<and> b \<in> set bs
     \<and> path_overlap (normalizePathForCompare h a cwd) (normalizePathForCompare h b cwd)"
  by (induction as) (auto split: option.splits dest: find_Some_ex)

lemma overlaps_sym: "overlaps h as bs cwd = None \<longleftrightarrow> overlaps h bs as cwd = None"
  unfolding overlaps_None_iff using path_overlap_sym by blast

section \<open>Resolution and relative paths\<close>

definition clean_seg :: "string \<Rightarrow> bool" where
  "clean_seg w \<longleftrightarrow> w \<noteq> [] \<and> w \<noteq> ''.'' \<and> w \<noteq> ''..'' \<and> slash \<notin> set w"

lemma push_seg_clean: "clean_seg w \<Longrightarrow> push_seg acc w = acc @ [w]"
  by (simp add: push_seg_def clean_seg_def)

lemma push_seg_dotdot: "push_seg acc ''..'' = butlast acc"
  by (simp add: push_seg_def)

lemma foldl_push_clean: "\<forall>w \<in> set ws. clean_seg w \<Longrightarrow> foldl push_seg acc ws = acc @ ws"
  by (induction ws arbitrary: acc) (auto simp: push_seg_clean)

lemma push_seg_keeps:
  "\<forall>w \<in> set acc. clean_seg w \<Longrightarrow> slash \<notin> set seg \<Longrightarrow> \<forall>w \<in> set (push_seg acc seg). clean_seg w"
  by (auto simp: push_seg_def clean_seg_def dest: in_set_butlastD)

lemma foldl_push_keeps:
  "\<forall>w \<in> set acc. clean_seg w \<Longrightarrow> \<forall>w \<in> set ws. slash \<notin> set w \<Longrightarrow>
   \<forall>w \<in> set (foldl push_seg acc ws). clean_seg w"
proof (induction ws arbitrary: acc)
  case (Cons w ws)
  then show ?case using push_seg_keeps [of acc w] by simp
qed simp

lemma norm_segs_clean: "w \<in> set (norm_segs p) \<Longrightarrow> clean_seg w"
  unfolding norm_segs_def using foldl_push_keeps [of "[]"] split_on_no_sep by (metis empty_iff empty_set)

lemma norm_segs_append_slash: "norm_segs (a @ slash # b) = foldl push_seg (norm_segs a) (split_on slash b)"
  by (simp add: norm_segs_def split_on_append)

lemma push_seg_Nil [simp]: "push_seg acc [] = acc"
  by (simp add: push_seg_def)

lemma norm_segs_abs_path:
  assumes "\<forall>w \<in> set ws. clean_seg w" shows "norm_segs (abs_path ws) = ws"
proof (cases "ws = []")
  case False
  have "split_on slash (join_with ''/'' ws) = ws"
    using split_join [OF False, of slash] assms by (auto simp: clean_seg_def)
  then show ?thesis using foldl_push_clean [OF assms] by (simp add: norm_segs_def abs_path_def)
qed (simp add: norm_segs_def abs_path_def)

lemma is_abs_abs_path [simp]: "is_abs (abs_path ws)"
  by (simp add: is_abs_def abs_path_def)

lemma path_resolve_abs: "is_abs p \<Longrightarrow> path_resolve h p = abs_path (norm_segs p)"
  by (simp add: path_resolve_def)

lemma path_resolve_is_abs [simp]: "is_abs (path_resolve h p)"
  by (simp add: path_resolve_def)

lemma norm_segs_path_resolve: "is_abs p \<Longrightarrow> norm_segs (path_resolve h p) = norm_segs p"
  by (simp add: path_resolve_abs norm_segs_abs_path norm_segs_clean)

lemma path_resolve_twice [simp]: "path_resolve h (path_resolve h p) = path_resolve h p"
  by (simp add: path_resolve_def norm_segs_abs_path norm_segs_clean)

lemma foldl_pop: "foldl push_seg (pre @ as) (replicate (length as) ''..'') = pre"
proof (induction as rule: rev_induct)
  case (snoc a as)
  have "replicate (length (as @ [a])) ''..'' = ''..'' # replicate (length as) ''..''" by simp
  then show ?case using snoc by (simp add: push_seg_dotdot butlast_append del: replicate_Suc)
qed simp

lemma foldl_relative:
  "\<forall>w \<in> set as. clean_seg w \<Longrightarrow> \<forall>w \<in> set bs. clean_seg w \<Longrightarrow>
   foldl push_seg (pre @ as) (relative_segs as bs) = pre @ bs"
proof (induction as bs arbitrary: pre rule: relative_segs.induct)
  case (1 bs)
  then show ?case by (simp add: foldl_push_clean)
next
  case (2 a as)
  then show ?case using foldl_pop [of pre "a # as"] by (simp del: replicate_Suc)
next
  case (3 a as b bs)
  show ?case
  proof (cases "a = b")
    case True
    have "foldl push_seg ((pre @ [a]) @ as) (relative_segs as bs) = (pre @ [a]) @ bs"
      using True 3 by (intro 3) simp_all
    then show ?thesis using True by simp
  next
    case False
    have "foldl push_seg (pre @ a # as) (replicate (Suc (length as)) ''..'') = pre"
      using foldl_pop [of pre "a # as"] by simp
    then show ?thesis using False 3 foldl_push_clean [of "b # bs" pre]
      by (simp del: replicate_Suc)
  qed
qed

lemma relative_segs_elem: "w \<in> set (relative_segs as bs) \<Longrightarrow> w = ''..'' \<or> w \<in> set bs"
proof (induction as bs rule: relative_segs.induct)
  case (3 a as b bs)
  then show ?case by (cases "a = b") (auto simp del: replicate_Suc)
qed auto

lemma relative_segs_no_slash:
  "\<forall>w \<in> set bs. clean_seg w \<Longrightarrow> w \<in> set (relative_segs as bs) \<Longrightarrow> w \<noteq> [] \<and> slash \<notin> set w"
proof -
  assume bs: "\<forall>w \<in> set bs. clean_seg w" and "w \<in> set (relative_segs as bs)"
  then consider "w = ''..''" | "clean_seg w" using relative_segs_elem by blast
  then show ?thesis by cases (simp_all add: clean_seg_def)
qed

lemma split_relative:
  assumes "\<forall>w \<in> set bs. clean_seg w" "relative_segs as bs \<noteq> []"
  shows "split_on slash (join_with ''/'' (relative_segs as bs)) = relative_segs as bs"
  using split_join [OF assms(2), of slash] relative_segs_no_slash [OF assms(1)] by blast

lemma relative_segs_escapes:
  "\<forall>w \<in> set as. clean_seg w \<Longrightarrow> \<forall>w \<in> set bs. clean_seg w \<Longrightarrow>
   (relative_segs as bs \<noteq> [] \<and> hd (relative_segs as bs) = ''..'') \<longleftrightarrow> \<not> prefix as bs"
proof (induction as bs rule: relative_segs.induct)
  case (1 bs)
  then show ?case by (cases bs) (auto simp: clean_seg_def)
qed (simp_all add: clean_seg_def)

lemma relative_segs_Nil: "relative_segs as bs = [] \<longleftrightarrow> as = bs"
  by (induction as bs rule: relative_segs.induct) auto

lemma join_eq_Nil: "\<forall>w \<in> set ws. w \<noteq> [] \<Longrightarrow> join_with sep ws = [] \<longleftrightarrow> ws = []"
proof (cases ws)
  case (Cons w vs)
  moreover assume "\<forall>w \<in> set ws. w \<noteq> []"
  ultimately show ?thesis by (cases vs) auto
qed simp

lemma escapes_join:
  assumes "\<forall>w \<in> set ws. w \<noteq> [] \<and> slash \<notin> set w"
  shows "pathRelativeEscapes (join_with ''/'' ws) \<longleftrightarrow> ws \<noteq> [] \<and> hd ws = ''..''"
proof (cases ws)
  case (Cons w vs)
  have "split_on slash (join_with ''/'' ws) = ws"
    using assms Cons split_join [of ws slash] by blast
  then have "pathRelativeEscapes (join_with ''/'' ws) \<longleftrightarrow> prefix (split_on slash ''..'') ws"
    using prefix_split_iff [of "''..''" "join_with ''/'' ws"] by (auto simp: pathRelativeEscapes_def)
  then show ?thesis using Cons by (auto simp: split_on_word)
qed (simp add: pathRelativeEscapes_def)

lemma not_abs_join: "\<forall>w \<in> set ws. w \<noteq> [] \<and> slash \<notin> set w \<Longrightarrow> \<not> is_abs (join_with ''/'' ws)"
proof (cases ws)
  case (Cons w vs)
  moreover assume "\<forall>w \<in> set ws. w \<noteq> [] \<and> slash \<notin> set w"
  ultimately obtain c w' where "w = c # w'" "c \<noteq> slash" by (cases w) auto
  then show ?thesis using Cons by (cases vs) (auto simp: is_abs_def)
qed (simp add: is_abs_def)

lemma path_relative_props:
  fixes h :: host and a b :: string
  defines "a' \<equiv> norm_segs (path_resolve h a)" and "b' \<equiv> norm_segs (path_resolve h b)"
  shows path_relative_escapes: "pathRelativeEscapes (path_relative h a b) \<longleftrightarrow> \<not> prefix a' b'"
    and path_relative_Nil: "path_relative h a b = [] \<longleftrightarrow> a' = b'"
    and path_relative_not_abs: "\<not> is_abs (path_relative h a b)"
proof -
  have ca: "\<forall>w \<in> set a'. clean_seg w" and cb: "\<forall>w \<in> set b'. clean_seg w"
    unfolding a'_def b'_def using norm_segs_clean by blast+
  have w: "\<forall>w \<in> set (relative_segs a' b'). w \<noteq> [] \<and> slash \<notin> set w"
    using relative_segs_no_slash [OF cb] by blast
  show "pathRelativeEscapes (path_relative h a b) \<longleftrightarrow> \<not> prefix a' b'"
    unfolding path_relative_def using escapes_join [OF w] relative_segs_escapes [OF ca cb]
    by (simp add: a'_def b'_def)
  show "path_relative h a b = [] \<longleftrightarrow> a' = b'"
    unfolding path_relative_def using join_eq_Nil [of "relative_segs a' b'" "''/''"] w relative_segs_Nil
    by (auto simp: a'_def b'_def)
  show "\<not> is_abs (path_relative h a b)"
    unfolding path_relative_def using not_abs_join [OF w] by (simp add: a'_def b'_def)
qed

lemma isPathInside_segments:
  "isPathInside h a b \<longleftrightarrow> strict_prefix (norm_segs (path_resolve h a)) (norm_segs (path_resolve h b))"
  unfolding isPathInside_def Let_def
  by (auto simp: path_relative_escapes path_relative_Nil path_relative_not_abs strict_prefix_def)

lemma path_resolve_relative:
  assumes "is_abs root" "is_abs p"
  shows "path_resolve2 h root (path_relative h root p) = path_resolve h p"
proof -
  let ?a = "norm_segs root" and ?b = "norm_segs p"
  have ca: "\<forall>w \<in> set ?a. clean_seg w" and cb: "\<forall>w \<in> set ?b. clean_seg w"
    using norm_segs_clean by blast+
  have r: "path_relative h root p = join_with ''/'' (relative_segs ?a ?b)"
    using assms by (simp add: path_relative_def norm_segs_path_resolve)
  have "foldl push_seg ?a (split_on slash (path_relative h root p)) = ?b"
  proof (cases "relative_segs ?a ?b = []")
    case True
    then show ?thesis using r relative_segs_Nil [of ?a ?b] by simp
  next
    case False
    then show ?thesis using r split_relative [OF cb False] foldl_relative [OF ca cb, of "[]"] by simp
  qed
  moreover have "\<not> is_abs (path_relative h root p)" by (rule path_relative_not_abs)
  moreover have "is_abs (root @ ''/'' @ x)" for x using assms(1) by (auto simp: is_abs_def starts_with_iff)
  ultimately show ?thesis using assms
    by (simp add: path_resolve2_def path_resolve_def norm_segs_append_slash)
qed

section \<open>Safe paths stay inside the root\<close>

text \<open>Normalisation only drops segments: it never makes a new one.\<close>

definition segs_le :: "string \<Rightarrow> string \<Rightarrow> bool" where
  "segs_le t s \<longleftrightarrow> set (split_on slash t) \<subseteq> insert [] (set (split_on slash s))"

lemma segs_le_refl: "segs_le s s"
  by (auto simp: segs_le_def)

lemma segs_le_trans: "segs_le u t \<Longrightarrow> segs_le t s \<Longrightarrow> segs_le u s"
  by (auto simp: segs_le_def)

lemma split_step:
  assumes "hd (split_on slash t') = hd (split_on slash t) \<and> set (tl (split_on slash t')) \<subseteq> insert [] (set (tl (split_on slash t)))"
  shows "hd (split_on slash (a # t')) = hd (split_on slash (a # t))
    \<and> set (tl (split_on slash (a # t'))) \<subseteq> insert [] (set (tl (split_on slash (a # t))))"
proof (cases "a = slash")
  case True
  have "set (split_on slash u) = insert (hd (split_on slash u)) (set (tl (split_on slash u)))" for u
    by (metis list.collapse list.simps(15) split_on_ne)
  from this [of t] this [of t'] True assms show ?thesis by auto
next
  case False
  then show ?thesis using assms by (simp add: split_on_Cons)
qed

lemma squeeze_segs:
  "hd (split_on slash (squeeze s)) = hd (split_on slash s)
    \<and> set (tl (split_on slash (squeeze s))) \<subseteq> insert [] (set (tl (split_on slash s)))"
proof (induction s rule: squeeze.induct)
  case (1 a b r)
  show ?case
  proof (cases "a = slash \<and> b = slash")
    case True
    then have "hd (split_on slash (squeeze (slash # r))) = []"
      "set (tl (split_on slash (squeeze (slash # r)))) \<subseteq> insert [] (set (split_on slash r))" using 1 by auto
    then show ?thesis using True by auto
  next
    case False
    then have "squeeze (a # b # r) = a # squeeze (b # r)" by auto
    then show ?thesis using split_step [OF 1(2) [OF False], of a] by (simp only:)
  qed
qed auto

lemma drop_dots_segs:
  "hd (split_on slash (drop_dots s)) = hd (split_on slash s)
    \<and> set (tl (split_on slash (drop_dots s))) \<subseteq> insert [] (set (tl (split_on slash s)))"
proof (induction s rule: drop_dots.induct)
  case (1 a b r)
  show ?case
  proof (cases "a = slash \<and> b = dot \<and> (r = [] \<or> hd r = slash)")
    case True
    then have "split_on slash (a # b # r) = [] # ''.'' # tl (split_on slash r)" "hd (split_on slash r) = []"
      by (cases r; simp add: split_on_Cons)+
    then show ?thesis using 1(1) [OF True] True by auto
  next
    case False
    then have "drop_dots (a # b # r) = a # drop_dots (b # r)" by auto
    then show ?thesis using split_step [OF 1(2) [OF False], of a] by (simp only:)
  qed
qed auto

lemma set_split: "set (split_on c u) = insert (hd (split_on c u)) (set (tl (split_on c u)))"
  by (cases "split_on c u") simp_all

lemma segs_leI: "hd (split_on slash t) = hd (split_on slash s)
    \<and> set (tl (split_on slash t)) \<subseteq> insert [] (set (tl (split_on slash s))) \<Longrightarrow> segs_le t s"
  unfolding segs_le_def set_split [of slash t] set_split [of slash s] by auto

lemma strip_lead_segs: "segs_le (strip_lead s) s"
proof (induction s rule: strip_lead.induct)
  case (1 a b r)
  show ?case
  proof (cases "a = dot \<and> b = slash")
    case True
    then have "split_on slash (a # b # r) = ''.'' # split_on slash r" by (simp add: split_on_Cons)
    then show ?thesis using 1 True by (auto simp: segs_le_def)
  next
    case False
    then have "strip_lead (a # b # r) = a # b # r" by auto
    then show ?thesis by (simp only: segs_le_refl)
  qed
qed (simp_all add: segs_le_refl)

lemma cut_segs: "t = [] \<or> hd t = slash \<Longrightarrow> segs_le p (p @ t)"
  by (cases t) (auto simp: segs_le_def split_on_append)

lemma strip_tail_segs: "segs_le (strip_tail s) s"
proof -
  obtain t where t: "s = strip_tail s @ t" "\<forall>c \<in> set t. c = slash" using strip_tail_prefix by blast
  then have "t = [] \<or> hd t = slash" by (cases t) auto
  from cut_segs [OF this, of "strip_tail s"] t(1) show ?thesis by simp
qed

lemma slash_normalized_segs: "segs_le (slash_normalized raw) (to_slashes raw)"
  unfolding slash_normalized_eq
  using segs_leI [OF drop_dots_segs] strip_lead_segs segs_leI [OF squeeze_segs] segs_le_trans by blast

lemma normalized_body_segs: "segs_le (normalized_body raw) (to_slashes raw)"
proof -
  define n where "n = strip_tail (slash_normalized raw)"
  have n: "segs_le n (to_slashes raw)"
    unfolding n_def using strip_tail_segs slash_normalized_segs segs_le_trans by blast
  show ?thesis
  proof (cases "ends_with ''/**'' n \<and> \<not> has_glob (take (length n - 3) n)")
    case True
    then obtain p where p: "n = p @ ''/**''" unfolding ends_with_iff by blast
    then have b: "normalized_body raw = strip_tail p"
      using True unfolding normalized_body_def Let_def n_def [symmetric] by simp
    have "segs_le p n" unfolding p by (rule cut_segs) simp
    then show ?thesis unfolding b using strip_tail_segs n segs_le_trans by blast
  next
    case False
    then have "normalized_body raw = n" unfolding normalized_body_def Let_def n_def by auto
    then show ?thesis using n by simp
  qed
qed

lemma normalizeLockPath_segs: "segs_le (normalizeLockPath v) (to_slashes (js_trim v))"
  unfolding normalizeLockPath_body
  using normalized_body_segs [of "js_trim v"] by (auto simp: segs_le_def)

lemma traversal_iff: "hasParentTraversalSegment v \<longleftrightarrow> ''..'' \<in> set (split_on slash (to_slashes v))"
  by (auto simp: hasParentTraversalSegment_def list_ex_iff)

lemma normalizeLockPath_no_traversal:
  assumes "\<not> hasParentTraversalSegment (js_trim v)"
  shows "''..'' \<notin> set (split_on slash (normalizeLockPath v))"
  using normalizeLockPath_segs [of v] assms unfolding segs_le_def traversal_iff by auto

text \<open>A relative path with no \<open>..\<close> segment only pushes segments.\<close>

lemma foldl_push_extends:
  "''..'' \<notin> set ws \<Longrightarrow> foldl push_seg acc ws = acc @ filter (\<lambda>w. w \<noteq> [] \<and> w \<noteq> ''.'') ws"
  by (induction ws arbitrary: acc) (auto simp: push_seg_def)

lemma resolve2_relative:
  assumes "is_abs root" "\<not> is_abs p" "''..'' \<notin> set (split_on slash p)"
  shows "norm_segs (path_resolve2 h root p) = norm_segs root @ filter (\<lambda>w. w \<noteq> [] \<and> w \<noteq> ''.'') (split_on slash p)"
proof -
  have a: "is_abs (root @ ''/'' @ p)" using assms(1) by (auto simp: is_abs_def starts_with_iff)
  have "norm_segs (path_resolve2 h root p) = norm_segs (root @ ''/'' @ p)"
    using assms(2) a by (simp add: path_resolve2_def norm_segs_path_resolve)
  then show ?thesis using foldl_push_extends [OF assms(3), of "norm_segs root"]
    by (simp add: norm_segs_append_slash)
qed

lemma normal_path_has_seg:
  assumes "normal_path p" "p \<noteq> ''.''"
  shows "filter (\<lambda>w. w \<noteq> [] \<and> w \<noteq> ''.'') (split_on slash p) \<noteq> []"
proof
  assume f: "filter (\<lambda>w. w \<noteq> [] \<and> w \<noteq> ''.'') (split_on slash p) = []"
  define ws where "ws = split_on slash p"
  have p: "p = join_with ''/'' ws" by (simp add: ws_def)
  have all: "\<forall>w \<in> set ws. w = [] \<or> w = ''.''" using f by (auto simp: filter_empty_conv ws_def)
  have ne: "ws \<noteq> []" by (simp add: ws_def)
  show False
  proof (cases ws)
    case (Cons w vs)
    show ?thesis
    proof (cases vs)
      case Nil
      then show ?thesis using Cons p all assms by (auto simp: normal_path_def)
    next
      case (Cons v us)
      then have pw: "p = w @ ''/'' @ join_with ''/'' vs" using \<open>ws = w # vs\<close> p by simp
      have "w = [] \<or> w = ''.''" "v = [] \<or> v = ''.''" using all \<open>ws = w # vs\<close> Cons by auto
      then show ?thesis using pw Cons assms(1)
        by (cases us) (auto simp: normal_path_def)
    qed
  qed (use ne in simp)
qed

lemma unsafe_one_None:
  assumes "unsafe_path_one h raw root = None"
  shows "normalizeLockPath raw \<noteq> []" "normalizeLockPath raw \<noteq> ''.''" "normalizeLockPath raw \<noteq> ''/''"
    "\<not> hasParentTraversalSegment raw"
    "isAbsolutePathLike (normalizeLockPath raw) \<Longrightarrow> root \<noteq> [] \<Longrightarrow>
       strict_prefix (norm_segs (path_resolve h root)) (norm_segs (path_resolve h (normalizeLockPath raw)))"
    "realPathBoundaryReason h (normalizeLockPath raw) root = None"
  using assms
  by (auto simp: unsafe_path_one_def Let_def path_relative_escapes path_relative_Nil path_relative_not_abs
      strict_prefix_def split: if_splits)

lemma first_reason_None: "first_reason f xs = None \<longleftrightarrow> (\<forall>x \<in> set xs. f x = None)"
  by (induction xs) (auto split: option.splits)

lemma first_reason_Some: "first_reason f xs = Some r \<Longrightarrow> \<exists>x \<in> set xs. f x = Some r"
  by (induction xs) (auto split: option.splits)

lemma unsafePathReason_None:
  assumes "unsafePathReason h paths cwd = None" "p \<in> set paths" "p \<noteq> []"
  shows "unsafe_path_one h p (if cwd = [] then [] else path_resolve h cwd) = None"
  using assms by (auto simp: unsafePathReason_def Let_def first_reason_None normalizeList_def)

text \<open>C25: A trimmed path that the safety check lets through resolves strictly inside the project root.\<close>

theorem safe_path_inside_root:
  assumes "unsafePathReason h paths cwd = None" "p \<in> set paths" "p \<noteq> []"
    and "js_trim p = p" "cwd \<noteq> []"
  shows "isPathInside h cwd (path_resolve2 h (path_resolve h cwd) (normalizeLockPath p))"
proof -
  let ?root = "path_resolve h cwd" and ?n = "normalizeLockPath p"
  note u = unsafe_one_None [OF unsafePathReason_None [OF assms(1-3)]]
  have root: "is_abs ?root" "?root \<noteq> []" by (simp, simp add: path_resolve_def abs_path_def)
  have r2: "path_resolve h (path_resolve2 h ?root ?n) = path_resolve2 h ?root ?n"
    by (auto simp: path_resolve2_def path_resolve_def norm_segs_abs_path norm_segs_clean)
  have "strict_prefix (norm_segs ?root) (norm_segs (path_resolve2 h ?root ?n))"
  proof (cases "is_abs ?n")
    case True
    then have "path_resolve2 h ?root ?n = path_resolve h ?n" by (simp add: path_resolve2_def path_resolve_def)
    moreover have "isAbsolutePathLike ?n" using True by (auto simp: isAbsolutePathLike_def is_abs_def)
    ultimately show ?thesis using u(5) assms(5) root by auto
  next
    case False
    have "''..'' \<notin> set (split_on slash ?n)"
      using normalizeLockPath_no_traversal [of p] u(4) assms(4) by simp
    moreover have "normal_path ?n" using normalizeLockPath_cases [of p] u(1,3) by blast
    ultimately show ?thesis
      using resolve2_relative [OF root(1) False] normal_path_has_seg [of ?n] u(2)
      by (simp add: strict_prefix_def)
  qed
  then show ?thesis by (simp add: isPathInside_segments r2)
qed


text \<open>A host with the two directories \<open>/\<close> and \<open>/r\<close> and no links, on which the properties are evaluated.\<close>

definition sample_host :: host where
  "sample_host = \<lparr>platform = ''linux'', process_cwd = ''/'',
     fs_exists = (\<lambda>p. p = ''/'' \<or> p = ''/r'' \<or> p = ''/r/src''), fs_realpath = Some,
     fs_lstat = (\<lambda>p. if p = ''/'' \<or> p = ''/r'' \<or> p = ''/r/src'' then Lstat 1 (length p) False else LstatError ''ENOENT''),
     fs_readdir = (\<lambda>p. if p = ''/r'' then Some [''src''] else Some [])\<rparr>"

theorem safe_path_inside_root_witness:
  "unsafePathReason sample_host [''src/a.ts''] ''/r'' = None
   \<and> isPathInside sample_host ''/r'' (path_resolve2 sample_host (path_resolve sample_host ''/r'') (normalizeLockPath ''src/a.ts''))"
proof -
  have h: "unsafePathReason sample_host [''src/a.ts''] ''/r'' = None" by code_simp
  have t: "js_trim ''src/a.ts'' = ''src/a.ts''" by code_simp
  show ?thesis using h safe_path_inside_root [OF h _ _ t] by simp
qed

text \<open>The safety check reads the segments of the untrimmed path, so a trailing blank hides a final
  \<open>..\<close>, although the lock path it is normalised to ends in \<open>..\<close>.\<close>

lemma trailing_blank_hides_traversal:
  "unsafePathReason sample_host [''src/.. ''] ''/r'' = None \<and> normalizeLockPath ''src/.. '' = ''src/..''
   \<and> unsafePathReason sample_host [''src/..''] ''/r'' = Some (ParentTraversal ''src/..'')"
  by code_simp

section \<open>The boundary check follows no link\<close>

lemma nearest_existing_prefix: "prefix (nearest_existing h ws) ws"
proof (induction h ws rule: nearest_existing.induct)
  case (1 h ws)
  show ?case
  proof (cases "\<not> fs_exists h (abs_path ws) \<and> ws \<noteq> []")
    case True
    then have "prefix (butlast ws) ws" by (simp add: prefixeq_butlast)
    with 1 [OF True] True show ?thesis
      by (simp add: nearest_existing.simps [of h ws])
  next
    case False
    then show ?thesis by (auto simp: nearest_existing.simps [of h ws])
  qed
qed

lemma nearest_existing_longest:
  "prefix us ws \<Longrightarrow> fs_exists h (abs_path us) \<Longrightarrow> prefix us (nearest_existing h ws)"
proof (induction h ws rule: nearest_existing.induct)
  case (1 h ws)
  show ?case
  proof (cases "\<not> fs_exists h (abs_path ws) \<and> ws \<noteq> []")
    case True
    then have "us \<noteq> ws" using 1 by auto
    then have "prefix us (butlast ws)"
      using 1 by (metis prefix_snoc append_butlast_last_id True)
    with 1 True show ?thesis by (simp add: nearest_existing.simps [of h ws])
  next
    case False
    then show ?thesis using 1 by (auto simp: nearest_existing.simps [of h ws])
  qed
qed

lemma relative_segs_prefix: "relative_segs as (as @ bs) = bs"
  by (induction as) (cases bs; auto)+

lemma path_resolve2_seg:
  assumes "\<forall>w \<in> set ws. clean_seg w" "clean_seg seg"
  shows "path_resolve2 h (abs_path ws) seg = abs_path (ws @ [seg])"
proof -
  have seg: "\<not> is_abs seg" using assms(2) by (cases seg) (auto simp: clean_seg_def is_abs_def)
  have "is_abs (abs_path ws @ x)" for x by (simp add: is_abs_def abs_path_def)
  moreover have "split_on slash seg = [seg]" using assms(2) by (simp add: clean_seg_def split_on_word)
  ultimately show ?thesis using seg assms
    by (simp add: path_resolve2_def path_resolve_def norm_segs_append_slash norm_segs_abs_path push_seg_clean)
qed

lemma link_scan_None:
  assumes "link_scan h (abs_path ws) segs = Inr None" "\<forall>w \<in> set (ws @ segs). clean_seg w"
    and "strict_prefix ws us" "prefix us (ws @ segs)" "fs_exists h (abs_path us)"
  shows "\<exists>d i. fs_lstat h (abs_path us) = Lstat d i False"
  using assms
proof (induction segs arbitrary: ws)
  case Nil
  then show ?case by (auto simp: strict_prefix_def dest: prefix_order.antisym)
next
  case (Cons seg segs)
  have step: "path_resolve2 h (abs_path ws) seg = abs_path (ws @ [seg])"
    using Cons.prems(2) by (intro path_resolve2_seg) auto
  have here: "fs_exists h (abs_path (ws @ [seg])) \<Longrightarrow> \<exists>d i. fs_lstat h (abs_path (ws @ [seg])) = Lstat d i False"
    and rest: "link_scan h (abs_path (ws @ [seg])) segs = Inr None"
    using Cons.prems(1) step by (auto simp: Let_def split: lstat_result.splits if_splits)
  have p: "prefix (ws @ [seg]) us"
  proof -
    obtain zs where zs: "us = ws @ zs" "zs \<noteq> []" using Cons.prems(3) by (auto simp: strict_prefix_def prefix_def)
    then show ?thesis using Cons.prems(4) by (cases zs) auto
  qed
  show ?case
  proof (cases "us = ws @ [seg]")
    case True
    then show ?thesis using here Cons.prems(5) by blast
  next
    case False
    then have "strict_prefix (ws @ [seg]) us" using p by (simp add: strict_prefix_def)
    then show ?thesis using Cons.IH [OF rest] Cons.prems by simp
  qed
qed

text \<open>When the boundary check of a literal path has no objection, no existing component between the
  root and the path is a symbolic link.\<close>

theorem boundary_check_no_link:
  fixes h :: host and p cwd :: string
  defines "root \<equiv> path_resolve h cwd"
  defines "target \<equiv> path_resolve2 h root (if static_part h root (normalizeLockPath p) = [] then ''.''
                                        else static_part h root (normalizeLockPath p))"
  assumes ok: "realPathBoundaryReason h p cwd = None" and cwd: "cwd \<noteq> []"
    and below: "prefix (norm_segs root) (norm_segs target)"
    and us: "strict_prefix (norm_segs root) us" "prefix us (norm_segs target)" "fs_exists h (abs_path us)"
  shows "(\<exists>d i. fs_lstat h (abs_path us) = Lstat d i False)
    \<and> (\<exists>rr rn. fs_realpath h root = Some rr \<and> fs_realpath h (abs_path (nearest_existing h (norm_segs target))) = Some rn
         \<and> prefix (norm_segs (path_resolve h rr)) (norm_segs (path_resolve h rn)))"
proof -
  define near where "near = nearest_existing h (norm_segs target)"
  have clean: "\<forall>w \<in> set (norm_segs target). clean_seg w" using norm_segs_clean by blast
  have nearp: "prefix near (norm_segs target)" unfolding near_def by (rule nearest_existing_prefix)
  then have cleann: "\<forall>w \<in> set near. clean_seg w" using clean set_mono_prefix by blast
  have rt: "abs_path (norm_segs root) = root"
    by (simp add: root_def path_resolve_def norm_segs_abs_path norm_segs_clean)
  have ex: "fs_exists h root"
    using ok cwd by (auto simp: realPathBoundaryReason_def Let_def root_def split: if_splits)
  then have rp: "prefix (norm_segs root) near"
    using below rt unfolding near_def by (intro nearest_existing_longest) simp_all
  then obtain rest where rest: "near = norm_segs root @ rest" by (auto simp: prefix_def)
  have rel: "path_relative h root (abs_path near) = join_with ''/'' rest"
  proof -
    have "norm_segs (path_resolve h (abs_path near)) = norm_segs root @ rest"
      using norm_segs_path_resolve [OF is_abs_abs_path, of h near] norm_segs_abs_path [OF cleann] rest by simp
    moreover have "path_resolve h root = root" by (simp add: root_def)
    ultimately show ?thesis by (simp add: path_relative_def relative_segs_prefix)
  qed
  have fil: "filter (\<lambda>s. s \<noteq> []) (split_on slash (join_with ''/'' rest)) = rest"
  proof (cases "rest = []")
    case False
    have "\<forall>w \<in> set rest. w \<noteq> [] \<and> slash \<notin> set w" using cleann rest by (auto simp: clean_seg_def)
    then show ?thesis using split_join [OF False, of slash] by (simp add: filter_id_conv)
  qed simp
  from ok cwd ex obtain rr rn where reals: "fs_realpath h root = Some rr" "fs_realpath h (abs_path near) = Some rn"
      "\<not> pathRelativeEscapes (path_relative h rr rn)" and scan: "link_scan h root rest = Inr None"
    unfolding realPathBoundaryReason_def Let_def root_def [symmetric] target_def [symmetric] near_def [symmetric] rel fil
    by (auto split: option.splits if_splits sum.splits)
  have "\<exists>d i. fs_lstat h (abs_path us) = Lstat d i False"
  proof (rule link_scan_None [of h "norm_segs root" rest us])
    show "link_scan h (abs_path (norm_segs root)) rest = Inr None" using scan rt by simp
    show "\<forall>w \<in> set (norm_segs root @ rest). clean_seg w" using cleann rest by simp
    show "prefix us (norm_segs root @ rest)"
      using nearest_existing_longest [OF us(2,3)] rest near_def by simp
  qed (use us in auto)
  then show ?thesis using reals path_relative_escapes near_def by blast
qed

theorem boundary_check_no_link_witness:
  "\<exists>d i. fs_lstat sample_host (abs_path [''r'', ''src'']) = Lstat d i False"
proof -
  have ok: "realPathBoundaryReason sample_host ''src/a.ts'' ''/r'' = None" by code_simp
  have t: "norm_segs (path_resolve2 sample_host (path_resolve sample_host ''/r'')
      (if static_part sample_host (path_resolve sample_host ''/r'') (normalizeLockPath ''src/a.ts'') = [] then ''.''
       else static_part sample_host (path_resolve sample_host ''/r'') (normalizeLockPath ''src/a.ts''))) = [''r'', ''src'', ''a.ts'']"
    by code_simp
  have r: "norm_segs (path_resolve sample_host ''/r'') = [''r'']" by code_simp
  have e: "fs_exists sample_host (abs_path [''r'', ''src''])" by code_simp
  show ?thesis
    using boundary_check_no_link [of sample_host "''src/a.ts''" "''/r''" "[''r'', ''src'']", OF ok, unfolded t r] e
    by (simp add: strict_prefix_def)
qed

end
