(* ===== verification/Glob.thy ===== *)
theory Glob
  imports Paths
begin

text \<open>
  Model of the glob matcher of \<open>lib/paths.js\<close>: the translation of a glob into a regular
  expression (\<open>globSourceToRegex\<close>, \<open>globToRegex\<close>), the matching the expression stands
  for, and the matchers built from path lists.  The source builds the expression as text;
  the model builds its abstract syntax.  \<open>new RegExp\<close> throws on a character class with a
  reversed range, so compilation returns an option.
\<close>

section \<open>Regular expressions\<close>

datatype class_item = Single char | Range char char

datatype rx =
    Lit char
  | NotSlash               \<comment> \<open>the class of every character but a slash\<close>
  | AnyChar                \<comment> \<open>\<open>.\<close>, which no line terminator matches\<close>
  | CharClass bool "class_item list" \<comment> \<open>negated or not\<close>
  | Never                  \<comment> \<open>\<open>(?!)\<close>\<close>
  | Star rx                \<comment> \<open>only \<open>NotSlash\<close> and \<open>AnyChar\<close> are repeated\<close>
  | Alt "rx list list"

fun item_matches :: "class_item \<Rightarrow> char \<Rightarrow> bool" where
  "item_matches (Single d) c = (c = d)"
| "item_matches (Range a b) c = ((of_char a :: nat) \<le> of_char c \<and> (of_char c :: nat) \<le> of_char b)"

text \<open>One character against a one-character expression.\<close>

fun char_matches :: "rx \<Rightarrow> char \<Rightarrow> bool" where
  "char_matches (Lit d) c = (c = d)"
| "char_matches NotSlash c = (c \<noteq> slash)"
| "char_matches AnyChar c = (c \<noteq> CHR 0x0A \<and> c \<noteq> CHR 0x0D)"
| "char_matches (CharClass neg items) c = (list_ex (\<lambda>i. item_matches i c) items \<noteq> neg)"
| "char_matches _ c = False"

text \<open>The whole of a string against a sequence of expressions, as \<open>^...$\<close> matches it.\<close>

function rx_match :: "rx list \<Rightarrow> string \<Rightarrow> bool" where
  "rx_match [] s = (s = [])"
| "rx_match (Star x # r) s =
     (rx_match r s \<or> (case s of [] \<Rightarrow> False | c # t \<Rightarrow> char_matches x c \<and> rx_match (Star x # r) t))"
| "rx_match (Alt alts # r) s = list_ex (\<lambda>a. rx_match (a @ r) s) alts"
| "rx_match (Lit d # r) s = (case s of [] \<Rightarrow> False | c # t \<Rightarrow> char_matches (Lit d) c \<and> rx_match r t)"
| "rx_match (NotSlash # r) s = (case s of [] \<Rightarrow> False | c # t \<Rightarrow> char_matches NotSlash c \<and> rx_match r t)"
| "rx_match (AnyChar # r) s = (case s of [] \<Rightarrow> False | c # t \<Rightarrow> char_matches AnyChar c \<and> rx_match r t)"
| "rx_match (CharClass n i # r) s = (case s of [] \<Rightarrow> False | c # t \<Rightarrow> char_matches (CharClass n i) c \<and> rx_match r t)"
| "rx_match (Never # r) s = False"
  by pat_completeness auto

fun rx_weight :: "rx \<Rightarrow> nat" where
  "rx_weight (Alt alts) = 1 + sum_list (map (\<lambda>a. sum_list (map rx_weight a)) alts)"
| "rx_weight _ = 1"

lemma alt_weight: "a \<in> set alts \<Longrightarrow>
    sum_list (map rx_weight a) \<le> sum_list (map (\<lambda>a. sum_list (map rx_weight a)) alts)"
  by (induction alts) auto

termination rx_match
  by (relation "measures [\<lambda>(r, s). length s, \<lambda>(r, s). sum_list (map rx_weight r)]")
     (auto dest!: alt_weight)

section \<open>Translation of a glob\<close>

text \<open>The class body as the regular expression parser reads it, \<open>None\<close> for a reversed range.\<close>

fun class_items :: "string \<Rightarrow> class_item list option" where
  "class_items (a # d # b # r) =
     (if d = CHR ''-'' then
        (if (of_char a :: nat) \<le> of_char b
         then map_option (\<lambda>is. Range a b # is) (class_items r) else None)
      else map_option (\<lambda>is. Single a # is) (class_items (d # b # r)))"
| "class_items (a # r) = map_option (\<lambda>is. Single a # is) (class_items r)"
| "class_items [] = Some []"

text \<open>\<open>glob.indexOf(']', index + 2)\<close> on the text after the opening bracket: body and rest.\<close>

definition class_split :: "string \<Rightarrow> (string \<times> string) option" where
  "class_split s = (case s of [] \<Rightarrow> None
     | c # t \<Rightarrow> (if CHR '']'' \<in> set t
         then Some (c # takeWhile (\<lambda>x. x \<noteq> CHR '']'') t, drop 1 (dropWhile (\<lambda>x. x \<noteq> CHR '']'') t))
         else None))"

definition class_rx :: "string \<Rightarrow> rx option" where
  "class_rx body =
    (let negated = starts_with ''!'' body \<or> starts_with ''^'' body;
         body = filter (\<lambda>c. c \<noteq> slash) (if negated then drop 1 body else body)
     in if negated then map_option (CharClass True) (class_items (slash # body))
        else if body \<noteq> [] then map_option (CharClass False) (class_items body)
        else Some Never)"

text \<open>
  The scan of a brace: \<open>brace_scan depth cur alts s\<close> reads the text after the opening
  brace, \<open>cur\<close> being the alternative read so far.  It returns the alternatives and the
  text after the closing brace, or nothing when the brace never closes.
\<close>

fun brace_scan :: "nat \<Rightarrow> string \<Rightarrow> string list \<Rightarrow> string \<Rightarrow> (string list \<times> string) option" where
  "brace_scan depth cur alts [] = None"
| "brace_scan depth cur alts (c # s) =
     (if c = CHR ''{'' then brace_scan (Suc depth) (cur @ [c]) alts s
      else if c = CHR ''}'' then
        (if depth = 1 then Some (alts @ [cur], s) else brace_scan (depth - 1) (cur @ [c]) alts s)
      else if c = CHR '','' \<and> depth = 1 then brace_scan depth [] (alts @ [cur]) s
      else brace_scan depth (cur @ [c]) alts s)"

lemma brace_scan_length:
  "brace_scan d cur alts s = Some (bs, r) \<Longrightarrow>
   length r < length s \<and> (\<forall>b \<in> set bs. b \<in> set alts \<or> length b < length cur + length s)"
proof (induction d cur alts s arbitrary: bs r rule: brace_scan.induct)
  case (2 d cur alts c s)
  show ?case
    using 2 by (fastforce split: if_splits)
qed simp

lemma class_split_length: "class_split s = Some (body, rest) \<Longrightarrow> length rest < length s"
proof (cases s)
  case (Cons c t)
  moreover assume "class_split s = Some (body, rest)"
  ultimately have "rest = drop 1 (dropWhile (\<lambda>x. x \<noteq> CHR '']'') t)" by (auto simp: class_split_def split: if_splits)
  then show ?thesis using Cons length_dropWhile_le [of "\<lambda>x. x \<noteq> CHR '']''" t] by simp
qed (simp add: class_split_def)

lemma opt_map_cong [fundef_cong]:
  assumes "xs = ys" "\<And>x. x \<in> set ys \<Longrightarrow> f x = g x" shows "opt_map f xs = opt_map g ys"
proof -
  from assms(2) have "opt_map f ys = opt_map g ys" by (induction ys) simp_all
  then show ?thesis using assms(1) by simp
qed

text \<open>\<open>prev\<close> is the character before the current index, absent at index 0.\<close>

function globSourceToRegex :: "char option \<Rightarrow> string \<Rightarrow> rx list option" where
  "globSourceToRegex prev [] = Some []"
| "globSourceToRegex prev (c # s) =
    (if c = CHR ''*'' then
       (if s \<noteq> [] \<and> hd s = CHR ''*'' then
          (if (prev = None \<or> prev = Some slash) \<and> tl s \<noteq> [] \<and> hd (tl s) = slash
           then map_option (\<lambda>r. Alt [[], [Star AnyChar, Lit slash]] # r) (globSourceToRegex (Some slash) (drop 2 s))
           else map_option (\<lambda>r. Star AnyChar # r) (globSourceToRegex (Some c) (drop 1 s)))
        else map_option (\<lambda>r. Star NotSlash # r) (globSourceToRegex (Some c) s))
     else if c = CHR ''?'' then map_option (\<lambda>r. NotSlash # r) (globSourceToRegex (Some c) s)
     else if c = CHR ''['' then
       (case class_split s of
          None \<Rightarrow> map_option (\<lambda>r. Lit c # r) (globSourceToRegex (Some c) s)
        | Some (body, rest) \<Rightarrow>
            do { x \<leftarrow> class_rx body; r \<leftarrow> globSourceToRegex (Some (CHR '']'')) rest; Some (x # r) })
     else if c = CHR ''{'' then
       (case brace_scan 1 [] [] s of
          None \<Rightarrow> map_option (\<lambda>r. Lit c # r) (globSourceToRegex (Some c) s)
        | Some (alts, rest) \<Rightarrow>
            if length alts < 2 then map_option (\<lambda>r. Lit c # r) (globSourceToRegex (Some c) s)
            else do { xs \<leftarrow> opt_map (globSourceToRegex None) alts;
                      r \<leftarrow> globSourceToRegex (Some (CHR ''}'')) rest; Some (Alt xs # r) })
     else map_option (\<lambda>r. Lit c # r) (globSourceToRegex (Some c) s))"
  by pat_completeness auto
termination
  by (relation "measure (\<lambda>(p, s). length s)") (auto dest!: brace_scan_length class_split_length)

text \<open>
  \<open>globToRegex\<close>; the flag of the expression is empty on the modelled (POSIX) platforms.
\<close>

definition globToRegex :: "string \<Rightarrow> bool \<Rightarrow> rx list option" where
  "globToRegex pattern matchDescendants =
    (let normalized = normalizeLockPath pattern;
         tree = ends_with ''/**'' normalized;
         normalized = (if tree then take (length normalized - 3) normalized else normalized)
     in map_option (\<lambda>r. r @ (if matchDescendants \<or> tree then [Alt [[], [Lit slash, Star AnyChar]]] else []))
          (globSourceToRegex None normalized))"

section \<open>Path matchers\<close>

definition comparePathCandidates :: "host \<Rightarrow> string \<Rightarrow> string \<Rightarrow> string list" where
  "comparePathCandidates h value cwd =
    (let raw = (if cwd \<noteq> [] then normalizeLockPathForCwd h value cwd else normalizeLockPath value)
     in if raw = [] then []
        else [normalizeFilesystemCase h (strip_tail (squeeze (to_slashes raw))) cwd])"

definition literal_match :: "string \<Rightarrow> string \<Rightarrow> bool" where
  "literal_match allowed file \<longleftrightarrow> file = allowed \<or> starts_with (allowed @ ''/'') file"

definition wants_descendants :: "string \<Rightarrow> bool" where
  "wants_descendants allowed = ends_with ''/**'' (strip_tail (to_slashes allowed))"

text \<open>An entry that names an existing path literally: no \<open>*\<close> or \<open>?\<close>, and it exists below \<open>cwd\<close>.\<close>

definition names_existing :: "host \<Rightarrow> string \<Rightarrow> string \<Rightarrow> bool" where
  "names_existing h cwd normalized \<longleftrightarrow>
     cwd \<noteq> [] \<and> \<not> has_star normalized \<and> fs_exists h (path_resolve h (cwd @ ''/'' @ normalized))"

definition allowed_matcher :: "host \<Rightarrow> string \<Rightarrow> bool \<Rightarrow> string \<Rightarrow> (string \<Rightarrow> bool) option" where
  "allowed_matcher h cwd matchDescendants normalizedAllowed =
    (if \<not> has_glob normalizedAllowed then Some (literal_match normalizedAllowed)
     else if names_existing h cwd normalizedAllowed then Some (literal_match normalizedAllowed)
     else map_option (\<lambda>glob file. literal_match normalizedAllowed file \<or> rx_match glob file)
            (globToRegex normalizedAllowed matchDescendants))"

definition allowedPathMatchers :: "host \<Rightarrow> string list \<Rightarrow> string \<Rightarrow> (string \<Rightarrow> bool) list option" where
  "allowedPathMatchers h allowedPaths cwd =
     map_option concat (opt_map (\<lambda>allowed.
        opt_map (allowed_matcher h cwd (wants_descendants allowed)) (comparePathCandidates h allowed cwd))
       allowedPaths)"

definition matchesAnyAllowed :: "host \<Rightarrow> string \<Rightarrow> (string \<Rightarrow> bool) list \<Rightarrow> string \<Rightarrow> bool" where
  "matchesAnyAllowed h file matchers cwd =
     list_ex (\<lambda>normalizedFile. list_ex (\<lambda>m. m normalizedFile) matchers) (comparePathCandidates h file cwd)"

definition isWithinAnyPath :: "host \<Rightarrow> string \<Rightarrow> string list \<Rightarrow> string \<Rightarrow> bool option" where
  "isWithinAnyPath h file allowedPaths cwd =
     map_option (\<lambda>ms. matchesAnyAllowed h file ms cwd) (allowedPathMatchers h allowedPaths cwd)"

text \<open>
  \<open>createPathMatcher\<close>: the same predicate with the literal entries in one set, probed with
  the ancestors of the file instead of entry by entry.
\<close>

definition before_last_slash :: "string \<Rightarrow> string" where
  "before_last_slash p = rev (drop 1 (dropWhile (\<lambda>c. c \<noteq> slash) (rev p)))"

lemma before_last_slash_split: "slash \<in> set p \<Longrightarrow> \<exists>w. p = before_last_slash p @ slash # w \<and> slash \<notin> set w"
proof -
  assume "slash \<in> set p"
  then obtain a b where ab: "p = a @ slash # b" "slash \<notin> set b" by (meson split_list_last)
  have "dropWhile (\<lambda>c. c \<noteq> slash) (rev b @ slash # rev a) = slash # rev a"
    using ab(2) by (subst dropWhile_append2) (auto simp: in_set_conv_decomp)
  then have "before_last_slash p = a" using ab by (simp add: before_last_slash_def)
  then show ?thesis using ab by blast
qed

lemma before_last_slash_shorter: "slash \<in> set p \<Longrightarrow> length (before_last_slash p) < length p"
proof -
  assume "slash \<in> set p"
  then obtain w where w: "p = before_last_slash p @ slash # w" using before_last_slash_split by blast
  have "length p = length (before_last_slash p) + Suc (length w)" by (subst w) simp
  then show ?thesis by simp
qed

function prefix_hit :: "string list \<Rightarrow> string \<Rightarrow> bool" where
  "prefix_hit literals p =
     (if p = [] then False else if p \<in> set literals then True
      else if slash \<notin> set p then False else prefix_hit literals (before_last_slash p))"
  by pat_completeness auto
termination
  by (relation "measure (\<lambda>(l, p). length p)") (auto simp: before_last_slash_shorter)

declare prefix_hit.simps [simp del]

definition matcher_glob :: "host \<Rightarrow> string \<Rightarrow> bool \<Rightarrow> string \<Rightarrow> rx list list option" where
  "matcher_glob h cwd descendants normalized =
    (if has_glob normalized \<and> \<not> names_existing h cwd normalized
     then map_option (\<lambda>g. [g]) (globToRegex normalized descendants) else Some [])"

definition createPathMatcher :: "host \<Rightarrow> string list \<Rightarrow> string \<Rightarrow> (string \<Rightarrow> bool) option" where
  "createPathMatcher h paths cwd =
    do { gs \<leftarrow> opt_map (\<lambda>allowed. map_option concat
               (opt_map (matcher_glob h cwd (wants_descendants allowed)) (comparePathCandidates h allowed cwd))) paths;
         let literals = concat (map (\<lambda>allowed. comparePathCandidates h allowed cwd) paths);
         let globs = concat gs;
         Some (\<lambda>file. list_ex (\<lambda>normalized.
             [] \<in> set literals \<and> (normalized = [] \<or> starts_with ''/'' normalized)
             \<or> prefix_hit literals normalized
             \<or> list_ex (\<lambda>glob. rx_match glob normalized) globs) (comparePathCandidates h file cwd)) }"

definition unsafeChangedFiles :: "host \<Rightarrow> string list \<Rightarrow> string list \<Rightarrow> string \<Rightarrow> string list option" where
  "unsafeChangedFiles h changedFiles allowedPaths cwd =
    (if allowedPaths = [] then Some changedFiles
     else do { matches \<leftarrow> createPathMatcher h allowedPaths cwd;
               Some (filter (\<lambda>file. \<not> matches file) changedFiles) })"

section \<open>Serial-only patterns\<close>

definition serialPatternStaticPrefix :: "string \<Rightarrow> string" where
  "serialPatternStaticPrefix pattern =
    (let normalized = normalizeLockPath pattern;
         pre = (if has_glob normalized then takeWhile (\<lambda>c. \<not> glob_char c) normalized else normalized)
     in normalizeLockPath (if slash \<in> set pre then before_last_slash pre else pre))"

definition pathOverlapsSerialPattern :: "host \<Rightarrow> string \<Rightarrow> string \<Rightarrow> string \<Rightarrow> bool option" where
  "pathOverlapsSerialPattern h candidate pattern cwd =
    (let c = (if cwd \<noteq> [] then normalizeLockPathForCwd h candidate cwd else normalizeLockPath candidate);
         p = (if cwd \<noteq> [] then normalizeLockPathForCwd h pattern cwd else normalizeLockPath pattern)
     in if c = [] \<or> p = [] then Some False
        else if cwd \<noteq> [] \<and> (realPathBoundaryReason h candidate cwd \<noteq> None \<or> realPathBoundaryReason h pattern cwd \<noteq> None)
        then Some False
        else if cwd \<noteq> [] \<and> \<not> hasAmbiguousPathPattern h [p] cwd then Some (overlaps h [c] [p] cwd \<noteq> None)
        else if cwd \<noteq> [] \<and> (c = p \<or> starts_with (p @ ''/'') c) then Some True
        else do { glob \<leftarrow> globToRegex p False;
                  if rx_match glob c then Some True
                  else let static = serialPatternStaticPrefix p in
                       if sublist ''**'' p \<and> static \<noteq> [] \<and> overlaps h [c] [static] cwd \<noteq> None then Some True
                       else if \<not> has_glob p then Some (overlaps h [c] [p] cwd \<noteq> None)
                       else Some False })"

section \<open>The optimised matcher agrees with the reference\<close>

lemma prefix_hit_iff:
  "prefix_hit literals p \<longleftrightarrow> (\<exists>a \<in> set literals. a \<noteq> [] \<and> literal_match a p)"
proof (induction literals p rule: prefix_hit.induct)
  case (1 literals p)
  show ?case
  proof (cases "p = [] \<or> p \<in> set literals \<or> slash \<notin> set p")
    case True
    have "slash \<notin> set p \<Longrightarrow> literal_match a p \<Longrightarrow> a = p" for a
      by (auto simp: literal_match_def starts_with_iff)
    moreover have "literal_match a [] \<Longrightarrow> a = []" for a
      by (auto simp: literal_match_def starts_with_iff)
    moreover have "literal_match p p" by (simp add: literal_match_def)
    ultimately show ?thesis using True by (subst prefix_hit.simps) auto
  next
    case False
    then have ih: "prefix_hit literals p = (\<exists>a \<in> set literals. a \<noteq> [] \<and> literal_match a (before_last_slash p))"
      using 1 by (subst prefix_hit.simps) simp
    obtain w where w: "p = before_last_slash p @ slash # w" "slash \<notin> set w"
      using False before_last_slash_split by blast
    have "literal_match a p \<longleftrightarrow> literal_match a (before_last_slash p)" if "a \<in> set literals" for a
    proof -
      have ne: "a \<noteq> p" using that False by auto
      have "starts_with (a @ ''/'') p \<longleftrightarrow> prefix (a @ ''/'') (before_last_slash p @ ''/'' @ w)"
        by (subst w(1)) (auto simp: starts_with_iff prefix_def)
      also have "\<dots> \<longleftrightarrow> a = before_last_slash p \<or> prefix (a @ ''/'') (before_last_slash p)"
        using w(2) by (auto simp: prefix_def append_eq_append_conv2 append_eq_Cons_conv Cons_eq_append_conv)
      finally show ?thesis using ne by (auto simp: literal_match_def starts_with_iff prefix_def)
    qed
    then show ?thesis using ih by auto
  qed
qed

text \<open>\<open>agrees L ms gs\<close>: the matchers accept a file when a literal of \<open>L\<close> or an expression does.\<close>

definition agrees :: "string list \<Rightarrow> (string \<Rightarrow> bool) list \<Rightarrow> rx list list \<Rightarrow> bool" where
  "agrees L ms gs \<longleftrightarrow> (\<forall>f. list_ex (\<lambda>m. m f) ms \<longleftrightarrow>
     (\<exists>a \<in> set L. literal_match a f) \<or> list_ex (\<lambda>g. rx_match g f) gs)"

lemma agrees_Nil: "agrees [] [] []"
  by (simp add: agrees_def)

lemma agrees_append: "agrees L ms gs \<Longrightarrow> agrees L' ms' gs' \<Longrightarrow> agrees (L @ L') (ms @ ms') (gs @ gs')"
  unfolding agrees_def by (simp add: bex_Un) blast

lemma allowed_matcher_glob:
  "allowed_matcher h cwd d a = map_option (\<lambda>gs f. literal_match a f \<or> list_ex (\<lambda>g. rx_match g f) gs)
     (matcher_glob h cwd d a)"
  by (auto simp: allowed_matcher_def matcher_glob_def option.map_comp comp_def)

lemma matchers_entry:
  "case opt_map (allowed_matcher h cwd d) cs of
     None \<Rightarrow> opt_map (matcher_glob h cwd d) cs = None
   | Some ms \<Rightarrow> \<exists>gs. opt_map (matcher_glob h cwd d) cs = Some gs \<and> agrees cs ms (concat gs)"
proof (induction cs)
  case (Cons c cs)
  show ?case
  proof (cases "matcher_glob h cwd d c")
    case None
    then show ?thesis by (simp add: allowed_matcher_glob)
  next
    case (Some g)
    then have A: "allowed_matcher h cwd d c = Some (\<lambda>f. literal_match c f \<or> list_ex (\<lambda>g. rx_match g f) g)"
      by (simp add: allowed_matcher_glob)
    have one: "agrees [c] [\<lambda>f. literal_match c f \<or> list_ex (\<lambda>g. rx_match g f) g] g"
      by (simp add: agrees_def)
    show ?thesis
    proof (cases "opt_map (allowed_matcher h cwd d) cs")
      case None
      then show ?thesis using Cons Some A by simp
    next
      case (Some ms)
      with Cons obtain gs where gs: "opt_map (matcher_glob h cwd d) cs = Some gs" "agrees cs ms (concat gs)"
        by auto
      show ?thesis
        using agrees_append [OF one gs(2)] Some gs(1) A \<open>matcher_glob h cwd d c = Some g\<close> by simp
    qed
  qed
qed (simp add: agrees_Nil)

lemma matchers_list:
  "case allowedPathMatchers h paths cwd of
     None \<Rightarrow> createPathMatcher h paths cwd = None
   | Some ms \<Rightarrow> \<exists>gs. opt_map (\<lambda>allowed. map_option concat
         (opt_map (matcher_glob h cwd (wants_descendants allowed)) (comparePathCandidates h allowed cwd))) paths = Some gs
       \<and> agrees (concat (map (\<lambda>allowed. comparePathCandidates h allowed cwd) paths)) ms (concat gs)"
proof (induction paths)
  case Nil
  then show ?case by (simp add: allowedPathMatchers_def agrees_Nil)
next
  case (Cons p paths)
  let ?M = "\<lambda>p. opt_map (allowed_matcher h cwd (wants_descendants p)) (comparePathCandidates h p cwd)"
  let ?G = "\<lambda>p. opt_map (matcher_glob h cwd (wants_descendants p)) (comparePathCandidates h p cwd)"
  have step: "allowedPathMatchers h (p # paths) cwd =
      do { m \<leftarrow> ?M p; ms \<leftarrow> allowedPathMatchers h paths cwd; Some (m @ ms) }"
    unfolding allowedPathMatchers_def by (cases "?M p"; cases "opt_map ?M paths") auto
  note e = matchers_entry [of h cwd "wants_descendants p" "comparePathCandidates h p cwd"]
  show ?case
  proof (cases "?M p")
    case None
    then show ?thesis using e step by (simp add: createPathMatcher_def)
  next
    case (Some m)
    with e obtain g where g: "?G p = Some g" "agrees (comparePathCandidates h p cwd) m (concat g)" by auto
    show ?thesis
    proof (cases "allowedPathMatchers h paths cwd")
      case None
      then have "opt_map (\<lambda>allowed. map_option concat (?G allowed)) paths = None"
        using Cons by (auto simp: createPathMatcher_def bind_eq_None_conv Let_def)
      then show ?thesis using step Some None g by (simp add: createPathMatcher_def)
    next
      case (Some ms)
      with Cons obtain gs where gs: "opt_map (\<lambda>allowed. map_option concat (?G allowed)) paths = Some gs"
        "agrees (concat (map (\<lambda>allowed. comparePathCandidates h allowed cwd) paths)) ms (concat gs)" by auto
      show ?thesis using agrees_append [OF g(2) gs(2)] step Some g gs(1) \<open>?M p = Some m\<close> by simp
    qed
  qed
qed

lemma literal_set:
  "[] \<in> set L \<and> (f = [] \<or> starts_with ''/'' f) \<or> prefix_hit L f \<longleftrightarrow> (\<exists>a \<in> set L. literal_match a f)"
proof -
  have "literal_match [] f \<longleftrightarrow> f = [] \<or> starts_with ''/'' f" by (simp add: literal_match_def)
  then show ?thesis unfolding prefix_hit_iff by metis
qed

lemma matcher_agrees:
  "map_option (\<lambda>matches. matches file) (createPathMatcher h paths cwd) = isWithinAnyPath h file paths cwd"
proof (cases "allowedPathMatchers h paths cwd")
  case None
  then show ?thesis using matchers_list [of h paths cwd] by (simp add: isWithinAnyPath_def)
next
  case (Some ms)
  then obtain gs where gs: "opt_map (\<lambda>allowed. map_option concat
      (opt_map (matcher_glob h cwd (wants_descendants allowed)) (comparePathCandidates h allowed cwd))) paths = Some gs"
    and a: "agrees (concat (map (\<lambda>allowed. comparePathCandidates h allowed cwd) paths)) ms (concat gs)"
    using matchers_list [of h paths cwd] by auto
  let ?L = "concat (map (\<lambda>allowed. comparePathCandidates h allowed cwd) paths)"
  have "list_ex (\<lambda>m. m f) ms \<longleftrightarrow> [] \<in> set ?L \<and> (f = [] \<or> starts_with ''/'' f) \<or> prefix_hit ?L f
      \<or> list_ex (\<lambda>glob. rx_match glob f) (concat gs)" for f
    using a literal_set [of ?L f] unfolding agrees_def by blast
  then show ?thesis using Some gs
    by (simp add: createPathMatcher_def isWithinAnyPath_def matchesAnyAllowed_def Let_def)
qed

lemma matcher_apply:
  "createPathMatcher h paths cwd = Some matches \<Longrightarrow> isWithinAnyPath h file paths cwd = Some (matches file)"
  using matcher_agrees [of "file" h paths cwd] by simp

lemma matcher_defined: "createPathMatcher h paths cwd = None \<longleftrightarrow> allowedPathMatchers h paths cwd = None"
  using matcher_agrees [of "[]" h paths cwd] unfolding isWithinAnyPath_def
  by (cases "createPathMatcher h paths cwd"; cases "allowedPathMatchers h paths cwd") simp_all

text \<open>C26: The indexed matcher used by unsafeChangedFiles reports exactly the changed files that the
  reference matcher isWithinAnyPath rejects.\<close>

theorem createPathMatcher_correct:
  "unsafeChangedFiles h changed allowed cwd =
    (if allowed = [] then Some changed
     else if allowedPathMatchers h allowed cwd = None then None
     else Some (filter (\<lambda>file. isWithinAnyPath h file allowed cwd = Some False) changed))"
proof (cases "createPathMatcher h allowed cwd")
  case None
  then show ?thesis using matcher_defined [of h allowed cwd] by (simp add: unsafeChangedFiles_def)
next
  case (Some m)
  then show ?thesis using matcher_defined [of h allowed cwd]
    by (auto simp: unsafeChangedFiles_def matcher_apply [OF Some])
qed

section \<open>What a glob matches\<close>

lemma rx_match_lits: "rx_match (map Lit p @ r) s \<longleftrightarrow> (\<exists>t. s = p @ t \<and> rx_match r t)"
  by (induction p arbitrary: s) (auto split: list.splits)

lemma rx_match_star_not_slash: "rx_match [Star NotSlash] s \<longleftrightarrow> slash \<notin> set s"
  by (induction s) auto

definition line_break :: "char \<Rightarrow> bool" where
  "line_break c \<longleftrightarrow> c = CHR 0x0A \<or> c = CHR 0x0D"

lemma rx_match_star_any:
  "rx_match (Star AnyChar # r) s \<longleftrightarrow> (\<exists>u v. s = u @ v \<and> (\<forall>c \<in> set u. \<not> line_break c) \<and> rx_match r v)"
proof (induction s)
  case (Cons c s)
  have "rx_match (Star AnyChar # r) (c # s) \<longleftrightarrow> rx_match r (c # s) \<or> (\<not> line_break c \<and> rx_match (Star AnyChar # r) s)"
    by (auto simp: line_break_def)
  also have "\<dots> \<longleftrightarrow> (\<exists>u v. c # s = u @ v \<and> (\<forall>d \<in> set u. \<not> line_break d) \<and> rx_match r v)"
  proof (rule iffI)
    assume "rx_match r (c # s) \<or> (\<not> line_break c \<and> rx_match (Star AnyChar # r) s)"
    then show "\<exists>u v. c # s = u @ v \<and> (\<forall>d \<in> set u. \<not> line_break d) \<and> rx_match r v"
    proof
      assume "rx_match r (c # s)"
      then show ?thesis by (intro exI [of _ "[]"] exI [of _ "c # s"]) simp
    next
      assume a: "\<not> line_break c \<and> rx_match (Star AnyChar # r) s"
      then obtain u v where "s = u @ v" "\<forall>d \<in> set u. \<not> line_break d" "rx_match r v" using Cons by blast
      then show ?thesis using a by (intro exI [of _ "c # u"] exI [of _ v]) simp
    qed
  next
    assume "\<exists>u v. c # s = u @ v \<and> (\<forall>d \<in> set u. \<not> line_break d) \<and> rx_match r v"
    then obtain u v where uv: "c # s = u @ v" "\<forall>d \<in> set u. \<not> line_break d" "rx_match r v" by blast
    then show "rx_match r (c # s) \<or> (\<not> line_break c \<and> rx_match (Star AnyChar # r) s)"
      using Cons by (cases u) auto
  qed
  finally show ?case .
qed simp

lemma rx_match_append_Nil: "rx_match [Alt [[], [Lit slash, Star AnyChar]]] s \<longleftrightarrow>
   s = [] \<or> (\<exists>t. s = slash # t \<and> (\<forall>c \<in> set t. \<not> line_break c))"
  using rx_match_star_any [of "[]"] by (auto split: list.splits)

lemma glob_literal: "\<not> has_glob p \<Longrightarrow> globSourceToRegex prev (p @ q) =
   map_option (\<lambda>r. map Lit p @ r) (globSourceToRegex (if p = [] then prev else Some (last p)) q)"
proof (induction p arbitrary: prev)
  case (Cons c p)
  have "c \<notin> set ''*?[]{}!''" using Cons.prems by (auto simp: has_glob_def glob_char_def)
  then have "globSourceToRegex prev ((c # p) @ q) = map_option (\<lambda>r. Lit c # r) (globSourceToRegex (Some c) (p @ q))"
    by simp
  then show ?case using Cons by (simp add: has_glob_def option.map_comp comp_def)
next
  case Nil
  show ?case by (cases "globSourceToRegex prev q") simp_all
qed

lemma glob_literal_only: "\<not> has_glob p \<Longrightarrow> globSourceToRegex prev p = Some (map Lit p)"
  using glob_literal [of p prev "[]"] by simp

text \<open>The literal prefix of a pattern in one step, for evaluation by the kernel.\<close>

definition glob_from :: "string \<Rightarrow> string \<Rightarrow> rx list option" where
  "glob_from p q = (if q = [] then Some (map Lit p)
     else map_option (\<lambda>r. map Lit p @ r) (globSourceToRegex (if p = [] then None else Some (last p)) q))"

definition glob_split :: "string \<Rightarrow> rx list option" where
  "glob_split s = glob_from (takeWhile (\<lambda>c. \<not> glob_char c) s) (dropWhile (\<lambda>c. \<not> glob_char c) s)"

lemma glob_from_eq: assumes "\<not> has_glob p" shows "globSourceToRegex None (p @ q) = glob_from p q"
proof (cases "q = []")
  case True
  then show ?thesis using glob_literal_only [OF assms, of None] unfolding glob_from_def by simp
next
  case False
  show ?thesis unfolding glob_literal [OF assms] glob_from_def if_not_P [OF False] by (rule refl)
qed

lemma glob_split: "globSourceToRegex None s = glob_split s"
proof -
  have "\<not> has_glob (takeWhile (\<lambda>c. \<not> glob_char c) s)"
    by (auto simp: has_glob_def list_ex_iff dest: set_takeWhileD)
  from glob_from_eq [OF this] show ?thesis unfolding glob_split_def by (metis takeWhile_dropWhile_id)
qed

lemma globToRegex_code [code]:
  "globToRegex pattern matchDescendants =
    (let normalized = normalizeLockPath pattern;
         tree = ends_with ''/**'' normalized
     in map_option (\<lambda>r. r @ (if matchDescendants \<or> tree then [Alt [[], [Lit slash, Star AnyChar]]] else []))
          (glob_split (if tree then take (length normalized - 3) normalized else normalized)))"
  by (simp add: globToRegex_def Let_def glob_split)

text \<open>Equations without abstractions over evaluated data, for evaluation by the kernel.\<close>

definition or_match :: "(string \<Rightarrow> bool) \<Rightarrow> rx list \<Rightarrow> string \<Rightarrow> bool" where
  "or_match m glob file \<longleftrightarrow> m file \<or> rx_match glob file"

definition candidates_of :: "host \<Rightarrow> string \<Rightarrow> string \<Rightarrow> string list" where
  "candidates_of h cwd allowed = comparePathCandidates h allowed cwd"

definition entry_matchers :: "host \<Rightarrow> string \<Rightarrow> string \<Rightarrow> (string \<Rightarrow> bool) list option" where
  "entry_matchers h cwd allowed = opt_map (allowed_matcher h cwd (wants_descendants allowed)) (comparePathCandidates h allowed cwd)"

definition entry_globs :: "host \<Rightarrow> string \<Rightarrow> string \<Rightarrow> rx list list option" where
  "entry_globs h cwd allowed = map_option concat
     (opt_map (matcher_glob h cwd (wants_descendants allowed)) (comparePathCandidates h allowed cwd))"

definition glob_hits :: "string \<Rightarrow> rx list \<Rightarrow> bool" where
  "glob_hits file glob = rx_match glob file"

definition hits_one :: "string list \<Rightarrow> rx list list \<Rightarrow> string \<Rightarrow> bool" where
  "hits_one literals globs normalized \<longleftrightarrow>
     [] \<in> set literals \<and> (normalized = [] \<or> starts_with ''/'' normalized)
     \<or> prefix_hit literals normalized \<or> list_ex (glob_hits normalized) globs"

definition path_matcher :: "host \<Rightarrow> string \<Rightarrow> string list \<Rightarrow> rx list list \<Rightarrow> string \<Rightarrow> bool" where
  "path_matcher h cwd literals globs file = list_ex (hits_one literals globs) (comparePathCandidates h file cwd)"

definition path_matcher_of :: "host \<Rightarrow> string \<Rightarrow> string list \<Rightarrow> rx list list list \<Rightarrow> (string \<Rightarrow> bool)" where
  "path_matcher_of h cwd literals gs = path_matcher h cwd literals (concat gs)"

lemma allowed_matcher_code [code]: "allowed_matcher h cwd matchDescendants normalizedAllowed =
    (if \<not> has_glob normalizedAllowed then Some (literal_match normalizedAllowed)
     else if names_existing h cwd normalizedAllowed then Some (literal_match normalizedAllowed)
     else map_option (or_match (literal_match normalizedAllowed)) (globToRegex normalizedAllowed matchDescendants))"
  by (simp add: allowed_matcher_def or_match_def [abs_def])

lemma allowedPathMatchers_code [code]: "allowedPathMatchers h allowedPaths cwd =
     map_option concat (opt_map (entry_matchers h cwd) allowedPaths)"
  by (simp add: allowedPathMatchers_def entry_matchers_def [abs_def])

lemma createPathMatcher_code [code]: "createPathMatcher h paths cwd =
    map_option (path_matcher_of h cwd (concat (map (candidates_of h cwd) paths))) (opt_map (entry_globs h cwd) paths)"
  by (cases "opt_map (entry_globs h cwd) paths")
     (simp_all add: createPathMatcher_def entry_globs_def [abs_def] candidates_of_def [abs_def] path_matcher_of_def
        path_matcher_def [abs_def] hits_one_def [abs_def] glob_hits_def [abs_def] Let_def)

definition serial_tree :: "host \<Rightarrow> string \<Rightarrow> string \<Rightarrow> string \<Rightarrow> string \<Rightarrow> bool" where
  "serial_tree h cwd c p static = (if static \<noteq> [] \<and> overlaps h [c] [static] cwd \<noteq> None then True
     else if \<not> has_glob p then overlaps h [c] [p] cwd \<noteq> None else False)"

definition serial_glob :: "host \<Rightarrow> string \<Rightarrow> string \<Rightarrow> string \<Rightarrow> rx list \<Rightarrow> bool" where
  "serial_glob h cwd c p glob = (if rx_match glob c then True
     else if sublist ''**'' p then serial_tree h cwd c p (serialPatternStaticPrefix p)
     else if \<not> has_glob p then overlaps h [c] [p] cwd \<noteq> None else False)"

definition serial_compare :: "host \<Rightarrow> string \<Rightarrow> string \<Rightarrow> string \<Rightarrow> string \<Rightarrow> string \<Rightarrow> bool option" where
  "serial_compare h cwd candidate pattern c p = (if c = [] \<or> p = [] then Some False
     else if cwd \<noteq> [] \<and> (realPathBoundaryReason h candidate cwd \<noteq> None \<or> realPathBoundaryReason h pattern cwd \<noteq> None)
     then Some False
     else if cwd \<noteq> [] \<and> \<not> hasAmbiguousPathPattern h [p] cwd then Some (overlaps h [c] [p] cwd \<noteq> None)
     else if cwd \<noteq> [] \<and> (c = p \<or> starts_with (p @ ''/'') c) then Some True
     else map_option (serial_glob h cwd c p) (globToRegex p False))"

lemma nested_choice:
  "(if a then True else if b then (if c \<and> d then True else if e then f else False) else if e then f else False)
     = (a \<or> b \<and> c \<and> d \<or> e \<and> f)"
  "(if a then Some True else if b \<and> c \<and> d then Some True else if e then Some f else Some False)
     = Some (a \<or> b \<and> c \<and> d \<or> e \<and> f)"
  by auto

lemma serial_glob_eq:
  "map_option (serial_glob h cwd c p) (globToRegex p False) =
    do { glob \<leftarrow> globToRegex p False;
         if rx_match glob c then Some True
         else if sublist ''**'' p \<and> serialPatternStaticPrefix p \<noteq> [] \<and> overlaps h [c] [serialPatternStaticPrefix p] cwd \<noteq> None
           then Some True
         else if \<not> has_glob p then Some (overlaps h [c] [p] cwd \<noteq> None) else Some False }"
  unfolding nested_choice serial_glob_def [abs_def] serial_tree_def
  by (cases "globToRegex p False") (simp_all only: option.map bind.simps)

lemma pathOverlapsSerialPattern_code [code]: "pathOverlapsSerialPattern h candidate pattern cwd =
    (if cwd \<noteq> [] then serial_compare h cwd candidate pattern
       (normalizeLockPathForCwd h candidate cwd) (normalizeLockPathForCwd h pattern cwd)
     else serial_compare h cwd candidate pattern (normalizeLockPath candidate) (normalizeLockPath pattern))"
  unfolding pathOverlapsSerialPattern_def Let_def serial_compare_def serial_glob_eq
  by (cases "cwd = []") (simp_all only: if_True if_False not_True_eq_False not_False_eq_True simp_thms)

text \<open>The pattern dir/* matches exactly the entries directly below dir.\<close>

theorem single_star_is_one_level:
  assumes "\<not> has_glob dir" "normalizeLockPath (dir @ ''/*'') = dir @ ''/*''"
  shows "map_option (\<lambda>g. rx_match g file) (globToRegex (dir @ ''/*'') False)
    = Some (\<exists>name. file = dir @ ''/'' @ name \<and> slash \<notin> set name)"
proof -
  have ne: "\<not> ends_with ''/**'' (dir @ ''/*'')"
    using assms(1) by (cases dir rule: rev_cases) (auto simp: ends_with_iff has_glob_def glob_char_def)
  have "globSourceToRegex None (dir @ ''/*'') = Some (map Lit (dir @ ''/'') @ [Star NotSlash])"
    using glob_literal [of "dir @ ''/''" None "''*''"] assms(1)
    by (simp add: has_glob_def glob_char_def)
  then have "globToRegex (dir @ ''/*'') False = Some (map Lit (dir @ ''/'') @ [Star NotSlash])"
    using assms(2) ne by (simp add: globToRegex_def Let_def)
  then show ?thesis using rx_match_lits [of "dir @ ''/''"] rx_match_star_not_slash by auto
qed

theorem single_star_is_one_level_witness:
  "map_option (\<lambda>g. rx_match g ''src/cli/deep/x.ts'') (globToRegex ''src/cli/*'' False) = Some False"
proof -
  have "\<not> has_glob ''src/cli''" "normalizeLockPath (''src/cli'' @ ''/*'') = ''src/cli'' @ ''/*''" by code_simp+
  from single_star_is_one_level [OF this, of "''src/cli/deep/x.ts''"] show ?thesis by auto
qed

end
