(* ===== verification/ScopeContract.thy ===== *)
theory ScopeContract
  imports Glob
begin

text \<open>
  Model of \<open>lib/scope-contract.js\<close>: the raw contract and job inputs (after the zod
  schemas, so with their types), their normalisation against a project root, the project
  policy and the serial-only and default path tables.  An absent string is the empty
  string, an absent list the empty list (as \<open>String(x || '')\<close> and \<open>normalizeList\<close> read
  them); an absent object or number is \<open>None\<close>.  A schema parse that throws is \<open>None\<close>.
\<close>

section \<open>Path tables\<close>

definition SERIAL_ONLY_PATHS :: "string list" where
  "SERIAL_ONLY_PATHS = [''package.json'', ''package-lock.json'', ''pnpm-lock.yaml'', ''yarn.lock'',
    ''bun.lockb'', ''tsconfig.json'', ''tsconfig.*.json'', ''vite.config.*'', ''next.config.*'',
    ''nuxt.config.*'', ''webpack.config.*'', ''rollup.config.*'', ''eslint.config.*'', ''.eslintrc*'',
    ''.prettierrc*'', ''.env'', ''.env.*'', ''README.md'', ''CHANGELOG.md'', ''src/index.*'',
    ''src/main.*'', ''src/app.*'', ''src/routes/**'', ''app/routes/**'', ''db/migrations/**'',
    ''prisma/schema.prisma'', ''schema/**'', ''migrations/**'', ''packages/shared/**'',
    ''pyproject.toml'', ''setup.py'', ''setup.cfg'', ''requirements.txt'', ''requirements-dev.txt'',
    ''Pipfile'', ''Pipfile.lock'', ''poetry.lock'', ''uv.lock'', ''conftest.py'', ''tests/conftest.py'',
    ''CMakeLists.txt'']"

definition DEFAULT_FORBIDDEN_EDIT_PATHS :: "string list" where
  "DEFAULT_FORBIDDEN_EDIT_PATHS = [''.env'', ''.env.*'', ''**/.env'', ''**/.env.*'', ''*.pem'', ''**/*.pem'',
    ''*.key'', ''**/*.key'', ''secrets/**'', ''**/secrets/**'', ''.git'', ''.git/**'', ''**/.git'', ''**/.git/**'']"

definition DEFAULT_SHARED_FILE_PATHS :: "string list" where
  "DEFAULT_SHARED_FILE_PATHS = [''package.json'', ''package-lock.json'', ''pnpm-lock.yaml'', ''yarn.lock'',
    ''tsconfig.json'', ''packages/shared/**'', ''schema/**'', ''migrations/**'', ''pyproject.toml'',
    ''setup.py'', ''setup.cfg'', ''requirements.txt'', ''requirements-dev.txt'', ''Pipfile'',
    ''Pipfile.lock'', ''poetry.lock'', ''uv.lock'', ''conftest.py'', ''tests/conftest.py'', ''CMakeLists.txt'']"

definition MAX_AGENT_TIMEOUT_MS :: nat where
  "MAX_AGENT_TIMEOUT_MS = 1000 * 60 * 60 * 24"

section \<open>Contracts and jobs\<close>

record model_requirement =
  mr_provider :: string
  mr_model :: string
  mr_variant :: "string option"
  mr_requireRuntimeEvidence :: "bool option"

record scope_paths =
  sp_read :: "string list option"
  sp_write :: "string list option"
  sp_forbidden :: "string list option"

record scope_validation =
  changedFilesMustBeWithinWriteScope :: "bool option"
  forbiddenFilesMustNotChange :: "bool option"
  readOnlyMustNotChangeFiles :: "bool option"

record timeout_policy =
  tp_timeoutMs :: "nat option"
  tp_readOnlyTimeoutMs :: "nat option"
  tp_writeTimeoutMs :: "nat option"

record raw_contract =
  rc_agent :: string
  rc_role :: string
  rc_mode :: string
  rc_read :: "string list"
  rc_write :: "string list"
  rc_allowedEdits :: "string list"
  rc_forbidden :: "string list"
  rc_shared :: "string list"
  rc_serialOnly :: "string list"
  rc_validationCommand :: string
  rc_scope :: "scope_paths option"
  rc_actions :: "string list"
  rc_validation :: "scope_validation option"
  rc_timeoutMs :: "nat option"
  rc_timeoutPolicy :: "timeout_policy option"
  rc_modelRequirement :: "model_requirement option"
  rc_selfCheckCommands :: "string list option"

record delegation =
  dg_scopeContract :: "raw_contract option"
  dg_role :: string
  dg_mode :: string
  dg_scope :: "scope_paths option"
  dg_actions :: "string list"
  dg_validation :: "scope_validation option"
  dg_timeoutMs :: "nat option"
  dg_timeoutPolicy :: "timeout_policy option"
  dg_lockedPaths :: "string list"
  dg_allowedEdits :: "string list"
  dg_forbiddenEdits :: "string list"
  dg_sharedFiles :: "string list"
  dg_serialOnly :: "string list"
  dg_validationCommand :: string
  dg_permissions :: string
  dg_orchestratorMode :: string
  dg_userAuthorizedOrchestrator :: bool
  dg_contractorAuthorizationToken :: string

record job =
  agent :: string
  task :: string
  role :: string
  owner :: string
  job_mode :: string
  job_cwd :: string
  write_flag :: "bool option"
  lockType :: string
  lockMode :: string
  lockedPaths :: "string list"
  ownedPaths :: "string list"
  allowedEdits :: "string list"
  forbiddenEdits :: "string list"
  sharedFiles :: "string list"
  serialOnly :: "string list"
  scopeContract :: "raw_contract option"
  job_delegation :: "delegation option"
  job_scope :: "scope_paths option"
  job_actions :: "string list"
  job_validation :: "scope_validation option"
  job_timeoutMs :: "nat option"
  job_timeoutPolicy :: "timeout_policy option"
  validationCommand :: string
  validationFixPasses :: "int option"
  selfCheckPasses :: "int option"
  sanitizedWorkspace :: bool
  subagentStrategy :: string
  continueWorktree :: "string option"
  autoIntegrate :: "bool option"
  job_models :: "string list option"
  maxAttempts :: "int option"
  allowFallbackToBuild :: bool
  executionMode :: string
  orchestratorMode :: string
  userAuthorizedOrchestrator_flag :: bool
  contractorAuthorizationToken_field :: string
  internalQueueJobId :: string
  internalQueueContractorProof :: string
  dryRun :: bool
  maxWaitMs :: "int option"

record contract =
  ct_modelRequirement :: "model_requirement option"
  ct_selfCheckCommands :: "string list option"
  ct_agent :: string
  ct_role :: string
  ct_mode :: string
  ct_read :: "string list"
  ct_write :: "string list"
  ct_forbidden :: "string list"
  ct_allowedEdits :: "string list"
  ct_shared :: "string list"
  ct_serialOnly :: "string list"
  ct_validationCommand :: string
  ct_actions :: "string list"
  ct_withinWriteScope :: bool
  ct_forbiddenNotChanged :: bool
  ct_readOnlyNotChanged :: bool
  ct_timeoutMs :: "nat option"
  ct_readOnlyTimeoutMs :: "nat option"
  ct_writeTimeoutMs :: "nat option"

section \<open>Schemas that may throw\<close>

definition model_identifier_ok :: "string \<Rightarrow> bool" where
  "model_identifier_ok s = (case s of [] \<Rightarrow> False
     | c # r \<Rightarrow> is_alnum c \<and> list_all (\<lambda>d. is_alnum d \<or> d \<in> set ''._:-'') r)"

definition model_name_ok :: "string \<Rightarrow> bool" where
  "model_name_ok s = (case s of [] \<Rightarrow> False
     | c # r \<Rightarrow> is_alnum c \<and> list_all (\<lambda>d. is_alnum d \<or> d \<in> set ''._:/-'') r)"

definition parse_model_requirement :: "model_requirement \<Rightarrow> model_requirement option" where
  "parse_model_requirement m =
    (let p = js_trim (mr_provider m); n = js_trim (mr_model m); v = map_option js_trim (mr_variant m) in
     if length p \<le> 256 \<and> model_identifier_ok p \<and> length n \<le> 256 \<and> model_name_ok n
        \<and> (case v of None \<Rightarrow> True | Some v \<Rightarrow> length v \<le> 128 \<and> model_identifier_ok v)
     then Some (m\<lparr>mr_provider := p, mr_model := n, mr_variant := v\<rparr>) else None)"

section \<open>Normalisation\<close>

text \<open>\<open>raw.replace(/[-\s]+/g, '_')\<close>: every run of dashes and blanks becomes one underscore.\<close>

fun underscored :: "string \<Rightarrow> string" where
  "underscored [] = []"
| "underscored (c # s) =
     (if c = CHR ''-'' \<or> js_space c
      then (case s of d # _ \<Rightarrow> if d = CHR ''-'' \<or> js_space d then underscored s else CHR ''_'' # underscored s
            | [] \<Rightarrow> [CHR ''_''])
      else c # underscored s)"

definition keyword :: "string \<Rightarrow> string" where
  "keyword s = underscored (js_lower (js_trim s))"

definition normalizeScopeMode :: "string \<Rightarrow> string" where
  "normalizeScopeMode mode = (let raw = keyword mode in
     if raw = ''readonly'' \<or> raw = ''read_only'' then ''read'' else raw)"

definition scope_as_contract ::
  "string \<Rightarrow> string \<Rightarrow> string \<Rightarrow> scope_paths \<Rightarrow> string list \<Rightarrow> scope_validation option \<Rightarrow> nat option
   \<Rightarrow> timeout_policy option \<Rightarrow> raw_contract" where
  "scope_as_contract ag ro mo sc ac va tm tp =
     \<lparr>rc_agent = ag, rc_role = ro, rc_mode = mo, rc_read = [], rc_write = [], rc_allowedEdits = [],
      rc_forbidden = [], rc_shared = [], rc_serialOnly = [], rc_validationCommand = [], rc_scope = Some sc,
      rc_actions = ac, rc_validation = va, rc_timeoutMs = tm, rc_timeoutPolicy = tp,
      rc_modelRequirement = None, rc_selfCheckCommands = None\<rparr>"

definition rawScopeContractInput :: "job \<Rightarrow> raw_contract option" where
  "rawScopeContractInput j =
    (case scopeContract j of Some c \<Rightarrow> Some c | None \<Rightarrow>
     (case Option.bind (job_delegation j) dg_scopeContract of Some c \<Rightarrow> Some c | None \<Rightarrow>
      (case job_scope j of
         Some s \<Rightarrow> Some (scope_as_contract (agent j) (role j) (job_mode j) s (job_actions j)
                          (job_validation j) (job_timeoutMs j) (job_timeoutPolicy j))
       | None \<Rightarrow> (case job_delegation j of None \<Rightarrow> None
          | Some d \<Rightarrow> map_option (\<lambda>s. scope_as_contract (agent j) (dg_role d) (dg_mode d) s (dg_actions d)
                          (dg_validation d) (dg_timeoutMs d) (dg_timeoutPolicy d)) (dg_scope d)))))"

text \<open>\<open>a || b || null\<close> on numbers: zero is falsy.\<close>

definition truthy_nat :: "nat option \<Rightarrow> nat option \<Rightarrow> nat option" where
  "truthy_nat a b = (case a of Some (Suc n) \<Rightarrow> Some (Suc n)
     | _ \<Rightarrow> (case b of Some (Suc n) \<Rightarrow> Some (Suc n) | _ \<Rightarrow> None))"

definition not_false :: "(scope_validation \<Rightarrow> bool option) \<Rightarrow> scope_validation option \<Rightarrow> bool" where
  "not_false f v = (Option.bind v f \<noteq> Some False)"

definition scope_list :: "(scope_paths \<Rightarrow> string list option) \<Rightarrow> scope_paths option \<Rightarrow> string list" where
  "scope_list f s = (case Option.bind s f of None \<Rightarrow> [] | Some l \<Rightarrow> l)"

definition normalize_contract :: "host \<Rightarrow> job \<Rightarrow> raw_contract \<Rightarrow> contract option" where
  "normalize_contract h j raw =
    do { requirement \<leftarrow> (case rc_modelRequirement raw of None \<Rightarrow> Some None
                           | Some m \<Rightarrow> map_option Some (parse_model_requirement m));
         let root = job_cwd j;
         let wr = mergePathLists [scope_list sp_write (rc_scope raw), rc_write raw];
         let m = normalizeScopeMode (rc_mode raw);
         let forCwd = (\<lambda>l. normalizeLockPathListForCwd h l root);
         Some \<lparr>ct_modelRequirement = requirement,
           ct_selfCheckCommands = map_option (map js_trim) (rc_selfCheckCommands raw),
           ct_agent = js_trim (if rc_agent raw \<noteq> [] then rc_agent raw else agent j),
           ct_role = js_trim (rc_role raw),
           ct_mode = (if m \<noteq> [] then m else if wr \<noteq> [] then ''write'' else ''read''),
           ct_read = forCwd (mergePathLists [scope_list sp_read (rc_scope raw), rc_read raw]),
           ct_write = forCwd wr,
           ct_forbidden = forCwd (mergePathLists [scope_list sp_forbidden (rc_scope raw), rc_forbidden raw]),
           ct_allowedEdits = forCwd (normalizeLockPathList (rc_allowedEdits raw)),
           ct_shared = forCwd (normalizeLockPathList (rc_shared raw)),
           ct_serialOnly = forCwd (normalizeLockPathList (rc_serialOnly raw)),
           ct_validationCommand = js_trim (rc_validationCommand raw),
           ct_actions = filter (\<lambda>a. a \<noteq> []) (map js_trim (uniqueList (rc_actions raw))),
           ct_withinWriteScope = not_false changedFilesMustBeWithinWriteScope (rc_validation raw),
           ct_forbiddenNotChanged = not_false forbiddenFilesMustNotChange (rc_validation raw),
           ct_readOnlyNotChanged = not_false readOnlyMustNotChangeFiles (rc_validation raw),
           ct_timeoutMs = truthy_nat (rc_timeoutMs raw) (Option.bind (rc_timeoutPolicy raw) tp_timeoutMs),
           ct_readOnlyTimeoutMs = truthy_nat (Option.bind (rc_timeoutPolicy raw) tp_readOnlyTimeoutMs) None,
           ct_writeTimeoutMs = truthy_nat (Option.bind (rc_timeoutPolicy raw) tp_writeTimeoutMs) None\<rparr> }"

text \<open>The outer option is the exception, the inner one the \<open>null\<close> result.\<close>

definition normalizeScopeContract :: "host \<Rightarrow> job \<Rightarrow> contract option option" where
  "normalizeScopeContract h j = (case rawScopeContractInput j of None \<Rightarrow> Some None
     | Some raw \<Rightarrow> map_option Some (normalize_contract h j raw))"

definition scopeContractPathInputs :: "contract option \<Rightarrow> string list" where
  "scopeContractPathInputs c = (case c of None \<Rightarrow> [] | Some c \<Rightarrow>
     ct_read c @ ct_write c @ ct_forbidden c @ ct_allowedEdits c @ ct_shared c @ ct_serialOnly c)"

definition scopeContractWritePathInputs :: "contract option \<Rightarrow> string list" where
  "scopeContractWritePathInputs c = (case c of None \<Rightarrow> [] | Some c \<Rightarrow>
     ct_write c @ ct_allowedEdits c @ ct_shared c @ ct_serialOnly c)"

definition scopeContractTimeout :: "contract option \<Rightarrow> string \<Rightarrow> nat option" where
  "scopeContractTimeout c lt = (case c of None \<Rightarrow> None | Some c \<Rightarrow>
     (case ct_timeoutMs c of Some t \<Rightarrow> Some t
      | None \<Rightarrow> if lt = ''read'' then ct_readOnlyTimeoutMs c else ct_writeTimeoutMs c))"

section \<open>Serial-only matches\<close>

definition serial_label :: "string \<Rightarrow> string \<Rightarrow> string" where
  "serial_label candidate pattern = candidate @ '' ('' @ pattern @ '')''"

definition findSerialOnlyMatches :: "host \<Rightarrow> string list \<Rightarrow> string list \<Rightarrow> string \<Rightarrow> string list option" where
  "findSerialOnlyMatches h paths serialOnlyPaths cwd =
    (let patterns = mergePathLists [SERIAL_ONLY_PATHS, serialOnlyPaths] in
     map_option (\<lambda>hits. uniq (map (\<lambda>(c, p). serial_label c p) hits))
       (opt_filter (\<lambda>(c, p). pathOverlapsSerialPattern h c p cwd)
          (List.product (normalizeLockPathList paths) patterns)))"

text \<open>Equations without abstractions over evaluated data, for evaluation by the kernel.\<close>

definition serial_pair :: "host \<Rightarrow> string \<Rightarrow> string \<times> string \<Rightarrow> bool option" where
  "serial_pair h cwd cp = pathOverlapsSerialPattern h (fst cp) (snd cp) cwd"

definition pair_label :: "string \<times> string \<Rightarrow> string" where
  "pair_label cp = serial_label (fst cp) (snd cp)"

definition pair_labels :: "(string \<times> string) list \<Rightarrow> string list" where
  "pair_labels hits = uniq (map pair_label hits)"

lemma findSerialOnlyMatches_code [code]: "findSerialOnlyMatches h paths serials cwd =
     map_option pair_labels (opt_filter (serial_pair h cwd)
          (List.product (normalizeLockPathList paths) (mergePathLists [SERIAL_ONLY_PATHS, serials])))"
  by (simp add: findSerialOnlyMatches_def pair_labels_def [abs_def] serial_pair_def [abs_def] pair_label_def [abs_def] split_def)

section \<open>Project policy\<close>

record project_policy =
  pp_owners :: "(string \<times> string list) list"
  pp_sharedFiles :: "string list"
  pp_serialOnly :: "string list"
  pp_forbiddenEdits :: "string list"
  pp_finalValidationCommand :: string
  pp_requiresWorktrees :: bool

text \<open>The raw policy after its schema; an owner value given as one string is a one-element list.\<close>

record raw_policy =
  rp_owners :: "(string \<times> string list) list"
  rp_sharedFiles :: "string list"
  rp_contracts :: "string list"
  rp_serialOnly :: "string list"
  rp_forbiddenEdits :: "string list"
  rp_finalValidationCommand :: string
  rp_requiresWorktrees :: bool

definition ownerMatchesPolicyValue :: "string \<Rightarrow> string list \<Rightarrow> bool" where
  "ownerMatchesPolicyValue own vals \<longleftrightarrow> own \<noteq> [] \<and> own \<in> set (map js_trim vals)"

text \<open>\<open>Object.fromEntries\<close>: a repeated key keeps its first position and takes the last value.\<close>

fun from_entries :: "(string \<times> 'v) list \<Rightarrow> (string \<times> 'v) list" where
  "from_entries [] = []"
| "from_entries ((k, v) # kvs) =
     (k, case map_of (rev kvs) k of None \<Rightarrow> v | Some w \<Rightarrow> w) # filter (\<lambda>(k', _). k' \<noteq> k) (from_entries kvs)"

definition normalizeProjectAgentPolicy :: "raw_policy \<Rightarrow> project_policy" where
  "normalizeProjectAgentPolicy raw =
    \<lparr>pp_owners = from_entries (filter (\<lambda>(k, _). k \<noteq> []) (map (\<lambda>(k, v). (normalizeLockPath k, v)) (rp_owners raw))),
     pp_sharedFiles = mergePathLists [DEFAULT_SHARED_FILE_PATHS, rp_sharedFiles raw, rp_contracts raw],
     pp_serialOnly = mergePathLists [SERIAL_ONLY_PATHS, rp_serialOnly raw],
     pp_forbiddenEdits = mergePathLists [DEFAULT_FORBIDDEN_EDIT_PATHS, rp_forbiddenEdits raw],
     pp_finalValidationCommand = js_trim (rp_finalValidationCommand raw),
     pp_requiresWorktrees = rp_requiresWorktrees raw\<rparr>"

definition or_string :: "string \<Rightarrow> string \<Rightarrow> string" where
  "or_string a b = (if a \<noteq> [] then a else b)"

definition dg_list :: "(delegation \<Rightarrow> string list) \<Rightarrow> job \<Rightarrow> string list" where
  "dg_list f j = (case job_delegation j of None \<Rightarrow> [] | Some d \<Rightarrow> f d)"

text \<open>The first of the three write lists that is given, also when it is empty.\<close>

definition write_scope_of :: "job \<Rightarrow> string list" where
  "write_scope_of j =
    (case Option.bind (job_scope j) sp_write of Some w \<Rightarrow> w | None \<Rightarrow>
     (case Option.bind (Option.bind (scopeContract j) rc_scope) sp_write of Some w \<Rightarrow> w | None \<Rightarrow>
      (case Option.bind (Option.bind (Option.bind (job_delegation j) dg_scopeContract) rc_scope) sp_write of
         Some w \<Rightarrow> w | None \<Rightarrow> [])))"

definition apply_policy_job :: "project_policy \<Rightarrow> bool \<Rightarrow> job \<Rightarrow> job" where
  "apply_policy_job pol infer j =
    (let own = js_trim (or_string (owner j) (or_string (role j) (agent j)));
         owned = map fst (filter (\<lambda>(_, v). ownerMatchesPolicyValue own v) (pp_owners pol));
         others = map fst (filter (\<lambda>(_, v). \<not> ownerMatchesPolicyValue own v) (pp_owners pol));
         writeScope = normalizeLockPathList (write_scope_of j);
         shouldInfer = (infer \<and> (write_flag j = Some True \<or> writeScope \<noteq> []) \<and> owned \<noteq> []);
         inferred = (if shouldInfer then owned else []);
         locked = firstNonEmptyList [lockedPaths j, ownedPaths j, dg_list dg_lockedPaths j, inferred];
         edits = firstNonEmptyList [allowedEdits j, dg_list dg_allowedEdits j, writeScope, inferred];
         forb = mergePathLists [forbiddenEdits j, dg_list dg_forbiddenEdits j, pp_forbiddenEdits pol,
                  pp_sharedFiles pol, pp_serialOnly pol, others];
         shar = mergePathLists [sharedFiles j, dg_list dg_sharedFiles j, pp_sharedFiles pol];
         ser = mergePathLists [serialOnly j, dg_list dg_serialOnly j, pp_serialOnly pol];
         con = (if rawScopeContractInput j \<noteq> None then scopeContract j
                else if shouldInfer then Some
                  \<lparr>rc_agent = agent j, rc_role = own, rc_mode = ''write'', rc_read = mergePathLists [owned, shar],
                   rc_write = edits, rc_allowedEdits = edits, rc_forbidden = forb, rc_shared = shar,
                   rc_serialOnly = ser,
                   rc_validationCommand = or_string (validationCommand j)
                     (case job_delegation j of None \<Rightarrow> [] | Some d \<Rightarrow> dg_validationCommand d),
                   rc_scope = None, rc_actions = [], rc_validation = None, rc_timeoutMs = None,
                   rc_timeoutPolicy = None, rc_modelRequirement = None, rc_selfCheckCommands = None\<rparr>
                else scopeContract j)
     in j\<lparr>lockedPaths := locked, allowedEdits := edits, forbiddenEdits := forb, sharedFiles := shar,
          serialOnly := ser, scopeContract := con\<rparr>)"

definition applyProjectPolicyToJobs :: "job list \<Rightarrow> project_policy option \<Rightarrow> bool \<Rightarrow> job list" where
  "applyProjectPolicyToJobs jobs policy infer =
     (case policy of None \<Rightarrow> jobs | Some pol \<Rightarrow> map (apply_policy_job pol infer) jobs)"

section \<open>Relative lock paths are their own comparison candidates\<close>

lemma filter_segments:
  assumes "normal_path p" "p \<noteq> ''.''" "\<not> is_abs p"
  shows "\<forall>w \<in> set (split_on slash p). w \<noteq> [] \<and> w \<noteq> ''.''"
proof -
  have "no_double (join_with ''/'' ws) \<Longrightarrow> no_dot_seg (join_with ''/'' ws) \<Longrightarrow> ws \<noteq> [] \<Longrightarrow>
      \<forall>w \<in> set ws. slash \<notin> set w \<Longrightarrow> last (join_with ''/'' ws) \<noteq> slash \<or> ws = [[]] \<Longrightarrow>
      \<forall>w \<in> set (tl ws). w \<noteq> [] \<and> w \<noteq> ''.''" for ws
  proof (induction ws)
    case (Cons w ws)
    show ?case
    proof (cases ws)
      case (Cons v vs)
      have j: "join_with ''/'' (w # ws) = w @ slash # join_with ''/'' ws" using Cons by simp
      have nd: "no_double (slash # join_with ''/'' ws)" "no_dot_seg (slash # join_with ''/'' ws)"
        using Cons.prems(1,2) unfolding j by (metis no_double_append, metis no_dot_seg_append)
      have v: "v \<noteq> [] \<and> v \<noteq> ''.''"
      proof (cases vs)
        case Nil
        have "v \<noteq> []" using Cons.prems(5) j Cons Nil by (auto split: if_splits)
        then show ?thesis using nd Cons Nil by (auto simp: no_dot_seg_Cons)
      next
        case (Cons u us)
        then have "join_with ''/'' ws = v @ slash # join_with ''/'' (u # us)" using \<open>ws = v # vs\<close> by simp
        then show ?thesis using nd by (cases v) (auto simp: no_dot_seg_Cons)
      qed
      have "last (join_with ''/'' ws) \<noteq> slash \<or> ws = [[]]"
        using Cons.prems(5) j Cons by (cases "join_with ''/'' ws = []") (auto split: if_splits)
      then have "\<forall>x \<in> set (tl ws). x \<noteq> [] \<and> x \<noteq> ''.''"
        using Cons.IH nd Cons.prems(4) Cons by (auto simp: no_double_Cons no_dot_seg_Cons)
      then show ?thesis using v Cons by simp
    qed simp
  qed simp
  from this [of "split_on slash p"] have t: "\<forall>w \<in> set (tl (split_on slash p)). w \<noteq> [] \<and> w \<noteq> ''.''"
    using assms(1) by (auto simp: normal_path_def dest: split_on_no_sep)
  obtain w ws where w: "split_on slash p = w # ws" by (cases "split_on slash p") auto
  then have p: "p = join_with ''/'' (w # ws)" by (metis join_split)
  have "w \<noteq> [] \<and> w \<noteq> ''.''"
  proof (cases ws)
    case Nil
    then show ?thesis using p assms by (auto simp: normal_path_def)
  next
    case (Cons v vs)
    then have "p = w @ slash # join_with ''/'' ws" using p by simp
    then show ?thesis using assms by (auto simp: normal_path_def is_abs_def)
  qed
  then show ?thesis using t w by simp
qed

lemma to_slashes_normal: "normal_path p \<Longrightarrow> to_slashes p = p"
  unfolding to_slashes_def by (intro map_idI) (auto simp: normal_path_def)

text \<open>A literal relative path: normal, trimmed, with no \<open>..\<close> segment.\<close>

definition plain_relative :: "string \<Rightarrow> bool" where
  "plain_relative p \<longleftrightarrow> normal_path p \<and> js_trim p = p \<and> p \<noteq> ''.'' \<and> \<not> isAbsolutePathLike p
     \<and> ''..'' \<notin> set (split_on slash p)"

lemma plain_relative_normal: "plain_relative p \<Longrightarrow> normalizeLockPath p = p"
  by (simp add: plain_relative_def normalizeLockPath_fix)

text \<open>An entry as written, whose normal form is such a path.\<close>

definition plain_entry :: "string \<Rightarrow> bool" where
  "plain_entry v \<longleftrightarrow> plain_relative (normalizeLockPath v) \<and> \<not> hasParentTraversalSegment (js_trim v)
     \<and> \<not> isAbsolutePathLike (js_trim v)"

lemma plain_entry_forCwd:
  assumes "plain_entry v" "cwd \<noteq> []"
  shows "normalizeLockPathForCwd h v cwd = normalizeFilesystemCase h (normalizeLockPath v) (path_resolve h cwd)"
proof -
  define p where "p = normalizeLockPath v"
  let ?root = "path_resolve h cwd" and ?segs = "split_on slash p"
  have pr: "plain_relative p" using assms(1) by (simp add: plain_entry_def p_def)
  have rel: "\<not> is_abs p" using pr by (auto simp: plain_relative_def isAbsolutePathLike_def is_abs_def)
  have ok: "\<forall>w \<in> set ?segs. w \<noteq> [] \<and> w \<noteq> ''.''"
    using pr rel by (intro filter_segments) (auto simp: plain_relative_def)
  then have f: "filter (\<lambda>w. w \<noteq> [] \<and> w \<noteq> ''.'') ?segs = ?segs" by (simp add: filter_id_conv)
  have n: "norm_segs (path_resolve2 h ?root p) = norm_segs ?root @ ?segs"
    using resolve2_relative [of ?root p h] rel f pr by (simp add: plain_relative_def)
  have "norm_segs (path_resolve h (path_resolve2 h ?root p)) = norm_segs (path_resolve2 h ?root p)"
    using rel by (simp add: path_resolve2_def norm_segs_path_resolve)
  then have "path_relative h ?root (path_resolve2 h ?root p) = p"
    by (simp add: path_relative_def n relative_segs_prefix)
  then show ?thesis using assms plain_relative_normal [OF pr] pr
    by (simp add: normalizeLockPathForCwd_def Let_def plain_entry_def plain_relative_def normal_path_def p_def [symmetric])
qed

lemma plain_entry_candidates:
  assumes "plain_entry v" "js_lower (normalizeLockPath v) = normalizeLockPath v"
  shows "comparePathCandidates h v cwd = [normalizeLockPath v]"
proof -
  define p where "p = normalizeLockPath v"
  have pr: "plain_relative p" using assms(1) by (simp add: plain_entry_def p_def)
  have n: "normalizeFilesystemCase h p c = p" for c using assms(2) by (simp add: normalizeFilesystemCase_def p_def)
  have s: "strip_tail (squeeze (to_slashes p)) = p"
    using pr by (auto simp: plain_relative_def to_slashes_normal squeeze_id strip_tail_id normal_path_def)
  have ne: "p \<noteq> []" using pr by (auto simp: plain_relative_def normal_path_def)
  show ?thesis
    using plain_entry_forCwd [OF assms(1), of cwd h, folded p_def] n s ne
    by (simp add: comparePathCandidates_def p_def [symmetric])
qed

section \<open>Matcher lists\<close>

text \<open>One entry whose matcher accepts is enough, provided every entry compiles.\<close>

lemma list_ex_union: "list_ex (\<lambda>x. P x \<or> Q x) xs = (list_ex P xs \<or> list_ex Q xs)"
  by (induction xs) auto

lemma within_cons:
  "isWithinAnyPath h f (p # ps) cwd =
    do { a \<leftarrow> isWithinAnyPath h f [p] cwd; b \<leftarrow> isWithinAnyPath h f ps cwd; Some (a \<or> b) }"
proof -
  let ?M = "\<lambda>p. opt_map (allowed_matcher h cwd (wants_descendants p)) (comparePathCandidates h p cwd)"
  have "matchesAnyAllowed h f (a @ b) cwd = (matchesAnyAllowed h f a cwd \<or> matchesAnyAllowed h f b cwd)" for a b
    by (simp add: matchesAnyAllowed_def list_ex_union)
  then show ?thesis
    unfolding isWithinAnyPath_def allowedPathMatchers_def
    by (cases "?M p"; cases "opt_map ?M ps") simp_all
qed

lemma within_Nil: "isWithinAnyPath h f [] cwd = Some False"
  by (auto simp: isWithinAnyPath_def allowedPathMatchers_def matchesAnyAllowed_def list_ex_iff)

lemma within_defined:
  "\<forall>p \<in> set qs. isWithinAnyPath h f [p] cwd \<noteq> None \<Longrightarrow> isWithinAnyPath h f qs cwd \<noteq> None"
proof (induction qs)
  case (Cons q qs)
  then show ?case by (auto simp: within_cons [of h f q qs])
qed (simp add: within_Nil)

lemma within_True:
  "\<forall>p \<in> set ps. isWithinAnyPath h f [p] cwd \<noteq> None \<Longrightarrow> p \<in> set ps \<Longrightarrow>
   isWithinAnyPath h f [p] cwd = Some True \<Longrightarrow> isWithinAnyPath h f ps cwd = Some True"
proof (induction ps)
  case (Cons q ps)
  obtain a where a: "isWithinAnyPath h f [q] cwd = Some a" using Cons.prems(1) by auto
  obtain b where b: "isWithinAnyPath h f ps cwd = Some b" using within_defined [of ps h f cwd] Cons.prems(1) by auto
  have "a \<or> b" using a b Cons by (cases "p = q") auto
  then show ?case using a b by (simp add: within_cons [of h f q ps])
qed simp

lemma within_False:
  "isWithinAnyPath h f ps cwd = Some False \<Longrightarrow> p \<in> set ps \<Longrightarrow> isWithinAnyPath h f [p] cwd = Some False"
proof (induction ps)
  case (Cons q ps)
  then show ?case by (auto simp: within_cons [of h f q ps] bind_eq_Some_conv)
qed simp

lemma within_plain:
  assumes "plain_entry v" "js_lower (normalizeLockPath v) = normalizeLockPath v"
  shows "isWithinAnyPath h f [v] cwd =
    map_option (\<lambda>m. list_ex m (comparePathCandidates h f cwd))
      (allowed_matcher h cwd (wants_descendants v) (normalizeLockPath v))"
  using plain_entry_candidates [OF assms, of h cwd]
  by (cases "allowed_matcher h cwd (wants_descendants v) (normalizeLockPath v)")
     (simp_all add: isWithinAnyPath_def allowedPathMatchers_def matchesAnyAllowed_def)

lemma matcher_literal: "\<not> has_glob p \<Longrightarrow> allowed_matcher h cwd d p = Some (literal_match p)"
  by (simp add: allowed_matcher_def)

lemma matcher_star:
  "has_star p \<Longrightarrow> globToRegex p d = Some g \<Longrightarrow>
   allowed_matcher h cwd d p = Some (\<lambda>f. literal_match p f \<or> rx_match g f)"
  by (auto simp: allowed_matcher_def has_star_def has_glob_def glob_char_def names_existing_def list_ex_iff)


section \<open>The default forbidden paths\<close>

text \<open>Entries that mean the same for every root: literal, or with a star and a valid expression.\<close>

definition fixed_entry :: "string \<Rightarrow> bool" where
  "fixed_entry v \<longleftrightarrow> (let p = normalizeLockPath v in
     plain_entry v \<and> js_lower p = p \<and>
     (\<not> has_glob p \<or> has_star p \<and> globToRegex p (wants_descendants v) \<noteq> None))"

lemma fixed_entry_compiles: "fixed_entry v \<Longrightarrow> isWithinAnyPath h f [v] cwd \<noteq> None"
  using matcher_literal [of "normalizeLockPath v" h cwd "wants_descendants v"]
    matcher_star [of "normalizeLockPath v" "wants_descendants v" _ h cwd]
  by (auto simp: fixed_entry_def Let_def within_plain)

lemma default_forbidden_fixed: "list_all fixed_entry DEFAULT_FORBIDDEN_EDIT_PATHS"
  by code_simp

lemma git_tree_regex:
  "globToRegex ''**/.git/**'' True =
     Some (Alt [[], [Star AnyChar, Lit slash]] # map Lit ''.git'' @ [Alt [[], [Lit slash, Star AnyChar]]])"
  "globToRegex ''**/.git/**'' (wants_descendants ''**/.git/**'') = globToRegex ''**/.git/**'' True"
  by code_simp+

lemma git_segment_matches:
  assumes "''.git'' \<in> set (split_on slash g)" "\<forall>c \<in> set g. \<not> line_break c"
  shows "literal_match ''.git'' g \<or>
    rx_match (Alt [[], [Star AnyChar, Lit slash]] # map Lit ''.git'' @ [Alt [[], [Lit slash, Star AnyChar]]]) g"
proof -
  obtain as bs where s: "split_on slash g = as @ ''.git'' # bs" using assms(1) by (meson split_list)
  define tail where "tail = (if bs = [] then [] else slash # join_with ''/'' bs)"
  have tl: "join_with ''/'' (''.git'' # bs) = ''.git'' @ tail" by (cases bs) (auto simp: tail_def)
  have g: "g = join_with ''/'' (as @ ''.git'' # bs)" using s by (metis join_split)
  show ?thesis
  proof (cases "as = []")
    case True
    then show ?thesis using g tl by (auto simp: literal_match_def tail_def starts_with_iff)
  next
    case False
    then have g2: "g = join_with ''/'' as @ slash # ''.git'' @ tail"
      using g tl join_append [OF False, of "''.git'' # bs" "''/''"] by simp
    have "\<forall>c \<in> set (join_with ''/'' as). \<not> line_break c" "\<forall>c \<in> set tail. \<not> line_break c"
      using assms(2) unfolding g2 by auto
    moreover have "rx_match (map Lit ''.git'' @ [Alt [[], [Lit slash, Star AnyChar]]]) (''.git'' @ tail)"
      unfolding rx_match_lits rx_match_append_Nil using calculation(2) by (auto simp: tail_def)
    ultimately have "rx_match (Star AnyChar # Lit slash # map Lit ''.git'' @ [Alt [[], [Lit slash, Star AnyChar]]]) g"
      unfolding rx_match_star_any
      by (intro exI [of _ "join_with ''/'' as"] exI [of _ "slash # ''.git'' @ tail"]) (simp add: g2)
    then show ?thesis by simp
  qed
qed

lemma git_entries:
  "''.git'' \<in> set DEFAULT_FORBIDDEN_EDIT_PATHS" "''**/.git/**'' \<in> set DEFAULT_FORBIDDEN_EDIT_PATHS"
  "fixed_entry ''.git''" "fixed_entry ''**/.git/**''"
  "normalizeLockPath ''.git'' = ''.git''" "normalizeLockPath ''**/.git/**'' = ''**/.git/**''"
  "\<not> has_glob ''.git''" "has_star ''**/.git/**''"
  by code_simp+

text \<open>A file below a \<open>.git\<close> segment is matched by one of the two entries alone.\<close>

lemma git_entry_matches:
  assumes "comparePathCandidates h f cwd = [g]"
    and "''.git'' \<in> set (split_on slash g)" "\<forall>c \<in> set g. \<not> line_break c"
  shows "isWithinAnyPath h f [''.git''] cwd = Some True \<or> isWithinAnyPath h f [''**/.git/**''] cwd = Some True"
  using git_segment_matches [OF assms(2,3)]
proof
  assume "literal_match ''.git'' g"
  then show ?thesis
    using git_entries(3,5,7) assms(1) by (simp add: within_plain fixed_entry_def Let_def matcher_literal)
next
  assume "rx_match (Alt [[], [Star AnyChar, Lit slash]] # map Lit ''.git'' @ [Alt [[], [Lit slash, Star AnyChar]]]) g"
  then have "isWithinAnyPath h f [''**/.git/**''] cwd = Some True"
    using git_entries(4,6) assms(1) matcher_star [OF git_entries(8) git_tree_regex(1) [folded git_tree_regex(2)], of h cwd]
    by (simp add: within_plain fixed_entry_def Let_def del: rx_match.simps)
  then show ?thesis ..
qed

lemma fixed_entry_forCwd:
  assumes "fixed_entry v" shows "normalizeLockPathForCwd h v cwd = normalizeLockPath v"
proof (cases "cwd = []")
  case True
  then show ?thesis by (simp add: normalizeLockPathForCwd_def Let_def)
next
  case False
  then show ?thesis using plain_entry_forCwd [of v cwd h] assms
    by (simp add: fixed_entry_def Let_def normalizeFilesystemCase_def)
qed

text \<open>The default forbidden paths match every path with a .git segment, at any depth.\<close>

theorem git_control_surface_forbidden:
  assumes "comparePathCandidates h f cwd = [g]"
    and "''.git'' \<in> set (split_on slash g)" "\<forall>c \<in> set g. \<not> line_break c"
  shows "isWithinAnyPath h f DEFAULT_FORBIDDEN_EDIT_PATHS cwd = Some True"
proof -
  have compiles: "\<forall>p \<in> set DEFAULT_FORBIDDEN_EDIT_PATHS. isWithinAnyPath h f [p] cwd \<noteq> None"
    using default_forbidden_fixed fixed_entry_compiles by (simp add: list_all_iff)
  from git_entry_matches [OF assms] show ?thesis
    using within_True [OF compiles git_entries(1)] within_True [OF compiles git_entries(2)] by blast
qed

theorem git_control_surface_forbidden_witness:
  "isWithinAnyPath sample_host ''vendor/dep/.git/hooks/post-checkout'' DEFAULT_FORBIDDEN_EDIT_PATHS ''/r'' = Some True"
  by (rule git_control_surface_forbidden [of _ _ _ "''vendor/dep/.git/hooks/post-checkout''"]) code_simp+

end
