(* ===== verification/OrchestratorPolicy.thy ===== *)
theory OrchestratorPolicy
  imports ScopeContract
begin

text \<open>
  Model of \<open>lib/orchestrator-policy.js\<close>: write intent, agent roles, orchestrator modes, the
  contractor authorization and its queue proof, and the routing rules.  The digests of
  \<open>node:crypto\<close> are fields of the configuration (they are not code of the repository).
  A planning function returns \<open>None\<close> when it throws, \<open>Some None\<close> when it has no objection
  and \<open>Some (Some e)\<close> when it refuses; message texts are not modelled, error types are.
\<close>

section \<open>Configuration, plans and refusals\<close>

record config =
  host_of :: host
  sha256_hex :: "string \<Rightarrow> string"
  hmac_sha256_hex :: "string \<Rightarrow> string \<Rightarrow> string"
  queueCapabilityKey :: string
  contractorAuthorizationSha256 :: string
  selfTest :: bool
  selfTestContractorAuthorizationSha256 :: string
  mcpOrchestratorAgent :: string
  mcpContractorOrchestratorAgent :: string
  defaultReadLockMode :: string
  defaultWriteLockMode :: string
  defaultParallelWriteLockMode :: string
  parallelLimit :: nat
  worktreeMode :: string
  providerConcurrencyKey :: string
  providerLimitForKey :: "string \<Rightarrow> nat"
  validationExecutableAllowlist :: "string list"

record lock_plan =
  lp_index :: nat
  lp_agent :: string
  lp_task :: string
  lp_cwd :: string
  lp_lockMode :: string
  lp_lockType :: string
  lp_orchestratorMode :: string
  lp_userAuthorizedOrchestrator :: bool
  lp_contractorAuthorizationVerified :: bool
  lp_lockedPaths :: "string list"
  lp_allowedEdits :: "string list"
  lp_forbiddenEdits :: "string list"
  lp_sharedFiles :: "string list"
  lp_serialOnly :: "string list"
  lp_scopeContract :: "contract option"
  lp_sanitizedWorkspace :: bool
  lp_validationCommand :: string
  lp_timeoutMs :: "nat option"
  lp_requestedLockMode :: "string option"

text \<open>One refusal without an error type exists in the code, hence the option.\<close>

datatype plan_error = PlanError (errorType: "string option") (conflictingPaths: "string list")
  (serialOnlyMatches: "string list")

definition refusal :: "string \<Rightarrow> plan_error" where
  "refusal t = PlanError (Some t) [] []"

type_synonym verdict = "plan_error option option"

abbreviation no_error :: verdict where "no_error \<equiv> Some None"

definition refuse_if :: "bool \<Rightarrow> plan_error \<Rightarrow> verdict" where
  "refuse_if c e = Some (if c then Some e else None)"

text \<open>A sequence of guards with early return: the first refusal or exception wins.\<close>

fun checks :: "verdict list \<Rightarrow> verdict" where
  "checks [] = no_error"
| "checks (c # cs) = (case c of None \<Rightarrow> None | Some (Some e) \<Rightarrow> Some (Some e) | Some None \<Rightarrow> checks cs)"

declare checks.simps [simp del]

lemma refuse_if_None [simp, js_simps]: "refuse_if c e = no_error \<longleftrightarrow> \<not> c"
  by (simp add: refuse_if_def)

lemma refuse_if_defined [simp, js_simps]: "refuse_if c e \<noteq> None"
  by (simp add: refuse_if_def)

lemma checks_no_error [simp, js_simps]: "checks cs = no_error \<longleftrightarrow> (\<forall>c \<in> set cs. c = no_error)"
  by (induction cs) (auto simp: checks.simps split: option.splits)

lemma checks_append: "checks (as @ bs) = (case checks as of Some None \<Rightarrow> checks bs | r \<Rightarrow> r)"
  by (induction as) (auto simp: checks.simps split: option.splits)

lemma checks_first:
  assumes "checks cs = Some (Some e)"
  shows "\<exists>as bs. cs = as @ Some (Some e) # bs \<and> (\<forall>c \<in> set as. c = no_error)"
  using assms
proof (induction cs)
  case (Cons c cs)
  show ?case
  proof (cases "c = no_error")
    case True
    with Cons obtain as bs where "cs = as @ Some (Some e) # bs" "\<forall>c \<in> set as. c = no_error"
      by (auto simp: checks.simps)
    then have "c # cs = (c # as) @ Some (Some e) # bs \<and> (\<forall>c \<in> set (c # as). c = no_error)" using True by simp
    then show ?thesis by blast
  next
    case False
    then have "c # cs = [] @ Some (Some e) # cs" using Cons.prems by (auto simp: checks.simps split: option.splits)
    then show ?thesis by (metis empty_iff empty_set)
  qed
qed (simp add: checks.simps)

section \<open>Agents\<close>

definition WRITE_CAPABLE_AGENTS :: "string set" where
  "WRITE_CAPABLE_AGENTS = {''build'', ''builder'', ''debugger'', ''general''}"

definition READ_ONLY_PARALLEL_AGENTS :: "string set" where
  "READ_ONLY_PARALLEL_AGENTS = {''planner'', ''reviewer'', ''architect'', ''explore'', ''explorer'', ''tester'',
     ''mcp-sanitized-reader''}"

definition ORCHESTRATOR_AGENT_ALIASES :: "string set" where
  "ORCHESTRATOR_AGENT_ALIASES = {''orchestrator'', ''principal-engineer-orchestrator'', ''opencode-orchestrator-standalone''}"

definition agent_name :: "string \<Rightarrow> string" where
  "agent_name a = js_lower (js_trim a)"

fun read_only_text :: "string \<Rightarrow> bool" where
  "read_only_text [] = False"
| "read_only_text (c # s) = (starts_with ''read-only'' (js_lower (c # s)) \<or> read_only_text s)"

definition hasWriteIntent :: "config \<Rightarrow> job \<Rightarrow> bool option" where
  "hasWriteIntent cf j =
    (if write_flag j = Some True then Some True else
     do { sc \<leftarrow> normalizeScopeContract (host_of cf) j;
          if (case sc of None \<Rightarrow> False | Some c \<Rightarrow> ct_mode c = ''write'' \<or> ct_write c \<noteq> []) then Some True
          else if write_flag j = Some False then Some False
          else let a = agent_name (agent j);
                   edits = normalizeList (allowedEdits j) @ normalizeList (dg_list dg_allowedEdits j);
                   permissions = (case job_delegation j of None \<Rightarrow> [] | Some d \<Rightarrow> dg_permissions d)
               in if a = ''debugger'' \<and> (edits = [] \<or> read_only_text permissions) then Some False
                  else if a \<in> READ_ONLY_PARALLEL_AGENTS then Some False
                  else Some (a \<in> WRITE_CAPABLE_AGENTS) })"

definition isOrchestratorAgent :: "config \<Rightarrow> string \<Rightarrow> bool" where
  "isOrchestratorAgent cf a = (let n = agent_name a in n \<in> ORCHESTRATOR_AGENT_ALIASES
     \<or> n = js_lower (mcpOrchestratorAgent cf) \<or> n = js_lower (mcpContractorOrchestratorAgent cf))"

definition isManagedReadOnlyAgent :: "config \<Rightarrow> string \<Rightarrow> bool" where
  "isManagedReadOnlyAgent cf a = (let n = agent_name a in n \<in> READ_ONLY_PARALLEL_AGENTS
     \<or> n \<in> ORCHESTRATOR_AGENT_ALIASES \<or> n = js_lower (mcpOrchestratorAgent cf))"

text \<open>The resolved agent and the plan may be absent.\<close>

definition readOnlyRoutingPolicyError :: "string option \<Rightarrow> lock_plan option \<Rightarrow> plan_error option" where
  "readOnlyRoutingPolicyError actual plan =
    (let a = agent_name (case actual of None \<Rightarrow> [] | Some a \<Rightarrow> a) in
     if (case plan of None \<Rightarrow> False | Some p \<Rightarrow> lp_lockType p = ''read'') \<and> a \<in> WRITE_CAPABLE_AGENTS
     then Some (refusal ''read_only_proxy_unsafe'') else None)"

section \<open>Orchestrator modes\<close>

definition dg_string :: "(delegation \<Rightarrow> string) \<Rightarrow> job \<Rightarrow> string" where
  "dg_string f j = (case job_delegation j of None \<Rightarrow> [] | Some d \<Rightarrow> f d)"

definition requestedOrchestratorMode :: "job \<Rightarrow> string" where
  "requestedOrchestratorMode j = js_lower (js_trim (or_string (orchestratorMode j) (dg_string dg_orchestratorMode j)))"

definition normalizeOrchestratorModeValue :: "string \<Rightarrow> string" where
  "normalizeOrchestratorModeValue value = (let raw = js_lower (js_trim value) in
     if raw \<in> {''planning'', ''planning_only'', ''plan-only'', ''plan_only'', ''readonly'', ''read-only''}
     then ''planning-only''
     else if raw \<in> {''contractor'', ''broker'', ''delegated-contractor'', ''full-delegation''} then ''contractor''
     else if raw \<in> {''bounded'', ''bounded_writer'', ''bounded-writer'', ''writer''} then ''bounded-writer''
     else raw)"

definition userAuthorizedOrchestrator :: "job \<Rightarrow> bool" where
  "userAuthorizedOrchestrator j \<longleftrightarrow> userAuthorizedOrchestrator_flag j
     \<or> (case job_delegation j of None \<Rightarrow> False | Some d \<Rightarrow> dg_userAuthorizedOrchestrator d)"

definition contractorAuthorizationToken :: "job \<Rightarrow> string" where
  "contractorAuthorizationToken j =
     or_string (contractorAuthorizationToken_field j) (dg_string dg_contractorAuthorizationToken j)"

definition hasOrchestratorBoundedWriterShape :: "config \<Rightarrow> job \<Rightarrow> bool option" where
  "hasOrchestratorBoundedWriterShape cf j =
    map_option (\<lambda>sc. write_flag j = Some True
      \<or> (case sc of None \<Rightarrow> False | Some c \<Rightarrow> ct_mode c = ''write'' \<or> ct_write c \<noteq> [])
      \<or> normalizeList (lockedPaths j) \<noteq> [] \<or> normalizeList (ownedPaths j) \<noteq> []
      \<or> normalizeList (allowedEdits j) \<noteq> [] \<or> normalizeList (dg_list dg_lockedPaths j) \<noteq> []
      \<or> normalizeList (dg_list dg_allowedEdits j) \<noteq> []) (normalizeScopeContract (host_of cf) j)"

definition normalizeOrchestratorMode :: "config \<Rightarrow> job \<Rightarrow> string option" where
  "normalizeOrchestratorMode cf j =
    (let raw = requestedOrchestratorMode j in
     if raw = [] then
       (if \<not> isOrchestratorAgent cf (agent j) then Some []
        else map_option (\<lambda>b. if b then ''bounded-writer'' else ''planning-only'') (hasOrchestratorBoundedWriterShape cf j))
     else Some (normalizeOrchestratorModeValue raw))"

section \<open>Contractor authorization\<close>

definition hex_digit :: "char \<Rightarrow> bool" where
  "hex_digit c \<longleftrightarrow> is_digit c \<or> c \<in> set ''abcdef''"

definition is_sha256 :: "string \<Rightarrow> bool" where
  "is_sha256 s \<longleftrightarrow> length s = 64 \<and> list_all hex_digit s"

definition is_proof :: "string \<Rightarrow> bool" where
  "is_proof s \<longleftrightarrow> is_sha256 (take 64 s) \<and> starts_with '':'' (drop 64 s) \<and> is_sha256 (drop 65 s)"

definition nul :: char where "nul = CHR 0x00"

definition effectiveContractorAuthorizationSha256 :: "config \<Rightarrow> string" where
  "effectiveContractorAuthorizationSha256 cf =
    (if selfTest cf \<and> selfTestContractorAuthorizationSha256 cf \<noteq> [] then selfTestContractorAuthorizationSha256 cf
     else contractorAuthorizationSha256 cf)"

definition internalQueueContractorBinding :: "config \<Rightarrow> string \<Rightarrow> string \<Rightarrow> string" where
  "internalQueueContractorBinding cf jobId auth =
     sha256_hex cf (''contractor-binding'' @ [nul] @ auth @ [nul] @ jobId)"

definition currentContractorAuthorizationSha256 :: "config \<Rightarrow> string" where
  "currentContractorAuthorizationSha256 cf =
    (let configured = js_lower (js_trim (effectiveContractorAuthorizationSha256 cf))
     in if is_sha256 configured then configured else [])"

definition makeInternalQueueContractorProof :: "config \<Rightarrow> string \<Rightarrow> string \<Rightarrow> string" where
  "makeInternalQueueContractorProof cf jobId previousProof =
    (let auth = currentContractorAuthorizationSha256 cf in
     if auth = [] then [] else
     let binding = internalQueueContractorBinding cf jobId auth in
     if previousProof \<noteq> [] \<and> (case split_on CHR '':'' previousProof of _ # b # _ \<Rightarrow> b \<noteq> binding | _ \<Rightarrow> True)
     then []
     else hmac_sha256_hex cf (queueCapabilityKey cf) (''contractor'' @ [nul] @ auth @ [nul] @ jobId) @ '':'' @ binding)"

definition internalQueueContractorProofValid :: "config \<Rightarrow> job \<Rightarrow> bool" where
  "internalQueueContractorProofValid cf j =
    (let jobId = internalQueueJobId j; pr = internalQueueContractorProof j in
     if jobId = [] \<or> \<not> is_proof pr then False
     else let expected = makeInternalQueueContractorProof cf jobId [] in
       expected \<noteq> [] \<and> pr = expected)"

definition contractorAuthorizationValid :: "config \<Rightarrow> job \<Rightarrow> bool" where
  "contractorAuthorizationValid cf j =
    (if internalQueueContractorProofValid cf j then True
     else let expected = js_lower (js_trim (effectiveContractorAuthorizationSha256 cf)) in
       is_sha256 expected \<and> sha256_hex cf (contractorAuthorizationToken j) = expected)"

section \<open>Requests for nested writers\<close>

text \<open>
  The pattern is two alternatives of the form \<open>\b(A)\b.{0,50}\b(B)\b\<close> with literal words, matched
  without case: an occurrence of a word of \<open>A\<close>, then one of \<open>B\<close> at most 50 characters later
  on the same line.
\<close>

definition word_char :: "char \<Rightarrow> bool" where
  "word_char c \<longleftrightarrow> is_alnum c \<or> c = CHR ''_''"

text \<open>One of the words starts here: every word begins and ends with a word character.\<close>

definition word_here :: "bool \<Rightarrow> string \<Rightarrow> string \<Rightarrow> bool" where
  "word_here prev s w \<longleftrightarrow> \<not> prev \<and> starts_with w s
     \<and> (case drop (length w) s of [] \<Rightarrow> True | c # _ \<Rightarrow> \<not> word_char c)"

fun word_within :: "nat \<Rightarrow> bool \<Rightarrow> string \<Rightarrow> string list \<Rightarrow> bool" where
  "word_within n prev [] ws = list_ex (word_here prev []) ws"
| "word_within 0 prev (c # s) ws = list_ex (word_here prev (c # s)) ws"
| "word_within (Suc n) prev (c # s) ws = (list_ex (word_here prev (c # s)) ws
     \<or> c \<noteq> CHR 0x0A \<and> c \<noteq> CHR 0x0D \<and> word_within n (word_char c) s ws)"

fun words_near :: "bool \<Rightarrow> string \<Rightarrow> string list \<Rightarrow> string list \<Rightarrow> bool" where
  "words_near prev [] first second = False"
| "words_near prev (c # s) first second =
     (list_ex (\<lambda>w. word_here prev (c # s) w \<and> word_within 50 True (drop (length w) (c # s)) second) first
      \<or> words_near (word_char c) s first second)"

definition detectsOrchestratorInternalWriterRequest :: "string \<Rightarrow> bool" where
  "detectsOrchestratorInternalWriterRequest text =
    (let s = js_lower text in
     words_near False s [''run'', ''spawn'', ''call'', ''invoke'', ''delegate'', ''launch'', ''start'', ''use'']
       [''builder'', ''debugger'', ''writer'', ''write agent'', ''sub-builder'', ''subbuilder'', ''sub-agent'', ''subagent'']
     \<or> words_near False s [''parallel'', ''concurrent''] [''builder'', ''debugger'', ''writer'', ''write agent'', ''write agents''])"

section \<open>Routing rules\<close>

definition shared_package :: "string \<Rightarrow> bool" where
  "shared_package s = (let l = js_lower s in
     list_ex (\<lambda>p. l = p \<or> starts_with (p @ ''/'') l) [''packages/shared'', ''shared''])"

definition findOrchestratorGlobalFileMatches :: "host \<Rightarrow> string list \<Rightarrow> string list option" where
  "findOrchestratorGlobalFileMatches h paths =
    (let normalized = normalizeLockPathList paths in
     map_option (\<lambda>ms. uniq (ms @ map (\<lambda>c. c @ '' (shared package)'') (filter shared_package normalized)))
       (findSerialOnlyMatches h normalized [] []))"

definition orchestratorPolicyError :: "config \<Rightarrow> job \<Rightarrow> lock_plan \<Rightarrow> string \<Rightarrow> verdict" where
  "orchestratorPolicyError cf j plan mode_of_run =
    (if \<not> isOrchestratorAgent cf (agent j) then no_error else
     do { m \<leftarrow> (if lp_orchestratorMode plan \<noteq> [] then Some (lp_orchestratorMode plan)
                 else normalizeOrchestratorMode cf j);
       if m = ''contractor'' then checks [
         refuse_if (\<not> is_sha256 (effectiveContractorAuthorizationSha256 cf)) (refusal ''orchestrator_contractor_disabled''),
         refuse_if (\<not> userAuthorizedOrchestrator j) (refusal ''orchestrator_user_authorization_required''),
         refuse_if (\<not> contractorAuthorizationValid cf j) (refusal ''orchestrator_contractor_capability_invalid''),
         refuse_if (mode_of_run \<noteq> ''single'') (refusal ''orchestrator_contractor_must_run_alone''),
         refuse_if (write_flag j \<noteq> Some True \<or> lp_lockType plan \<noteq> ''write'' \<or> lp_lockMode plan \<notin> {''simple'', ''strict''})
           (refusal ''orchestrator_contractor_scope_required'')]
       else if detectsOrchestratorInternalWriterRequest (task j)
       then Some (Some (refusal ''orchestrator_write_visibility_risk''))
       else if m = ''planning-only''
       then refuse_if (write_flag j = Some True \<or> lp_lockType plan \<noteq> ''read'' \<or> lp_lockMode plan \<noteq> ''off''
              \<or> lp_allowedEdits plan \<noteq> []) (refusal ''orchestrator_write_forbidden'')
       else if m = ''bounded-writer'' then Some (Some (refusal ''orchestrator_write_visibility_risk''))
       else Some (Some (refusal ''orchestrator_large_task_requires_mode'')) })"

section \<open>Admission of orchestrator jobs\<close>

lemma orchestrator_contractor:
  assumes "orchestratorPolicyError cf j plan w = no_error" "isOrchestratorAgent cf (agent j)"
    and "lp_orchestratorMode plan = ''contractor''"
  shows "userAuthorizedOrchestrator j \<and> contractorAuthorizationValid cf j \<and> w = ''single''
    \<and> write_flag j = Some True \<and> lp_lockType plan = ''write'' \<and> lp_lockMode plan \<in> {''simple'', ''strict''}
    \<and> is_sha256 (effectiveContractorAuthorizationSha256 cf)"
  using assms by (simp add: orchestratorPolicyError_def checks_no_error)

lemma orchestrator_planner:
  assumes "orchestratorPolicyError cf j plan w = no_error" "isOrchestratorAgent cf (agent j)"
    and "lp_orchestratorMode plan \<noteq> ''contractor''" "lp_orchestratorMode plan \<noteq> []"
  shows "lp_orchestratorMode plan = ''planning-only'' \<and> write_flag j \<noteq> Some True \<and> lp_lockType plan = ''read''
    \<and> lp_lockMode plan = ''off'' \<and> lp_allowedEdits plan = []
    \<and> \<not> detectsOrchestratorInternalWriterRequest (task j)"
  using assms by (auto simp: orchestratorPolicyError_def split: if_splits)

text \<open>C21: The orchestrator policy lets a contractor through only with the user flag, a valid capability,
  alone and with a locked write contract, and any other orchestrator only as a planner that asks for
  no nested writer.\<close>

theorem orchestrator_admission:
  assumes "isOrchestratorAgent cf (agent j)" "lp_orchestratorMode plan \<noteq> []"
    and "orchestratorPolicyError cf j plan w = no_error"
  shows "if lp_orchestratorMode plan = ''contractor''
    then userAuthorizedOrchestrator j \<and> contractorAuthorizationValid cf j \<and> w = ''single''
      \<and> write_flag j = Some True \<and> lp_lockType plan = ''write'' \<and> lp_lockMode plan \<in> {''simple'', ''strict''}
    else lp_orchestratorMode plan = ''planning-only'' \<and> write_flag j \<noteq> Some True \<and> lp_lockType plan = ''read''
      \<and> lp_lockMode plan = ''off'' \<and> lp_allowedEdits plan = []
      \<and> \<not> detectsOrchestratorInternalWriterRequest (task j)"
proof (cases "lp_orchestratorMode plan = ''contractor''")
  case True
  then show ?thesis using orchestrator_contractor [OF assms(3,1)] by simp
next
  case False
  then show ?thesis using orchestrator_planner [OF assms(3,1) False assms(2)] by simp
qed

definition sample_job :: job where
  "sample_job = \<lparr>agent = ''planner'', task = ''plan'', role = [], owner = [], job_mode = [],
     job_cwd = ''/r'', write_flag = None, lockType = [], lockMode = [], lockedPaths = [], ownedPaths = [],
     allowedEdits = [], forbiddenEdits = [], sharedFiles = [], serialOnly = [], scopeContract = None,
     job_delegation = None, job_scope = None, job_actions = [], job_validation = None, job_timeoutMs = None,
     job_timeoutPolicy = None, validationCommand = [], validationFixPasses = None, selfCheckPasses = None,
     sanitizedWorkspace = False, subagentStrategy = [], continueWorktree = None, autoIntegrate = None,
     job_models = None, maxAttempts = None, allowFallbackToBuild = False, executionMode = [],
     orchestratorMode = [], userAuthorizedOrchestrator_flag = False, contractorAuthorizationToken_field = [],
     internalQueueJobId = [], internalQueueContractorProof = [], dryRun = False, maxWaitMs = None\<rparr>"

text \<open>A digest for concrete runs: it only tells short texts from long ones.\<close>

definition sample_digest :: "string \<Rightarrow> string" where
  "sample_digest s = (if length s < 50 then CHR ''0'' else CHR ''1'') # replicate 63 CHR ''a''"

definition sample_config :: config where
  "sample_config = \<lparr>host_of = sample_host, sha256_hex = sample_digest,
     hmac_sha256_hex = (\<lambda>k m. sample_digest (k @ m)), queueCapabilityKey = ''key'',
     contractorAuthorizationSha256 = sample_digest ''secret'', selfTest = False,
     selfTestContractorAuthorizationSha256 = [], mcpOrchestratorAgent = ''opencode-orchestrator-mcp-planner'',
     mcpContractorOrchestratorAgent = ''opencode-orchestrator-mcp-contractor'', defaultReadLockMode = ''off'',
     defaultWriteLockMode = ''simple'', defaultParallelWriteLockMode = ''strict'', parallelLimit = 6,
     worktreeMode = ''write'', providerConcurrencyKey = ''default'', providerLimitForKey = (\<lambda>_. 2),
     validationExecutableAllowlist = [''node'', ''git'', ''npm'']\<rparr>"

definition sample_plan :: lock_plan where
  "sample_plan = \<lparr>lp_index = 0, lp_agent = ''orchestrator'', lp_task = ''plan'', lp_cwd = ''/r'',
     lp_lockMode = ''off'', lp_lockType = ''read'', lp_orchestratorMode = ''planning-only'',
     lp_userAuthorizedOrchestrator = False, lp_contractorAuthorizationVerified = False, lp_lockedPaths = [],
     lp_allowedEdits = [], lp_forbiddenEdits = [], lp_sharedFiles = [], lp_serialOnly = [],
     lp_scopeContract = None, lp_sanitizedWorkspace = False, lp_validationCommand = [], lp_timeoutMs = None,
     lp_requestedLockMode = None\<rparr>"

theorem orchestrator_admission_witness:
  "lp_lockType sample_plan = ''read'' \<and> \<not> detectsOrchestratorInternalWriterRequest ''plan''"
proof -
  have a: "isOrchestratorAgent sample_config (agent (sample_job\<lparr>agent := ''orchestrator''\<rparr>))" by code_simp
  have b: "orchestratorPolicyError sample_config (sample_job\<lparr>agent := ''orchestrator''\<rparr>) sample_plan ''parallel'' = no_error"
    by code_simp
  have c: "lp_orchestratorMode sample_plan \<noteq> []" by code_simp
  show ?thesis using orchestrator_admission [OF a c b] by (simp add: sample_plan_def sample_job_def)
qed

section \<open>Contractor proofs\<close>

lemma split_on_two:
  assumes "c \<notin> set a" "c \<notin> set b" shows "split_on c (a @ c # b) = [a, b]"
  using assms by (simp add: split_on_append split_on_word)

lemma hex_no_colon: "is_sha256 s \<Longrightarrow> CHR '':'' \<notin> set s"
  by (auto simp: is_sha256_def list_all_iff hex_digit_def is_digit_def)

lemma proof_parts:
  assumes "is_sha256 k" "is_sha256 b"
  shows "is_proof (k @ '':'' @ b)"
  using assms by (simp add: is_proof_def is_sha256_def)


lemma split_proof: "is_sha256 k \<Longrightarrow> is_sha256 b \<Longrightarrow> split_on CHR '':'' (k @ '':'' @ b) = [k, b]"
  using split_on_two [of "CHR '':''" k b] hex_no_colon [of k] hex_no_colon [of b] by simp

lemma authorization_lower: "currentContractorAuthorizationSha256 cf = a \<Longrightarrow> a \<noteq> [] \<Longrightarrow> is_sha256 a"
  by (auto simp: currentContractorAuthorizationSha256_def Let_def split: if_splits)

definition mints :: "config \<Rightarrow> string \<Rightarrow> string \<Rightarrow> bool" where
  "mints cf jobId p \<longleftrightarrow> p \<noteq> [] \<and> p = makeInternalQueueContractorProof cf jobId []"

lemma mints_form:
  assumes "mints cf jobId p"
  shows "currentContractorAuthorizationSha256 cf \<noteq> []"
    and "p = hmac_sha256_hex cf (queueCapabilityKey cf)
        (''contractor'' @ [nul] @ currentContractorAuthorizationSha256 cf @ [nul] @ jobId)
      @ '':'' @ internalQueueContractorBinding cf jobId (currentContractorAuthorizationSha256 cf)"
  using assms by (auto simp: mints_def makeInternalQueueContractorProof_def Let_def split: if_splits)

lemma mints_split:
  assumes "\<And>m. is_sha256 (sha256_hex cf m)" "\<And>k m. is_sha256 (hmac_sha256_hex cf k m)" "mints cf jobId p"
  shows "is_proof p \<and> (\<exists>k. split_on CHR '':'' p
    = [k, internalQueueContractorBinding cf jobId (currentContractorAuthorizationSha256 cf)])"
proof -
  have b: "is_sha256 (internalQueueContractorBinding cf jobId a)" for a
    using assms(1) by (simp add: internalQueueContractorBinding_def)
  show ?thesis
    using proof_parts [OF assms(2) b] split_proof [OF assms(2) b] unfolding mints_form(2) [OF assms(3)] by blast
qed

lemma remint_other_key:
  assumes "\<And>m. is_sha256 (sha256_hex cf m)" "\<And>k m. is_sha256 (hmac_sha256_hex cf k m)" "mints cf jobId p"
    and "cf' = cf\<lparr>queueCapabilityKey := key\<rparr>"
  shows "mints cf' jobId (makeInternalQueueContractorProof cf' jobId p)"
    and "split_on CHR '':'' (makeInternalQueueContractorProof cf' jobId p) ! 1 = split_on CHR '':'' p ! 1"
proof -
  have same: "currentContractorAuthorizationSha256 cf' = currentContractorAuthorizationSha256 cf"
    "internalQueueContractorBinding cf' = internalQueueContractorBinding cf"
    by (simp_all add: assms(4) currentContractorAuthorizationSha256_def effectiveContractorAuthorizationSha256_def internalQueueContractorBinding_def Let_def fun_eq_iff)
  have k: "\<exists>k. split_on CHR '':'' p = [k, internalQueueContractorBinding cf jobId (currentContractorAuthorizationSha256 cf)]"
    using mints_split [OF assms(1-3)] by blast
  then have e: "makeInternalQueueContractorProof cf' jobId p = makeInternalQueueContractorProof cf' jobId []"
    by (auto simp: makeInternalQueueContractorProof_def Let_def same)
  have "makeInternalQueueContractorProof cf' jobId [] \<noteq> []" using mints_form(1) [OF assms(3)]
    by (simp add: makeInternalQueueContractorProof_def Let_def same)
  then show m: "mints cf' jobId (makeInternalQueueContractorProof cf' jobId p)" unfolding mints_def e by simp
  have "\<And>m. is_sha256 (sha256_hex cf' m)" "\<And>k m. is_sha256 (hmac_sha256_hex cf' k m)" using assms(1,2) by (simp_all add: assms(4))
  from mints_split [OF this m] k show "split_on CHR '':'' (makeInternalQueueContractorProof cf' jobId p) ! 1 = split_on CHR '':'' p ! 1"
    by (auto simp: same)
qed

lemma minted_proof_valid:
  assumes "\<And>m. is_sha256 (sha256_hex cf m)" "\<And>k m. is_sha256 (hmac_sha256_hex cf k m)"
    and "internalQueueJobId j \<noteq> []" "mints cf (internalQueueJobId j) (internalQueueContractorProof j)"
  shows "contractorAuthorizationValid cf j"
proof -
  have "is_proof (internalQueueContractorProof j)" using mints_split [OF assms(1,2,4)] by blast
  then have "internalQueueContractorProofValid cf j"
    using assms(3,4) by (auto simp: internalQueueContractorProofValid_def mints_def Let_def)
  then show ?thesis by (simp add: contractorAuthorizationValid_def)
qed

text \<open>C23: A queue proof minted for a job authorizes that job; when a process with any other process key,
  but the same authorization hash, re-mints it at recovery, the new proof keeps the keyless half and
  authorizes the job there; under the same key it is the same proof. The digests are assumed to be 64
  hexadecimal digits.\<close>

theorem contractor_proof_authorizes:
  assumes "\<And>m. is_sha256 (sha256_hex cf m)" "\<And>k m. is_sha256 (hmac_sha256_hex cf k m)"
    and "internalQueueJobId j \<noteq> []" "mints cf (internalQueueJobId j) (internalQueueContractorProof j)"
    and "cf' = cf\<lparr>queueCapabilityKey := key\<rparr>" "p = makeInternalQueueContractorProof cf' (internalQueueJobId j) (internalQueueContractorProof j)"
  shows "contractorAuthorizationValid cf j \<and> contractorAuthorizationValid cf' (j\<lparr>internalQueueContractorProof := p\<rparr>)
    \<and> split_on CHR '':'' p ! 1 = split_on CHR '':'' (internalQueueContractorProof j) ! 1
    \<and> (key = queueCapabilityKey cf \<longrightarrow> p = internalQueueContractorProof j)"
proof -
  let ?id = "internalQueueJobId j" and ?p = "internalQueueContractorProof j"
  note re = remint_other_key [OF assms(1,2,4,5), folded assms(6)]
  have "contractorAuthorizationValid cf' (j\<lparr>internalQueueContractorProof := p\<rparr>)"
    by (rule minted_proof_valid) (use assms(1-3) re(1) in \<open>simp_all add: assms(5)\<close>)
  moreover have "p = ?p" if "key = queueCapabilityKey cf"
  proof -
    have "mints cf ?id p" using re(1) that by (simp add: assms(5))
    then show ?thesis using assms(4) unfolding mints_def by metis
  qed
  ultimately show ?thesis using minted_proof_valid [OF assms(1-4)] re(2) by blast
qed

theorem contractor_proof_authorizes_witness:
  "contractorAuthorizationValid (sample_config\<lparr>queueCapabilityKey := ''other''\<rparr>) (sample_job\<lparr>internalQueueJobId := ''job'',
     internalQueueContractorProof := makeInternalQueueContractorProof (sample_config\<lparr>queueCapabilityKey := ''other''\<rparr>) ''job''
       (makeInternalQueueContractorProof sample_config ''job'' [])\<rparr>)"
proof -
  let ?j = "sample_job\<lparr>internalQueueJobId := ''job'', internalQueueContractorProof := makeInternalQueueContractorProof sample_config ''job'' []\<rparr>"
  have d: "is_sha256 (sample_digest s)" for s
    by (simp add: sample_digest_def is_sha256_def list_all_iff hex_digit_def is_digit_def)
  have "makeInternalQueueContractorProof sample_config ''job'' [] \<noteq> []" by code_simp
  then have "contractorAuthorizationValid (sample_config\<lparr>queueCapabilityKey := ''other''\<rparr>) (?j\<lparr>internalQueueContractorProof :=
      makeInternalQueueContractorProof (sample_config\<lparr>queueCapabilityKey := ''other''\<rparr>) (internalQueueJobId ?j) (internalQueueContractorProof ?j)\<rparr>)"
    by (intro contractor_proof_authorizes [THEN conjunct2, THEN conjunct1, OF _ _ _ _ refl refl, of sample_config])
       (simp_all add: d sample_config_def mints_def)
  then show ?thesis by simp
qed

text \<open>C24: After the authorization hash (and the process key) changes, a proof minted under the old hash
  is neither valid nor re-minted, provided the keyless digests of the two hashes differ.\<close>

theorem contractor_proof_revoked:
  assumes "\<And>m. is_sha256 (sha256_hex cf m)" "\<And>k m. is_sha256 (hmac_sha256_hex cf k m)"
    and "mints cf (internalQueueJobId j) (internalQueueContractorProof j)"
    and "cf' = cf\<lparr>contractorAuthorizationSha256 := h, queueCapabilityKey := key\<rparr>"
    and "internalQueueContractorBinding cf (internalQueueJobId j) (currentContractorAuthorizationSha256 cf')
      \<noteq> internalQueueContractorBinding cf (internalQueueJobId j) (currentContractorAuthorizationSha256 cf)"
  shows "\<not> internalQueueContractorProofValid cf' j
    \<and> makeInternalQueueContractorProof cf' (internalQueueJobId j) (internalQueueContractorProof j) = []"
proof -
  let ?id = "internalQueueJobId j" and ?p = "internalQueueContractorProof j"
  have bind: "internalQueueContractorBinding cf' i a = internalQueueContractorBinding cf i a" for i a
    by (simp add: internalQueueContractorBinding_def assms(4))
  obtain k where k: "split_on CHR '':'' ?p = [k, internalQueueContractorBinding cf ?id (currentContractorAuthorizationSha256 cf)]"
    using mints_split [OF assms(1-3)] by blast
  have "makeInternalQueueContractorProof cf' ?id ?p = []"
    using k assms(3,5) by (auto simp: makeInternalQueueContractorProof_def Let_def bind mints_def)
  moreover have "\<not> mints cf' ?id ?p"
  proof
    assume m: "mints cf' ?id ?p"
    have "\<And>m. is_sha256 (sha256_hex cf' m)" "\<And>k m. is_sha256 (hmac_sha256_hex cf' k m)"
      using assms(1,2) by (simp_all add: assms(4))
    from mints_split [OF this m] k assms(5) show False by (auto simp: bind)
  qed
  ultimately show ?thesis by (auto simp: internalQueueContractorProofValid_def Let_def mints_def)
qed

theorem contractor_proof_revoked_witness:
  "\<not> internalQueueContractorProofValid (sample_config\<lparr>contractorAuthorizationSha256 := [], queueCapabilityKey := ''key''\<rparr>)
     (sample_job\<lparr>internalQueueJobId := ''job'',
       internalQueueContractorProof := makeInternalQueueContractorProof sample_config ''job'' []\<rparr>)"
proof -
  have d: "is_sha256 (sample_digest s)" for s
    by (simp add: sample_digest_def is_sha256_def list_all_iff hex_digit_def is_digit_def)
  have m: "makeInternalQueueContractorProof sample_config ''job'' [] \<noteq> []" by code_simp
  have b: "internalQueueContractorBinding sample_config ''job''
      (currentContractorAuthorizationSha256 (sample_config\<lparr>contractorAuthorizationSha256 := [], queueCapabilityKey := ''key''\<rparr>))
    \<noteq> internalQueueContractorBinding sample_config ''job'' (currentContractorAuthorizationSha256 sample_config)"
    by code_simp
  show ?thesis
    by (rule conjunct1 [OF contractor_proof_revoked [OF _ _ _ refl]])
       (use m b in \<open>simp_all add: mints_def\<close>, simp_all add: d sample_config_def)
qed

end
