(* ===== verification/ValidationCommand.thy ===== *)
theory ValidationCommand
  imports Paths
begin

text \<open>
  Model of the parsing and trust rules of \<open>lib/validation-command.js\<close>: the tokenizer of a
  validation command line and the checks that decide whether an argument vector may run.  The
  error messages are the constructors of \<open>trust_error\<close>; starting the process, resolving batch
  shims and hashing executables are not modelled.
\<close>

section \<open>Tokenizer\<close>

definition escapes :: "char option \<Rightarrow> char \<Rightarrow> bool" where
  "escapes q n = (case q of Some c \<Rightarrow> n = c \<or> n = backslash
     | None \<Rightarrow> js_space n \<or> n \<in> {CHR 0x27, CHR 0x22, backslash})"

text \<open>The loop, with the parts so far, the current token, the open quote and whether a token started.\<close>

fun parse_loop :: "string \<Rightarrow> string list \<Rightarrow> string \<Rightarrow> char option \<Rightarrow> bool \<Rightarrow> string list option" where
  "parse_loop [] parts current q started =
     (if q \<noteq> None then None else Some (if started then parts @ [current] else parts))"
| "parse_loop (c # s) parts current q started =
     (if c = backslash then
        (case s of
           n # r \<Rightarrow> if escapes q n then parse_loop r parts (current @ [n]) q True
                    else parse_loop s parts (current @ [c]) q True
         | [] \<Rightarrow> parse_loop s parts (current @ [c]) q True)
      else case q of
        Some d \<Rightarrow> if c = d then parse_loop s parts current None started
                  else parse_loop s parts (current @ [c]) q started
      | None \<Rightarrow>
          if c = CHR 0x27 \<or> c = CHR 0x22 then parse_loop s parts current (Some c) True
          else if js_space c then
            (if started then parse_loop s (parts @ [current]) [] None False
             else parse_loop s parts current None False)
          else parse_loop s parts (current @ [c]) None True)"

definition parseCommandLine :: "string \<Rightarrow> string list option" where
  "parseCommandLine commandLine = parse_loop (js_trim commandLine) [] [] None False"

text \<open>\<open>/\\s{2,}/\<close>: two blanks in a row.\<close>

fun double_space :: "string \<Rightarrow> bool" where
  "double_space (a # b # r) = (js_space a \<and> js_space b \<or> double_space (b # r))"
| "double_space s = False"

section \<open>Git vectors\<close>

datatype git_args_error = VersionArguments | StatusArguments | DiffOption string | DiffOperand string
  | DiffPathspec string | DiffSeparators | DiffWithoutCheck | RevParseVector | LsFilesArguments
  | SubcommandForbidden string

definition safeValidationPathspec :: "string \<Rightarrow> bool" where
  "safeValidationPathspec raw \<longleftrightarrow> raw \<noteq> [] \<and> \<not> is_abs raw
     \<and> \<not> (case raw of a # b # _ \<Rightarrow> is_alpha a \<and> b = CHR '':'' | _ \<Rightarrow> False)
     \<and> ''..'' \<notin> set (split_on slash (to_slashes raw))
     \<and> \<not> list_ex (\<lambda>c. (of_char c :: nat) \<le> 31 \<or> c = CHR 0x7F) raw"

text \<open>The loop over the arguments of \<open>git diff\<close>: after the separator, separators seen, \<open>--check\<close> seen.\<close>

fun diff_args :: "bool \<Rightarrow> nat \<Rightarrow> bool \<Rightarrow> string list \<Rightarrow> git_args_error option" where
  "diff_args after seps saw [] =
     (if seps > 1 then Some DiffSeparators else if saw then None else Some DiffWithoutCheck)"
| "diff_args after seps saw (item # rest) =
     (if item = ''--'' then diff_args True (Suc seps) saw rest
      else if \<not> after \<and> starts_with ''-'' item then
        (if item \<notin> {''--check'', ''--cached'', ''--staged'', ''--no-ext-diff'', ''--no-textconv'', ''--ignore-submodules''}
         then Some (DiffOption item)
         else diff_args after seps (saw \<or> item = ''--check'') rest)
      else if \<not> after then Some (DiffOperand item)
      else if \<not> safeValidationPathspec item then Some (DiffPathspec item)
      else diff_args after seps saw rest)"

definition before_separator :: "string list \<Rightarrow> string list" where
  "before_separator args = takeWhile (\<lambda>a. a \<noteq> ''--'') args"

definition strictProjectGitArgsError :: "string list \<Rightarrow> git_args_error option" where
  "strictProjectGitArgsError args =
    (let subcommand = (case args of [] \<Rightarrow> [] | a # _ \<Rightarrow> js_lower a); rest = tl args in
     if subcommand = ''--version'' then (if rest \<noteq> [] then Some VersionArguments else None)
     else if subcommand = ''status'' then
       (if list_all (\<lambda>i. i \<in> {''--short'', ''--porcelain'', ''--porcelain=v1'', ''--porcelain=v2'', ''--branch'',
            ''--untracked-files=no'', ''--untracked-files=normal'', ''--untracked-files=all''}) rest
        then None else Some StatusArguments)
     else if subcommand = ''diff'' then diff_args False 0 False rest
     else if subcommand = ''rev-parse'' then
       (if rest \<in> {[''--show-toplevel''], [''--is-inside-work-tree''], [''--verify'', ''HEAD''], [''HEAD'']}
        then None else Some RevParseVector)
     else if subcommand = ''ls-files'' then
       (if list_all (\<lambda>i. i \<in> {''--cached'', ''--others'', ''--exclude-standard'', ''--error-unmatch''}) (before_separator rest)
           \<and> list_all safeValidationPathspec (drop (Suc (length (before_separator rest))) rest)
        then None else Some LsFilesArguments)
     else Some (SubcommandForbidden subcommand))"

section \<open>Trust of an argument vector\<close>

datatype trust_error = NotAllowlisted | ShellForbidden | InlineCode string | InlineEvaluation
  | PackageExecutor | StrictPolicyOnlyGit | GitSubcommand string | GitHelper | GitArguments git_args_error

definition strip_executable_suffix :: "string \<Rightarrow> string" where
  "strip_executable_suffix s =
    (if list_ex (\<lambda>x. ends_with x s) [''.exe'', ''.cmd'', ''.bat'', ''.ps1''] then take (length s - 4) s else s)"

text \<open>\<open>path.basename\<close>: trailing slashes are dropped, then everything up to the last one.\<close>

definition path_basename :: "string \<Rightarrow> string" where
  "path_basename p = rev (takeWhile (\<lambda>c. c \<noteq> slash) (rev (strip_tail p)))"

definition executable_name :: "string \<Rightarrow> string" where
  "executable_name p = strip_executable_suffix (js_lower (path_basename p))"

definition ends_or_equals :: "string \<Rightarrow> bool" where
  "ends_or_equals s \<longleftrightarrow> s = [] \<or> hd s = CHR ''=''"

definition interpreter_code_option :: "string \<Rightarrow> bool" where
  "interpreter_code_option argument = (case js_lower argument of
     [] \<Rightarrow> False
   | c # body \<Rightarrow> c = CHR ''-'' \<and>
       (let letters = takeWhile is_alpha body in
          list_ex (\<lambda>l. l \<in> set ''ecpr'') letters \<and> ends_or_equals (drop (length letters) body)
        \<or> (case body of [] \<Rightarrow> False
           | d # long \<Rightarrow> d = CHR ''-'' \<and>
               (let name = takeWhile (\<lambda>x. x \<noteq> CHR ''='') long in
                  name \<in> {''eval'', ''print'', ''import'', ''require'', ''loader'', ''experimental-loader'',
                    ''experimental-default-type'', ''env-file''}
                  \<or> starts_with ''inspect'' name \<and> list_all (\<lambda>x. is_alpha x \<or> x = CHR ''-'') name))))"

text \<open>The first option letter with an operand in a Python bundle, with what follows it.\<close>

definition interface_option :: "string \<Rightarrow> (char \<times> string) option" where
  "interface_option argument =
    (case dropWhile (\<lambda>c. c \<in> set ''bBdEhiIOPqRsStuvVx?'') (tl argument) of
       c # r \<Rightarrow> if c \<in> set ''cmWX'' then Some (c, r) else None | [] \<Rightarrow> None)"

fun inline_code :: "bool \<Rightarrow> string list \<Rightarrow> string option" where
  "inline_code python [] = None"
| "inline_code python (argument # rest) =
    (if \<not> python then (if interpreter_code_option argument then Some argument else inline_code python rest)
     else if argument = ''--'' \<or> argument = ''-'' \<or> \<not> starts_with ''-'' argument then None
     else if argument = ''--check-hash-based-pycs'' then inline_code python (drop 1 rest)
     else case interface_option argument of
       Some (l, operand) \<Rightarrow>
         if l = CHR ''m'' then None
         else if l = CHR ''W'' \<or> l = CHR ''X'' then
           (let optionValue = (if operand \<noteq> [] then operand else case rest of [] \<Rightarrow> [] | v # _ \<Rightarrow> v) in
            if l = CHR ''X'' \<and> starts_with ''presite'' optionValue \<and> ends_or_equals (drop 7 optionValue)
            then Some argument
            else inline_code python (if operand = [] then drop 1 rest else rest))
         else Some argument
     | None \<Rightarrow> if interpreter_code_option argument then Some argument else inline_code python rest)"

text \<open>The subcommand candidates of a package manager.\<close>

definition executor_candidates :: "string list \<Rightarrow> string list" where
  "executor_candidates rest =
    (let before = before_separator rest; words = filter (\<lambda>a. \<not> starts_with ''-'' a) before in
     case before of [] \<Rightarrow> [] | a # _ \<Rightarrow> if \<not> starts_with ''-'' a then [a] else words)"

definition git_helper_argument :: "string \<Rightarrow> bool" where
  "git_helper_argument argument = (let a = js_lower argument in
     starts_with ''-c'' a \<and> ends_or_equals (drop 2 a)
     \<or> starts_with ''--'' a \<and> takeWhile (\<lambda>x. x \<noteq> CHR ''='') (drop 2 a) \<in>
         {''config-env'', ''exec-path'', ''upload-pack'', ''receive-pack'', ''ext-diff'', ''textconv''})"

definition validationCommandTrustError :: "string list \<Rightarrow> bool \<Rightarrow> string list \<Rightarrow> trust_error option" where
  "validationCommandTrustError allowlist strict parsed = (case parsed of [] \<Rightarrow> None | program # args \<Rightarrow>
    (let executable = executable_name program in
     if executable \<notin> set (map executable_name allowlist) then Some NotAllowlisted
     else if executable \<in> {''cmd'', ''powershell'', ''pwsh'', ''bash'', ''sh'', ''wsl'', ''npx'', ''pnpx'', ''bunx''}
     then Some ShellForbidden
     else case (if executable \<in> {''node'', ''python'', ''python3'', ''py'', ''bun'', ''deno''}
                then inline_code (executable \<in> {''python'', ''python3'', ''py''}) args else None) of
       Some argument \<Rightarrow> Some (InlineCode argument)
     | None \<Rightarrow>
     if executable = ''deno'' \<and> (case List.find (\<lambda>a. \<not> starts_with ''-'' a) args of None \<Rightarrow> False
          | Some a \<Rightarrow> js_lower a \<in> {''eval'', ''repl''})
     then Some InlineEvaluation
     else if executable \<in> {''npm'', ''pnpm'', ''yarn'', ''bun''}
       \<and> list_ex (\<lambda>a. js_lower a \<in> {''exec'', ''x'', ''dlx'', ''create'', ''init'', ''explore'', ''node''}) (executor_candidates args)
     then Some PackageExecutor
     else if strict \<and> executable \<noteq> ''git'' then Some StrictPolicyOnlyGit
     else if executable = ''git'' then
       (let subcommand = (case args of [] \<Rightarrow> [] | a # _ \<Rightarrow> js_lower a) in
        if subcommand \<notin> {''--version'', ''diff'', ''status'', ''rev-parse'', ''ls-files''} then Some (GitSubcommand subcommand)
        else if list_ex git_helper_argument args then Some GitHelper
        else map_option GitArguments (strictProjectGitArgsError args))
     else None))"

section \<open>Plain commands are their words\<close>

text \<open>A character the tokenizer takes as it is, or a blank that is the space.\<close>

definition plain_char :: "char \<Rightarrow> bool" where
  "plain_char c \<longleftrightarrow> c \<notin> {CHR 0x27, CHR 0x22, backslash} \<and> (js_space c \<longrightarrow> c = CHR '' '')"

definition plain_command :: "string \<Rightarrow> bool" where
  "plain_command s \<longleftrightarrow> list_all plain_char s \<and> \<not> double_space s"

lemma js_space_blank: "js_space CHR '' ''"
  by (simp add: js_space_def)

lemma parse_word_char:
  "plain_char c \<Longrightarrow> \<not> js_space c \<Longrightarrow> parse_loop (c # s) parts cur None b = parse_loop s parts (cur @ [c]) None True"
  by (simp add: plain_char_def)

lemma parse_blank: "parse_loop (CHR '' '' # s) parts cur None True = parse_loop s (parts @ [cur]) [] None False"
  by (simp add: js_space_blank)

lemma double_space_tl: "\<not> double_space (c # s) \<Longrightarrow> \<not> double_space s"
  by (cases s) auto

lemma parse_plain_loop:
  assumes "list_all plain_char s" "\<not> double_space s" "s = [] \<or> \<not> js_space (last s)"
  shows "parse_loop s parts cur None True
      = Some (parts @ (cur @ hd (split_on CHR '' '' s)) # tl (split_on CHR '' '' s))"
  using assms
proof (induction "length s" arbitrary: s parts cur rule: less_induct)
  case less
  show ?case
  proof (cases s)
    case (Cons c r)
    have r: "list_all plain_char r" "\<not> double_space r" "r = [] \<or> \<not> js_space (last r)"
      using less.prems Cons double_space_tl [of c r] by auto
    show ?thesis
    proof (cases "js_space c")
      case False
      then have cn: "c \<noteq> CHR '' ''" using js_space_blank by blast
      have "parse_loop s parts cur None True = parse_loop r parts (cur @ [c]) None True"
        using parse_word_char [OF _ False] less.prems(1) Cons by simp
      also have "\<dots> = Some (parts @ ((cur @ [c]) @ hd (split_on CHR '' '' r)) # tl (split_on CHR '' '' r))"
        by (rule less.hyps) (use Cons r in simp_all)
      finally show ?thesis using Cons cn by (simp add: split_on_Cons)
    next
      case True
      then have c: "c = CHR '' ''" using Cons less.prems(1) by (simp add: plain_char_def)
      from True less.prems(3) Cons obtain d t where t: "r = d # t" by (cases r) auto
      have d: "\<not> js_space d" using less.prems(2) Cons t True by auto
      then have dn: "d \<noteq> CHR '' ''" using js_space_blank by blast
      have "parse_loop s parts cur None True = parse_loop t (parts @ [cur]) [d] None True"
        using parse_word_char [OF _ d, of t "parts @ [cur]" "[]" False] r(1)
        unfolding Cons c t parse_blank by simp
      also have "\<dots> = Some ((parts @ [cur]) @ ([d] @ hd (split_on CHR '' '' t)) # tl (split_on CHR '' '' t))"
        by (rule less.hyps) (use Cons r t double_space_tl [of d t] in \<open>auto split: if_splits\<close>)
      finally show ?thesis using Cons c t dn by (simp add: split_on_Cons)
    qed
  qed simp
qed

lemma js_trim_ends:
  assumes "js_trim s = s" "s \<noteq> []" shows "\<not> js_space (hd s)" "\<not> js_space (last s)"
proof -
  define u where "u = dropWhile js_space (rev (dropWhile js_space s))"
  have s: "s = rev u" using assms(1) by (simp add: js_trim_def u_def)
  then have "u \<noteq> []" using assms(2) by simp
  then have "\<not> js_space (hd u)" unfolding u_def by (rule hd_dropWhile)
  then show "\<not> js_space (last s)" by (simp add: s last_rev)
  show "\<not> js_space (hd s)"
  proof
    assume "js_space (hd s)"
    then have "length (dropWhile js_space s) < length s"
      using assms(2) by (cases s) (auto simp: le_imp_less_Suc length_dropWhile_le)
    moreover have "length (js_trim s) \<le> length (dropWhile js_space s)"
      unfolding js_trim_def by (metis length_dropWhile_le length_rev)
    ultimately show False using assms(1) by simp
  qed
qed

lemma parse_plain_command:
  assumes "plain_command s" "js_trim s = s" "s \<noteq> []"
  shows "parseCommandLine s = Some (split_on CHR '' '' s)"
proof -
  obtain c r where s: "s = c # r" using assms(3) by (cases s) auto
  have c: "\<not> js_space c" using js_trim_ends(1) [OF assms(2,3)] s by simp
  then have cn: "c \<noteq> CHR '' ''" using js_space_blank by blast
  have r: "list_all plain_char r" "\<not> double_space r" "plain_char c"
    using assms(1) double_space_tl [of c r] by (simp_all add: plain_command_def s)
  have l: "r = [] \<or> \<not> js_space (last r)" using js_trim_ends(2) [OF assms(2,3)] s by auto
  have "parse_loop s [] [] None False = parse_loop r [] [c] None True"
    using parse_word_char [OF r(3) c, of r "[]" "[]" False] s by simp
  also have "\<dots> = Some ([] @ ([c] @ hd (split_on CHR '' '' r)) # tl (split_on CHR '' '' r))"
    by (rule parse_plain_loop [OF r(1,2) l])
  finally show ?thesis using assms(2) s cn by (simp add: parseCommandLine_def split_on_Cons)
qed

section \<open>What the trust rules let through\<close>

lemma to_slashes_join:
  "w \<in> set ws \<Longrightarrow> set (split_on slash (to_slashes w)) \<subseteq> set (split_on slash (to_slashes (join_with ''/'' ws)))"
proof (induction ws)
  case (Cons v vs)
  show ?case
  proof (cases "vs = []")
    case True
    with Cons.prems have "w = v" by simp
    then show ?thesis using True by simp
  next
    case False
    then have "join_with ''/'' (v # vs) = v @ slash # join_with ''/'' vs" by (cases vs) simp_all
    then have "to_slashes (join_with ''/'' (v # vs)) = to_slashes v @ slash # to_slashes (join_with ''/'' vs)"
      by (simp add: to_slashes_def)
    then have eq: "set (split_on slash (to_slashes (join_with ''/'' (v # vs))))
        = set (split_on slash (to_slashes v)) \<union> set (split_on slash (to_slashes (join_with ''/'' vs)))"
      by (simp only: split_on_append set_append)
    from Cons.prems have "w = v \<or> w \<in> set vs" by simp
    then show ?thesis using Cons.IH unfolding eq by blast
  qed
qed simp

lemma dotdot_to_slashes:
  assumes "''..'' \<in> set (split_on slash s)" shows "''..'' \<in> set (split_on slash (to_slashes s))"
proof -
  have "''..'' \<in> set (split_on slash (to_slashes ''..''))" by code_simp
  then show ?thesis using to_slashes_join [OF assms] by auto
qed

lemma safe_pathspec_inside:
  assumes "safeValidationPathspec p" "is_abs root"
  shows "prefix (norm_segs root) (norm_segs (path_resolve2 h root p))"
proof -
  have s: "\<not> is_abs p" "''..'' \<notin> set (split_on slash (to_slashes p))"
    using assms(1) unfolding safeValidationPathspec_def by blast+
  have "''..'' \<notin> set (split_on slash p)"
    using dotdot_to_slashes s(2) by blast
  from resolve2_relative [OF assms(2) s(1) this] show ?thesis by simp
qed

lemma diff_args_None:
  "diff_args after seps saw xs = None \<Longrightarrow>
     (saw \<or> ''--check'' \<in> set xs) \<and> (\<forall>x \<in> set xs. starts_with ''-'' x \<or> safeValidationPathspec x)
     \<and> (\<forall>x \<in> set xs. after \<longrightarrow> x = ''--'' \<or> safeValidationPathspec x)"
  by (induction after seps saw xs rule: diff_args.induct) (auto split: if_splits)

lemma inline_code_node: "inline_code False xs = None \<Longrightarrow> x \<in> set xs \<Longrightarrow> \<not> interpreter_code_option x"
  by (induction "False" xs rule: inline_code.induct) (auto split: if_splits)

lemma trust_cases:
  assumes "validationCommandTrustError allowlist strict (program # args) = None" "executable_name program = e"
  shows "e \<in> set (map executable_name allowlist)"
    and "e \<notin> {''cmd'', ''powershell'', ''pwsh'', ''bash'', ''sh'', ''wsl'', ''npx'', ''pnpx'', ''bunx''}"
    and "strict \<Longrightarrow> e = ''git''"
    and "e \<in> {''node'', ''bun'', ''deno''} \<Longrightarrow> inline_code False args = None"
    and "e = ''git'' \<Longrightarrow> \<not> list_ex git_helper_argument args \<and> strictProjectGitArgsError args = None"
proof -
  note u = assms(1) [unfolded validationCommandTrustError_def list.case Let_def assms(2)]
  show m: "e \<in> set (map executable_name allowlist)" by (rule ccontr) (use u in simp)
  show n: "e \<notin> {''cmd'', ''powershell'', ''pwsh'', ''bash'', ''sh'', ''wsl'', ''npx'', ''pnpx'', ''bunx''}"
    by (rule ccontr) (use u m in \<open>simp split: if_splits\<close>)
  show "strict \<Longrightarrow> e = ''git''"
    using u m n by (simp split: if_splits option.splits)
  show "inline_code False args = None" if "e \<in> {''node'', ''bun'', ''deno''}"
  proof -
    from that consider "e = ''node''" | "e = ''bun''" | "e = ''deno''" by auto
    then show ?thesis by cases (use u m in \<open>simp_all split: if_splits option.splits\<close>)
  qed
  show "\<not> list_ex git_helper_argument args \<and> strictProjectGitArgsError args = None" if "e = ''git''"
    using u m that by (simp split: if_splits)
qed

text \<open>C27: A trusted validation command runs an allowlisted executable that is no shell, only git under
  the strict policy, and passes no inline-code option to node, bun or deno and no helper option to
  git.\<close>

theorem trusted_command_is_bounded:
  assumes "validationCommandTrustError allowlist strict (program # args) = None"
  shows "executable_name program \<in> set (map executable_name allowlist)
    \<and> executable_name program \<notin> {''cmd'', ''powershell'', ''pwsh'', ''bash'', ''sh'', ''wsl'', ''npx'', ''pnpx'', ''bunx''}
    \<and> (strict \<longrightarrow> executable_name program = ''git'')
    \<and> (executable_name program \<in> {''node'', ''bun'', ''deno''} \<longrightarrow> (\<forall>a \<in> set args. \<not> interpreter_code_option a))
    \<and> (executable_name program = ''git'' \<longrightarrow> (\<forall>a \<in> set args. \<not> git_helper_argument a))"
proof (intro conjI impI)
  note t = trust_cases [OF assms refl]
  show "executable_name program \<in> set (map executable_name allowlist)" by (rule t(1))
  show "executable_name program \<notin> {''cmd'', ''powershell'', ''pwsh'', ''bash'', ''sh'', ''wsl'', ''npx'', ''pnpx'', ''bunx''}"
    by (rule t(2))
  show "executable_name program = ''git''" if strict by (rule t(3) [OF that])
  show "\<forall>a \<in> set args. \<not> interpreter_code_option a" if "executable_name program \<in> {''node'', ''bun'', ''deno''}"
    using inline_code_node [OF t(4) [OF that]] by blast
  show "\<forall>a \<in> set args. \<not> git_helper_argument a" if "executable_name program = ''git''"
    using t(5) [OF that] by (simp add: list_ex_iff)
qed

theorem trusted_command_is_bounded_witness:
  "validationCommandTrustError [''node'', ''git''] False [''node'', ''tools/validate.cjs'', ''out/x.json''] = None
   \<and> \<not> interpreter_code_option ''out/x.json''"
proof -
  have h: "validationCommandTrustError [''node'', ''git''] False [''node'', ''tools/validate.cjs'', ''out/x.json''] = None"
    by code_simp
  have "executable_name ''node'' = ''node''" by code_simp
  with trusted_command_is_bounded [OF h] h show ?thesis by simp
qed

text \<open>A trusted git diff vector contains --check, and each of its operands resolves inside the
  repository root.\<close>

theorem git_diff_stays_in_repository:
  assumes "validationCommandTrustError allowlist strict (program # sub # args) = None"
    and "executable_name program = ''git''" "js_lower sub = ''diff''" "is_abs root"
  shows "''--check'' \<in> set args
    \<and> (\<forall>p \<in> set args. starts_with ''-'' p \<or> prefix (norm_segs root) (norm_segs (path_resolve2 h root p)))"
proof -
  have "diff_args False 0 False args = None"
    using trust_cases(5) [OF assms(1) refl assms(2)] assms(3) by (simp add: strictProjectGitArgsError_def)
  from diff_args_None [OF this] show ?thesis using safe_pathspec_inside [OF _ assms(4)] by blast
qed

theorem git_diff_stays_in_repository_witness:
  "prefix (norm_segs ''/r'') (norm_segs (path_resolve2 sample_host ''/r'' ''src''))"
proof -
  have h: "validationCommandTrustError [''git''] True [''git'', ''diff'', ''--check'', ''--'', ''src''] = None" by code_simp
  have "executable_name ''git'' = ''git''" "js_lower ''diff'' = ''diff''" "is_abs ''/r''" by code_simp+
  from git_diff_stays_in_repository [OF h this, of sample_host] show ?thesis by simp
qed

text \<open>
  Node reads an underscore in a long option as a dash; the pattern of the code does not, so a
  preloading option spelled with underscores is let through.
\<close>

lemma underscore_option_is_trusted:
  "validationCommandTrustError [''node''] False [''node'', ''--experimental_loader=./x.mjs'', ''t.js''] = None
   \<and> validationCommandTrustError [''node''] False [''node'', ''--experimental-loader=./x.mjs'', ''t.js'']
     = Some (InlineCode ''--experimental-loader=./x.mjs'')"
  by code_simp

end
