(* ===== verification/LockPlan.thy ===== *)
theory LockPlan
  imports OrchestratorPolicy ValidationCommand
begin

text \<open>
  Model of \<open>lib/lock-plan.js\<close>: the lock plan of a job and the guards of the single and the
  parallel planner, in the order of the code.  The generator versions of the guards differ from
  the synchronous ones only in where they yield, so both are one definition here.
\<close>

section \<open>Building a plan\<close>

definition PARALLEL_LOCK_TYPES :: "string set" where
  "PARALLEL_LOCK_TYPES = {''read'', ''write'', ''serial_integration''}"

definition normalizeLockType :: "config \<Rightarrow> string \<Rightarrow> job \<Rightarrow> string option" where
  "normalizeLockType cf lt j = (let raw = keyword lt in
     if raw = [] then map_option (\<lambda>b. if b then ''write'' else ''read'') (hasWriteIntent cf j)
     else if raw = ''readonly'' \<or> raw = ''read_only'' then Some ''read''
     else if raw \<in> {''serial'', ''integration'', ''serial_integration_lock''} then Some ''serial_integration''
     else Some raw)"

definition normalizeLockMode :: "config \<Rightarrow> string \<Rightarrow> string \<Rightarrow> string" where
  "normalizeLockMode cf lm lt = (let raw = keyword lm in
     if lt = ''read''
     then (if raw \<noteq> [] \<and> raw \<notin> {''none'', ''off'', ''read'', ''read_only'', ''readonly''} then raw
           else defaultReadLockMode cf)
     else if raw = [] then defaultWriteLockMode cf
     else if raw \<in> {''none'', ''read'', ''read_only'', ''readonly''} then ''off''
     else if raw \<in> {''auto'', ''temporary''} then defaultWriteLockMode cf
     else raw)"

definition ct_list :: "(contract \<Rightarrow> string list) \<Rightarrow> contract option \<Rightarrow> string list" where
  "ct_list f c = (case c of None \<Rightarrow> [] | Some c \<Rightarrow> f c)"

definition createLockPlan :: "config \<Rightarrow> job \<Rightarrow> nat \<Rightarrow> lock_plan option" where
  "createLockPlan cf j i =
    do { lt \<leftarrow> normalizeLockType cf (lockType j) j;
         sc \<leftarrow> normalizeScopeContract (host_of cf) j;
         om \<leftarrow> normalizeOrchestratorMode cf j;
         let h = host_of cf; cwd = job_cwd j;
             fallback = (if scopeContract j \<noteq> None then [] else ct_list ct_write sc)
         in Some \<lparr>lp_index = i, lp_agent = agent j, lp_task = task j, lp_cwd = cwd,
           lp_lockMode = normalizeLockMode cf (lockMode j) lt, lp_lockType = lt, lp_orchestratorMode = om,
           lp_userAuthorizedOrchestrator = userAuthorizedOrchestrator j,
           lp_contractorAuthorizationVerified = (om = ''contractor'' \<and> contractorAuthorizationValid cf j),
           lp_lockedPaths = normalizeLockPathListForCwd h (firstNonEmptyList [lockedPaths j, ownedPaths j]) cwd,
           lp_allowedEdits = normalizeLockPathListForCwd h
             (firstNonEmptyList [allowedEdits j, ct_list ct_allowedEdits sc, fallback]) cwd,
           lp_forbiddenEdits = normalizeLockPathListForCwd h
             (mergePathLists [DEFAULT_FORBIDDEN_EDIT_PATHS, forbiddenEdits j, ct_list ct_forbidden sc]) cwd,
           lp_sharedFiles = normalizeLockPathListForCwd h (mergePathLists [sharedFiles j, ct_list ct_shared sc]) cwd,
           lp_serialOnly = normalizeLockPathListForCwd h (mergePathLists [serialOnly j, ct_list ct_serialOnly sc]) cwd,
           lp_scopeContract = sc, lp_sanitizedWorkspace = sanitizedWorkspace j,
           lp_validationCommand = or_string (validationCommand j)
             (case sc of None \<Rightarrow> [] | Some c \<Rightarrow> ct_validationCommand c),
           lp_timeoutMs = truthy_nat (job_timeoutMs j) (scopeContractTimeout sc lt),
           lp_requestedLockMode = None\<rparr> }"

definition hardLockPathsForPlan :: "lock_plan \<Rightarrow> string list" where
  "hardLockPathsForPlan p =
    (if lp_lockType p = ''read''
     then firstNonEmptyList [lp_lockedPaths p, ct_list ct_read (lp_scopeContract p), [REPOSITORY_SCOPE_LOCK_PATH]]
     else firstNonEmptyList [lp_allowedEdits p, lp_lockedPaths p])"

section \<open>Reporting a lock conflict\<close>

text \<open>The result of an acquisition as this function reads it: error type and origin of the conflict.\<close>

definition directExecutionLockConflictDetails :: "string \<Rightarrow> string option \<Rightarrow> bool \<Rightarrow> string \<Rightarrow> string" where
  "directExecutionLockConflictDetails result_error conflict_origin queueConflict lt =
    (case conflict_origin of
       None \<Rightarrow> or_string result_error ''lock_acquisition_failed''
     | Some origin \<Rightarrow>
         if queueConflict then ''queue_lock_conflict''
         else if origin = ''internal'' then (if lt = ''read'' then ''read_lock_conflict'' else ''write_lock_conflict'')
         else if origin \<noteq> ''manual'' then (if lt = ''read'' then ''read_lock_conflict'' else ''write_lock_conflict'')
         else ''manual_lock_misuse'')"

section \<open>Scope contract of a plan\<close>

definition unsafePathSteps :: "host \<Rightarrow> string list \<Rightarrow> string \<Rightarrow> path_reason option" where
  "unsafePathSteps h paths cwd = first_reason (\<lambda>v. unsafePathReason h [v] cwd) paths"

text \<open>Equations without abstractions over evaluated data, for evaluation by the kernel.\<close>

definition unsafe_alone :: "host \<Rightarrow> string \<Rightarrow> string \<Rightarrow> path_reason option" where
  "unsafe_alone h cwd v = unsafePathReason h [v] cwd"

lemma unsafePathSteps_code [code]: "unsafePathSteps h paths cwd = first_reason (unsafe_alone h cwd) paths"
  by (simp add: unsafePathSteps_def unsafe_alone_def [abs_def])

text \<open>The loop over \<open>allowedEdits\<close> that stops at the first path the matcher rejects.\<close>

definition first_outside :: "(string \<Rightarrow> bool) \<Rightarrow> string list \<Rightarrow> string list" where
  "first_outside within paths = (case List.find (\<lambda>p. \<not> within p) paths of None \<Rightarrow> [] | Some p \<Rightarrow> [p])"

definition contract_checks :: "config \<Rightarrow> contract \<Rightarrow> lock_plan \<Rightarrow> verdict" where
  "contract_checks cf c p = (let h = host_of cf; lt = lp_lockType p in checks [
     refuse_if (ct_agent c \<noteq> [] \<and> ct_agent c \<noteq> lp_agent p) (refusal ''scope_contract_invalid''),
     refuse_if (ct_mode c \<notin> {''read'', ''write''}) (refusal ''scope_contract_invalid''),
     refuse_if (unsafePathSteps h (scopeContractPathInputs (Some c)) (or_string (lp_cwd p) (process_cwd h)) \<noteq> None)
       (refusal ''scope_path_unsafe''),
     refuse_if (ct_mode c = ''read'' \<and> ct_write c \<noteq> []) (refusal ''scope_readonly_write_scope''),
     refuse_if (agent_name (lp_agent p) \<in> READ_ONLY_PARALLEL_AGENTS \<and> ct_write c \<noteq> [])
       (refusal ''scope_readonly_write_scope''),
     refuse_if (lt = ''read'' \<and> ct_write c \<noteq> []) (refusal ''scope_readonly_write_scope''),
     refuse_if (lt = ''write'' \<and> ct_mode c \<noteq> ''write'') (refusal ''scope_contract_invalid''),
     refuse_if (ct_mode c = ''write'' \<and> ct_write c = []) (refusal ''empty_allowed_edits''),
     refuse_if (ct_mode c = ''write'' \<and> lp_allowedEdits p = []) (refusal ''empty_allowed_edits''),
     (if ct_allowedEdits c = [] \<or> ct_write c = [] then no_error
      else map_option (\<lambda>outside. if outside = [] then None
                         else Some (PlanError (Some ''scope_write_forbidden'') outside []))
             (unsafeChangedFiles h (ct_allowedEdits c) (ct_write c) (lp_cwd p))),
     (case overlaps h (ct_write c) (ct_forbidden c) [] of None \<Rightarrow> no_error
      | Some (a, b) \<Rightarrow> Some (Some (PlanError (Some ''scope_write_forbidden'') [a, b] []))),
     do { within \<leftarrow> createPathMatcher h (ct_write c) (lp_cwd p);
          let outside = (if ct_write c = [] then [] else first_outside within (lp_allowedEdits p))
          in refuse_if (outside \<noteq> []) (PlanError (Some ''scope_write_forbidden'') outside []) }])"

definition validateScopeContract :: "config \<Rightarrow> job \<Rightarrow> lock_plan \<Rightarrow> verdict" where
  "validateScopeContract cf j p =
    checks [
      refuse_if (list_ex (\<lambda>v. windowsStreamSyntax (normalizeLockPath v) (platform (host_of cf)))
          (scopeContractPathInputs (lp_scopeContract p) @ lp_lockedPaths p @ lp_allowedEdits p
           @ lp_forbiddenEdits p @ lp_sharedFiles p @ lp_serialOnly p)) (refusal ''scope_path_unsafe''),
      (case lp_scopeContract p of
         None \<Rightarrow> refuse_if (lp_lockType p = ''write'' \<or> write_flag j = Some True) (refusal ''missing_scope_contract'')
       | Some c \<Rightarrow> contract_checks cf c p)]"

section \<open>Option-specific refusals\<close>

definition reservedLockTypeError :: "lock_plan \<Rightarrow> verdict" where
  "reservedLockTypeError p = refuse_if (lp_lockType p = ''serial_integration'') (refusal ''lock_type_reserved'')"

definition continueWorktreeJobError :: "config \<Rightarrow> job \<Rightarrow> lock_plan \<Rightarrow> verdict" where
  "continueWorktreeJobError cf j p = (if continueWorktree j = None then no_error else checks [
     refuse_if (autoIntegrate j = Some True \<or> sanitizedWorkspace j \<or> lp_orchestratorMode p = ''contractor''
        \<or> worktreeMode cf = ''off'') (refusal ''continue_worktree_not_applicable''),
     refuse_if (lp_lockType p \<noteq> ''write'') (refusal ''continue_worktree_requires_write_job'')])"

definition sanitizedJobPolicyError :: "config \<Rightarrow> job \<Rightarrow> verdict" where
  "sanitizedJobPolicyError cf j = (if \<not> sanitizedWorkspace j then no_error else checks [
     map_option (\<lambda>wi. if wi \<or> lockType j = ''write'' \<or> lockType j = ''serial_integration''
                   then Some (refusal ''sanitized_workspace_write_forbidden'') else None) (hasWriteIntent cf j),
     refuse_if (js_trim (or_string (validationCommand j)
         (or_string (case scopeContract j of None \<Rightarrow> [] | Some c \<Rightarrow> rc_validationCommand c)
            (dg_string dg_validationCommand j))) \<noteq> []) (refusal ''sanitized_workspace_command_forbidden''),
     refuse_if (subagentStrategy j \<noteq> [] \<and> subagentStrategy j \<noteq> ''reject'')
       (refusal ''sanitized_workspace_subagent_forbidden'')])"

definition queueOnlyOptionsError :: "job \<Rightarrow> verdict" where
  "queueOnlyOptionsError j = refuse_if (job_models j \<noteq> None \<or> maxAttempts j \<noteq> None \<or> autoIntegrate j \<noteq> None)
     (refusal ''queue_only_option'')"

definition validationFixPassError :: "job \<Rightarrow> lock_plan \<Rightarrow> verdict" where
  "validationFixPassError j p = (case validationFixPasses j of None \<Rightarrow> no_error | Some n \<Rightarrow>
     if n = 0 then no_error else checks [
       refuse_if (n \<noteq> 1) (refusal ''validation_fix_pass_invalid''),
       refuse_if (lp_lockType p = ''read'' \<or> sanitizedWorkspace j) (refusal ''validation_fix_pass_not_applicable''),
       refuse_if (js_trim (lp_validationCommand p) = []) (refusal ''validation_fix_pass_not_applicable'')])"

text \<open>The provider keys are absent, or one per job with the empty string for an unknown one.\<close>

definition parallelBatchCapacityError :: "config \<Rightarrow> job list \<Rightarrow> string list option \<Rightarrow> (string \<times> nat) option" where
  "parallelBatchCapacityError cf jobs providerKeys =
    (let key_of = (\<lambda>i. case providerKeys of None \<Rightarrow> providerConcurrencyKey cf
                       | Some ks \<Rightarrow> or_string (if i < length ks then ks ! i else []) (providerConcurrencyKey cf));
         leased = map (\<lambda>(i, j). key_of i) (filter (\<lambda>(i, j). \<not> dryRun j) (zip [0..<length jobs] jobs))
     in List.find (\<lambda>(k, n). n > providerLimitForKey cf k) (map (\<lambda>k. (k, length (filter (\<lambda>k'. k' = k) leased))) (uniq leased)))"

section \<open>Self-check commands\<close>

definition SELF_CHECK_MAX_COMMANDS :: nat where "SELF_CHECK_MAX_COMMANDS = 8"
definition SELF_CHECK_MAX_PASSES :: int where "SELF_CHECK_MAX_PASSES = 3"

definition SELF_CHECK_FORBIDDEN_CHARACTERS :: "char \<Rightarrow> bool" where
  "SELF_CHECK_FORBIDDEN_CHARACTERS c \<longleftrightarrow>
     c \<in> set ''*?[]{}\"`$;&|<>()'' \<or> c \<in> {CHR 0x27, backslash, CHR 0x0D, CHR 0x0A, CHR 0x09}"

definition SELF_CHECK_INTERPRETERS :: "string set" where
  "SELF_CHECK_INTERPRETERS = {''node'', ''python'', ''python3'', ''py'', ''bun'', ''deno''}"

definition editable :: "config \<Rightarrow> job \<Rightarrow> lock_plan \<Rightarrow> string \<Rightarrow> bool option" where
  "editable cf j p candidate =
    (case normalizeLockPathList [candidate] of [] \<Rightarrow> Some False
     | n # _ \<Rightarrow> isWithinAnyPath (host_of cf) n (normalizeLockPathList (lp_allowedEdits p))
                  (or_string (lp_cwd p) (job_cwd j)))"

definition self_check_one :: "config \<Rightarrow> job \<Rightarrow> lock_plan \<Rightarrow> string list \<Rightarrow> string \<Rightarrow> verdict" where
  "self_check_one cf j p seen command =
    (let parsed = split_on CHR '' '' command; executable = strip_executable_suffix (js_lower (hd parsed)) in checks [
       refuse_if (command = [] \<or> list_ex SELF_CHECK_FORBIDDEN_CHARACTERS command \<or> double_space command)
         (refusal ''self_check_invalid''),
       refuse_if (command \<in> set seen) (refusal ''self_check_invalid''),
       refuse_if (backslash \<in> set (hd parsed) \<or> slash \<in> set (hd parsed)) (refusal ''self_check_untrusted''),
       refuse_if (validationCommandTrustError (validationExecutableAllowlist cf) False parsed \<noteq> None)
         (refusal ''self_check_untrusted''),
       (if executable \<notin> SELF_CHECK_INTERPRETERS then no_error
        else case List.find (\<lambda>a. \<not> starts_with ''-'' a) (tl parsed) of None \<Rightarrow> no_error
          | Some script \<Rightarrow> if script = [] then no_error else
              map_option (\<lambda>e. if e then Some (refusal ''self_check_script_editable'') else None) (editable cf j p script)),
       (if executable \<notin> {''npm'', ''pnpm'', ''yarn''} then no_error
        else map_option (\<lambda>e. if e then Some (refusal ''self_check_script_editable'') else None)
               (editable cf j p ''package.json''))])"

fun self_check_each :: "config \<Rightarrow> job \<Rightarrow> lock_plan \<Rightarrow> string list \<Rightarrow> string list \<Rightarrow> verdict" where
  "self_check_each cf j p seen [] = no_error"
| "self_check_each cf j p seen (raw # commands) =
     checks [self_check_one cf j p seen (js_trim raw), self_check_each cf j p (js_trim raw # seen) commands]"

definition selfCheckCommands_of :: "job \<Rightarrow> lock_plan \<Rightarrow> string list option" where
  "selfCheckCommands_of j p = (case Option.bind (lp_scopeContract p) ct_selfCheckCommands of Some cs \<Rightarrow> Some cs
     | None \<Rightarrow> Option.bind (scopeContract j) rc_selfCheckCommands)"

definition selfCheckCommandsError :: "config \<Rightarrow> job \<Rightarrow> lock_plan \<Rightarrow> verdict" where
  "selfCheckCommandsError cf j p =
    (let commands = selfCheckCommands_of j p in checks [
       (case selfCheckPasses j of None \<Rightarrow> no_error | Some n \<Rightarrow> checks [
          refuse_if (n < 0 \<or> n > SELF_CHECK_MAX_PASSES) (refusal ''self_check_invalid''),
          refuse_if (commands = None) (refusal ''self_check_not_applicable'')]),
       (case commands of None \<Rightarrow> no_error | Some cs \<Rightarrow> checks [
          refuse_if (cs = [] \<or> length cs > SELF_CHECK_MAX_COMMANDS) (refusal ''self_check_invalid''),
          refuse_if (lp_lockType p = ''read'' \<or> sanitizedWorkspace j \<or> js_lower (agent j) \<notin> WRITE_CAPABLE_AGENTS
              \<or> orchestratorMode j = ''contractor'') (refusal ''self_check_not_applicable''),
          self_check_each cf j p [] cs])])"

section \<open>The single planner\<close>

definition planPathInputs :: "lock_plan \<Rightarrow> string list" where
  "planPathInputs p = lp_lockedPaths p @ lp_allowedEdits p @ lp_forbiddenEdits p @ lp_sharedFiles p @ lp_serialOnly p
     @ scopeContractPathInputs (lp_scopeContract p)"

definition ambiguousPathInputs :: "lock_plan \<Rightarrow> string list" where
  "ambiguousPathInputs p = lp_lockedPaths p @ lp_allowedEdits p @ lp_sharedFiles p @ ct_list ct_write (lp_scopeContract p)"

text \<open>The checks both planners make on lock type and mode, and on the paths of a read or a write plan.\<close>

definition read_checks :: "job \<Rightarrow> lock_plan \<Rightarrow> string option \<Rightarrow> verdict" where
  "read_checks j p edit_error = checks [
     refuse_if (write_flag j = Some True \<or> lp_allowedEdits p \<noteq> []) (PlanError edit_error [] []),
     refuse_if (agent_name (lp_agent p) \<in> WRITE_CAPABLE_AGENTS) (refusal ''read_only_agent_required'')]"

definition write_field_checks :: "config \<Rightarrow> lock_plan \<Rightarrow> string \<Rightarrow> verdict" where
  "write_field_checks cf p rejected = checks [
     refuse_if (lp_lockedPaths p = []) (refusal ''missing_locked_paths''),
     refuse_if (lp_allowedEdits p = []) (refusal ''empty_allowed_edits''),
     refuse_if (hasAmbiguousPathPattern (host_of cf) (ambiguousPathInputs p) (lp_cwd p)) (refusal rejected)]"

definition write_path_checks :: "config \<Rightarrow> lock_plan \<Rightarrow> string \<Rightarrow> verdict" where
  "write_path_checks cf p rejected = (let h = host_of cf in checks [
     do { within \<leftarrow> createPathMatcher h (lp_lockedPaths p) (lp_cwd p);
          refuse_if (first_outside within (lp_allowedEdits p) \<noteq> []) (refusal rejected) },
     do { forbidden \<leftarrow> createPathMatcher h (lp_forbiddenEdits p) (lp_cwd p);
          let hits = filter forbidden (lp_allowedEdits p)
          in case overlaps h (lp_allowedEdits p) (lp_forbiddenEdits p) [] of
               Some (a, b) \<Rightarrow> Some (Some (PlanError (Some rejected) [a, b] []))
             | None \<Rightarrow> refuse_if (hits \<noteq> []) (PlanError (Some rejected) hits []) }])"

definition single_plan_checks :: "config \<Rightarrow> job \<Rightarrow> lock_plan \<Rightarrow> verdict" where
  "single_plan_checks cf j p = checks [
     reservedLockTypeError p,
     orchestratorPolicyError cf j p ''single'',
     validateScopeContract cf j p,
     refuse_if (lp_lockType p \<notin> PARALLEL_LOCK_TYPES) (refusal ''lock_plan_rejected''),
     refuse_if (lp_lockMode p \<notin> {''off'', ''simple'', ''strict''}) (refusal ''invalid_write_lock_mode''),
     refuse_if (lp_lockType p \<noteq> ''read'' \<and> lp_lockMode p = ''off'') (refusal ''invalid_write_lock_mode''),
     validationFixPassError j p,
     selfCheckCommandsError cf j p,
     refuse_if (unsafePathSteps (host_of cf) (planPathInputs p) (lp_cwd p) \<noteq> None) (refusal ''unsafe_path''),
     (if lp_lockType p = ''read'' then read_checks j p (Some ''read_only_edit_forbidden'')
      else checks [write_field_checks cf p ''lock_plan_rejected'', write_path_checks cf p ''lock_plan_rejected''])]"

text \<open>The result is the verdict and the plan it is about.\<close>

definition validateSingleLockPlan :: "config \<Rightarrow> job \<Rightarrow> (plan_error option \<times> lock_plan) option" where
  "validateSingleLockPlan cf j =
    do { continuation \<leftarrow> (if continueWorktree j = None then Some None
                          else do { p \<leftarrow> createLockPlan cf j 0;
                                    e \<leftarrow> continueWorktreeJobError cf j p;
                                    Some (map_option (\<lambda>e. (e, p)) e) });
         case continuation of Some (e, p) \<Rightarrow> Some (Some e, p)
         | None \<Rightarrow>
           do { sanitized \<leftarrow> sanitizedJobPolicyError cf j;
                case sanitized of
                  Some e \<Rightarrow> map_option (Pair (Some e))
                    (createLockPlan cf (j\<lparr>write_flag := Some False, lockType := ''read'', lockMode := ''off''\<rparr>) 0)
                | None \<Rightarrow>
                  do { p \<leftarrow> createLockPlan cf j 0;
                       e \<leftarrow> single_plan_checks cf j p;
                       Some (e, p) } } }"

section \<open>The parallel planner\<close>

fun pairs :: "'a list \<Rightarrow> ('a \<times> 'a) list" where
  "pairs [] = []"
| "pairs (x # xs) = map (Pair x) xs @ pairs xs"

definition with_shared_defaults :: "config \<Rightarrow> lock_plan \<Rightarrow> lock_plan" where
  "with_shared_defaults cf p = p\<lparr>lp_sharedFiles := normalizeLockPathListForCwd (host_of cf)
     (mergePathLists [DEFAULT_SHARED_FILE_PATHS, lp_sharedFiles p]) (lp_cwd p)\<rparr>"

definition with_strict_mode :: "config \<Rightarrow> job \<Rightarrow> lock_plan \<Rightarrow> lock_plan" where
  "with_strict_mode cf j p = (let requested = js_lower (js_trim (lockMode j)) in
     p\<lparr>lp_requestedLockMode := (if requested \<noteq> [] \<and> requested \<noteq> defaultParallelWriteLockMode cf then Some requested
                                 else lp_requestedLockMode p),
       lp_lockMode := defaultParallelWriteLockMode cf\<rparr>)"

text \<open>The plans as the loops before the guards leave them.\<close>

definition prepare_plans :: "config \<Rightarrow> job list \<Rightarrow> lock_plan list \<Rightarrow> lock_plan list" where
  "prepare_plans cf jobs raw = (let ps = map (with_shared_defaults cf) raw in
     if length (filter (\<lambda>p. lp_lockType p = ''write'') ps) > 1
     then map (\<lambda>(j, p). if lp_lockType p = ''write'' then with_strict_mode cf j p else p) (zip jobs ps)
     else ps)"

definition parallel_plan_checks :: "config \<Rightarrow> job \<Rightarrow> lock_plan \<Rightarrow> verdict" where
  "parallel_plan_checks cf j p = (let h = host_of cf in checks [
     reservedLockTypeError p,
     sanitizedJobPolicyError cf j,
     queueOnlyOptionsError j,
     refuse_if (Option.bind (scopeContract j) rc_selfCheckCommands \<noteq> None) (refusal ''self_check_unsupported_in_parallel''),
     refuse_if (validationFixPasses j \<notin> {None, Some 0}) (refusal ''validation_fix_pass_unsupported_in_parallel''),
     orchestratorPolicyError cf j p ''parallel'',
     validateScopeContract cf j p,
     refuse_if (lp_lockType p \<notin> PARALLEL_LOCK_TYPES) (refusal ''parallel_plan_rejected''),
     refuse_if (lp_lockMode p \<notin> {''off'', ''simple'', ''strict''}) (refusal ''invalid_write_lock_mode''),
     refuse_if (unsafePathReason h (planPathInputs p) (lp_cwd p) \<noteq> None) (refusal ''unsafe_path''),
     refuse_if (lp_lockType p \<noteq> ''read'' \<and> lp_lockMode p = ''off'') (refusal ''invalid_write_lock_mode''),
     (if lp_lockType p = ''read'' then read_checks j p None
      else checks [
        write_field_checks cf p ''parallel_plan_rejected'',
        map_option (\<lambda>ms. if ms = [] then None else Some (PlanError (Some ''serial_only_parallel_write'') [] ms))
          (findSerialOnlyMatches h (lp_lockedPaths p @ lp_allowedEdits p) (lp_serialOnly p) (lp_cwd p)),
        (case overlaps h (lp_allowedEdits p) (lp_sharedFiles p) [] of None \<Rightarrow> no_error
         | Some (a, b) \<Rightarrow> Some (Some (PlanError (Some ''shared_file_parallel_write'') [a, b] []))),
        write_path_checks cf p ''parallel_plan_rejected''])])"

definition sameProject :: "config \<Rightarrow> lock_plan \<Rightarrow> lock_plan \<Rightarrow> bool" where
  "sameProject cf l r = (let h = host_of cf in lp_cwd l = [] \<or> lp_cwd r = []
     \<or> normalizeFilesystemCase h (path_resolve h (lp_cwd l)) (lp_cwd l)
       = normalizeFilesystemCase h (path_resolve h (lp_cwd r)) (lp_cwd l))"

definition read_write_pair_check :: "config \<Rightarrow> lock_plan \<Rightarrow> lock_plan \<Rightarrow> verdict" where
  "read_write_pair_check cf l r =
    (if (lp_lockType l = ''read'') = (lp_lockType r = ''read'') \<or> \<not> sameProject cf l r then no_error
     else case overlaps (host_of cf) (hardLockPathsForPlan l) (hardLockPathsForPlan r) (or_string (lp_cwd l) (lp_cwd r)) of
       None \<Rightarrow> no_error
     | Some (a, b) \<Rightarrow> Some (Some (PlanError (Some ''parallel_read_write_conflict'') [a, b] [])))"

definition write_pair_check :: "config \<Rightarrow> lock_plan \<Rightarrow> lock_plan \<Rightarrow> verdict" where
  "write_pair_check cf l r =
    (if \<not> sameProject cf l r then no_error
     else case overlaps (host_of cf) (lp_allowedEdits l @ lp_lockedPaths l) (lp_allowedEdits r @ lp_lockedPaths r)
                 (or_string (lp_cwd l) (lp_cwd r)) of
       None \<Rightarrow> no_error
     | Some (a, b) \<Rightarrow> Some (Some (PlanError (Some ''parallel_plan_rejected'') [a, b] [])))"

definition validateParallelWritePlan :: "config \<Rightarrow> job list \<Rightarrow> (plan_error option \<times> lock_plan list) option" where
  "validateParallelWritePlan cf jobs =
    do { raw \<leftarrow> opt_map (\<lambda>(j, i). createLockPlan cf j i) (zip jobs [0..<length jobs]);
         early \<leftarrow> checks [
           refuse_if (list_ex (\<lambda>j. continueWorktree j \<noteq> None) jobs) (refusal ''continue_worktree_unsupported_in_parallel''),
           refuse_if (length jobs > parallelLimit cf) (refusal ''parallel_plan_rejected'')];
         case early of Some e \<Rightarrow> Some (Some e, raw)
         | None \<Rightarrow>
           (let ps = prepare_plans cf jobs raw;
                writers = filter (\<lambda>p. lp_lockType p = ''write'') ps
            in map_option (\<lambda>e. (e, ps)) (checks [
                 checks (map (\<lambda>(j, p). parallel_plan_checks cf j p) (zip jobs ps)),
                 checks (map (\<lambda>(l, r). read_write_pair_check cf l r) (pairs ps)),
                 checks (map (\<lambda>(l, r). write_pair_check cf l r) (pairs writers))])) }"

section \<open>Accepted plans\<close>

lemmas plan_checks = single_plan_checks_def parallel_plan_checks_def validateScopeContract_def contract_checks_def
  read_checks_def write_field_checks_def write_path_checks_def reservedLockTypeError_def Let_def

lemma single_accepted:
  assumes "validateSingleLockPlan cf j = Some (None, p)"
  shows "createLockPlan cf j 0 = Some p" "single_plan_checks cf j p = no_error"
    "sanitizedJobPolicyError cf j = no_error"
    "continueWorktree j \<noteq> None \<Longrightarrow> continueWorktreeJobError cf j p = no_error"
proof -
  show c: "createLockPlan cf j 0 = Some p" and "single_plan_checks cf j p = no_error"
    "sanitizedJobPolicyError cf j = no_error"
    using assms unfolding validateSingleLockPlan_def
    by (auto simp: bind_eq_Some_conv split: if_splits option.splits prod.splits)
  show "continueWorktreeJobError cf j p = no_error" if "continueWorktree j \<noteq> None"
    using assms that c unfolding validateSingleLockPlan_def
    by (auto simp: bind_eq_Some_conv split: if_splits option.splits prod.splits)
qed

lemma first_outside_Nil: "first_outside within ps = [] \<longleftrightarrow> (\<forall>p \<in> set ps. within p)"
  by (auto simp: first_outside_def find_None_not dest: find_Some_ex split: option.splits)

text \<open>What the contract guards and the path guards of a write plan establish.\<close>

definition contained :: "config \<Rightarrow> lock_plan \<Rightarrow> contract \<Rightarrow> string \<Rightarrow> bool" where
  "contained cf p c e \<longleftrightarrow>
     isWithinAnyPath (host_of cf) e (lp_lockedPaths p) (lp_cwd p) = Some True
   \<and> isWithinAnyPath (host_of cf) e (ct_write c) (lp_cwd p) = Some True
   \<and> isWithinAnyPath (host_of cf) e (lp_forbiddenEdits p) (lp_cwd p) = Some False
   \<and> overlaps (host_of cf) [e] (lp_forbiddenEdits p) [] = None"

lemma overlaps_each: "overlaps h as bs cwd = None \<Longrightarrow> a \<in> set as \<Longrightarrow> overlaps h [a] bs cwd = None"
  unfolding overlaps_None_iff by simp

lemma contract_write:
  assumes "validateScopeContract cf j p = no_error" "lp_lockType p = ''write''"
  obtains c where "lp_scopeContract p = Some c" "ct_mode c = ''write''" "ct_write c \<noteq> []" "lp_allowedEdits p \<noteq> []"
    "\<forall>e \<in> set (lp_allowedEdits p). isWithinAnyPath (host_of cf) e (ct_write c) (lp_cwd p) = Some True"
proof (cases "lp_scopeContract p")
  case None
  then show ?thesis using assms by (simp add: validateScopeContract_def)
next
  case (Some c)
  then have k: "contract_checks cf c p = no_error" using assms by (simp add: validateScopeContract_def)
  then have m: "ct_mode c = ''write''" "ct_write c \<noteq> []" "lp_allowedEdits p \<noteq> []"
    using assms(2) by (auto simp: contract_checks_def Let_def)
  obtain w where w: "createPathMatcher (host_of cf) (ct_write c) (lp_cwd p) = Some w"
    "first_outside w (lp_allowedEdits p) = []"
    using k m(2) by (auto simp: contract_checks_def Let_def bind_eq_Some_conv)
  show ?thesis using that [OF Some m] matcher_apply [OF w(1)] w(2) by (simp add: first_outside_Nil)
qed

lemma write_paths:
  assumes "write_path_checks cf p r = no_error" "e \<in> set (lp_allowedEdits p)"
  shows "isWithinAnyPath (host_of cf) e (lp_lockedPaths p) (lp_cwd p) = Some True"
    "isWithinAnyPath (host_of cf) e (lp_forbiddenEdits p) (lp_cwd p) = Some False"
    "overlaps (host_of cf) [e] (lp_forbiddenEdits p) [] = None"
proof -
  obtain w where w: "createPathMatcher (host_of cf) (lp_lockedPaths p) (lp_cwd p) = Some w"
    "first_outside w (lp_allowedEdits p) = []"
    using assms(1) by (auto simp: write_path_checks_def Let_def bind_eq_Some_conv)
  have "(case overlaps (host_of cf) (lp_allowedEdits p) (lp_forbiddenEdits p) [] of
      Some (a, b) \<Rightarrow> Some (Some (PlanError (Some r) [a, b] [])) | None \<Rightarrow> refuse_if c e') = no_error \<Longrightarrow>
      overlaps (host_of cf) (lp_allowedEdits p) (lp_forbiddenEdits p) [] = None \<and> \<not> c" for c e'
    by (simp split: option.splits prod.splits)
  then obtain f where f: "createPathMatcher (host_of cf) (lp_forbiddenEdits p) (lp_cwd p) = Some f"
    "overlaps (host_of cf) (lp_allowedEdits p) (lp_forbiddenEdits p) [] = None" "filter f (lp_allowedEdits p) = []"
    using assms(1) by (auto simp: write_path_checks_def Let_def bind_eq_Some_conv)
  show "isWithinAnyPath (host_of cf) e (lp_lockedPaths p) (lp_cwd p) = Some True"
    using matcher_apply [OF w(1)] w(2) assms(2) by (simp add: first_outside_Nil)
  show "isWithinAnyPath (host_of cf) e (lp_forbiddenEdits p) (lp_cwd p) = Some False"
    using matcher_apply [OF f(1)] f(3) assms(2) by (simp add: filter_empty_conv)
  show "overlaps (host_of cf) [e] (lp_forbiddenEdits p) [] = None"
    using overlaps_each [OF f(2) assms(2)] .
qed

text \<open>The guards of both planners on one plan, read off as facts.\<close>

definition write_plan_ok :: "config \<Rightarrow> lock_plan \<Rightarrow> bool" where
  "write_plan_ok cf p \<longleftrightarrow> lp_lockType p = ''write'' \<and> lp_lockMode p \<in> {''simple'', ''strict''}
     \<and> lp_lockedPaths p \<noteq> [] \<and> lp_allowedEdits p \<noteq> []
     \<and> \<not> hasAmbiguousPathPattern (host_of cf) (lp_lockedPaths p @ lp_allowedEdits p) (lp_cwd p)
     \<and> (\<exists>c. lp_scopeContract p = Some c \<and> ct_mode c = ''write'' \<and> (\<forall>e \<in> set (lp_allowedEdits p). contained cf p c e))"

lemma ambiguous_append: "hasAmbiguousPathPattern h (as @ bs) cwd
    \<longleftrightarrow> hasAmbiguousPathPattern h as cwd \<or> hasAmbiguousPathPattern h bs cwd"
  by (simp add: hasAmbiguousPathPattern_def normalizeList_def)

lemma write_plan_okI:
  assumes "validateScopeContract cf j p = no_error" "write_field_checks cf p r = no_error"
    "write_path_checks cf p r = no_error" "reservedLockTypeError p = no_error"
    "lp_lockType p \<in> PARALLEL_LOCK_TYPES" "lp_lockType p \<noteq> ''read''"
    "lp_lockMode p \<in> {''off'', ''simple'', ''strict''}" "lp_lockMode p \<noteq> ''off''"
  shows "write_plan_ok cf p"
proof -
  have t: "lp_lockType p = ''write''"
    using assms(4-6) by (simp add: PARALLEL_LOCK_TYPES_def reservedLockTypeError_def)
  obtain c where c: "lp_scopeContract p = Some c" "ct_mode c = ''write''"
    "\<forall>e \<in> set (lp_allowedEdits p). isWithinAnyPath (host_of cf) e (ct_write c) (lp_cwd p) = Some True"
    by (rule contract_write [OF assms(1) t])
  have "\<forall>e \<in> set (lp_allowedEdits p). contained cf p c e"
    using write_paths [OF assms(3)] c(3) by (simp add: contained_def)
  moreover have "lp_lockedPaths p \<noteq> []" "lp_allowedEdits p \<noteq> []"
    "\<not> hasAmbiguousPathPattern (host_of cf) (lp_lockedPaths p @ lp_allowedEdits p) (lp_cwd p)"
    using assms(2) by (simp_all add: write_field_checks_def ambiguousPathInputs_def ambiguous_append)
  ultimately show ?thesis using t c assms(7,8) unfolding write_plan_ok_def by blast
qed

lemma single_write_ok:
  assumes "single_plan_checks cf j p = no_error" "lp_lockType p \<noteq> ''read''"
  shows "write_plan_ok cf p"
  by (rule write_plan_okI [of cf j p "''lock_plan_rejected''"]) (use assms in \<open>auto simp: single_plan_checks_def\<close>)

lemma parallel_write_ok:
  assumes "parallel_plan_checks cf j p = no_error" "lp_lockType p \<noteq> ''read''"
  shows "write_plan_ok cf p"
  by (rule write_plan_okI [of cf j p "''parallel_plan_rejected''"])
     (use assms in \<open>auto simp: parallel_plan_checks_def Let_def\<close>)

section \<open>The single planner\<close>

definition sample_contract :: raw_contract where
  "sample_contract = \<lparr>rc_agent = ''builder'', rc_role = [], rc_mode = ''write'', rc_read = [], rc_write = [''a''],
     rc_allowedEdits = [''a''], rc_forbidden = [], rc_shared = [], rc_serialOnly = [],
     rc_validationCommand = [], rc_scope = None, rc_actions = [], rc_validation = None, rc_timeoutMs = None,
     rc_timeoutPolicy = None, rc_modelRequirement = None, rc_selfCheckCommands = None\<rparr>"

definition sample_writer :: job where
  "sample_writer = sample_job\<lparr>agent := ''builder'', job_cwd := [], lockedPaths := [''a''],
     allowedEdits := [''a''], scopeContract := Some sample_contract\<rparr>"

text \<open>C1: A job the single planner accepts and that is not a read job has a write plan with lock mode
  simple or strict, a write Scope Contract, non-empty unambiguous lockedPaths and allowedEdits, and
  every allowed edit is inside the locked paths and inside scope.write, is matched by no forbidden
  entry, overlaps none, and is a safe path.\<close>

theorem single_write_plan_contained:
  assumes "validateSingleLockPlan cf j = Some (None, p)" "lp_lockType p \<noteq> ''read''"
  shows "write_plan_ok cf p
    \<and> (\<forall>e \<in> set (lp_allowedEdits p). unsafePathReason (host_of cf) [e] (lp_cwd p) = None)"
proof -
  note a = single_accepted(2) [OF assms(1)]
  have "unsafePathSteps (host_of cf) (planPathInputs p) (lp_cwd p) = None"
    using a by (simp add: single_plan_checks_def)
  then have "\<forall>e \<in> set (lp_allowedEdits p). unsafePathReason (host_of cf) [e] (lp_cwd p) = None"
    by (simp add: unsafePathSteps_def first_reason_None planPathInputs_def)
  then show ?thesis using single_write_ok [OF a assms(2)] by simp
qed

definition accepts_write :: "(plan_error option \<times> lock_plan) option \<Rightarrow> bool" where
  "accepts_write r = (case r of Some (None, p) \<Rightarrow> lp_lockType p = ''write'' | _ \<Rightarrow> False)"

lemma accepts_writeE:
  assumes "accepts_write r" obtains p where "r = Some (None, p)" "lp_lockType p = ''write''"
  using assms by (auto simp: accepts_write_def split: option.splits prod.splits)

lemma sample_writer_accepted: "accepts_write (validateSingleLockPlan sample_config sample_writer)"
  by code_simp

theorem single_write_plan_contained_witness:
  "\<exists>p. validateSingleLockPlan sample_config sample_writer = Some (None, p) \<and> write_plan_ok sample_config p"
proof -
  obtain p where h: "validateSingleLockPlan sample_config sample_writer = Some (None, p)" "lp_lockType p = ''write''"
    using accepts_writeE [OF sample_writer_accepted] .
  then show ?thesis using single_write_plan_contained [OF h(1)] by simp
qed

text \<open>An accepted read plan has no allowed edit, its job does not ask to write, its agent is not
  write-capable, and its contract (if any) is a read contract with an empty write scope.\<close>

theorem single_read_plan_edits_nothing:
  assumes "validateSingleLockPlan cf j = Some (None, p)" "lp_lockType p = ''read''"
  shows "lp_allowedEdits p = [] \<and> write_flag j \<noteq> Some True \<and> agent_name (agent j) \<notin> WRITE_CAPABLE_AGENTS
    \<and> (case lp_scopeContract p of None \<Rightarrow> True | Some c \<Rightarrow> ct_write c = [] \<and> ct_mode c = ''read'')"
proof -
  note a = single_accepted(2) [OF assms(1)]
  have ag: "lp_agent p = agent j"
    using single_accepted(1) [OF assms(1)] by (auto simp: createLockPlan_def Let_def bind_eq_Some_conv)
  have r: "read_checks j p (Some ''read_only_edit_forbidden'') = no_error" and v: "validateScopeContract cf j p = no_error"
    using a assms(2) by (simp_all add: single_plan_checks_def)
  have "ct_write c = [] \<and> ct_mode c = ''read''" if "lp_scopeContract p = Some c" for c
    using v assms(2) that by (auto simp: validateScopeContract_def contract_checks_def Let_def)
  then show ?thesis using r ag by (simp add: read_checks_def split: option.splits)
qed

lemma sample_reader_accepted:
  "(case validateSingleLockPlan sample_config (sample_job\<lparr>job_cwd := []\<rparr>) of Some (None, p) \<Rightarrow> lp_lockType p = ''read'' | _ \<Rightarrow> False)"
  by code_simp

theorem single_read_plan_edits_nothing_witness:
  "\<exists>p. validateSingleLockPlan sample_config (sample_job\<lparr>job_cwd := []\<rparr>) = Some (None, p) \<and> lp_allowedEdits p = []"
proof -
  obtain p where h: "validateSingleLockPlan sample_config (sample_job\<lparr>job_cwd := []\<rparr>) = Some (None, p)" "lp_lockType p = ''read''"
    using sample_reader_accepted by (auto split: option.splits prod.splits)
  then show ?thesis using single_read_plan_edits_nothing [OF h] by simp
qed

text \<open>The default forbidden entries of a plan.\<close>

lemma in_uniqueList: "v \<in> set vs \<Longrightarrow> js_trim v = v \<Longrightarrow> v \<noteq> [] \<Longrightarrow> v \<in> set (uniqueList vs)"
  by (force simp: uniqueList_def normalizeList_def)

lemma in_normalizeLockPathList:
  "v \<in> set vs \<Longrightarrow> js_trim v = v \<Longrightarrow> v \<noteq> [] \<Longrightarrow> normalizeLockPath v = v \<Longrightarrow> v \<in> set (normalizeLockPathList vs)"
  using in_uniqueList [of v vs] by (force simp: normalizeLockPathList_def)

lemma in_mergePathLists:
  "v \<in> set l \<Longrightarrow> l \<in> set ls \<Longrightarrow> js_trim v = v \<Longrightarrow> v \<noteq> [] \<Longrightarrow> normalizeLockPath v = v \<Longrightarrow> v \<in> set (mergePathLists ls)"
  unfolding mergePathLists_def by (rule in_normalizeLockPathList) (auto simp: normalizeList_def)

lemma in_forCwd:
  assumes "v \<in> set vs" "js_trim v = v" "v \<noteq> []" "normalizeLockPath v = v" "fixed_entry v"
  shows "v \<in> set (normalizeLockPathListForCwd h vs cwd)"
proof -
  have "normalizeLockPathForCwd h v cwd = v" using fixed_entry_forCwd [OF assms(5)] assms(4) by simp
  then show ?thesis using in_uniqueList [OF assms(1-3)] assms(3) by (force simp: normalizeLockPathListForCwd_def)
qed

lemma plan_forbids_git:
  assumes "createLockPlan cf j i = Some p"
  shows "''.git'' \<in> set (lp_forbiddenEdits p)" "''**/.git/**'' \<in> set (lp_forbiddenEdits p)"
proof -
  obtain sc where f: "lp_forbiddenEdits p = normalizeLockPathListForCwd (host_of cf)
      (mergePathLists [DEFAULT_FORBIDDEN_EDIT_PATHS, forbiddenEdits j, ct_list ct_forbidden sc]) (job_cwd j)"
    using assms by (auto simp: createLockPlan_def Let_def bind_eq_Some_conv)
  have t: "js_trim ''.git'' = ''.git''" "js_trim ''**/.git/**'' = ''**/.git/**''" by code_simp+
  show "''.git'' \<in> set (lp_forbiddenEdits p)" unfolding f
    by (intro in_forCwd in_mergePathLists [of _ DEFAULT_FORBIDDEN_EDIT_PATHS] git_entries t) simp_all
  show "''**/.git/**'' \<in> set (lp_forbiddenEdits p)" unfolding f
    by (intro in_forCwd in_mergePathLists [of _ DEFAULT_FORBIDDEN_EDIT_PATHS] git_entries t) simp_all
qed

lemma write_plan_no_git:
  assumes "createLockPlan cf j i = Some q" "lp_forbiddenEdits p = lp_forbiddenEdits q"
    and "write_plan_ok cf p" "e \<in> set (lp_allowedEdits p)"
    and "comparePathCandidates (host_of cf) e (lp_cwd p) = [g]" "\<forall>c \<in> set g. \<not> line_break c"
  shows "''.git'' \<notin> set (split_on slash g)"
proof
  assume g: "''.git'' \<in> set (split_on slash g)"
  have "isWithinAnyPath (host_of cf) e (lp_forbiddenEdits p) (lp_cwd p) = Some False"
    using assms(3,4) by (auto simp: write_plan_ok_def contained_def)
  then have "isWithinAnyPath (host_of cf) e [v] (lp_cwd p) = Some False" if "v \<in> set (lp_forbiddenEdits p)" for v
    using within_False that by blast
  then show False
    using git_entry_matches [OF assms(5) g assms(6)] plan_forbids_git [OF assms(1)] assms(2) by auto
qed

lemma one_candidate: "g \<in> set (comparePathCandidates h f cwd) \<Longrightarrow> comparePathCandidates h f cwd = [g]"
  by (auto simp: comparePathCandidates_def Let_def split: if_split_asm)

text \<open>C22: In an accepted write plan, no allowed edit whose compared form has no line break has a .git
  path segment in that form: the default forbidden entries always reach the plan and match below any
  directory.\<close>

theorem single_write_plan_spares_git:
  assumes "validateSingleLockPlan cf j = Some (None, p)" "lp_lockType p \<noteq> ''read''"
    and "e \<in> set (lp_allowedEdits p)" "g \<in> set (comparePathCandidates (host_of cf) e (lp_cwd p))"
    and "\<forall>c \<in> set g. \<not> line_break c"
  shows "''.git'' \<notin> set (split_on slash g)"
  by (rule write_plan_no_git [OF single_accepted(1) [OF assms(1)] refl
        single_write_ok [OF single_accepted(2) [OF assms(1)] assms(2)] assms(3) one_candidate [OF assms(4)] assms(5)])

lemma sample_writer_edits:
  "(case createLockPlan sample_config sample_writer 0 of Some p \<Rightarrow> lp_allowedEdits p = [''a''] \<and> lp_cwd p = [] | None \<Rightarrow> False)"
  by code_simp

theorem single_write_plan_spares_git_witness:
  "\<exists>p e. validateSingleLockPlan sample_config sample_writer = Some (None, p) \<and> e \<in> set (lp_allowedEdits p)
     \<and> ''.git'' \<notin> set (split_on slash e)"
proof -
  obtain p where h: "validateSingleLockPlan sample_config sample_writer = Some (None, p)" "lp_lockType p = ''write''"
    using accepts_writeE [OF sample_writer_accepted] .
  have p: "lp_allowedEdits p = [''a'']" "lp_cwd p = []"
    using sample_writer_edits single_accepted(1) [OF h(1)] by simp_all
  have c: "comparePathCandidates (host_of sample_config) ''a'' (lp_cwd p) = [''a'']" unfolding p by code_simp
  have m: "''a'' \<in> set (comparePathCandidates (host_of sample_config) ''a'' (lp_cwd p))" unfolding c by simp
  have "''.git'' \<notin> set (split_on slash ''a'')"
    by (rule single_write_plan_spares_git [OF h(1) _ _ m]) (simp_all add: h p line_break_def)
  then show ?thesis using h(1) p(1) by auto
qed

text \<open>A job that continues a worktree is accepted only as a contained write plan, with worktrees on,
  no automatic integration, no sanitized workspace and not as a contractor.\<close>

theorem continued_worktree_is_single_writer:
  assumes "validateSingleLockPlan cf j = Some (None, p)" "continueWorktree j \<noteq> None"
  shows "write_plan_ok cf p \<and> worktreeMode cf \<noteq> ''off'' \<and> lp_orchestratorMode p \<noteq> ''contractor''
    \<and> \<not> sanitizedWorkspace j \<and> autoIntegrate j \<noteq> Some True"
proof -
  have "lp_lockType p = ''write'' \<and> worktreeMode cf \<noteq> ''off'' \<and> lp_orchestratorMode p \<noteq> ''contractor''
      \<and> \<not> sanitizedWorkspace j \<and> autoIntegrate j \<noteq> Some True"
    using single_accepted(4) [OF assms] assms(2) by (auto simp: continueWorktreeJobError_def)
  then show ?thesis using single_write_ok [OF single_accepted(2) [OF assms(1)]] by simp
qed

lemma sample_continuation_accepted:
  "accepts_write (validateSingleLockPlan sample_config (sample_writer\<lparr>continueWorktree := Some ''w''\<rparr>))"
  by code_simp

theorem continued_worktree_is_single_writer_witness:
  "\<exists>p. validateSingleLockPlan sample_config (sample_writer\<lparr>continueWorktree := Some ''w''\<rparr>) = Some (None, p) \<and> write_plan_ok sample_config p"
proof -
  obtain p where h: "validateSingleLockPlan sample_config (sample_writer\<lparr>continueWorktree := Some ''w''\<rparr>) = Some (None, p)"
    using accepts_writeE [OF sample_continuation_accepted] by metis
  then show ?thesis using continued_worktree_is_single_writer [OF h] by simp
qed

text \<open>An orchestrator job the single planner accepts is either an authorized contractor with a
  contained write plan, or a planning-only read plan with lock mode off and no edits.\<close>

theorem single_plan_orchestrators:
  assumes "validateSingleLockPlan cf j = Some (None, p)" "isOrchestratorAgent cf (agent j)"
  shows "lp_orchestratorMode p = ''contractor'' \<and> contractorAuthorizationValid cf j \<and> userAuthorizedOrchestrator j
      \<and> write_plan_ok cf p
    \<or> lp_orchestratorMode p = ''planning-only'' \<and> lp_lockType p = ''read'' \<and> lp_lockMode p = ''off'' \<and> lp_allowedEdits p = []"
proof -
  note a = single_accepted [OF assms(1)]
  have o: "orchestratorPolicyError cf j p ''single'' = no_error" using a(2) by (simp add: single_plan_checks_def)
  have m: "normalizeOrchestratorMode cf j = Some (lp_orchestratorMode p)"
    using a(1) by (auto simp: createLockPlan_def Let_def bind_eq_Some_conv)
  have ne: "lp_orchestratorMode p \<noteq> []"
  proof
    assume e: "lp_orchestratorMode p = []"
    then have "orchestratorPolicyError cf j p ''single'' \<noteq> no_error"
      using m assms(2) by (simp add: orchestratorPolicyError_def)
    then show False using o by simp
  qed
  show ?thesis
  proof (cases "lp_orchestratorMode p = ''contractor''")
    case True
    then show ?thesis using orchestrator_contractor [OF o assms(2) True] single_write_ok [OF a(2)] by simp
  next
    case False
    then show ?thesis using orchestrator_planner [OF o assms(2) False ne] by simp
  qed
qed

definition sample_contractor :: job where
  "sample_contractor = sample_writer\<lparr>agent := ''orchestrator'', write_flag := Some True, orchestratorMode := ''contractor'',
     scopeContract := Some (sample_contract\<lparr>rc_agent := []\<rparr>), userAuthorizedOrchestrator_flag := True,
     contractorAuthorizationToken_field := ''secret''\<rparr>"

lemma sample_contractor_accepted: "accepts_write (validateSingleLockPlan sample_config sample_contractor)"
  by code_simp

theorem single_plan_orchestrators_witness:
  "\<exists>p. validateSingleLockPlan sample_config sample_contractor = Some (None, p) \<and> write_plan_ok sample_config p
     \<and> contractorAuthorizationValid sample_config sample_contractor"
proof -
  obtain p where h: "validateSingleLockPlan sample_config sample_contractor = Some (None, p)" "lp_lockType p = ''write''"
    using accepts_writeE [OF sample_contractor_accepted] .
  have "isOrchestratorAgent sample_config (agent sample_contractor)" by code_simp
  from single_plan_orchestrators [OF h(1) this] h show ?thesis by auto
qed

section \<open>Self-check commands\<close>









definition sample_check_plan :: lock_plan where
  "sample_check_plan = sample_plan\<lparr>lp_agent := ''builder'', lp_cwd := [], lp_lockType := ''write'', lp_lockMode := ''simple'',
     lp_orchestratorMode := [], lp_allowedEdits := [''out/x.cjs'']\<rparr>"

definition sample_check_job :: "string list \<Rightarrow> job" where
  "sample_check_job cs = sample_writer\<lparr>scopeContract := Some (sample_contract\<lparr>rc_selfCheckCommands := Some cs\<rparr>)\<rparr>"


text \<open>So a self-check command with a no-break space is checked as one argument but run as two, and an
  editable script passes the check.\<close>

lemma self_check_blank_mismatch:
  "selfCheckCommandsError sample_config (sample_check_job [''node out/x.cjs'' @ [CHR 0xA0] @ ''y'']) sample_check_plan = no_error
   \<and> parseCommandLine (''node out/x.cjs'' @ [CHR 0xA0] @ ''y'') = Some [''node'', ''out/x.cjs'', ''y'']
   \<and> editable sample_config (sample_check_job []) sample_check_plan ''out/x.cjs'' = Some True"
  by code_simp

section \<open>Batch capacity\<close>

definition batch_load :: "config \<Rightarrow> job list \<Rightarrow> string list option \<Rightarrow> string \<Rightarrow> nat" where
  "batch_load cf jobs keys k = length (filter (\<lambda>i. \<not> dryRun (jobs ! i) \<and>
     (case keys of None \<Rightarrow> providerConcurrencyKey cf
      | Some ks \<Rightarrow> or_string (if i < length ks then ks ! i else []) (providerConcurrencyKey cf)) = k) [0..<length jobs])"

lemma zip_upt_nth: "zip [0..<length xs] xs = map (\<lambda>i. (i, xs ! i)) [0..<length xs]"
  by (intro nth_equalityI) auto

lemma find_map_keys: "List.find (\<lambda>(k, n). P k n) (map (\<lambda>k. (k, f k)) ks)
    = map_option (\<lambda>k. (k, f k)) (List.find (\<lambda>k. P k (f k)) ks)"
  by (induction ks) auto

text \<open>The capacity check of a parallel batch reports exactly a provider key whose leased jobs exceed
  its limit, with their number.\<close>

theorem batch_capacity:
  "(case parallelBatchCapacityError cf jobs keys of
      None \<Rightarrow> \<forall>k. batch_load cf jobs keys k > 0 \<longrightarrow> batch_load cf jobs keys k \<le> providerLimitForKey cf k
    | Some (k, n) \<Rightarrow> n = batch_load cf jobs keys k \<and> n > providerLimitForKey cf k)"
proof -
  define key where "key = (\<lambda>i. case keys of None \<Rightarrow> providerConcurrencyKey cf
      | Some ks \<Rightarrow> or_string (if i < length ks then ks ! i else []) (providerConcurrencyKey cf))"
  define leased where "leased = map key (filter (\<lambda>i. \<not> dryRun (jobs ! i)) [0..<length jobs])"
  have l: "map (\<lambda>(i, j). key i) (filter (\<lambda>(i, j). \<not> dryRun j) (zip [0..<length jobs] jobs)) = leased"
    unfolding zip_upt_nth leased_def by (simp add: filter_map comp_def)
  have load: "batch_load cf jobs keys k = length (filter (\<lambda>k'. k' = k) leased)" for k
    unfolding batch_load_def leased_def by (simp add: filter_map comp_def conj_commute key_def)
  have pos: "batch_load cf jobs keys k > 0 \<longleftrightarrow> k \<in> set leased" for k
    unfolding load by (auto simp: filter_empty_conv)
  have e: "parallelBatchCapacityError cf jobs keys = map_option (\<lambda>k. (k, batch_load cf jobs keys k))
      (List.find (\<lambda>k. batch_load cf jobs keys k > providerLimitForKey cf k) (uniq leased))"
    unfolding parallelBatchCapacityError_def key_def [symmetric] Let_def l load by (rule find_map_keys)
  show ?thesis
  proof (cases "List.find (\<lambda>k. batch_load cf jobs keys k > providerLimitForKey cf k) (uniq leased)")
    case None
    then have "\<forall>k \<in> set leased. \<not> batch_load cf jobs keys k > providerLimitForKey cf k"
      using find_None_not [of _ "uniq leased"] by simp
    then show ?thesis using e None pos by (simp add: not_less)
  next
    case (Some k)
    then show ?thesis using e find_Some_ex [OF Some] by simp
  qed
qed

theorem batch_capacity_witness:
  "parallelBatchCapacityError sample_config [sample_job, sample_job, sample_job] None = Some (''default'', 3)
   \<and> batch_load sample_config [sample_job, sample_job, sample_job] None ''default'' = 3"
proof -
  have h: "parallelBatchCapacityError sample_config [sample_job, sample_job, sample_job] None = Some (''default'', 3)" by code_simp
  show ?thesis using batch_capacity [of sample_config "[sample_job, sample_job, sample_job]" None] h by simp
qed

end
