(* ===== verification/ParallelBatch.thy ===== *)
theory ParallelBatch
  imports LockPlan
begin

text \<open>
  What the parallel planner of \<open>lib/lock-plan.js\<close> guarantees: the plans of an accepted batch are
  pairwise disjoint, every writer is contained in its contract, and no writer touches a shared,
  serial-only or forbidden path.
\<close>

lemma bind_SomeE:
  assumes "Option.bind m f = Some r" obtains x where "m = Some x" "f x = Some r"
  using assms by (cases m) auto

section \<open>Accepted batches\<close>

lemma parallel_accepted:
  assumes "validateParallelWritePlan cf jobs = Some (None, ps)"
  shows "\<exists>raw. opt_map (\<lambda>(j, i). createLockPlan cf j i) (zip jobs [0..<length jobs]) = Some raw \<and> ps = prepare_plans cf jobs raw"
    and "\<forall>j \<in> set jobs. continueWorktree j = None" "length jobs \<le> parallelLimit cf"
    and "\<forall>(j, p) \<in> set (zip jobs ps). parallel_plan_checks cf j p = no_error"
    and "\<forall>(l, r) \<in> set (pairs ps). read_write_pair_check cf l r = no_error"
    and "\<forall>(l, r) \<in> set (pairs (filter (\<lambda>p. lp_lockType p = ''write'') ps)). write_pair_check cf l r = no_error"
proof -
  obtain raw where raw: "opt_map (\<lambda>(j, i). createLockPlan cf j i) (zip jobs [0..<length jobs]) = Some raw"
    and rest1: "Option.bind (checks [refuse_if (list_ex (\<lambda>j. continueWorktree j \<noteq> None) jobs) (refusal ''continue_worktree_unsupported_in_parallel''),
           refuse_if (length jobs > parallelLimit cf) (refusal ''parallel_plan_rejected'')]) (\<lambda>early. case early of Some e \<Rightarrow> Some (Some e, raw)
         | None \<Rightarrow>
           (let ps = prepare_plans cf jobs raw;
                writers = filter (\<lambda>p. lp_lockType p = ''write'') ps
            in map_option (\<lambda>e. (e, ps)) (checks [
                 checks (map (\<lambda>(j, p). parallel_plan_checks cf j p) (zip jobs ps)),
                 checks (map (\<lambda>(l, r). read_write_pair_check cf l r) (pairs ps)),
                 checks (map (\<lambda>(l, r). write_pair_check cf l r) (pairs writers))]))) = Some (None, ps)"
    by (rule bind_SomeE [OF assms [unfolded validateParallelWritePlan_def]])
  obtain early where early: "checks [refuse_if (list_ex (\<lambda>j. continueWorktree j \<noteq> None) jobs) (refusal ''continue_worktree_unsupported_in_parallel''),
           refuse_if (length jobs > parallelLimit cf) (refusal ''parallel_plan_rejected'')] = Some early"
    and rest: "(case early of Some e \<Rightarrow> Some (Some e, raw)
         | None \<Rightarrow>
           (let ps = prepare_plans cf jobs raw;
                writers = filter (\<lambda>p. lp_lockType p = ''write'') ps
            in map_option (\<lambda>e. (e, ps)) (checks [
                 checks (map (\<lambda>(j, p). parallel_plan_checks cf j p) (zip jobs ps)),
                 checks (map (\<lambda>(l, r). read_write_pair_check cf l r) (pairs ps)),
                 checks (map (\<lambda>(l, r). write_pair_check cf l r) (pairs writers))]))) = Some (None, ps)"
    by (rule bind_SomeE [OF rest1])
  have e: "early = None" using rest by (cases early) auto
  with early show "\<forall>j \<in> set jobs. continueWorktree j = None" "length jobs \<le> parallelLimit cf"
    by (auto simp: list_ex_iff)
  have ps: "ps = prepare_plans cf jobs raw" using rest e by (auto simp: Let_def)
  with raw show "\<exists>raw. opt_map (\<lambda>(j, i). createLockPlan cf j i) (zip jobs [0..<length jobs]) = Some raw \<and> ps = prepare_plans cf jobs raw"
    by blast
  have "checks [checks (map (\<lambda>(j, p). parallel_plan_checks cf j p) (zip jobs ps)),
      checks (map (\<lambda>(l, r). read_write_pair_check cf l r) (pairs ps)),
      checks (map (\<lambda>(l, r). write_pair_check cf l r) (pairs (filter (\<lambda>p. lp_lockType p = ''write'') ps)))] = no_error"
    using rest e unfolding ps by (auto simp: Let_def)
  then show "\<forall>(j, p) \<in> set (zip jobs ps). parallel_plan_checks cf j p = no_error"
    "\<forall>(l, r) \<in> set (pairs ps). read_write_pair_check cf l r = no_error"
    "\<forall>(l, r) \<in> set (pairs (filter (\<lambda>p. lp_lockType p = ''write'') ps)). write_pair_check cf l r = no_error"
    by (auto simp: split_beta)
qed

lemma pairs_nth: "i < k \<Longrightarrow> k < length xs \<Longrightarrow> (xs ! i, xs ! k) \<in> set (pairs xs)"
proof (induction xs arbitrary: i k)
  case (Cons x xs)
  show ?case
  proof (cases i)
    case 0
    then show ?thesis using Cons.prems by (cases k) auto
  next
    case (Suc m)
    then obtain n where "k = Suc n" using Cons.prems(1) by (cases k) auto
    then show ?thesis using Cons Suc by simp
  qed
qed simp

lemma pairs_filter: "(x, y) \<in> set (pairs xs) \<Longrightarrow> P x \<Longrightarrow> P y \<Longrightarrow> (x, y) \<in> set (pairs (filter P xs))"
  by (induction xs) auto

lemma prepare_length: "length raw = length jobs \<Longrightarrow> length (prepare_plans cf jobs raw) = length jobs"
  by (simp add: prepare_plans_def Let_def)

lemma accepted_length:
  "validateParallelWritePlan cf jobs = Some (None, ps) \<Longrightarrow> length ps = length jobs"
  using parallel_accepted(1) [of cf jobs ps] opt_map_length prepare_length by fastforce

lemma accepted_plan_checks:
  assumes "validateParallelWritePlan cf jobs = Some (None, ps)" "i < length jobs"
  shows "parallel_plan_checks cf (jobs ! i) (ps ! i) = no_error"
proof -
  have "(jobs ! i, ps ! i) \<in> set (zip jobs ps)"
    using assms accepted_length [OF assms(1)] by (metis (no_types, lifting) in_set_zip fst_conv snd_conv)
  then show ?thesis using parallel_accepted(4) [OF assms(1)] by auto
qed

text \<open>What two plans that may run at the same time owe to each other.\<close>

definition disjoint_plans :: "config \<Rightarrow> lock_plan \<Rightarrow> lock_plan \<Rightarrow> bool" where
  "disjoint_plans cf l r \<longleftrightarrow> (let h = host_of cf; cwd = or_string (lp_cwd l) (lp_cwd r) in
     (lp_lockType l = ''write'' \<and> lp_lockType r = ''write'' \<longrightarrow>
        overlaps h (lp_allowedEdits l @ lp_lockedPaths l) (lp_allowedEdits r @ lp_lockedPaths r) cwd = None)
     \<and> ((lp_lockType l = ''read'') \<noteq> (lp_lockType r = ''read'') \<longrightarrow>
        overlaps h (hardLockPathsForPlan l) (hardLockPathsForPlan r) cwd = None))"

text \<open>C2: In a batch the parallel planner accepts, two writers of the same project have no overlapping
  allowed or locked path, and a reader and a writer have no overlapping lock path.\<close>

theorem parallel_plans_disjoint:
  assumes "validateParallelWritePlan cf jobs = Some (None, ps)" "i < k" "k < length jobs"
    and "sameProject cf (ps ! i) (ps ! k)"
  shows "disjoint_plans cf (ps ! i) (ps ! k)"
proof -
  have p: "(ps ! i, ps ! k) \<in> set (pairs ps)" using pairs_nth [of i k ps] assms(2,3) accepted_length [OF assms(1)] by simp
  have rw: "read_write_pair_check cf (ps ! i) (ps ! k) = no_error" using parallel_accepted(5) [OF assms(1)] p by auto
  have ww: "write_pair_check cf (ps ! i) (ps ! k) = no_error"
    if "lp_lockType (ps ! i) = ''write''" "lp_lockType (ps ! k) = ''write''"
    using parallel_accepted(6) [OF assms(1)] pairs_filter [OF p, of "\<lambda>p. lp_lockType p = ''write''"] that by auto
  show ?thesis
    using rw ww assms(4) unfolding disjoint_plans_def read_write_pair_check_def write_pair_check_def Let_def
    by (auto split: option.splits prod.splits if_splits)
qed

lemma parallel_orchestrator:
  assumes "orchestratorPolicyError cf j p ''parallel'' = no_error" "lp_lockType p \<noteq> ''read''"
  shows "\<not> isOrchestratorAgent cf (agent j)"
proof
  assume o: "isOrchestratorAgent cf (agent j)"
  obtain m where m: "(if lp_orchestratorMode p \<noteq> [] then Some (lp_orchestratorMode p) else normalizeOrchestratorMode cf j) = Some m"
    using assms(1) o by (cases "if lp_orchestratorMode p \<noteq> [] then Some (lp_orchestratorMode p) else normalizeOrchestratorMode cf j")
      (simp_all add: orchestratorPolicyError_def)
  then show False using assms o unfolding orchestratorPolicyError_def m
    by (auto split: if_splits)
qed

text \<open>Every writer of an accepted batch is contained in its contract, is not an orchestrator, touches
  no serial-only path and overlaps no shared file.\<close>

theorem parallel_write_plan_contained:
  assumes "validateParallelWritePlan cf jobs = Some (None, ps)" "i < length jobs" "lp_lockType (ps ! i) \<noteq> ''read''"
  shows "write_plan_ok cf (ps ! i) \<and> \<not> isOrchestratorAgent cf (agent (jobs ! i))
    \<and> findSerialOnlyMatches (host_of cf) (lp_lockedPaths (ps ! i) @ lp_allowedEdits (ps ! i)) (lp_serialOnly (ps ! i)) (lp_cwd (ps ! i)) = Some []
    \<and> overlaps (host_of cf) (lp_allowedEdits (ps ! i)) (lp_sharedFiles (ps ! i)) [] = None"
proof -
  note c = accepted_plan_checks [OF assms(1,2)]
  have o: "orchestratorPolicyError cf (jobs ! i) (ps ! i) ''parallel'' = no_error"
    using c by (simp add: parallel_plan_checks_def Let_def)
  have s: "findSerialOnlyMatches (host_of cf) (lp_lockedPaths (ps ! i) @ lp_allowedEdits (ps ! i)) (lp_serialOnly (ps ! i)) (lp_cwd (ps ! i)) = Some []"
    using c assms(3) by (auto simp: parallel_plan_checks_def Let_def split: if_splits)
  have "overlaps (host_of cf) (lp_allowedEdits (ps ! i)) (lp_sharedFiles (ps ! i)) [] = None"
    using c assms(3) by (auto simp: parallel_plan_checks_def Let_def split: option.splits)
  then show ?thesis using s parallel_orchestrator [OF o assms(3)] parallel_write_ok [OF c assms(3)] by blast
qed

lemma prepare_strict:
  assumes "length raw = length jobs" "i < length jobs" "k < length jobs" "i \<noteq> k"
    and "lp_lockType (prepare_plans cf jobs raw ! i) = ''write''" "lp_lockType (prepare_plans cf jobs raw ! k) = ''write''"
  shows "lp_lockMode (prepare_plans cf jobs raw ! i) = defaultParallelWriteLockMode cf"
proof -
  let ?ps = "map (with_shared_defaults cf) raw"
  have t: "lp_lockType (prepare_plans cf jobs raw ! n) = lp_lockType (?ps ! n)" if "n < length jobs" for n
    using that assms(1) by (simp add: prepare_plans_def Let_def with_strict_mode_def)
  have "?ps ! i \<in> set (filter (\<lambda>p. lp_lockType p = ''write'') ?ps)" using t assms by auto
  have two: "1 < length (filter (\<lambda>p. lp_lockType p = ''write'') ?ps)"
  proof -
    have "{i, k} \<subseteq> {n. n < length ?ps \<and> lp_lockType (?ps ! n) = ''write''}" using t assms by auto
    moreover have "finite {n. n < length ?ps \<and> lp_lockType (?ps ! n) = ''write''}" by simp
    ultimately have "card {i, k} \<le> card {n. n < length ?ps \<and> lp_lockType (?ps ! n) = ''write''}" by (rule card_mono [rotated])
    then show ?thesis using assms(4) by (simp add: length_filter_conv_card)
  qed
  then show ?thesis using assms(1,2,5) t [OF assms(2)]
    by (simp add: prepare_plans_def Let_def with_strict_mode_def)
qed

text \<open>Two or more writers of an accepted batch all get the parallel write lock mode, and the batch is
  within the parallel limit.\<close>

theorem parallel_writers_strict:
  assumes "validateParallelWritePlan cf jobs = Some (None, ps)" "i < length jobs" "k < length jobs" "i \<noteq> k"
    and "lp_lockType (ps ! i) = ''write''" "lp_lockType (ps ! k) = ''write''"
  shows "lp_lockMode (ps ! i) = defaultParallelWriteLockMode cf \<and> length jobs \<le> parallelLimit cf"
proof -
  obtain raw where raw: "opt_map (\<lambda>(j, i). createLockPlan cf j i) (zip jobs [0..<length jobs]) = Some raw"
    "ps = prepare_plans cf jobs raw" using parallel_accepted(1) [OF assms(1)] by blast
  have "length raw = length jobs" using opt_map_length [OF raw(1)] by simp
  from prepare_strict [OF this assms(2-4)] assms(5,6) show ?thesis
    using parallel_accepted(3) [OF assms(1)] by (simp add: raw(2))
qed

section \<open>A concrete batch\<close>

definition batch_writer :: "string \<Rightarrow> job" where
  "batch_writer f = sample_writer\<lparr>lockedPaths := [f], allowedEdits := [f],
     scopeContract := Some (sample_contract\<lparr>rc_write := [f], rc_allowedEdits := [f]\<rparr>)\<rparr>"

text \<open>The fields of a plan and of its contract that the check of the results reads.\<close>

definition plan_view :: "lock_plan \<Rightarrow> string \<times> string \<times> string list \<times> string list \<times> string list \<times> string list" where
  "plan_view p = (lp_cwd p, lp_lockType p, lp_allowedEdits p, lp_forbiddenEdits p, lp_sharedFiles p, lp_serialOnly p)"

definition contract_view :: "lock_plan \<Rightarrow> (string \<times> string list \<times> string list) option" where
  "contract_view p = map_option (\<lambda>c. (ct_mode c, ct_write c, ct_forbidden c)) (lp_scopeContract p)"

definition batch_views where
  "batch_views r = (case r of Some (None, ps) \<Rightarrow> Some (map plan_view ps, map contract_view ps) | _ \<Rightarrow> None)"

definition default_forbidden :: "string list" where "default_forbidden = normalizeLockPathList DEFAULT_FORBIDDEN_EDIT_PATHS"
definition default_shared :: "string list" where "default_shared = mergePathLists [DEFAULT_SHARED_FILE_PATHS]"

lemma batch_evaluated: "batch_views (validateParallelWritePlan sample_config [batch_writer ''a'', batch_writer ''b''])
    = Some ([([], ''write'', [''a''], default_forbidden, default_shared, []), ([], ''write'', [''b''], default_forbidden, default_shared, [])],
       [Some (''write'', [''a''], []), Some (''write'', [''b''], [])])"
  by code_simp

lemma batch_viewsE:
  assumes "batch_views r = Some (vs, cs)"
  obtains ps where "r = Some (None, ps)" "map plan_view ps = vs" "map contract_view ps = cs"
  using assms by (auto simp: batch_views_def split: option.split_asm prod.split_asm)

lemma batch_accepted:
  obtains ps where "validateParallelWritePlan sample_config [batch_writer ''a'', batch_writer ''b''] = Some (None, ps)"
    "map lp_lockType ps = [''write'', ''write'']" "\<forall>p \<in> set ps. lp_cwd p = []"
proof -
  from batch_evaluated obtain ps where r: "validateParallelWritePlan sample_config [batch_writer ''a'', batch_writer ''b''] = Some (None, ps)"
    and v: "map plan_view ps = [([], ''write'', [''a''], default_forbidden, default_shared, []), ([], ''write'', [''b''], default_forbidden, default_shared, [])]"
    by (rule batch_viewsE)
  from v obtain p q where "ps = [p, q]" by (auto simp: map_eq_Cons_conv)
  with v r that show ?thesis by (simp add: plan_view_def)
qed

theorem parallel_plans_disjoint_witness:
  "\<exists>ps. validateParallelWritePlan sample_config [batch_writer ''a'', batch_writer ''b''] = Some (None, ps)
     \<and> disjoint_plans sample_config (ps ! 0) (ps ! 1)"
proof -
  obtain ps where h: "validateParallelWritePlan sample_config [batch_writer ''a'', batch_writer ''b''] = Some (None, ps)"
    "map lp_lockType ps = [''write'', ''write'']" "\<forall>p \<in> set ps. lp_cwd p = []"
    by (rule batch_accepted)
  have "length ps = 2" using accepted_length [OF h(1)] by simp
  then have "sameProject sample_config (ps ! 0) (ps ! 1)" using h(3) by (simp add: sameProject_def)
  from parallel_plans_disjoint [OF h(1) _ _ this] h(1) show ?thesis by simp
qed

theorem parallel_write_plan_contained_witness:
  "\<exists>ps. validateParallelWritePlan sample_config [batch_writer ''a'', batch_writer ''b''] = Some (None, ps)
     \<and> write_plan_ok sample_config (ps ! 1)"
proof -
  obtain ps where h: "validateParallelWritePlan sample_config [batch_writer ''a'', batch_writer ''b''] = Some (None, ps)"
    "map lp_lockType ps = [''write'', ''write'']" by (rule batch_accepted)
  have "lp_lockType (ps ! 1) = map lp_lockType ps ! 1" using accepted_length [OF h(1)] by simp
  then show ?thesis using parallel_write_plan_contained [OF h(1), of 1] h by simp
qed

theorem parallel_writers_strict_witness:
  "\<exists>ps. validateParallelWritePlan sample_config [batch_writer ''a'', batch_writer ''b''] = Some (None, ps)
     \<and> lp_lockMode (ps ! 0) = ''strict''"
proof -
  obtain ps where h: "validateParallelWritePlan sample_config [batch_writer ''a'', batch_writer ''b''] = Some (None, ps)"
    "map lp_lockType ps = [''write'', ''write'']" by (rule batch_accepted)
  have t: "lp_lockType (ps ! n) = map lp_lockType ps ! n" if "n < 2" for n using accepted_length [OF h(1)] that by simp
  have "lp_lockType (ps ! 0) = ''write''" "lp_lockType (ps ! 1) = ''write''" using t [of 0] t [of 1] h(2) by simp_all
  from parallel_writers_strict [OF h(1) _ _ _ this] h(1) show ?thesis by (simp add: sample_config_def)
qed

end
