(* ===== verification/LockStore.thy ===== *)
theory LockStore
  imports LockPlan "HOL-Library.Product_Lexorder" "HOL-Library.List_Lexorder" "HOL-Library.Char_ord"
begin

text \<open>
  Model of \<open>lib/locks.js\<close> (and of the lock part of \<open>lib/provider-quarantine.js\<close>): the lock database
  of one project root as lists of rows, one definition per statement sequence of the code, with the
  transaction outcome of SQLite (committed, lost, or durable although an error was reported) as an
  input.  Time, random suffixes and tokens are inputs too.  Error texts and event logging are left out.
\<close>

section \<open>The lock database\<close>

record lock_row =
  normalized_path :: string
  owner_agent :: string
  acquisition_origin :: string
  run_id :: string
  token :: string
  lock_mode :: string
  expires_at :: int
  created_at :: int
  row_cwd :: string
  row_task :: string
  edits_checkout :: "bool option"

record run_row =
  rn_id :: string
  rn_agent :: string
  rn_status :: string
  rn_lock_mode :: string
  rn_started_at :: int
  rn_finished_at :: "int option"
  rn_containment :: "string option"

record queue_lock_row =
  ql_lock_id :: string
  ql_job_id :: string
  ql_owner_generation :: string

record integration_row =
  io_operation_id :: string
  io_cwd :: string
  io_status :: string
  io_updated_at :: int

record job_row =
  jr_job_id :: string
  jr_owner_instance_id :: string
  jr_owner_generation :: string
  jr_status :: string
  jr_cancellation_requested_at :: "string option"

record lock_db =
  locks :: "lock_row list"
  runs :: "run_row list"
  queue_job_locks :: "queue_lock_row list"
  integration_operations :: "integration_row list"
  opencode_jobs :: "job_row list"

definition MAX_SAFE_INTEGER :: int where "MAX_SAFE_INTEGER = 2 ^ 53 - 1"
definition DEFAULT_LOCK_TTL_MS :: int where "DEFAULT_LOCK_TTL_MS = 1000 * 60 * 30"
definition MAX_LOCK_TTL_MS :: int where "MAX_LOCK_TTL_MS = 1000 * 60 * 60 * 24"

definition INTEGRATION_RESOLVED_STATUSES :: "string set" where
  "INTEGRATION_RESOLVED_STATUSES =
     {''committed'', ''rolled_back'', ''recovered_noop'', ''recovered_verified'', ''resolved_by_operator''}"

text \<open>\<open>BEGIN IMMEDIATE\<close> ... \<open>COMMIT\<close>: the commit succeeds, fails and is lost, or fails after it became durable.\<close>

datatype commit_outcome = Committed | CommitLost | CommitDurableError

section \<open>Conflicts\<close>

record lock_claim =
  cl_lockType :: string
  cl_paths :: "string list"
  cl_origin :: string
  cl_editsCheckout :: "bool option"

record lock_view = lock_claim +
  lv_id :: string
  lv_agent :: string
  lv_createdAt :: int
  lv_expiresAt :: int

definition claim_edits_checkout :: "string \<Rightarrow> 'a lock_claim_scheme \<Rightarrow> bool" where
  "claim_edits_checkout mode l = (case cl_editsCheckout l of Some b \<Rightarrow> b
     | None \<Rightarrow> \<not> (mode \<noteq> ''off'' \<and> or_string (cl_origin l) ''internal'' = ''internal''))"

definition worktree_job_writer :: "string \<Rightarrow> 'a lock_claim_scheme \<Rightarrow> bool" where
  "worktree_job_writer mode l \<longleftrightarrow> cl_lockType l = ''write'' \<and> \<not> claim_edits_checkout mode l"

definition requires_serialization :: "string \<Rightarrow> 'a lock_claim_scheme \<Rightarrow> 'b lock_claim_scheme \<Rightarrow> bool" where
  "requires_serialization mode r a \<longleftrightarrow>
     (cl_lockType r = ''serial_integration'' \<or> cl_lockType a = ''serial_integration'')
     \<and> \<not> (worktree_job_writer mode r \<or> worktree_job_writer mode a)"

definition lockPaths :: "'a lock_claim_scheme \<Rightarrow> string list" where
  "lockPaths l = normalizeLockPathList (cl_paths l)"

text \<open>The overlapping pair; the first paths (absent for an empty list) when serialization is required.\<close>

definition conflictsWithActiveLock ::
  "host \<Rightarrow> string \<Rightarrow> 'a lock_claim_scheme \<Rightarrow> 'b lock_claim_scheme \<Rightarrow> (string option \<times> string option) option" where
  "conflictsWithActiveLock h mode r a =
    (if cl_lockType r = ''read'' \<and> cl_lockType a = ''read'' then None
     else let rp = lockPaths r; ap = lockPaths a in
       case overlaps h rp ap [] of Some (x, y) \<Rightarrow> Some (Some x, Some y)
       | None \<Rightarrow> if requires_serialization mode r a
           then Some (case rp of [] \<Rightarrow> None | x # _ \<Rightarrow> Some x, case ap of [] \<Rightarrow> None | y # _ \<Rightarrow> Some y)
           else None)"

section \<open>Identifiers\<close>

definition id_char :: "char \<Rightarrow> bool" where
  "id_char c \<longleftrightarrow> is_alnum c \<or> c = CHR ''_'' \<or> c = CHR ''-''"

text \<open>\<open>.replace(/[^A-Za-z0-9_-]+/g, '-')\<close>\<close>

fun dashed :: "string \<Rightarrow> string" where
  "dashed [] = []"
| "dashed (c # s) = (if id_char c then c # dashed s
     else case s of d # _ \<Rightarrow> if id_char d then CHR ''-'' # dashed s else dashed s | [] \<Rightarrow> ''-'')"

definition strip_dashes :: "string \<Rightarrow> string" where
  "strip_dashes s = rev (dropWhile (\<lambda>c. c = CHR ''-'') (rev (dropWhile (\<lambda>c. c = CHR ''-'') s)))"

definition safe_name :: "string \<Rightarrow> string \<Rightarrow> string" where
  "safe_name s fallback = or_string (strip_dashes (dashed (or_string s fallback))) fallback"

text \<open>The time stamp and the random suffix arrive as text.\<close>

definition makeLockId :: "string \<Rightarrow> string \<Rightarrow> string \<Rightarrow> string \<Rightarrow> string" where
  "makeLockId own ag stamp rnd = safe_name own ''unknown'' @ ''-'' @ safe_name ag ''agent'' @ ''-'' @ stamp @ ''-'' @ rnd"

section \<open>Reading and expiring locks\<close>

definition row_view :: "string \<Rightarrow> lock_row list \<Rightarrow> lock_view" where
  "row_view i rows = (let rs = filter (\<lambda>r. run_id r = i) rows; r = hd rs in
     \<lparr>cl_lockType = lock_mode r, cl_paths = normalizeLockPathList (map normalized_path rs),
      cl_origin = or_string (acquisition_origin r) ''legacy'',
      cl_editsCheckout = Some (case edits_checkout r of None \<Rightarrow> True | Some b \<Rightarrow> b),
      lv_id = i, lv_agent = owner_agent r, lv_createdAt = created_at r, lv_expiresAt = expires_at r\<rparr>)"

definition rowsToLocks :: "lock_row list \<Rightarrow> lock_view list" where
  "rowsToLocks rows = map (\<lambda>i. row_view i rows) (uniq (map run_id rows))"

definition no_rows_of :: "lock_db \<Rightarrow> string \<Rightarrow> bool" where
  "no_rows_of db i \<longleftrightarrow> (\<forall>r \<in> set (locks db). run_id r \<noteq> i)"

definition expireLocksFromDb :: "lock_db \<Rightarrow> int \<Rightarrow> lock_db" where
  "expireLocksFromDb db now =
    (let gone = filter (\<lambda>i. i \<noteq> []) (uniq (map run_id (filter (\<lambda>r. expires_at r \<le> now) (locks db))));
         db = db\<lparr>locks := filter (\<lambda>r. \<not> expires_at r \<le> now) (locks db)\<rparr>;
         swept = (\<lambda>i. i \<in> set gone \<and> no_rows_of db i)
     in db\<lparr>queue_job_locks := filter (\<lambda>q. \<not> swept (ql_lock_id q)) (queue_job_locks db),
           runs := map (\<lambda>r. if swept (rn_id r) \<and> rn_status r = ''running''
             then r\<lparr>rn_status := ''expired'', rn_finished_at := Some (case rn_finished_at r of None \<Rightarrow> now | Some t \<Rightarrow> t)\<rparr>
             else r) (runs db)\<rparr>)"

definition row_order :: "lock_row \<Rightarrow> int \<times> string \<times> string" where
  "row_order r = (created_at r, run_id r, normalized_path r)"

definition live_rows :: "lock_db \<Rightarrow> int \<Rightarrow> lock_row list" where
  "live_rows db now = sort_key row_order (filter (\<lambda>r. expires_at r > now) (locks db))"

definition listLocksFromDb :: "lock_db \<Rightarrow> int \<Rightarrow> lock_view list \<times> lock_db" where
  "listLocksFromDb db now = (let db = expireLocksFromDb db now in (rowsToLocks (live_rows db now), db))"

section \<open>Reclaiming quarantines\<close>

definition reclaim_run :: "int \<Rightarrow> string \<Rightarrow> lock_db \<Rightarrow> lock_db" where
  "reclaim_run now i db =
    (let db = db\<lparr>locks := filter (\<lambda>r. \<not> (run_id r = i \<and> expires_at r = MAX_SAFE_INTEGER)) (locks db),
              runs := map (\<lambda>r. if rn_id r = i \<and> rn_status r = ''quarantined''
                then r\<lparr>rn_status := ''quarantine_released'',
                       rn_finished_at := Some (case rn_finished_at r of None \<Rightarrow> now | Some t \<Rightarrow> t)\<rparr> else r) (runs db)\<rparr>
     in if no_rows_of db i then db\<lparr>queue_job_locks := filter (\<lambda>q. ql_lock_id q \<noteq> i) (queue_job_locks db)\<rparr> else db)"

definition containment_of :: "lock_db \<Rightarrow> string \<Rightarrow> string option" where
  "containment_of db i = Option.bind (List.find (\<lambda>r. rn_id r = i) (runs db)) rn_containment"

definition reclaimProvenGoneLockQuarantines :: "(string option \<Rightarrow> bool) \<Rightarrow> int \<Rightarrow> lock_db \<Rightarrow> lock_db" where
  "reclaimProvenGoneLockQuarantines still now db =
     fold (reclaim_run now)
       (filter (\<lambda>i. \<not> still (containment_of db i))
          (uniq (map run_id (filter (\<lambda>r. expires_at r = MAX_SAFE_INTEGER) (locks db))))) db"

section \<open>Acquiring\<close>

record queue_owner =
  qo_jobId :: string
  qo_ownerInstanceId :: string
  qo_ownerGeneration :: string

record lock_request =
  rq_owner :: string
  rq_agent :: string
  rq_origin :: string
  rq_task :: string
  rq_cwd :: string
  rq_lockType :: string
  rq_paths :: "string list"
  rq_repositoryScope :: bool
  rq_ttlMs :: int
  rq_editsCheckout :: "bool option"
  rq_recoveryAuthority :: bool
  rq_queueOwner :: "queue_owner option"

text \<open>What one call reads from its surroundings; \<open>le_cleanup\<close> says whether the clean-up after a failed commit goes through.\<close>

record lock_env =
  le_root :: "string \<Rightarrow> string option"
  le_blocked :: "string \<Rightarrow> bool"
  le_opens :: bool
  le_reclaim_due :: bool
  le_still :: "string option \<Rightarrow> bool"
  le_now :: int
  le_stamp :: string
  le_random :: string
  le_token :: string
  le_commit :: commit_outcome
  le_cleanup :: bool

record hard_lock =
  hl_id :: string
  hl_token :: string
  hl_owner :: string
  hl_agent :: string
  hl_origin :: string
  hl_taskSha256 :: string
  hl_cwd :: string
  hl_lockType :: string
  hl_paths :: "string list"
  hl_createdAt :: int
  hl_expiresAt :: int
  hl_editsCheckout :: bool

datatype acquire_result = Acquired hard_lock | Refused string | Conflicted lock_view "string option \<times> string option"

definition effective_ttl :: "int \<Rightarrow> int" where
  "effective_ttl ttl = min MAX_LOCK_TTL_MS (max 1000 (if ttl = 0 then DEFAULT_LOCK_TTL_MS else ttl))"

definition token_hash :: "config \<Rightarrow> string \<Rightarrow> string" where
  "token_hash cf t = ''sha256:'' @ sha256_hex cf t"

definition unresolved_integration :: "lock_db \<Rightarrow> string \<Rightarrow> bool" where
  "unresolved_integration db root =
     list_ex (\<lambda>o'. io_cwd o' = root \<and> io_status o' \<notin> INTEGRATION_RESOLVED_STATUSES) (integration_operations db)"

definition owns_job :: "lock_db \<Rightarrow> queue_owner \<Rightarrow> bool" where
  "owns_job db q = list_ex (\<lambda>j. jr_job_id j = qo_jobId q \<and> jr_owner_instance_id j = qo_ownerInstanceId q
     \<and> jr_owner_generation j = qo_ownerGeneration q \<and> jr_owner_generation j \<noteq> []
     \<and> jr_status j \<in> {''running'', ''validating'', ''reviewing'', ''testing''}
     \<and> jr_cancellation_requested_at j \<in> {None, Some []}) (opencode_jobs db)"

definition lock_rows_of :: "config \<Rightarrow> hard_lock \<Rightarrow> lock_row list" where
  "lock_rows_of cf l = map (\<lambda>p. \<lparr>normalized_path = p, owner_agent = or_string (hl_agent l) (hl_owner l),
     acquisition_origin = hl_origin l, run_id = hl_id l, token = token_hash cf (hl_token l),
     lock_mode = hl_lockType l, expires_at = hl_expiresAt l, created_at = hl_createdAt l, row_cwd = hl_cwd l,
     row_task = ''sha256:'' @ hl_taskSha256 l, edits_checkout = Some (hl_editsCheckout l)\<rparr>) (hl_paths l)"

text \<open>
  The transaction of an acquisition: its result and the database it would commit, or \<open>None\<close>
  for a rollback.  A violated primary key throws.
\<close>

definition acquire_transaction ::
  "config \<Rightarrow> lock_db \<Rightarrow> hard_lock \<Rightarrow> bool \<Rightarrow> queue_owner option \<Rightarrow> int \<Rightarrow> acquire_result \<times> lock_db option" where
  "acquire_transaction cf db l recovery qo now =
    (if hl_lockType l \<noteq> ''read'' \<and> \<not> recovery \<and> unresolved_integration db (path_resolve (host_of cf) (hl_cwd l))
     then (Refused ''integration_recovery_pending'', None)
     else let (kept, db) = listLocksFromDb db now;
              request = \<lparr>cl_lockType = hl_lockType l, cl_paths = hl_paths l, cl_origin = hl_origin l,
                         cl_editsCheckout = Some (hl_editsCheckout l)\<rparr>;
              hit = (\<lambda>a. conflictsWithActiveLock (host_of cf) (worktreeMode cf) request a)
     in case List.find (\<lambda>a. hit a \<noteq> None) kept of
       Some a \<Rightarrow> (Conflicted a (the (hit a)), None)
     | None \<Rightarrow>
       if list_ex (\<lambda>r. rn_id r = hl_id l) (runs db) \<or> \<not> distinct (hl_paths l)
          \<or> list_ex (\<lambda>r. run_id r = hl_id l \<and> normalized_path r \<in> set (hl_paths l)) (locks db)
       then (Refused ''lock_database_failed'', None)
       else let db = db\<lparr>runs := runs db @ [\<lparr>rn_id = hl_id l, rn_agent = hl_agent l, rn_status = ''running'',
                    rn_lock_mode = hl_lockType l, rn_started_at = now, rn_finished_at = None, rn_containment = None\<rparr>],
                  locks := locks db @ lock_rows_of cf l\<rparr>
       in case qo of
         None \<Rightarrow> (Acquired l, Some (snd (listLocksFromDb db now)))
       | Some q \<Rightarrow>
           if \<not> owns_job db q \<or> hl_origin l \<noteq> ''internal'' then (Refused ''queue_ownership_lost'', None)
           else if list_ex (\<lambda>r. ql_lock_id r = hl_id l) (queue_job_locks db) then (Refused ''lock_database_failed'', None)
           else let db = db\<lparr>queue_job_locks := queue_job_locks db @ [\<lparr>ql_lock_id = hl_id l,
                      ql_job_id = qo_jobId q, ql_owner_generation = qo_ownerGeneration q\<rparr>]\<rparr>
                in (Acquired l, Some (snd (listLocksFromDb db now))))"

text \<open>The clean-up after a failed commit: what this call inserted, by its run id and fresh token.\<close>

definition acquire_cleanup :: "config \<Rightarrow> hard_lock \<Rightarrow> queue_owner option \<Rightarrow> int \<Rightarrow> lock_db \<Rightarrow> lock_db" where
  "acquire_cleanup cf l qo now db =
    db\<lparr>locks := filter (\<lambda>r. \<not> (run_id r = hl_id l \<and> token r = token_hash cf (hl_token l))) (locks db),
       runs := map (\<lambda>r. if rn_id r = hl_id l \<and> rn_status r = ''running''
                 then r\<lparr>rn_status := ''released'', rn_finished_at := Some now\<rparr> else r) (runs db),
       queue_job_locks := (if qo = None then queue_job_locks db
                 else filter (\<lambda>q. ql_lock_id q \<noteq> hl_id l) (queue_job_locks db))\<rparr>"

definition acquireHardLock :: "config \<Rightarrow> lock_env \<Rightarrow> lock_request \<Rightarrow> lock_db \<Rightarrow> acquire_result \<times> lock_db" where
  "acquireHardLock cf env rq db =
    (let h = host_of cf; lt = keyword (or_string (rq_lockType rq) ''write'');
         org = (if rq_origin rq = ''manual'' then ''manual'' else ''internal'');
         recovery = (rq_recoveryAuthority rq \<and> org = ''internal'');
         edits = (case rq_editsCheckout rq of Some b \<Rightarrow> b
                  | None \<Rightarrow> \<not> (org = ''internal'' \<and> lt = ''write'' \<and> worktreeMode cf \<noteq> ''off''));
         requested = (if rq_repositoryScope rq then [REPOSITORY_SCOPE_LOCK_PATH] else rq_paths rq)
     in case le_root env (or_string (rq_cwd rq) (process_cwd h)) of
       None \<Rightarrow> (Refused ''lock_path_resolution_failed'', db)
     | Some root \<Rightarrow>
       let unsafe = (if rq_repositoryScope rq then None else unsafePathReason h requested root);
           paths = normalizeLockPathListForCwd h requested root;
           db = (if le_reclaim_due env then reclaimProvenGoneLockQuarantines (le_still env) (le_now env) db else db);
           now = le_now env
       in if le_blocked env (path_resolve h root) \<and> lt \<noteq> ''read'' \<and> \<not> recovery then (Refused ''integration_recovery_pending'', db)
       else if lt \<notin> PARALLEL_LOCK_TYPES then (Refused ''lock_request_rejected'', db)
       else if rq_repositoryScope rq \<and> (org \<noteq> ''internal'' \<or> lt = ''write'') then (Refused ''lock_request_rejected'', db)
       else if paths = [] then (Refused ''lock_request_rejected'', db)
       else if unsafe \<noteq> None then (Refused ''lock_path_unsafe'', db)
       else if hasAmbiguousPathPattern h paths root then (Refused ''lock_path_ambiguous'', db)
       else if \<not> le_opens env then (Refused ''lock_database_failed'', db)
       else let l = \<lparr>hl_id = makeLockId (rq_owner rq) (rq_agent rq) (le_stamp env) (le_random env), hl_token = le_token env,
                  hl_owner = rq_owner rq, hl_agent = rq_agent rq, hl_origin = org,
                  hl_taskSha256 = sha256_hex cf (rq_task rq), hl_cwd = root, hl_lockType = lt, hl_paths = paths,
                  hl_createdAt = now, hl_expiresAt = now + effective_ttl (rq_ttlMs rq), hl_editsCheckout = edits\<rparr>
       in case acquire_transaction cf db l recovery (rq_queueOwner rq) now of
         (res, None) \<Rightarrow> (res, db)
       | (res, Some db') \<Rightarrow>
           (case le_commit env of
              Committed \<Rightarrow> (res, db')
            | CommitLost \<Rightarrow> (Refused ''lock_database_failed'',
                if le_cleanup env then acquire_cleanup cf l (rq_queueOwner rq) now db else db)
            | CommitDurableError \<Rightarrow> (Refused ''lock_database_failed'',
                if le_cleanup env then acquire_cleanup cf l (rq_queueOwner rq) now db' else db')))"

section \<open>Releasing\<close>

definition releaseHardLock :: "config \<Rightarrow> bool \<Rightarrow> int \<Rightarrow> commit_outcome \<Rightarrow> string \<Rightarrow> string \<Rightarrow> string list \<Rightarrow> lock_db \<Rightarrow> bool \<times> lock_db" where
  "releaseHardLock cf opens now commit lockId tok paths db =
    (if lockId = [] \<or> tok = [] \<or> \<not> opens then (False, db) else
     let requested = normalizeLockPathList paths;
         mine = (\<lambda>r. run_id r = lockId \<and> token r = token_hash cf tok
                   \<and> (requested = [] \<or> normalized_path r \<in> set requested))
     in if filter mine (locks db) = [] then (False, db)
        else let db1 = db\<lparr>locks := filter (\<lambda>r. \<not> mine r) (locks db)\<rparr>;
                 db2 = (if no_rows_of db1 lockId
                   then db1\<lparr>runs := map (\<lambda>r. if rn_id r = lockId
                              then r\<lparr>rn_status := ''released'', rn_finished_at := Some now\<rparr> else r) (runs db1),
                            queue_job_locks := filter (\<lambda>q. ql_lock_id q \<noteq> lockId) (queue_job_locks db1)\<rparr>
                   else db1);
                 db3 = snd (listLocksFromDb db2 now)
             in (case commit of Committed \<Rightarrow> (True, db3) | CommitLost \<Rightarrow> (False, db) | CommitDurableError \<Rightarrow> (False, db3)))"

definition cleanupExpiredLocks :: "int \<Rightarrow> lock_db \<Rightarrow> lock_db" where
  "cleanupExpiredLocks now db = expireLocksFromDb db now"

section \<open>Renewal\<close>

record heartbeat =
  hb_lock :: hard_lock
  hb_ttl :: int
  hb_guard :: int
  hb_lastConfirmed :: int
  hb_stopped :: bool
  hb_aborted :: "string option"
  hb_renewing :: bool

definition lockOwnershipLossError :: "string \<Rightarrow> string" where
  "lockOwnershipLossError lt = (if lt = ''read'' then ''read_lock_ownership_lost''
     else if lt = ''serial_integration'' then ''integration_lock_ownership_lost'' else ''write_lock_ownership_lost'')"

definition startHardLockHeartbeat :: "hard_lock \<Rightarrow> int \<Rightarrow> int \<Rightarrow> int \<Rightarrow> heartbeat option" where
  "startHardLockHeartbeat l ttl requestedInterval now =
    (if hl_id l = [] \<or> hl_token l = [] then None else
     let eff = max 250 (if ttl = 0 then DEFAULT_LOCK_TTL_MS else ttl);
         interval = (if requestedInterval > 0 then max 20 (min requestedInterval (eff div 2))
                     else max 100 (min (1000 * 30) (eff div 3)))
     in Some \<lparr>hb_lock = l, hb_ttl = eff, hb_guard = max 20 (min interval (eff div 4)),
          hb_lastConfirmed = (if hl_expiresAt l \<noteq> 0 then hl_expiresAt l else now + eff),
          hb_stopped = False, hb_aborted = None, hb_renewing = True\<rparr>)"

definition loseOwnership :: "heartbeat \<Rightarrow> heartbeat" where
  "loseOwnership hb = (if hb_aborted hb \<noteq> None \<or> hb_stopped hb then hb
     else hb\<lparr>hb_aborted := Some (lockOwnershipLossError (hl_lockType (hb_lock hb)))\<rparr>)"

text \<open>One pulse without a caller-supplied renewal: its answer, the heartbeat and the database.\<close>

definition pulse :: "config \<Rightarrow> bool \<Rightarrow> int \<Rightarrow> heartbeat \<Rightarrow> lock_db \<Rightarrow> bool \<times> heartbeat \<times> lock_db" where
  "pulse cf opens now hb db =
    (if hb_stopped hb \<or> hb_aborted hb \<noteq> None then (False, hb, db)
     else if hb_lastConfirmed hb \<le> now then (False, loseOwnership hb, db)
     else if \<not> opens then
       (if now < hb_lastConfirmed hb - hb_guard hb then (True, hb, db) else (False, loseOwnership hb, db))
     else let l = hb_lock hb; expires = now + hb_ttl hb;
              mine = (\<lambda>r. run_id r = hl_id l \<and> token r = token_hash cf (hl_token l));
              renewable = (\<lambda>r. mine r \<and> expires_at r > now \<and> expires_at r \<noteq> MAX_SAFE_INTEGER);
              changes = length (filter renewable (locks db));
              db' = db\<lparr>locks := map (\<lambda>r. if renewable r then r\<lparr>expires_at := expires\<rparr> else r) (locks db)\<rparr>
     in if changes = max 1 (length (hl_paths l))
        then (True, hb\<lparr>hb_lock := l\<lparr>hl_expiresAt := expires\<rparr>, hb_lastConfirmed := expires\<rparr>, db')
        else if changes = 0 \<and> list_ex (\<lambda>r. mine r \<and> expires_at r = MAX_SAFE_INTEGER) (locks db')
        then (True, hb\<lparr>hb_lastConfirmed := MAX_SAFE_INTEGER, hb_renewing := False\<rparr>, db')
        else (False, loseOwnership hb, db'))"

text \<open>The timer that fires at the guarded deadline.\<close>

definition fence :: "int \<Rightarrow> heartbeat \<Rightarrow> heartbeat" where
  "fence now hb = (if hb_renewing hb \<and> \<not> hb_stopped hb \<and> hb_lastConfirmed hb - hb_guard hb \<le> now then loseOwnership hb else hb)"

end
