(* ===== verification/LockQuarantine.thy ===== *)
theory LockQuarantine
  imports LockStore
begin

text \<open>
  The operations of \<open>lib/locks.js\<close> that keep a lock of a process which may still run: containment
  quarantine, and the finalizer's upgrade of its repository reader to an exclusive, non-expiring
  lock and back.  A lock object's \<open>runId\<close> and \<open>lockMode\<close> repeat its \<open>id\<close> and \<open>lockType\<close>.
  Also \<open>containmentStillPossible\<close> of \<open>lib/process-table.js\<close>, the rule for reclaiming a quarantine.
\<close>

section \<open>Containment evidence\<close>

text \<open>A value \<open>JSON.parse\<close> returns; \<open>JFraction\<close> is a number that is not an integer.\<close>

datatype json = JNull | JBool bool | JInt int | JFraction string | JStr string | JArr "json list"
  | JObj "(string \<times> json) list"

fun jfield :: "json \<Rightarrow> string \<Rightarrow> json option" where
  "jfield (JObj kv) k = map_of kv k"
| "jfield _ k = None"

definition safe_positive :: "json \<Rightarrow> bool" where
  "safe_positive j = (case j of JInt n \<Rightarrow> 0 < n \<and> n \<le> MAX_SAFE_INTEGER | _ \<Rightarrow> False)"

fun process_entries :: "json list \<Rightarrow> json list \<Rightarrow> (json \<times> string) list \<Rightarrow> (json \<times> string) list option" where
  "process_entries pids [] acc = Some acc"
| "process_entries pids (e # es) acc =
    (case (jfield e ''pid'', jfield e ''createdAt'') of
       (Some p, Some (JStr s)) \<Rightarrow>
         if p \<notin> set pids \<or> js_trim s = [] \<or> (map_of acc p \<noteq> None \<and> map_of acc p \<noteq> Some s) then None
         else process_entries pids es ((p, s) # acc)
     | _ \<Rightarrow> None)"

definition recorded_creations :: "(string \<times> json) list \<Rightarrow> json list \<Rightarrow> (json \<times> string) list option" where
  "recorded_creations kv pids = (case map_of kv ''processes'' of None \<Rightarrow> Some []
     | Some (JArr es) \<Rightarrow> process_entries pids es [] | _ \<Rightarrow> None)"

text \<open>
  \<open>stillRuns pid createdAt recordedAt\<close> looks the process up in the operating system;
  \<open>None\<close> is text that does not parse.  \<open>True\<close> keeps the quarantine.
\<close>

definition containmentStillPossible :: "(json \<Rightarrow> string \<Rightarrow> int \<Rightarrow> bool) \<Rightarrow> int \<Rightarrow> int \<Rightarrow> json option \<Rightarrow> bool" where
  "containmentStillPossible stillRuns grace now evidence =
    (case evidence of Some (JObj kv) \<Rightarrow>
       (case (map_of kv ''complete'', map_of kv ''pids'', map_of kv ''recordedAt'') of
          (Some (JBool True), Some (JArr pids), Some (JInt at)) \<Rightarrow>
            pids = [] \<or> \<not> list_all safe_positive pids \<or> \<not> safe_positive (JInt at)
            \<or> (case recorded_creations kv pids of
                 None \<Rightarrow> True
               | Some created \<Rightarrow>
                   list_ex (\<lambda>p. stillRuns p (case map_of created p of None \<Rightarrow> [] | Some s \<Rightarrow> s) at) pids
                   \<or> now - at < grace)
        | _ \<Rightarrow> True)
     | _ \<Rightarrow> True)"

section \<open>The finalizer's repository lock\<close>

definition isFinalizerRepositoryLock :: "hard_lock \<Rightarrow> bool" where
  "isFinalizerRepositoryLock l \<longleftrightarrow> hl_id l \<noteq> [] \<and> hl_token l \<noteq> [] \<and> hl_agent l = ''pipeline_finalizer''
     \<and> hl_origin l = ''internal'' \<and> hl_paths l = [REPOSITORY_SCOPE_LOCK_PATH]"

definition finalizerRows :: "config \<Rightarrow> lock_db \<Rightarrow> hard_lock \<Rightarrow> (lock_row \<times> run_row) option" where
  "finalizerRows cf db l =
    (case (filter (\<lambda>r. run_id r = hl_id l) (locks db), List.find (\<lambda>r. rn_id r = hl_id l) (runs db)) of
       ([row], Some run) \<Rightarrow>
         if \<not> isFinalizerRepositoryLock l \<or> token row \<noteq> token_hash cf (hl_token l)
            \<or> normalized_path row \<noteq> REPOSITORY_SCOPE_LOCK_PATH \<or> owner_agent row \<noteq> hl_agent l
            \<or> acquisition_origin row \<noteq> ''internal'' \<or> row_cwd row \<noteq> hl_cwd l
            \<or> created_at row \<noteq> hl_createdAt l \<or> row_task row \<noteq> ''sha256:'' @ hl_taskSha256 l
            \<or> rn_agent run \<noteq> hl_agent l \<or> rn_started_at run \<noteq> hl_createdAt l \<or> rn_finished_at run \<noteq> None
         then None else Some (row, run)
     | _ \<Rightarrow> None)"

record receipt =
  rc_row :: lock_row
  rc_run :: run_row
  rc_containment :: string

definition same_row_identity :: "lock_row \<Rightarrow> lock_row \<Rightarrow> bool" where
  "same_row_identity a b \<longleftrightarrow> token a = token b \<and> row_cwd a = row_cwd b \<and> created_at a = created_at b
     \<and> row_task a = row_task b \<and> owner_agent a = owner_agent b
     \<and> acquisition_origin a = acquisition_origin b \<and> normalized_path a = normalized_path b"

definition matchesFinalizerProtection ::
  "config \<Rightarrow> lock_db \<Rightarrow> hard_lock \<Rightarrow> receipt \<Rightarrow> int option \<Rightarrow> int \<Rightarrow> bool" where
  "matchesFinalizerProtection cf db l rc restoredExpiry now =
    (case finalizerRows cf db l of None \<Rightarrow> False
     | Some (row, run) \<Rightarrow> run_id (rc_row rc) = hl_id l \<and> same_row_identity row (rc_row rc)
        \<and> (case restoredExpiry of
             Some e \<Rightarrow> lock_mode row = ''read'' \<and> expires_at row = e \<and> e > now
               \<and> edits_checkout row = edits_checkout (rc_row rc) \<and> rn_status run = rn_status (rc_run rc)
               \<and> rn_lock_mode run = rn_lock_mode (rc_run rc) \<and> rn_containment run = rn_containment (rc_run rc)
           | None \<Rightarrow> lock_mode row = ''serial_integration'' \<and> expires_at row = MAX_SAFE_INTEGER
               \<and> edits_checkout row = Some True \<and> rn_lock_mode run = ''serial_integration''
               \<and> rn_status run = ''running'' \<and> rn_containment run = Some (rc_containment rc)))"

definition provisional_evidence :: "json option \<Rightarrow> bool" where
  "provisional_evidence j = (case j of Some info \<Rightarrow>
       jfield info ''complete'' = Some (JBool False) \<and> jfield info ''pids'' = Some (JArr [])
       \<and> (case jfield info ''recordedAt'' of Some n \<Rightarrow> safe_positive n | None \<Rightarrow> False)
     | None \<Rightarrow> False)"

text \<open>
  What one finalizer transaction meets: whether the database opens, its commit outcome, whether a
  rollback after a lost commit is reported done, and whether the database reopens for verification.
\<close>

record txn_env =
  te_opens :: bool
  te_commit :: commit_outcome
  te_rollback :: bool
  te_reopens :: bool
  te_now :: int

datatype begin_result = Protected hard_lock receipt
  | NotProtected (releaseSafe: bool) (durabilityUnconfirmed: bool) (beginError: string)

definition upgraded :: "hard_lock \<Rightarrow> hard_lock" where
  "upgraded l = l\<lparr>hl_lockType := ''serial_integration'', hl_editsCheckout := True, hl_expiresAt := MAX_SAFE_INTEGER\<rparr>"

definition protect_rows :: "string \<Rightarrow> string \<Rightarrow> string \<Rightarrow> lock_db \<Rightarrow> lock_db" where
  "protect_rows i tok containment db =
    db\<lparr>locks := map (\<lambda>r. if run_id r = i \<and> token r = tok
         then r\<lparr>lock_mode := ''serial_integration'', edits_checkout := Some True, expires_at := MAX_SAFE_INTEGER\<rparr> else r) (locks db),
       runs := map (\<lambda>r. if rn_id r = i \<and> rn_status r = ''running''
         then r\<lparr>rn_lock_mode := ''serial_integration'', rn_containment := Some containment\<rparr> else r) (runs db)\<rparr>"

definition beginFinalizerValidationProtection ::
  "config \<Rightarrow> txn_env \<Rightarrow> (string \<Rightarrow> json option) \<Rightarrow> (string \<Rightarrow> bool) \<Rightarrow> string \<Rightarrow> hard_lock \<Rightarrow> lock_db \<Rightarrow> begin_result \<times> lock_db" where
  "beginFinalizerValidationProtection cf te parse blocked containment l db =
    (if \<not> isFinalizerRepositoryLock l \<or> hl_lockType l \<noteq> ''read''
     then (NotProtected True False ''read_lock_ownership_lost'', db)
     else if \<not> provisional_evidence (parse containment)
     then (NotProtected True False ''final_validation_protection_failed'', db)
     else if \<not> te_opens te then (NotProtected True False ''final_validation_protection_failed'', db)
     else case finalizerRows cf db l of
       None \<Rightarrow> (NotProtected True False ''read_lock_ownership_lost'', db)
     | Some (row, run) \<Rightarrow>
       if lock_mode row \<noteq> ''read'' \<or> expires_at row \<le> te_now te \<or> expires_at row \<ge> MAX_SAFE_INTEGER
          \<or> rn_status run \<noteq> ''running'' \<or> rn_lock_mode run \<noteq> ''read''
          \<or> edits_checkout row \<noteq> Some (hl_editsCheckout l)
       then (NotProtected True False ''read_lock_ownership_lost'', db)
       else
       let rc = \<lparr>rc_row = row, rc_run = run, rc_containment = containment\<rparr>;
           root = path_resolve (host_of cf) (hl_cwd l);
           (kept, db') = listLocksFromDb db (te_now te);
           request = \<lparr>cl_lockType = ''serial_integration'', cl_paths = [REPOSITORY_SCOPE_LOCK_PATH],
                      cl_origin = [], cl_editsCheckout = Some True\<rparr>
       in if blocked root \<or> unresolved_integration db root
          then (NotProtected True False ''integration_recovery_pending'', db)
          else if list_ex (\<lambda>a. lv_id a \<noteq> hl_id l \<and> conflictsWithActiveLock (host_of cf) (worktreeMode cf) request a \<noteq> None) kept
          then (NotProtected True False ''pipeline_finalization_lock_conflict'', db)
          else let db'' = protect_rows (hl_id l) (token row) containment db'
          in case te_commit te of
            Committed \<Rightarrow> (Protected (upgraded l) rc, db'')
          | CommitLost \<Rightarrow>
              if te_reopens te \<and> matchesFinalizerProtection cf db l rc None (te_now te) then (Protected (upgraded l) rc, db)
              else (NotProtected (te_rollback te) (\<not> te_rollback te) ''final_validation_protection_failed'', db)
          | CommitDurableError \<Rightarrow>
              if te_reopens te \<and> matchesFinalizerProtection cf db'' l rc None (te_now te) then (Protected (upgraded l) rc, db'')
              else (NotProtected False True ''final_validation_protection_failed'', db''))"

text \<open>\<open>protectionIntact\<close> is \<open>None\<close> where the code answers \<open>null\<close>.\<close>

datatype restore_result = Restored hard_lock
  | NotRestored (protectionIntact: "bool option") (restoreUnconfirmed: bool)

definition restored_lock :: "hard_lock \<Rightarrow> receipt \<Rightarrow> int \<Rightarrow> hard_lock" where
  "restored_lock l rc e = l\<lparr>hl_lockType := ''read'', hl_editsCheckout := (edits_checkout (rc_row rc) = Some True), hl_expiresAt := e\<rparr>"

definition restore_rows :: "string \<Rightarrow> receipt \<Rightarrow> int \<Rightarrow> lock_db \<Rightarrow> lock_db" where
  "restore_rows i rc e db =
    db\<lparr>locks := map (\<lambda>r. if run_id r = i \<and> token r = token (rc_row rc)
         then r\<lparr>lock_mode := ''read'', edits_checkout := edits_checkout (rc_row rc), expires_at := e\<rparr> else r) (locks db),
       runs := map (\<lambda>r. if rn_id r = i
         then r\<lparr>rn_status := rn_status (rc_run rc), rn_lock_mode := rn_lock_mode (rc_run rc),
                rn_containment := rn_containment (rc_run rc), rn_finished_at := rn_finished_at (rc_run rc)\<rparr> else r) (runs db)\<rparr>"

definition restoreFinalizerReadLease :: "config \<Rightarrow> txn_env \<Rightarrow> hard_lock \<Rightarrow> receipt \<Rightarrow> int \<Rightarrow> lock_db \<Rightarrow> restore_result \<times> lock_db" where
  "restoreFinalizerReadLease cf te l rc ttl db =
    (if \<not> te_opens te then (NotRestored None False, db)
     else if \<not> matchesFinalizerProtection cf db l rc None (te_now te) then (NotRestored (Some False) False, db)
     else let e = te_now te + effective_ttl ttl; db' = restore_rows (hl_id l) rc e db;
              verified = (\<lambda>d. te_reopens te \<and> matchesFinalizerProtection cf d l rc (Some e) (te_now te))
     in case te_commit te of
       Committed \<Rightarrow> (Restored (restored_lock l rc e), db')
     | CommitLost \<Rightarrow> if verified db then (Restored (restored_lock l rc e), db)
         else (NotRestored (if te_rollback te then Some True else None) (\<not> te_rollback te), db)
     | CommitDurableError \<Rightarrow> if verified db' then (Restored (restored_lock l rc e), db')
         else (NotRestored None True, db'))"

section \<open>Quarantine\<close>

definition upsert_quarantined_run :: "hard_lock \<Rightarrow> string \<Rightarrow> int \<Rightarrow> string \<Rightarrow> bool \<Rightarrow> run_row list \<Rightarrow> run_row list" where
  "upsert_quarantined_run l mode started containment exclusive rs =
    (if list_ex (\<lambda>r. rn_id r = hl_id l) rs
     then map (\<lambda>r. if rn_id r = hl_id l
            then r\<lparr>rn_status := ''quarantined'', rn_finished_at := None, rn_containment := Some containment,
                   rn_lock_mode := (if exclusive then mode else rn_lock_mode r)\<rparr> else r) rs
     else rs @ [\<lparr>rn_id = hl_id l, rn_agent = or_string (hl_agent l) (or_string (hl_owner l) ''opencode''),
                rn_status = ''quarantined'', rn_lock_mode = mode, rn_started_at = started,
                rn_finished_at = None, rn_containment = Some containment\<rparr>])"

definition mark_quarantined :: "string \<Rightarrow> string \<Rightarrow> string \<Rightarrow> bool \<Rightarrow> lock_row list \<Rightarrow> lock_row list" where
  "mark_quarantined i tok mode exclusive rows =
    map (\<lambda>r. if run_id r = i \<and> token r = tok
       then (if exclusive then r\<lparr>expires_at := MAX_SAFE_INTEGER, lock_mode := mode, edits_checkout := Some True\<rparr>
             else r\<lparr>expires_at := MAX_SAFE_INTEGER\<rparr>) else r) rows"

definition quarantine_row :: "config \<Rightarrow> hard_lock \<Rightarrow> string \<Rightarrow> int \<Rightarrow> bool \<Rightarrow> string \<Rightarrow> lock_row" where
  "quarantine_row cf l mode started exclusive p =
    \<lparr>normalized_path = p, owner_agent = or_string (hl_agent l) (or_string (hl_owner l) ''opencode''),
     acquisition_origin = or_string (hl_origin l) ''internal'', run_id = hl_id l, token = token_hash cf (hl_token l),
     lock_mode = mode, expires_at = MAX_SAFE_INTEGER, created_at = started, row_cwd = hl_cwd l,
     row_task = ''sha256:'' @ hl_taskSha256 l, edits_checkout = Some (exclusive \<or> hl_editsCheckout l)\<rparr>"

text \<open>The answer, the lock object and the database; \<open>None\<close> when the database does not open (it throws).\<close>

definition quarantineHardLock ::
  "config \<Rightarrow> txn_env \<Rightarrow> hard_lock \<Rightarrow> string \<Rightarrow> bool \<Rightarrow> receipt option \<Rightarrow> lock_db \<Rightarrow> (bool \<times> hard_lock \<times> lock_db) option" where
  "quarantineHardLock cf te l containment exclusive expected db =
    (if hl_id l = [] \<or> hl_token l = [] then Some (False, l, db)
     else if exclusive \<and> (hl_agent l \<noteq> ''pipeline_finalizer'' \<or> hl_origin l \<noteq> ''internal''
       \<or> hl_lockType l \<notin> {''read'', ''serial_integration''} \<or> hl_paths l \<noteq> [REPOSITORY_SCOPE_LOCK_PATH]) then Some (False, l, db)
     else if \<not> te_opens te then None
     else
     let mode = (if exclusive then ''serial_integration'' else or_string (hl_lockType l) ''write'');
         tok = token_hash cf (hl_token l);
         started = (if hl_createdAt l = 0 then te_now te else hl_createdAt l);
         finish = (\<lambda>l' db'. case te_commit te of Committed \<Rightarrow> Some (True, l', db')
                    | CommitLost \<Rightarrow> Some (False, l, db) | CommitDurableError \<Rightarrow> Some (False, l, db'))
     in case expected of
       Some rc \<Rightarrow>
         if \<not> exclusive \<or> \<not> matchesFinalizerProtection cf db l rc None (te_now te) then Some (False, l, db)
         else finish l (db\<lparr>runs := map (\<lambda>r. if rn_id r = hl_id l
                then r\<lparr>rn_status := ''quarantined'', rn_containment := Some containment\<rparr> else r) (runs db)\<rparr>)
     | None \<Rightarrow>
         let rows = mark_quarantined (hl_id l) tok mode exclusive (locks db);
             held = map normalized_path (filter (\<lambda>r. run_id r = hl_id l \<and> token r = tok \<and> expires_at r = MAX_SAFE_INTEGER) rows);
             missing = filter (\<lambda>p. p \<notin> set held) (hl_paths l)
         in if held = [] \<and> hl_paths l = [] then Some (False, l, db)
            else if \<not> distinct missing \<or> list_ex (\<lambda>r. run_id r = hl_id l \<and> normalized_path r \<in> set missing) rows
            then Some (False, l, db)
            else finish (if exclusive then (upgraded l)\<lparr>hl_lockType := mode\<rparr> else l\<lparr>hl_expiresAt := MAX_SAFE_INTEGER\<rparr>)
              (db\<lparr>locks := rows @ map (quarantine_row cf l mode started exclusive) missing,
                  runs := upsert_quarantined_run l mode started containment exclusive (runs db)\<rparr>))"

section \<open>Names, expiry and time to live\<close>

definition RESERVED_LOCK_AGENT_NAMES :: "string set" where
  "RESERVED_LOCK_AGENT_NAMES = {''integration_recovery'', ''merge_manager'', ''pipeline_finalizer''}"

text \<open>\<open>.replace(/[-\s]+/g, '_')\<close>\<close>

fun underscored :: "string \<Rightarrow> string" where
  "underscored [] = []"
| "underscored (c # s) = (if c = CHR ''-'' \<or> js_space c
     then (case s of d # _ \<Rightarrow> if d = CHR ''-'' \<or> js_space d then underscored s else CHR ''_'' # underscored s | [] \<Rightarrow> ''_'')
     else c # underscored s)"

definition reservedLockAgentError :: "string \<Rightarrow> bool" where
  "reservedLockAgentError name \<longleftrightarrow> underscored (js_lower (js_trim name)) \<in> RESERVED_LOCK_AGENT_NAMES"

text \<open>The configured defaults of \<open>lib/config.js\<close>.\<close>

record agent_timeouts =
  at_readOnly :: nat
  at_write :: nat
  at_builder :: nat
  at_orchestrator :: nat
  at_contractor :: nat
  at_validationCommand :: nat

definition unboundedTimeoutForAgent :: "config \<Rightarrow> agent_timeouts \<Rightarrow> string \<Rightarrow> lock_plan \<Rightarrow> nat option \<Rightarrow> nat" where
  "unboundedTimeoutForAgent cf ts ag p requested =
    (if requested \<noteq> None \<and> requested \<noteq> Some 0 then the requested
     else if js_lower ag \<in> {''builder'', ''debugger''} then at_builder ts
     else if lp_orchestratorMode p = ''contractor'' then at_contractor ts
     else if isOrchestratorAgent cf (js_lower ag) then at_orchestrator ts
     else if lp_lockType p = ''read'' then at_readOnly ts else at_write ts)"

definition timeoutForAgent :: "config \<Rightarrow> agent_timeouts \<Rightarrow> string \<Rightarrow> lock_plan \<Rightarrow> nat option \<Rightarrow> nat" where
  "timeoutForAgent cf ts ag p requested = min MAX_AGENT_TIMEOUT_MS (unboundedTimeoutForAgent cf ts ag p requested)"

definition hardLockTtlForPlan :: "config \<Rightarrow> agent_timeouts \<Rightarrow> lock_plan \<Rightarrow> int" where
  "hardLockTtlForPlan cf ts p = (let executionTimeoutMs = timeoutForAgent cf ts (lp_agent p) p (lp_timeoutMs p);
     safetyMarginMs = at_validationCommand ts + 1000 * 60 * 5
   in max DEFAULT_LOCK_TTL_MS (int (executionTimeoutMs + safetyMarginMs)))"

definition hardLockSummary :: "hard_lock option \<Rightarrow> string" where
  "hardLockSummary l = (case l of None \<Rightarrow> ''not acquired''
     | Some k \<Rightarrow> hl_id k @ '' ('' @ hl_lockType k @ '': '' @ join_with '', '' (hl_paths k) @ '')'')"

section \<open>The schema of the lock table\<close>

text \<open>A column of \<open>PRAGMA table_info\<close>: its name and its position in the primary key, or 0.\<close>

record lock_table =
  tb_columns :: "(string \<times> nat) list"
  tb_rows :: "lock_row list"

definition lockTableHasCompositePrimaryKey :: "lock_table \<Rightarrow> bool" where
  "lockTableHasCompositePrimaryKey t =
     (map fst (sort_key snd (filter (\<lambda>(n, pk). pk > 0) (tb_columns t))) = [''normalized_path'', ''run_id''])"

definition composite_columns :: "(string \<times> nat) list" where
  "composite_columns = [(''normalized_path'', 1), (''owner_agent'', 0), (''acquisition_origin'', 0), (''run_id'', 2),
     (''token'', 0), (''lock_mode'', 0), (''expires_at'', 0), (''created_at'', 0), (''cwd'', 0), (''task'', 0)]"

definition row_key :: "lock_row \<Rightarrow> string \<times> string" where
  "row_key r = (normalized_path r, run_id r)"

text \<open>\<open>INSERT OR IGNORE\<close>: a row whose key is already there is left out.\<close>

fun insert_or_ignore :: "lock_row list \<Rightarrow> lock_row list \<Rightarrow> lock_row list" where
  "insert_or_ignore acc [] = acc"
| "insert_or_ignore acc (r # rs) = insert_or_ignore (if row_key r \<in> row_key ` set acc then acc else acc @ [r]) rs"

definition migrateLegacyLockTable :: "lock_table \<Rightarrow> lock_table" where
  "migrateLegacyLockTable t = (if lockTableHasCompositePrimaryKey t then t else
     \<lparr>tb_columns = composite_columns,
      tb_rows = insert_or_ignore [] (map (\<lambda>r. r\<lparr>acquisition_origin := ''legacy'', edits_checkout := None\<rparr>) (tb_rows t))\<rparr>)"

definition ensureLockTableSchema :: "lock_table \<Rightarrow> lock_table" where
  "ensureLockTableSchema t = (let t = (if lockTableHasCompositePrimaryKey t then t else migrateLegacyLockTable t) in
     if ''edits_checkout'' \<in> fst ` set (tb_columns t) then t
     else t\<lparr>tb_columns := tb_columns t @ [(''edits_checkout'', 0)],
            tb_rows := map (\<lambda>r. r\<lparr>edits_checkout := None\<rparr>) (tb_rows t)\<rparr>)"

end
