(* ===== verification/Interfaces.thy ===== *)
theory Interfaces
  imports Prelude
begin

text \<open>
  The contracts several components share, as locales: resources that exclude each other
  (\<open>exclusion\<close>), stores whose rows expire (\<open>expiring_store\<close>) and owners that renew a lease
  until they lose it (\<open>renewal\<close>).  Each is interpreted on the model of the component that provides it.
\<close>

section \<open>Mutual exclusion\<close>

definition exclusive :: "('r \<Rightarrow> 'k) \<Rightarrow> ('r \<Rightarrow> 'r \<Rightarrow> bool) \<Rightarrow> 'r set \<Rightarrow> bool" where
  "exclusive own clash S \<longleftrightarrow> (\<forall>r \<in> S. \<forall>s \<in> S. own r \<noteq> own s \<longrightarrow> \<not> clash r s)"

lemma exclusive_subset: "exclusive own clash S \<Longrightarrow> T \<subseteq> S \<Longrightarrow> exclusive own clash T"
  by (auto simp: exclusive_def)

lemma exclusive_empty [simp]: "exclusive own clash {}"
  by (simp add: exclusive_def)

lemma exclusiveD: "exclusive own clash S \<Longrightarrow> r \<in> S \<Longrightarrow> s \<in> S \<Longrightarrow> own r \<noteq> own s \<Longrightarrow> \<not> clash r s"
  by (auto simp: exclusive_def)

locale exclusion =
  fixes own :: "'r \<Rightarrow> 'k" and clash :: "'r \<Rightarrow> 'r \<Rightarrow> bool"
  assumes clash_sym: "clash r s \<Longrightarrow> clash s r"
begin

lemma exclusive_join:
  assumes "exclusive own clash S" "exclusive own clash N"
    and "\<And>r s. r \<in> N \<Longrightarrow> s \<in> S \<Longrightarrow> own r \<noteq> own s \<Longrightarrow> \<not> clash r s"
  shows "exclusive own clash (S \<union> N)"
  unfolding exclusive_def
proof (intro ballI impI)
  fix r s assume "r \<in> S \<union> N" "s \<in> S \<union> N" "own r \<noteq> own s"
  then consider "r \<in> S" "s \<in> S" | "r \<in> N" "s \<in> N" | "r \<in> N" "s \<in> S" | "s \<in> N" "r \<in> S" by blast
  then show "\<not> clash r s"
  proof cases
    case 4 with assms(3) [of s r] \<open>own r \<noteq> own s\<close> show ?thesis by (metis clash_sym)
  qed (use assms exclusiveD \<open>own r \<noteq> own s\<close> in metis)+
qed

lemma exclusive_one_owner: "(\<And>r s. r \<in> N \<Longrightarrow> s \<in> N \<Longrightarrow> own r = own s) \<Longrightarrow> exclusive own clash N"
  unfolding exclusive_def by blast

text \<open>Changing rows keeps exclusion when each changed row clashes with no more than the old one did.\<close>

lemma exclusive_image:
  assumes "exclusive own clash S" "\<And>r. r \<in> S \<Longrightarrow> own (f r) = own r"
    and "\<And>r s. r \<in> S \<Longrightarrow> s \<in> S \<Longrightarrow> own r \<noteq> own s \<Longrightarrow> clash (f r) (f s) \<Longrightarrow> clash r s"
  shows "exclusive own clash (f ` S)"
  unfolding exclusive_def
proof (intro ballI impI)
  fix x y assume "x \<in> f ` S" "y \<in> f ` S" "own x \<noteq> own y"
  then obtain r s where rs: "r \<in> S" "s \<in> S" "x = f r" "y = f s" by blast
  with assms(2) \<open>own x \<noteq> own y\<close> have "own r \<noteq> own s" by simp
  with rs assms(3) exclusiveD [OF assms(1)] show "\<not> clash x y" by blast
qed

end

section \<open>Stores whose rows expire\<close>

locale expiring_store =
  fixes rows :: "'db \<Rightarrow> 'r list" and expiry :: "'r \<Rightarrow> int" and prune :: "'db \<Rightarrow> int \<Rightarrow> 'db"
  assumes rows_prune: "rows (prune db t) = filter (\<lambda>r. t < expiry r) (rows db)"
begin

lemma prune_only_live: "r \<in> set (rows (prune db t)) \<Longrightarrow> t < expiry r"
  by (simp add: rows_prune)

lemma prune_keeps_live: "r \<in> set (rows db) \<Longrightarrow> t < expiry r \<Longrightarrow> r \<in> set (rows (prune db t))"
  by (simp add: rows_prune)

lemma prune_adds_nothing: "set (rows (prune db t)) \<subseteq> set (rows db)"
  by (auto simp: rows_prune)

lemma prune_twice: "s \<le> t \<Longrightarrow> rows (prune (prune db s) t) = rows (prune db t)"
  by (auto simp: rows_prune intro!: filter_cong)

lemma live_after_prune: "s \<le> t \<Longrightarrow>
    {r \<in> set (rows (prune db s)). t < expiry r} = {r \<in> set (rows db). t < expiry r}"
  by (auto simp: rows_prune)

end

section \<open>Renewal\<close>

text \<open>
  \<open>renew e s db\<close> is one heartbeat of the owner state \<open>s\<close>, an event \<open>e\<close> that happens at time \<open>at e\<close>.
  The owner may go on only while it answers true; \<open>ended\<close> owners stay ended, and a heartbeat that
  comes after the last confirmed expiry ends the owner whatever the store says.
\<close>

fun renewals :: "('e \<Rightarrow> 's \<Rightarrow> 'db \<Rightarrow> bool \<times> 's \<times> 'db) \<Rightarrow> 'e list \<Rightarrow> 's \<Rightarrow> 'db \<Rightarrow> bool list \<times> 's \<times> 'db" where
  "renewals renew [] s db = ([], s, db)"
| "renewals renew (e # es) s db = (case renew e s db of (ok, s', db') \<Rightarrow>
     case renewals renew es s' db' of (oks, s'', db'') \<Rightarrow> (ok # oks, s'', db''))"

locale renewal =
  fixes renew :: "'e \<Rightarrow> 's \<Rightarrow> 'db \<Rightarrow> bool \<times> 's \<times> 'db" and at :: "'e \<Rightarrow> int"
    and ended :: "'s \<Rightarrow> bool" and confirmed :: "'s \<Rightarrow> int"
  assumes renew_ended: "ended s \<Longrightarrow> renew e s db = (False, s, db)"
    and renew_late: "confirmed s \<le> at e \<Longrightarrow> \<not> ended s \<Longrightarrow> \<exists>s'. renew e s db = (False, s', db) \<and> ended s'"
    and renew_refused: "renew e s db = (False, s', db') \<Longrightarrow> ended s'"
begin

lemma ended_stays: "ended s \<Longrightarrow> renewals renew es s db = (replicate (length es) False, s, db)"
  by (induction es) (simp_all add: renew_ended)

lemma late_is_refused:
  assumes "confirmed s \<le> at e"
  obtains s' where "renew e s db = (False, s', db)" "ended s'"
  using assms renew_ended renew_late by (cases "ended s") blast+

lemma late_ends:
  assumes "confirmed s \<le> at e"
  shows "fst (renewals renew (e # es) s db) = replicate (Suc (length es)) False
    \<and> snd (snd (renewals renew (e # es) s db)) = db"
  by (rule late_is_refused [OF assms, of db]) (simp add: ended_stays)

text \<open>A refusal is final: no later heartbeat succeeds.\<close>

lemma refusal_is_final:
  "fst (renewals renew es s db) = xs @ False # ys \<Longrightarrow> ys = replicate (length ys) False"
proof (induction es arbitrary: s db xs)
  case Nil then show ?case by simp
next
  case (Cons e es)
  obtain ok s' db' where r: "renew e s db = (ok, s', db')" by (metis prod_cases3)
  have tail: "fst (renewals renew (e # es) s db) = ok # fst (renewals renew es s' db')"
    by (simp add: r split: prod.split)
  show ?case
  proof (cases xs)
    case Nil
    with Cons.prems tail have "\<not> ok" "ys = fst (renewals renew es s' db')" by simp_all
    with r have "ended s'" by (simp add: renew_refused)
    with \<open>ys = _\<close> show ?thesis by (simp add: ended_stays)
  next
    case (Cons x xs')
    with Cons.prems tail have "fst (renewals renew es s' db') = xs' @ False # ys" by simp
    then show ?thesis by (rule Cons.IH)
  qed
qed

end

end
