(* ===== verification/LockSafety.thy ===== *)
theory LockSafety
  imports LockQuarantine Interfaces
begin

text \<open>
  Mutual exclusion of the locks of one project: whatever sequence of lock operations runs, two locks
  of different runs that are both unexpired never conflict.  Then the contracts of the single operations.
\<close>

lemma filter_single:
  assumes "filter P xs = [x]"
  shows "x \<in> set xs" "P x" "y \<in> set xs \<Longrightarrow> P y \<Longrightarrow> y = x"
proof -
  have "set (filter P xs) = {x}" using assms by simp
  then show "x \<in> set xs" "P x" "y \<in> set xs \<Longrightarrow> P y \<Longrightarrow> y = x" by auto
qed

section \<open>Conflicts\<close>

lemma conflicts_None_iff: "conflictsWithActiveLock h m r a = None \<longleftrightarrow>
    cl_lockType r = ''read'' \<and> cl_lockType a = ''read''
    \<or> overlaps h (lockPaths r) (lockPaths a) [] = None \<and> \<not> requires_serialization m r a"
  by (auto simp: conflictsWithActiveLock_def Let_def split: option.splits prod.splits)

lemma requires_serialization_sym: "requires_serialization m r a = requires_serialization m a r"
  by (auto simp: requires_serialization_def)

lemma conflicts_sym: "conflictsWithActiveLock h m r a = None \<longleftrightarrow> conflictsWithActiveLock h m a r = None"
  unfolding conflicts_None_iff using overlaps_sym [of h "lockPaths r" "lockPaths a" "[]"] requires_serialization_sym [of m r a]
  by blast

definition row_claim :: "lock_row \<Rightarrow> lock_claim" where
  "row_claim r = \<lparr>cl_lockType = lock_mode r, cl_paths = [normalized_path r],
     cl_origin = or_string (acquisition_origin r) ''legacy'',
     cl_editsCheckout = Some (case edits_checkout r of None \<Rightarrow> True | Some b \<Rightarrow> b)\<rparr>"

definition row_clash :: "config \<Rightarrow> lock_row \<Rightarrow> lock_row \<Rightarrow> bool" where
  "row_clash cf r s \<longleftrightarrow> conflictsWithActiveLock (host_of cf) (worktreeMode cf) (row_claim r) (row_claim s) \<noteq> None"

interpretation lock_rows: exclusion run_id "row_clash cf" for cf
  by unfold_locales (metis conflicts_sym row_clash_def)

definition stable_path :: "string \<Rightarrow> bool" where
  "stable_path p \<longleftrightarrow> p \<noteq> [] \<and> js_trim p = p \<and> normalizeLockPath p = p"

lemma stable_paths_normal:
  assumes "\<And>p. p \<in> set ps \<Longrightarrow> stable_path p"
  shows "normalizeLockPathList ps = uniq ps"
proof -
  have "map js_trim ps = ps" "filter (\<lambda>v. v \<noteq> []) ps = ps"
    using assms by (auto simp: stable_path_def map_idI filter_id_conv)
  then have "uniqueList ps = uniq ps" by (simp add: uniqueList_def normalizeList_def)
  moreover have "map normalizeLockPath (uniq ps) = uniq ps"
    using assms by (auto simp: stable_path_def intro!: map_idI)
  moreover have "filter (\<lambda>v. v \<noteq> []) (uniq ps) = uniq ps"
    using assms by (auto simp: stable_path_def filter_id_conv)
  ultimately show ?thesis by (simp add: normalizeLockPathList_def uniq_distinct)
qed

lemma lockPaths_stable:
  "(\<And>p. p \<in> set (cl_paths l) \<Longrightarrow> stable_path p) \<Longrightarrow> set (lockPaths l) = set (cl_paths l)"
  by (simp add: lockPaths_def stable_paths_normal)

section \<open>Lock forms in lower case\<close>

text \<open>Characters no lower-case letter is made of.\<close>

definition caseless :: "char \<Rightarrow> bool" where
  "caseless c \<longleftrightarrow> (of_char c :: nat) < 65 \<or> 90 < (of_char c :: nat) \<and> (of_char c :: nat) < 97 \<or> 122 < (of_char c :: nat) \<and> (of_char c :: nat) < 192"

lemma js_lower_caseless: "caseless s \<Longrightarrow> js_lower_char c = s \<longleftrightarrow> c = s"
proof
  assume s: "caseless s" "js_lower_char c = s"
  have small: "(of_char c :: nat) + 32 < 256" if "65 \<le> (of_char c :: nat) \<and> (of_char c :: nat) \<le> 90 \<or> 192 \<le> (of_char c :: nat) \<and> (of_char c :: nat) \<le> 222"
    using that by auto
  show "c = s"
  proof (rule ccontr)
    assume "c \<noteq> s"
    then have u: "65 \<le> (of_char c :: nat) \<and> (of_char c :: nat) \<le> 90 \<or> 192 \<le> (of_char c :: nat) \<and> (of_char c :: nat) \<le> 222"
      and e: "s = char_of ((of_char c :: nat) + 32)"
      using s(2) by (auto simp: js_lower_char_def Let_def split: if_split_asm)
    have "(of_char s :: nat) = of_char c + 32" unfolding e using small [OF u] by simp
    then show False using s(1) u unfolding caseless_def by auto
  qed
next
  assume "caseless s" "c = s"
  then show "js_lower_char c = s" unfolding caseless_def by (auto simp: js_lower_char_def Let_def)
qed

lemma caseless_path [simp]: "caseless slash" "caseless dot" "caseless backslash" "caseless CHR ''*''"
  by code_simp+

lemma caseless_js_lower: "caseless s \<Longrightarrow> s = js_lower_char c \<longleftrightarrow> c = s"
  using js_lower_caseless [of s c] by metis

lemma js_lower_fixed: "js_lower_char backslash = backslash" "js_lower_char CHR ''*'' = CHR ''*''"
  by (simp_all add: js_lower_caseless)

lemma caseless_glob: "glob_char c \<Longrightarrow> caseless c"
proof -
  have "list_all caseless ''*?[]{}!''" by code_simp
  then show "glob_char c \<Longrightarrow> caseless c" unfolding list_all_iff glob_char_def by blast
qed

lemma js_lower_glob [simp]: "glob_char (js_lower_char c) = glob_char c"
proof
  assume "glob_char (js_lower_char c)"
  then have "c = js_lower_char c" by (metis js_lower_caseless caseless_glob)
  with \<open>glob_char (js_lower_char c)\<close> show "glob_char c" by simp
next
  assume "glob_char c"
  then have "js_lower_char c = c" by (metis js_lower_caseless caseless_glob)
  with \<open>glob_char c\<close> show "glob_char (js_lower_char c)" by simp
qed

lemma lower_has_glob: "has_glob (js_lower p) = has_glob p"
  by (simp add: has_glob_def js_lower_def list_ex_iff)

lemma no_double_lower: "no_double (js_lower p) = no_double p"
  unfolding js_lower_def by (induction p rule: no_double.induct) auto

lemma no_dot_seg_lower: "no_dot_seg (js_lower p) = no_dot_seg p"
  unfolding js_lower_def
proof (induction p rule: no_dot_seg.induct)
  case (1 a b r)
  then show ?case by (cases r) (auto simp: js_lower_caseless)
qed auto

lemma normal_path_lower: "normal_path p \<Longrightarrow> normal_path (js_lower p)"
proof -
  assume n: "normal_path p"
  have "backslash \<notin> set (js_lower p)" "\<not> starts_with ''./'' (js_lower p)" "last (js_lower p) \<noteq> slash"
    using n unfolding normal_path_def js_lower_def
    by (auto simp: js_lower_caseless starts_with_iff last_map map_eq_append_conv map_eq_Cons_conv caseless_js_lower js_lower_fixed)
  moreover have "ends_with ''/**'' p \<and> \<not> has_glob (take (length p - 3) p)"
    if "ends_with ''/**'' (js_lower p)" "\<not> has_glob (take (length (js_lower p) - 3) (js_lower p))"
  proof
    show "ends_with ''/**'' p" using that(1) unfolding js_lower_def
      by (auto simp: ends_with_iff map_eq_append_conv map_eq_Cons_conv js_lower_caseless caseless_js_lower js_lower_fixed)
    show "\<not> has_glob (take (length p - 3) p)" using that(2) lower_has_glob unfolding js_lower_def by (metis length_map take_map)
  qed
  ultimately show ?thesis using n no_double_lower no_dot_seg_lower unfolding normal_path_def
    by (metis js_lower_def map_is_Nil_conv)
qed

lemma lock_form_normal: "normalizeLockPathForCwd h v cwd \<in> {[], ''/''} \<or> normal_path (normalizeLockPathForCwd h v cwd)"
proof -
  have one: "x \<in> {[], ''/''} \<or> normal_path x \<Longrightarrow> normalizeFilesystemCase h x c \<in> {[], ''/''} \<or> normal_path (normalizeFilesystemCase h x c)" for x c
    using normal_path_lower [of x] by (auto simp: normalizeFilesystemCase_def js_lower_def js_lower_caseless)
  show ?thesis using normalizeLockPath_cases [of v] one normalizeLockPath_cases
    unfolding normalizeLockPathForCwd_def Let_def by (simp split: if_split) (metis insert_iff)
qed

text \<open>A claim with fewer paths, otherwise alike, conflicts with no more.\<close>

lemma conflicts_fewer_paths:
  assumes "conflictsWithActiveLock h m r a = None"
    and "cl_lockType r' = cl_lockType r" "worktree_job_writer m r' = worktree_job_writer m r" "set (lockPaths r') \<subseteq> set (lockPaths r)"
    and "cl_lockType a' = cl_lockType a" "worktree_job_writer m a' = worktree_job_writer m a" "set (lockPaths a') \<subseteq> set (lockPaths a)"
  shows "conflictsWithActiveLock h m r' a' = None"
  using assms unfolding conflicts_None_iff overlaps_None_iff requires_serialization_def by auto

section \<open>Expiry\<close>

lemma expire_locks [simp]: "locks (expireLocksFromDb db t) = filter (\<lambda>r. t < expires_at r) (locks db)"
  by (auto simp: expireLocksFromDb_def Let_def not_le intro!: filter_cong)

lemma expire_run_ids [simp]: "map rn_id (runs (expireLocksFromDb db t)) = map rn_id (runs db)"
  by (auto simp: expireLocksFromDb_def Let_def)

lemma expire_others [simp]: "integration_operations (expireLocksFromDb db t) = integration_operations db"
  "opencode_jobs (expireLocksFromDb db t) = opencode_jobs db"
  by (simp_all add: expireLocksFromDb_def Let_def)

interpretation lock_expiry: expiring_store locks expires_at expireLocksFromDb
  by unfold_locales simp

lemma list_locks [simp]: "snd (listLocksFromDb db t) = expireLocksFromDb db t"
  by (simp add: listLocksFromDb_def Let_def)

lemma set_live_rows [simp]: "set (live_rows db t) = {r \<in> set (locks db). t < expires_at r}"
  by (auto simp: live_rows_def)

section \<open>The invariant\<close>

definition lock_profile :: "lock_row \<Rightarrow> string \<times> string \<times> bool option" where
  "lock_profile r = (lock_mode r, acquisition_origin r, edits_checkout r)"

definition wf_locks :: "lock_db \<Rightarrow> bool" where
  "wf_locks db \<longleftrightarrow> (\<forall>r \<in> set (locks db). stable_path (normalized_path r) \<and> run_id r \<in> rn_id ` set (runs db)
     \<and> (\<forall>s \<in> set (locks db). run_id r = run_id s \<longrightarrow> lock_profile r = lock_profile s))"

definition live :: "int \<Rightarrow> lock_db \<Rightarrow> lock_row set" where
  "live t db = {r \<in> set (locks db). t < expires_at r}"

definition locks_exclusive :: "config \<Rightarrow> int \<times> lock_db \<Rightarrow> bool" where
  "locks_exclusive cf = (\<lambda>(t, db). wf_locks db \<and> exclusive run_id (row_clash cf) (live t db))"

lemma wf_locksD:
  assumes "wf_locks db" "r \<in> set (locks db)"
  shows "stable_path (normalized_path r)" "run_id r \<in> rn_id ` set (runs db)"
    "s \<in> set (locks db) \<Longrightarrow> run_id r = run_id s \<Longrightarrow> lock_profile r = lock_profile s"
  using assms unfolding wf_locks_def by blast+

lemma wf_locks_subset:
  assumes "wf_locks db" "set (locks db') \<subseteq> set (locks db)" "rn_id ` set (runs db) \<subseteq> rn_id ` set (runs db')"
  shows "wf_locks db'"
  using assms unfolding wf_locks_def by blast

lemma exclusive_later: "locks_exclusive cf (t, db) \<Longrightarrow> t \<le> t' \<Longrightarrow> locks_exclusive cf (t', db)"
  unfolding locks_exclusive_def by (auto simp: live_def elim!: exclusive_subset)

lemma exclusive_fewer:
  assumes "locks_exclusive cf (t, db)" "set (locks db') \<subseteq> set (locks db)" "rn_id ` set (runs db) \<subseteq> rn_id ` set (runs db')"
  shows "locks_exclusive cf (t, db')"
  using assms unfolding locks_exclusive_def
  by (auto simp: live_def elim: wf_locks_subset elim!: exclusive_subset)

text \<open>Rows may change as long as their identity, profile and liveness do not.\<close>

lemma exclusive_changed:
  assumes "locks_exclusive cf (t, db)" "locks db' = map f (locks db)" "rn_id ` set (runs db) \<subseteq> rn_id ` set (runs db')"
    and "\<And>r. r \<in> set (locks db) \<Longrightarrow> normalized_path (f r) = normalized_path r \<and> run_id (f r) = run_id r
           \<and> lock_profile (f r) = lock_profile r \<and> (t < expires_at (f r) \<longrightarrow> t < expires_at r)"
  shows "locks_exclusive cf (t, db')"
proof -
  have claim: "row_claim (f r) = row_claim r" if "r \<in> set (locks db)" for r
    using assms(4) [OF that] by (simp add: row_claim_def lock_profile_def)
  have "wf_locks db" and ex: "exclusive run_id (row_clash cf) (live t db)"
    using assms(1) by (simp_all add: locks_exclusive_def)
  have "wf_locks db'"
    unfolding wf_locks_def
  proof (intro ballI conjI impI)
    fix x assume "x \<in> set (locks db')"
    then obtain r where r: "r \<in> set (locks db)" "x = f r" using assms(2) by auto
    show "stable_path (normalized_path x)" "run_id x \<in> rn_id ` set (runs db')"
      using wf_locksD(1,2) [OF \<open>wf_locks db\<close> r(1)] assms(3) assms(4) [OF r(1)] r(2) by auto
    fix y assume "y \<in> set (locks db')" and same: "run_id x = run_id y"
    then obtain s where s: "s \<in> set (locks db)" "y = f s" using assms(2) by auto
    show "lock_profile x = lock_profile y"
      using wf_locksD(3) [OF \<open>wf_locks db\<close> r(1) s(1)] assms(4) [OF r(1)] assms(4) [OF s(1)] r(2) s(2) same by presburger
  qed
  moreover have "exclusive run_id (row_clash cf) (f ` live t db)"
    by (rule lock_rows.exclusive_image [OF ex]) (auto simp: live_def assms(4) row_clash_def claim)
  then have "exclusive run_id (row_clash cf) (live t db')"
    by (rule exclusive_subset) (use assms(2,4) in \<open>auto simp: live_def\<close>)
  ultimately show ?thesis by (simp add: locks_exclusive_def)
qed

section \<open>Acquisition\<close>

lemma row_view_covers:
  assumes "s \<in> set rows"
    and same: "\<And>r. r \<in> set rows \<Longrightarrow> run_id r = run_id s \<Longrightarrow> lock_profile r = lock_profile s"
    and stable: "\<And>r. r \<in> set rows \<Longrightarrow> stable_path (normalized_path r)"
    and none: "conflictsWithActiveLock h m q (row_view (run_id s) rows) = None"
  shows "conflictsWithActiveLock h m q (row_claim s) = None"
proof -
  define rs where "rs = filter (\<lambda>r. run_id r = run_id s) rows"
  have "s \<in> set rs" using assms(1) by (simp add: rs_def)
  then have "hd rs \<in> set rs" by (cases rs) auto
  then have hd: "lock_profile (hd rs) = lock_profile s" using same by (auto simp: rs_def)
  have st: "\<And>p. p \<in> set (map normalized_path rs) \<Longrightarrow> stable_path p" using stable by (auto simp: rs_def)
  then have "normalizeLockPathList (map normalized_path rs) = uniq (map normalized_path rs)"
    by (rule stable_paths_normal)
  then have paths: "cl_paths (row_view (run_id s) rows) = uniq (map normalized_path rs)"
    by (simp add: row_view_def Let_def rs_def)
  show ?thesis
  proof (rule conflicts_fewer_paths [OF none])
    show "set (lockPaths (row_claim s)) \<subseteq> set (lockPaths (row_view (run_id s) rows))"
      using st \<open>s \<in> set rs\<close> by (subst (1 2) lockPaths_stable) (auto simp: paths row_claim_def)
  qed (use hd in \<open>auto simp: row_claim_def row_view_def Let_def lock_profile_def worktree_job_writer_def
        claim_edits_checkout_def rs_def\<close>)
qed

lemma wf_locks_join:
  assumes "wf_locks db" "set (locks db') \<subseteq> set (locks db) \<union> N"
    and "insert i (rn_id ` set (runs db)) \<subseteq> rn_id ` set (runs db')" "i \<notin> rn_id ` set (runs db)"
    and N: "\<And>r. r \<in> N \<Longrightarrow> stable_path (normalized_path r) \<and> run_id r = i \<and> lock_profile r = p"
  shows "wf_locks db'"
  unfolding wf_locks_def
proof (intro ballI conjI impI)
  note old = wf_locksD [OF assms(1)]
  fix r assume r: "r \<in> set (locks db')"
  then consider (old) "r \<in> set (locks db)" | (new) "r \<in> N" using assms(2) by blast
  then show "stable_path (normalized_path r)" "run_id r \<in> rn_id ` set (runs db')"
    by (cases; use old(1,2) [of r] N [of r] assms(3) in blast)+
  fix s assume s: "s \<in> set (locks db')" and same: "run_id r = run_id s"
  have apart: False if "x \<in> set (locks db)" "y \<in> N" "run_id x = run_id y" for x y
    using old(2) [OF that(1)] N [OF that(2)] that(3) assms(4) by simp
  consider "r \<in> set (locks db)" "s \<in> set (locks db)" | "r \<in> N" "s \<in> N"
    using r s same assms(2) apart [of r s] apart [of s r] by auto
  then show "lock_profile r = lock_profile s"
    by cases (use old(3) [of r s] N [of r] N [of s] same in auto)
qed

lemma lock_rows_claim:
  assumes "r \<in> set (lock_rows_of cf l)" "\<And>p. p \<in> set (hl_paths l) \<Longrightarrow> stable_path p" "hl_origin l \<noteq> []"
    and "conflictsWithActiveLock h m \<lparr>cl_lockType = hl_lockType l, cl_paths = hl_paths l, cl_origin = hl_origin l,
           cl_editsCheckout = Some (hl_editsCheckout l)\<rparr> a = None"
  shows "conflictsWithActiveLock h m (row_claim r) a = None"
proof -
  obtain p where p: "p \<in> set (hl_paths l)" "normalized_path r = p" "lock_mode r = hl_lockType l"
    "edits_checkout r = Some (hl_editsCheckout l)"
    using assms(1) by (auto simp: lock_rows_of_def)
  show ?thesis
  proof (rule conflicts_fewer_paths [OF assms(4)])
    show "set (lockPaths (row_claim r)) \<subseteq> set (lockPaths \<lparr>cl_lockType = hl_lockType l, cl_paths = hl_paths l,
        cl_origin = hl_origin l, cl_editsCheckout = Some (hl_editsCheckout l)\<rparr>)"
      using p assms(2) by (subst (1 2) lockPaths_stable) (auto simp: row_claim_def)
  qed (use p in \<open>auto simp: row_claim_def worktree_job_writer_def claim_edits_checkout_def\<close>)
qed

abbreviation acquire_claim :: "hard_lock \<Rightarrow> lock_claim" where
  "acquire_claim l \<equiv> \<lparr>cl_lockType = hl_lockType l, cl_paths = hl_paths l, cl_origin = hl_origin l,
     cl_editsCheckout = Some (hl_editsCheckout l)\<rparr>"

lemma acquire_transaction_commits:
  assumes "acquire_transaction cf db l recovery qo now = (res, Some db')"
  defines "db0 \<equiv> expireLocksFromDb db now"
  obtains q run where "res = Acquired l"
    "List.find (\<lambda>a. conflictsWithActiveLock (host_of cf) (worktreeMode cf) (acquire_claim l) a \<noteq> None)
       (rowsToLocks (live_rows db0 now)) = None"
    "hl_id l \<notin> rn_id ` set (runs db0)" "rn_id run = hl_id l"
    "db' = expireLocksFromDb (db0\<lparr>runs := runs db0 @ [run], locks := locks db0 @ lock_rows_of cf l, queue_job_locks := q\<rparr>) now"
proof -
  have same: "db0\<lparr>runs := a, locks := b\<rparr> = db0\<lparr>runs := a, locks := b, queue_job_locks := queue_job_locks db0\<rparr>" for a b
    by simp
  show ?thesis
    using assms(1) unfolding acquire_transaction_def listLocksFromDb_def Let_def db0_def [symmetric] prod.case
    apply (simp only: split: if_split_asm option.split_asm)
    apply (simp_all add: list_ex_iff image_iff del: not_None_eq)
    subgoal by (rule that [where q = "queue_job_locks db0"]) (auto simp: same [symmetric] simp del: not_None_eq)
    subgoal by (rule that) (auto simp del: not_None_eq)
    done
qed

lemma run_id_set_expire [simp]: "rn_id ` set (runs (expireLocksFromDb d t)) = rn_id ` set (runs d)"
  by (metis expire_run_ids list.set_map)

lemma acquire_transaction_effect:
  assumes "acquire_transaction cf db l recovery qo now = (res, Some db')"
  shows "res = Acquired l" "hl_id l \<notin> rn_id ` set (runs db)"
    "set (locks db') = {r \<in> set (locks db) \<union> set (lock_rows_of cf l). now < expires_at r}"
    "rn_id ` set (runs db') = insert (hl_id l) (rn_id ` set (runs db))"
    "\<And>a. a \<in> set (rowsToLocks (live_rows (expireLocksFromDb db now) now)) \<Longrightarrow>
       conflictsWithActiveLock (host_of cf) (worktreeMode cf) (acquire_claim l) a = None"
  by (rule acquire_transaction_commits [OF assms]; auto simp: find_None_iff)+

lemma acquire_transaction_exclusive:
  assumes ex: "locks_exclusive cf (now, db)" and t: "acquire_transaction cf db l recovery qo now = (res, Some db')"
    and stable: "\<And>p. p \<in> set (hl_paths l) \<Longrightarrow> stable_path p" and "hl_origin l \<noteq> []"
  shows "locks_exclusive cf (now, db')"
proof -
  note eff = acquire_transaction_effect [OF t]
  have wf: "wf_locks db" and excl: "exclusive run_id (row_clash cf) (live now db)"
    using ex by (simp_all add: locks_exclusive_def)
  let ?N = "set (lock_rows_of cf l)"
  have N: "stable_path (normalized_path r) \<and> run_id r = hl_id l
      \<and> lock_profile r = (hl_lockType l, hl_origin l, Some (hl_editsCheckout l))" if "r \<in> ?N" for r
    using that stable by (auto simp: lock_rows_of_def lock_profile_def)
  have clear: "\<not> row_clash cf r s" if r: "r \<in> ?N" and s: "s \<in> live now db" for r s
  proof -
    let ?rows = "live_rows (expireLocksFromDb db now) now"
    have s': "s \<in> set ?rows" using s by (auto simp: live_def)
    then have "row_view (run_id s) ?rows \<in> set (rowsToLocks ?rows)" by (auto simp: rowsToLocks_def)
    then have "conflictsWithActiveLock (host_of cf) (worktreeMode cf) (acquire_claim l) (row_view (run_id s) ?rows) = None"
      by (rule eff(5))
    then have "conflictsWithActiveLock (host_of cf) (worktreeMode cf) (acquire_claim l) (row_claim s) = None"
      by (rule row_view_covers [OF s', rotated 2]) (use wf_locksD [OF wf] s in \<open>auto simp: live_def\<close>)
    then show ?thesis
      unfolding row_clash_def not_not by (rule lock_rows_claim [OF r _ \<open>hl_origin l \<noteq> []\<close>, rotated]) (rule stable)
  qed
  have "exclusive run_id (row_clash cf) (live now db \<union> ?N)"
  proof (rule lock_rows.exclusive_join [OF excl])
    show "exclusive run_id (row_clash cf) ?N" by (rule lock_rows.exclusive_one_owner) (metis N)
  qed (simp add: clear)
  then have "exclusive run_id (row_clash cf) (live now db')"
    by (rule exclusive_subset) (auto simp: live_def eff(3))
  moreover have "wf_locks db'"
    by (rule wf_locks_join [OF wf, where N = ?N and i = "hl_id l"]) (use eff(2,3,4) N in auto)
  ultimately show ?thesis by (simp add: locks_exclusive_def)
qed

lemma run_ids_same: "map rn_id (runs a) = map rn_id (runs b) \<Longrightarrow> rn_id ` set (runs a) = rn_id ` set (runs b)"
  by (metis list.set_map)

lemma reclaim_run_locks: "set (locks (reclaim_run t i db)) \<subseteq> set (locks db)"
  and reclaim_run_ids: "map rn_id (runs (reclaim_run t i db)) = map rn_id (runs db)"
  by (auto simp: reclaim_run_def Let_def)

lemma reclaim_locks: "set (locks (reclaimProvenGoneLockQuarantines still t db)) \<subseteq> set (locks db)"
  and reclaim_ids: "map rn_id (runs (reclaimProvenGoneLockQuarantines still t db)) = map rn_id (runs db)"
proof -
  have "set (locks (fold (reclaim_run t) is db)) \<subseteq> set (locks db)" for "is"
    by (induction "is" arbitrary: db) (use reclaim_run_locks in \<open>force simp del: fold_Cons simp: fold_simps\<close>)+
  moreover have "map rn_id (runs (fold (reclaim_run t) is db)) = map rn_id (runs db)" for "is"
    by (induction "is" arbitrary: db) (simp_all add: reclaim_run_ids)
  ultimately show "set (locks (reclaimProvenGoneLockQuarantines still t db)) \<subseteq> set (locks db)"
    "map rn_id (runs (reclaimProvenGoneLockQuarantines still t db)) = map rn_id (runs db)"
    by (simp_all add: reclaimProvenGoneLockQuarantines_def)
qed

lemma cleanup_locks: "set (locks (acquire_cleanup cf l qo t db)) \<subseteq> set (locks db)"
  and cleanup_ids: "map rn_id (runs (acquire_cleanup cf l qo t db)) = map rn_id (runs db)"
  by (auto simp: acquire_cleanup_def)

lemmas same_run_ids [simp] = reclaim_ids [THEN run_ids_same] cleanup_ids [THEN run_ids_same]

text \<open>The paths a request asks for, in lock form.\<close>

definition requested_paths :: "config \<Rightarrow> lock_env \<Rightarrow> lock_request \<Rightarrow> string list" where
  "requested_paths cf env rq = (case le_root env (or_string (rq_cwd rq) (process_cwd (host_of cf))) of
     None \<Rightarrow> []
   | Some root \<Rightarrow> normalizeLockPathListForCwd (host_of cf)
       (if rq_repositoryScope rq then [REPOSITORY_SCOPE_LOCK_PATH] else rq_paths rq) root)"

text \<open>A requested path is its own lock form unless it begins or ends with a blank.\<close>

lemma requested_path_stable:
  assumes "p \<in> set (requested_paths cf env rq)" "js_trim p = p"
  shows "stable_path p"
proof -
  obtain v root where v: "p \<noteq> []" "p = normalizeLockPathForCwd (host_of cf) v root"
    using assms(1) by (auto simp: requested_paths_def normalizeLockPathListForCwd_def split: option.split_asm)
  then have "p = ''/'' \<or> normal_path p" using lock_form_normal [of "host_of cf" v root] by auto
  then show ?thesis using v(1) assms(2) normalizeLockPath_fix [OF _ assms(2)] by (auto simp: stable_path_def)
qed

definition before_acquire :: "lock_env \<Rightarrow> lock_db \<Rightarrow> lock_db" where
  "before_acquire env db = (if le_reclaim_due env then reclaimProvenGoneLockQuarantines (le_still env) (le_now env) db else db)"

lemma acquireHardLock_cases:
  assumes "acquireHardLock cf env rq db = (res, db')"
  obtains (refused) e where "res = Refused e" "db' = db \<or> db' = before_acquire env db"
  | (transaction) l recovery res' done' where
      "acquire_transaction cf (before_acquire env db) l recovery (rq_queueOwner rq) (le_now env) = (res', done')"
      "hl_paths l = requested_paths cf env rq" "hl_origin l \<in> {''manual'', ''internal''}"
      "hl_expiresAt l = le_now env + effective_ttl (rq_ttlMs rq)" "hl_createdAt l = le_now env" "hl_token l = le_token env"
      "(res, db') = (case done' of None \<Rightarrow> (res', before_acquire env db)
         | Some d \<Rightarrow> (case le_commit env of Committed \<Rightarrow> (res', d)
             | CommitLost \<Rightarrow> (Refused ''lock_database_failed'', if le_cleanup env then acquire_cleanup cf l (rq_queueOwner rq) (le_now env) (before_acquire env db) else before_acquire env db)
             | CommitDurableError \<Rightarrow> (Refused ''lock_database_failed'', if le_cleanup env then acquire_cleanup cf l (rq_queueOwner rq) (le_now env) d else d)))"
proof (cases "le_root env (or_string (rq_cwd rq) (process_cwd (host_of cf)))")
  case None
  with assms show ?thesis by (auto intro: refused simp: acquireHardLock_def Let_def)
next
  case (Some root)
  note asm = assms [unfolded acquireHardLock_def Let_def Some option.case before_acquire_def [symmetric]]
  show ?thesis
  proof (cases "\<exists>e. res = Refused e \<and> (db' = db \<or> db' = before_acquire env db)")
    case True then show ?thesis by (auto intro: refused)
  next
    case False
    define org where "org = (if rq_origin rq = ''manual'' then ''manual'' else ''internal'')"
    define lt where "lt = keyword (or_string (rq_lockType rq) ''write'')"
    define recovery where "recovery \<longleftrightarrow> rq_recoveryAuthority rq \<and> org = ''internal''"
    define l where "l = \<lparr>hl_id = makeLockId (rq_owner rq) (rq_agent rq) (le_stamp env) (le_random env), hl_token = le_token env,
      hl_owner = rq_owner rq, hl_agent = rq_agent rq, hl_origin = org, hl_taskSha256 = sha256_hex cf (rq_task rq),
      hl_cwd = root, hl_lockType = lt, hl_paths = requested_paths cf env rq, hl_createdAt = le_now env,
      hl_expiresAt = le_now env + effective_ttl (rq_ttlMs rq),
      hl_editsCheckout = (case rq_editsCheckout rq of Some b \<Rightarrow> b
        | None \<Rightarrow> \<not> (org = ''internal'' \<and> lt = ''write'' \<and> worktreeMode cf \<noteq> ''off''))\<rparr>"
    have paths: "normalizeLockPathListForCwd (host_of cf)
        (if rq_repositoryScope rq then [REPOSITORY_SCOPE_LOCK_PATH] else rq_paths rq) root = requested_paths cf env rq"
      by (simp add: requested_paths_def Some)
    obtain res' done' where t: "acquire_transaction cf (before_acquire env db) l recovery (rq_queueOwner rq) (le_now env) = (res', done')"
      by fastforce
    have body: "(res, db') = (case done' of None \<Rightarrow> (res', before_acquire env db)
         | Some d \<Rightarrow> (case le_commit env of Committed \<Rightarrow> (res', d)
             | CommitLost \<Rightarrow> (Refused ''lock_database_failed'', if le_cleanup env then acquire_cleanup cf l (rq_queueOwner rq) (le_now env) (before_acquire env db) else before_acquire env db)
             | CommitDurableError \<Rightarrow> (Refused ''lock_database_failed'', if le_cleanup env then acquire_cleanup cf l (rq_queueOwner rq) (le_now env) d else d)))"
      using asm False unfolding paths org_def [symmetric] lt_def [symmetric] recovery_def [symmetric] l_def [symmetric] t prod.case
      by (simp only: split: if_split_asm option.splits) (auto split: option.splits)
    show ?thesis by (rule transaction [OF t _ _ _ _ _ body]) (simp_all add: l_def org_def)
  qed
qed

lemma before_acquire_exclusive: "locks_exclusive cf (t, db) \<Longrightarrow> locks_exclusive cf (t, before_acquire env db)"
  using exclusive_fewer [OF _ reclaim_locks] by (auto simp: before_acquire_def)

lemma acquire_exclusive:
  assumes "locks_exclusive cf (le_now env, db)" "acquireHardLock cf env rq db = (res, db')"
    and stable: "\<And>p. p \<in> set (requested_paths cf env rq) \<Longrightarrow> stable_path p"
  shows "locks_exclusive cf (le_now env, db')"
  using assms(2)
proof (cases rule: acquireHardLock_cases)
  case (refused e) with assms(1) before_acquire_exclusive show ?thesis by blast
next
  case (transaction l recovery res' done')
  note base = before_acquire_exclusive [OF assms(1), of env]
  have trimmed: "locks_exclusive cf (t, acquire_cleanup cf l q t' d)" if "locks_exclusive cf (t, d)" for t t' d q
    by (rule exclusive_fewer [OF that cleanup_locks]) simp
  show ?thesis
  proof (cases done')
    case None with transaction base show ?thesis by simp
  next
    case (Some d)
    have "locks_exclusive cf (le_now env, d)"
      by (rule acquire_transaction_exclusive [OF base]) (use transaction Some stable in auto)
    with base trimmed transaction(7) Some show ?thesis by (cases "le_commit env") auto
  qed
qed

section \<open>Release, renewal and quarantine\<close>

lemma release_locks: "releaseHardLock cf opens now commit i tok ps db = (ok, db') \<Longrightarrow>
    set (locks db') \<subseteq> set (locks db) \<and> map rn_id (runs db') = map rn_id (runs db)"
proof -
  define mine where "mine r \<longleftrightarrow> run_id r = i \<and> token r = token_hash cf tok
    \<and> (normalizeLockPathList ps = [] \<or> normalized_path r \<in> set (normalizeLockPathList ps))" for r :: lock_row
  define db1 where "db1 = db\<lparr>locks := filter (\<lambda>r. \<not> mine r) (locks db)\<rparr>"
  define db2 where "db2 = (if no_rows_of db1 i
    then db1\<lparr>runs := map (\<lambda>r. if rn_id r = i then r\<lparr>rn_status := ''released'', rn_finished_at := Some now\<rparr> else r) (runs db1),
             queue_job_locks := filter (\<lambda>q. ql_lock_id q \<noteq> i) (queue_job_locks db1)\<rparr>
    else db1)"
  assume "releaseHardLock cf opens now commit i tok ps db = (ok, db')"
  then have "db' = db \<or> db' = expireLocksFromDb db2 now"
    unfolding releaseHardLock_def Let_def mine_def [symmetric] db1_def [symmetric] db2_def [symmetric]
    by (auto split: if_split_asm commit_outcome.split_asm)
  moreover have "set (locks db2) \<subseteq> set (locks db)" "map rn_id (runs db2) = map rn_id (runs db)"
    by (auto simp: db2_def db1_def)
  ultimately show ?thesis by auto
qed

lemma release_exclusive:
  assumes "locks_exclusive cf (t, db)" "releaseHardLock cf opens now commit i tok ps db = (ok, db')"
  shows "locks_exclusive cf (t, db')"
proof (rule exclusive_fewer [OF assms(1)])
  show "set (locks db') \<subseteq> set (locks db)" using release_locks [OF assms(2)] by blast
  show "rn_id ` set (runs db) \<subseteq> rn_id ` set (runs db')" using run_ids_same [of db' db] release_locks [OF assms(2)] by simp
qed

lemma pulse_exclusive:
  assumes "locks_exclusive cf (t, db)" "pulse cf opens t hb db = (ok, hb', db')"
  shows "locks_exclusive cf (t, db')"
proof -
  define renewable :: "lock_row \<Rightarrow> bool" where "renewable r \<longleftrightarrow> (run_id r = hl_id (hb_lock hb) \<and> token r = token_hash cf (hl_token (hb_lock hb)))
    \<and> expires_at r > t \<and> expires_at r \<noteq> MAX_SAFE_INTEGER" for r
  define f :: "lock_row \<Rightarrow> lock_row" where "f r = (if renewable r then r\<lparr>expires_at := t + hb_ttl hb\<rparr> else r)" for r
  have "db' = db \<or> db' = db\<lparr>locks := map f (locks db)\<rparr>"
    using assms(2) unfolding pulse_def Let_def renewable_def [symmetric] f_def [abs_def, symmetric]
    by (auto split: if_splits)
  moreover have "locks_exclusive cf (t, db\<lparr>locks := map f (locks db)\<rparr>)"
    by (rule exclusive_changed [OF assms(1), where f = f]) (auto simp: f_def renewable_def lock_profile_def)
  ultimately show ?thesis using assms(1) by blast
qed

text \<open>The lock object holds all its rows, unexpired.\<close>

definition holds_all :: "config \<Rightarrow> int \<Rightarrow> hard_lock \<Rightarrow> lock_db \<Rightarrow> bool" where
  "holds_all cf t l db \<longleftrightarrow> (let mine = filter (\<lambda>r. run_id r = hl_id l \<and> token r = token_hash cf (hl_token l)) (locks db)
     in list_all (\<lambda>r. t < expires_at r) mine \<and> set (hl_paths l) \<subseteq> set (map normalized_path mine))"

lemma upsert_ids: "rn_id ` set rs \<subseteq> rn_id ` set (upsert_quarantined_run l mode started containment x rs)"
proof -
  have "map rn_id (upsert_quarantined_run l mode started containment x rs) \<in> {map rn_id rs, map rn_id rs @ [hl_id l]}"
    by (auto simp: upsert_quarantined_run_def)
  then show ?thesis by (metis insertE singletonD list.set_map order_refl set_append sup_ge1)
qed

lemma quarantine_exclusive:
  assumes "locks_exclusive cf (t, db)" "holds_all cf t l db"
    and "quarantineHardLock cf te l containment False None db = Some (ok, l', db')"
  shows "locks_exclusive cf (t, db')"
proof -
  define f :: "lock_row \<Rightarrow> lock_row" where "f r = (if run_id r = hl_id l \<and> token r = token_hash cf (hl_token l)
    then r\<lparr>expires_at := MAX_SAFE_INTEGER\<rparr> else r)" for r
  have rows: "mark_quarantined (hl_id l) (token_hash cf (hl_token l)) m False (locks db) = map f (locks db)" for m
    by (simp add: mark_quarantined_def f_def)
  define held where "held = map normalized_path (filter (\<lambda>r. run_id r = hl_id l \<and> token r = token_hash cf (hl_token l)
      \<and> expires_at r = MAX_SAFE_INTEGER) (map f (locks db)))"
  have "p \<in> set held" if "p \<in> set (hl_paths l)" for p
  proof -
    have "p \<in> normalized_path ` {r \<in> set (locks db). run_id r = hl_id l \<and> token r = token_hash cf (hl_token l)}"
      using assms(2) that by (auto simp: holds_all_def Let_def)
    then obtain r where "r \<in> set (locks db)" "run_id r = hl_id l" "token r = token_hash cf (hl_token l)" "normalized_path r = p"
      by blast
    then have "f r \<in> set (map f (locks db))" "run_id (f r) = hl_id l" "token (f r) = token_hash cf (hl_token l)"
      "expires_at (f r) = MAX_SAFE_INTEGER" "normalized_path (f r) = p" by (simp_all add: f_def)
    then show ?thesis unfolding held_def set_map set_filter by blast
  qed
  then have none: "filter (\<lambda>p. p \<notin> set held) (hl_paths l) = []" by (simp add: filter_empty_conv)
  have "db' = db \<or> (\<exists>m s. db' = db\<lparr>locks := map f (locks db), runs := upsert_quarantined_run l m s containment False (runs db)\<rparr>)"
    using assms(3) unfolding quarantineHardLock_def Let_def rows held_def [symmetric] none
    by (auto split: if_split_asm commit_outcome.split_asm)
  moreover have "locks_exclusive cf (t, db\<lparr>locks := map f (locks db), runs := rs\<rparr>)" if "rn_id ` set (runs db) \<subseteq> rn_id ` set rs" for rs
    by (rule exclusive_changed [OF assms(1), where f = f])
      (use assms(2) that in \<open>auto simp: f_def holds_all_def list_all_iff lock_profile_def\<close>)
  ultimately show ?thesis using assms(1) upsert_ids by blast
qed

section \<open>The finalizer\<close>

lemma exclusive_retyped:
  assumes "locks_exclusive cf (t, db)" and one: "filter (\<lambda>r. run_id r = i) (locks db) = [x]"
    and db': "set (locks db') \<subseteq> insert (g x) {r \<in> set (locks db). run_id r \<noteq> i}" "rn_id ` set (runs db) \<subseteq> rn_id ` set (runs db')"
    and g: "run_id (g x) = i" "normalized_path (g x) = normalized_path x"
    and clear: "\<And>s. s \<in> live t db \<Longrightarrow> run_id s \<noteq> i \<Longrightarrow> \<not> row_clash cf (g x) s"
  shows "locks_exclusive cf (t, db')"
proof -
  have wf: "wf_locks db" and ex: "exclusive run_id (row_clash cf) (live t db)"
    using assms(1) by (simp_all add: locks_exclusive_def)
  have x: "x \<in> set (locks db)" "run_id x = i" using filter_single(1,2) [OF one] by simp_all
  have "wf_locks db'"
    unfolding wf_locks_def
  proof (intro ballI conjI impI)
    fix r assume r: "r \<in> set (locks db')"
    then consider "r = g x" | "r \<in> set (locks db)" "run_id r \<noteq> i" using db' by blast
    then have "stable_path (normalized_path r) \<and> run_id r \<in> rn_id ` set (runs db')"
    proof cases
      case 1
      have "stable_path (normalized_path x)" "run_id x \<in> rn_id ` set (runs db)" using wf_locksD(1,2) [OF wf x(1)] .
      then show ?thesis using 1 g x(2) db'(2) by (metis subsetD)
    next
      case 2 then show ?thesis using wf_locksD(1,2) [OF wf 2(1)] db'(2) by blast
    qed
    then show "stable_path (normalized_path r)" "run_id r \<in> rn_id ` set (runs db')" by simp_all
    fix s assume s: "s \<in> set (locks db')" and same: "run_id r = run_id s"
    consider "r = g x" "s = g x" | "r \<in> set (locks db)" "s \<in> set (locks db)"
    proof (cases "run_id r = i")
      case True
      with same have "run_id s = i" by simp
      with True have "r = g x" "s = g x" using subsetD [OF db'(1) r] subsetD [OF db'(1) s] by simp_all
      then show ?thesis by (rule that(1))
    next
      case False
      then have "r \<noteq> g x" "s \<noteq> g x" using same g(1) by metis+
      then have "r \<in> set (locks db)" "s \<in> set (locks db)" using subsetD [OF db'(1) r] subsetD [OF db'(1) s] by simp_all
      then show ?thesis by (rule that(2))
    qed
    then show "lock_profile r = lock_profile s"
      by cases (simp, use wf_locksD(3) [OF wf, of r s] same in blast)
  qed
  moreover have "exclusive run_id (row_clash cf) ({r \<in> live t db. run_id r \<noteq> i} \<union> {g x})"
  proof (rule lock_rows.exclusive_join)
    show "exclusive run_id (row_clash cf) {r \<in> live t db. run_id r \<noteq> i}" by (rule exclusive_subset [OF ex]) blast
    show "exclusive run_id (row_clash cf) {g x}" by (rule lock_rows.exclusive_one_owner) simp
  qed (use clear in simp)
  then have "exclusive run_id (row_clash cf) (live t db')"
    by (rule exclusive_subset) (use db'(1) in \<open>auto simp: live_def\<close>)
  ultimately show ?thesis by (simp add: locks_exclusive_def)
qed

lemma finalizerRows_SomeD:
  assumes "finalizerRows cf db l = Some (row, run)"
  shows "filter (\<lambda>r. run_id r = hl_id l) (locks db) = [row]" "row \<in> set (locks db)" "run_id row = hl_id l"
    "token row = token_hash cf (hl_token l)" "normalized_path row = REPOSITORY_SCOPE_LOCK_PATH"
    "rn_finished_at run = None" "isFinalizerRepositoryLock l"
    "List.find (\<lambda>r. rn_id r = hl_id l) (runs db) = Some run" "created_at row = hl_createdAt l" "row_cwd row = hl_cwd l"
proof -
  show one: "filter (\<lambda>r. run_id r = hl_id l) (locks db) = [row]"
    and "token row = token_hash cf (hl_token l)" "normalized_path row = REPOSITORY_SCOPE_LOCK_PATH"
    "rn_finished_at run = None" "isFinalizerRepositoryLock l" "created_at row = hl_createdAt l" "row_cwd row = hl_cwd l"
    "List.find (\<lambda>r. rn_id r = hl_id l) (runs db) = Some run"
    using assms unfolding finalizerRows_def by (auto split: list.splits option.splits if_splits)
  then show "row \<in> set (locks db)" "run_id row = hl_id l"
    using filter_single(1,2) [OF one] by simp_all
qed

lemma protect_exclusive:
  assumes ex: "locks_exclusive cf (t, db)" and rows: "finalizerRows cf db l = Some (row, run)"
    and none: "\<not> list_ex (\<lambda>a. lv_id a \<noteq> hl_id l \<and> conflictsWithActiveLock (host_of cf) (worktreeMode cf)
        \<lparr>cl_lockType = ''serial_integration'', cl_paths = [REPOSITORY_SCOPE_LOCK_PATH], cl_origin = [],
         cl_editsCheckout = Some True\<rparr> a \<noteq> None) (fst (listLocksFromDb db t))"
  shows "locks_exclusive cf (t, protect_rows (hl_id l) (token row) containment (expireLocksFromDb db t))"
proof (rule exclusive_retyped [OF ex finalizerRows_SomeD(1) [OF rows],
      where g = "\<lambda>r. r\<lparr>lock_mode := ''serial_integration'', edits_checkout := Some True, expires_at := MAX_SAFE_INTEGER\<rparr>"])
  note row = finalizerRows_SomeD [OF rows]
  have only: "r = row" if "r \<in> set (locks db)" "run_id r = hl_id l" for r
    using filter_single(3) [OF row(1)] that by blast
  show "set (locks (protect_rows (hl_id l) (token row) containment (expireLocksFromDb db t)))
      \<subseteq> insert (row\<lparr>lock_mode := ''serial_integration'', edits_checkout := Some True, expires_at := MAX_SAFE_INTEGER\<rparr>)
           {r \<in> set (locks db). run_id r \<noteq> hl_id l}"
    using only by (auto simp: protect_rows_def)
  have same: "map rn_id (runs (protect_rows (hl_id l) (token row) containment (expireLocksFromDb db t))) = map rn_id (runs (expireLocksFromDb db t))"
    by (auto simp: protect_rows_def simp del: expire_run_ids)
  show "rn_id ` set (runs db) \<subseteq> rn_id ` set (runs (protect_rows (hl_id l) (token row) containment (expireLocksFromDb db t)))"
    using run_ids_same [OF same] by simp
  fix s assume s: "s \<in> live t db" "run_id s \<noteq> hl_id l"
  have wf: "wf_locks db" using ex by (simp add: locks_exclusive_def)
  let ?rows = "live_rows (expireLocksFromDb db t) t"
  have s': "s \<in> set ?rows" using s by (auto simp: live_def)
  then have "row_view (run_id s) ?rows \<in> set (fst (listLocksFromDb db t))"
    by (auto simp: listLocksFromDb_def Let_def rowsToLocks_def)
  moreover have "lv_id (row_view (run_id s) ?rows) \<noteq> hl_id l" using s(2) by (simp add: row_view_def Let_def)
  ultimately have "conflictsWithActiveLock (host_of cf) (worktreeMode cf) \<lparr>cl_lockType = ''serial_integration'',
      cl_paths = [REPOSITORY_SCOPE_LOCK_PATH], cl_origin = [], cl_editsCheckout = Some True\<rparr> (row_view (run_id s) ?rows) = None"
    using none unfolding list_ex_iff by blast
  then have "conflictsWithActiveLock (host_of cf) (worktreeMode cf) \<lparr>cl_lockType = ''serial_integration'',
      cl_paths = [REPOSITORY_SCOPE_LOCK_PATH], cl_origin = [], cl_editsCheckout = Some True\<rparr> (row_claim s) = None"
    by (rule row_view_covers [OF s', rotated 2]) (use wf_locksD [OF wf] s in \<open>auto simp: live_def\<close>)
  then show "\<not> row_clash cf (row\<lparr>lock_mode := ''serial_integration'', edits_checkout := Some True, expires_at := MAX_SAFE_INTEGER\<rparr>) s"
    unfolding row_clash_def not_not
    by (rule conflicts_fewer_paths) (simp_all add: row_claim_def row(5) worktree_job_writer_def lockPaths_def)
qed (use finalizerRows_SomeD [OF rows] in simp_all)

lemma begin_exclusive:
  assumes "locks_exclusive cf (te_now te, db)"
    and "beginFinalizerValidationProtection cf te parse blocked containment l db = (res, db')"
  shows "locks_exclusive cf (te_now te, db')"
proof -
  have "db' = db \<or> (\<exists>row run. finalizerRows cf db l = Some (row, run)
     \<and> \<not> list_ex (\<lambda>a. lv_id a \<noteq> hl_id l \<and> conflictsWithActiveLock (host_of cf) (worktreeMode cf)
        \<lparr>cl_lockType = ''serial_integration'', cl_paths = [REPOSITORY_SCOPE_LOCK_PATH], cl_origin = [],
         cl_editsCheckout = Some True\<rparr> a \<noteq> None) (fst (listLocksFromDb db (te_now te)))
     \<and> db' = protect_rows (hl_id l) (token row) containment (expireLocksFromDb db (te_now te)))"
    using assms(2) unfolding beginFinalizerValidationProtection_def Let_def
    by (simp only: split: if_split_asm option.split_asm prod.splits commit_outcome.split_asm)
      (auto simp: listLocksFromDb_def Let_def)
  then show ?thesis using assms(1) protect_exclusive by blast
qed

lemma restore_exclusive:
  assumes ex: "locks_exclusive cf (te_now te, db)" and time: "te_now te < MAX_SAFE_INTEGER"
    and r: "restoreFinalizerReadLease cf te l rc ttl db = (res, db')"
  shows "locks_exclusive cf (te_now te, db')"
proof (cases "matchesFinalizerProtection cf db l rc None (te_now te)")
  case False
  then have "db' = db" using r by (auto simp: restoreFinalizerReadLease_def split: if_splits)
  with ex show ?thesis by simp
next
  case True
  then obtain row run where rows: "finalizerRows cf db l = Some (row, run)" and row: "lock_mode row = ''serial_integration''"
    "expires_at row = MAX_SAFE_INTEGER" "token row = token (rc_row rc)"
    by (auto simp: matchesFinalizerProtection_def same_row_identity_def split: option.splits)
  note fr = finalizerRows_SomeD [OF rows]
  have only: "q = row" if "q \<in> set (locks db)" "run_id q = hl_id l" for q
    using filter_single(3) [OF fr(1)] that by blast
  have "locks_exclusive cf (te_now te, restore_rows (hl_id l) rc e db)" for e
  proof (rule exclusive_retyped [OF ex fr(1), where g = "\<lambda>r. r\<lparr>lock_mode := ''read'', edits_checkout := edits_checkout (rc_row rc), expires_at := e\<rparr>"])
    show "set (locks (restore_rows (hl_id l) rc e db))
      \<subseteq> insert (row\<lparr>lock_mode := ''read'', edits_checkout := edits_checkout (rc_row rc), expires_at := e\<rparr>) {r \<in> set (locks db). run_id r \<noteq> hl_id l}"
      using only row(3) by (auto simp: restore_rows_def)
    have "map rn_id (runs (restore_rows (hl_id l) rc e db)) = map rn_id (runs db)" by (auto simp: restore_rows_def)
    then show "rn_id ` set (runs db) \<subseteq> rn_id ` set (runs (restore_rows (hl_id l) rc e db))" using run_ids_same by blast
    fix s assume s: "s \<in> live (te_now te) db" "run_id s \<noteq> hl_id l"
    have "row \<in> live (te_now te) db" using fr(2) row(2) time by (simp add: live_def)
    then have "\<not> row_clash cf row s"
      using ex s fr(3) exclusiveD [of run_id "row_clash cf" "live (te_now te) db" row s] by (simp add: locks_exclusive_def)
    then have c: "conflictsWithActiveLock (host_of cf) (worktreeMode cf) (row_claim row) (row_claim s) = None"
      unfolding row_clash_def not_not .
    have "cl_lockType (row_claim row) = ''serial_integration''" by (simp add: row_claim_def row(1))
    then have "overlaps (host_of cf) (lockPaths (row_claim row)) (lockPaths (row_claim s)) [] = None"
      and "\<not> requires_serialization (worktreeMode cf) (row_claim row) (row_claim s)"
      and w: "\<not> worktree_job_writer (worktreeMode cf) (row_claim row)" "cl_lockType (row_claim row) = ''serial_integration''"
      using c unfolding conflicts_None_iff worktree_job_writer_def by simp_all
    then have "worktree_job_writer (worktreeMode cf) (row_claim s)"
      by (simp add: requires_serialization_def)
    with \<open>overlaps _ _ _ _ = None\<close>
    show "\<not> row_clash cf (row\<lparr>lock_mode := ''read'', edits_checkout := edits_checkout (rc_row rc), expires_at := e\<rparr>) s"
      unfolding row_clash_def not_not conflicts_None_iff requires_serialization_def
      by (simp add: row_claim_def lockPaths_def)
  qed (use fr(3) in simp_all)
  moreover have "db' = db \<or> (\<exists>e. db' = restore_rows (hl_id l) rc e db)"
    using r True by (auto simp: restoreFinalizerReadLease_def Let_def split: if_splits commit_outcome.splits)
  ultimately show ?thesis using ex by blast
qed

section \<open>Runs of the lock database\<close>

text \<open>
  One step of any bridge process, or the passing of time.  The lock form of a requested path must not
  begin or end with a blank (a path with blank segments can be locked twice, as computed further down), a
  quarantined lock must still be held, and the clock must be below the quarantine mark.
\<close>

inductive lock_step :: "config \<Rightarrow> int \<times> lock_db \<Rightarrow> int \<times> lock_db \<Rightarrow> bool" for cf where
  tick: "t \<le> t' \<Longrightarrow> lock_step cf (t, db) (t', db)"
| acquire: "acquireHardLock cf env rq db = (res, db') \<Longrightarrow> le_now env = t \<Longrightarrow>
    (\<And>p. p \<in> set (requested_paths cf env rq) \<Longrightarrow> js_trim p = p) \<Longrightarrow> lock_step cf (t, db) (t, db')"
| release: "releaseHardLock cf opens t commit i tok ps db = (ok, db') \<Longrightarrow> lock_step cf (t, db) (t, db')"
| cleanup: "lock_step cf (t, db) (t, cleanupExpiredLocks t db)"
| reclaim: "lock_step cf (t, db) (t, reclaimProvenGoneLockQuarantines still t db)"
| renewal: "pulse cf opens t hb db = (ok, hb', db') \<Longrightarrow> lock_step cf (t, db) (t, db')"
| quarantine: "quarantineHardLock cf te l containment False None db = Some (ok, l', db') \<Longrightarrow> holds_all cf t l db \<Longrightarrow>
    lock_step cf (t, db) (t, db')"
| protect: "beginFinalizerValidationProtection cf te parse blocked containment l db = (b, db') \<Longrightarrow> te_now te = t \<Longrightarrow>
    lock_step cf (t, db) (t, db')"
| restore: "restoreFinalizerReadLease cf te l rc ttl db = (r, db') \<Longrightarrow> te_now te = t \<Longrightarrow> t < MAX_SAFE_INTEGER \<Longrightarrow>
    lock_step cf (t, db) (t, db')"

inductive_cases lock_stepE: "lock_step cf s s'"

lemma step_exclusive: "lock_step cf s s' \<Longrightarrow> locks_exclusive cf s \<Longrightarrow> locks_exclusive cf s'"
proof (induction rule: lock_step.induct)
  case (tick t t' db) then show ?case by (rule exclusive_later [rotated])
next
  case (acquire env rq db res db' t)
  with acquire_exclusive [of cf env db rq res db'] show ?case by (simp add: requested_path_stable)
next
  case (release opens t commit i tok ps db ok db') then show ?case by (rule release_exclusive [rotated])
next
  case (cleanup t db) then show ?case
    by (rule exclusive_fewer) (auto simp: cleanupExpiredLocks_def)
next
  case (reclaim t db still) then show ?case by (rule exclusive_fewer [OF _ reclaim_locks]) simp
next
  case (renewal opens t hb db ok hb' db') then show ?case by (rule pulse_exclusive [rotated])
next
  case (quarantine te l containment db ok l' db' t) then show ?case by (metis quarantine_exclusive)
next
  case (protect te parse blocked containment l db b db' t) then show ?case by (metis begin_exclusive)
next
  case (restore te l rc ttl db r db' t) then show ?case by (metis restore_exclusive)
qed

lemma reachable_exclusive:
  assumes "(lock_step cf)\<^sup>*\<^sup>* (t0, db0) s" "locks db0 = []"
  shows "locks_exclusive cf s"
  using assms(1)
proof (induction rule: rtranclp_induct)
  case base then show ?case by (simp add: locks_exclusive_def wf_locks_def live_def assms(2))
next
  case (step s s') then show ?case by (blast intro: step_exclusive)
qed

lemma listed_lock:
  assumes "wf_locks db" "a \<in> set (fst (listLocksFromDb db t))"
  obtains r where "r \<in> live t db" "run_id r = lv_id a" "cl_lockType a = cl_lockType (row_claim r)"
    "worktree_job_writer m a = worktree_job_writer m (row_claim r)"
    "\<And>p. p \<in> set (lockPaths a) \<Longrightarrow> \<exists>s \<in> live t db. run_id s = lv_id a \<and> p \<in> set (lockPaths (row_claim s))
       \<and> cl_lockType (row_claim s) = cl_lockType a"
proof -
  let ?rows = "live_rows (expireLocksFromDb db t) t"
  obtain r0 where r0: "r0 \<in> set ?rows" "a = row_view (run_id r0) ?rows"
    using assms(2) by (auto simp: listLocksFromDb_def Let_def rowsToLocks_def)
  define rs where "rs = filter (\<lambda>r. run_id r = run_id r0) ?rows"
  have "r0 \<in> set rs" using r0 by (simp add: rs_def)
  then have hd: "hd rs \<in> set rs" by (cases rs) auto
  have rs: "s \<in> live t db \<and> run_id s = run_id r0 \<and> lock_profile s = lock_profile (hd rs) \<and> stable_path (normalized_path s)"
    if "s \<in> set rs" for s
    using that hd wf_locksD(3) [OF assms(1), of s "hd rs"] wf_locksD(1) [OF assms(1), of s]
    by (auto simp: rs_def live_def)
  have a: "lv_id a = run_id r0" "cl_lockType a = lock_mode (hd rs)" "cl_paths a = normalizeLockPathList (map normalized_path rs)"
    "cl_editsCheckout a = Some (case edits_checkout (hd rs) of None \<Rightarrow> True | Some b \<Rightarrow> b)"
    by (simp_all add: r0(2) row_view_def Let_def rs_def)
  have stable: "\<And>p. p \<in> set (map normalized_path rs) \<Longrightarrow> stable_path p" using rs by auto
  then have paths: "cl_paths a = uniq (map normalized_path rs)" unfolding a(3) by (rule stable_paths_normal)
  show ?thesis
  proof (rule that [of "hd rs"])
    show "hd rs \<in> live t db" "run_id (hd rs) = lv_id a" using rs [OF hd] a(1) by simp_all
    show "cl_lockType a = cl_lockType (row_claim (hd rs))" "worktree_job_writer m a = worktree_job_writer m (row_claim (hd rs))"
      by (simp_all add: a row_claim_def worktree_job_writer_def claim_edits_checkout_def)
    fix p assume "p \<in> set (lockPaths a)"
    then have "p \<in> set (map normalized_path rs)"
      by (subst (asm) lockPaths_stable) (use stable in \<open>auto simp: paths\<close>)
    then obtain s where s: "s \<in> set rs" "normalized_path s = p" by auto
    then have "p \<in> set (lockPaths (row_claim s))"
      by (subst lockPaths_stable) (use rs [OF s(1)] in \<open>auto simp: row_claim_def\<close>)
    then show "\<exists>s \<in> live t db. run_id s = lv_id a \<and> p \<in> set (lockPaths (row_claim s)) \<and> cl_lockType (row_claim s) = cl_lockType a"
      using rs [OF s(1)] a(1,2) by (auto simp: row_claim_def lock_profile_def)
  qed
qed

lemma listed_locks_compatible:
  assumes "locks_exclusive cf (t, db)" "a \<in> set (fst (listLocksFromDb db t))" "b \<in> set (fst (listLocksFromDb db t))"
    and "lv_id a \<noteq> lv_id b"
  shows "conflictsWithActiveLock (host_of cf) (worktreeMode cf) a b = None"
proof -
  let ?m = "worktreeMode cf" let ?h = "host_of cf"
  have wf: "wf_locks db" and ex: "exclusive run_id (row_clash cf) (live t db)"
    using assms(1) by (simp_all add: locks_exclusive_def)
  obtain r where r: "r \<in> live t db" "run_id r = lv_id a" "cl_lockType a = cl_lockType (row_claim r)"
    "worktree_job_writer ?m a = worktree_job_writer ?m (row_claim r)"
    "\<And>p. p \<in> set (lockPaths a) \<Longrightarrow> \<exists>s \<in> live t db. run_id s = lv_id a \<and> p \<in> set (lockPaths (row_claim s)) \<and> cl_lockType (row_claim s) = cl_lockType a"
    using listed_lock [OF wf assms(2), of ?m] by blast
  obtain s where s: "s \<in> live t db" "run_id s = lv_id b" "cl_lockType b = cl_lockType (row_claim s)"
    "worktree_job_writer ?m b = worktree_job_writer ?m (row_claim s)"
    "\<And>p. p \<in> set (lockPaths b) \<Longrightarrow> \<exists>q \<in> live t db. run_id q = lv_id b \<and> p \<in> set (lockPaths (row_claim q)) \<and> cl_lockType (row_claim q) = cl_lockType b"
    using listed_lock [OF wf assms(3), of ?m] by blast
  have apart: "conflictsWithActiveLock ?h ?m (row_claim x) (row_claim y) = None"
    if "x \<in> live t db" "y \<in> live t db" "run_id x = lv_id a" "run_id y = lv_id b" for x y
    using exclusiveD [OF ex that(1,2)] that(3,4) assms(4) unfolding row_clash_def by metis
  show ?thesis
  proof (cases "cl_lockType a = ''read'' \<and> cl_lockType b = ''read''")
    case False
    have "\<not> requires_serialization ?m a b"
      using apart [OF r(1) s(1) r(2) s(2)] False r(3,4) s(3,4) unfolding conflicts_None_iff requires_serialization_def by auto
    moreover have "overlaps ?h (lockPaths a) (lockPaths b) [] = None"
      unfolding overlaps_None_iff
    proof (intro ballI)
      fix p q assume "p \<in> set (lockPaths a)" "q \<in> set (lockPaths b)"
      then obtain x y where x: "x \<in> live t db" "run_id x = lv_id a" "p \<in> set (lockPaths (row_claim x))" "cl_lockType (row_claim x) = cl_lockType a"
        and y: "y \<in> live t db" "run_id y = lv_id b" "q \<in> set (lockPaths (row_claim y))" "cl_lockType (row_claim y) = cl_lockType b"
        using r(5) s(5) by meson
      then have "overlaps ?h (lockPaths (row_claim x)) (lockPaths (row_claim y)) [] = None"
        using apart [OF x(1) y(1) x(2) y(2)] False unfolding conflicts_None_iff by simp
      then show "\<not> path_overlap (normalizePathForCompare ?h p []) (normalizePathForCompare ?h q [])"
        using x(3) y(3) unfolding overlaps_None_iff by blast
    qed
    ultimately show ?thesis by (simp add: conflicts_None_iff)
  qed (simp add: conflicts_None_iff)
qed

text \<open>C3: From an empty lock table, whatever sequence of acquisitions, releases, expiries, reclaims,
  renewals, quarantines of held locks and finalizer upgrades bridge processes run before the
  quarantine mark, as long as no requested path has a lock form that begins or ends with a blank, two
  listed unexpired locks with different ids never conflict.\<close>

theorem locks_mutually_exclusive:
  assumes "(lock_step cf)\<^sup>*\<^sup>* (t0, db0) (t, db)" "locks db0 = []"
    and "a \<in> set (fst (listLocksFromDb db t))" "b \<in> set (fst (listLocksFromDb db t))" "lv_id a \<noteq> lv_id b"
  shows "conflictsWithActiveLock (host_of cf) (worktreeMode cf) a b = None"
  by (rule listed_locks_compatible [OF reachable_exclusive [OF assms(1,2)] assms(3-5)])

section \<open>Sample requests\<close>

definition no_locks :: lock_db where
  "no_locks = \<lparr>locks = [], runs = [], queue_job_locks = [], integration_operations = [], opencode_jobs = []\<rparr>"

definition sample_env :: "string \<Rightarrow> lock_env" where
  "sample_env rnd = \<lparr>le_root = (\<lambda>_. Some ''/r''), le_blocked = (\<lambda>_. False), le_opens = True, le_reclaim_due = False,
     le_still = (\<lambda>_. True), le_now = 1000, le_stamp = ''1'', le_random = rnd, le_token = rnd, le_commit = Committed, le_cleanup = True\<rparr>"

definition sample_request :: "string \<Rightarrow> lock_request" where
  "sample_request p = \<lparr>rq_owner = ''codex'', rq_agent = ''builder'', rq_origin = ''internal'', rq_task = ''t'', rq_cwd = ''/r'',
     rq_lockType = ''write'', rq_paths = [p], rq_repositoryScope = False, rq_ttlMs = 60000, rq_editsCheckout = None,
     rq_recoveryAuthority = False, rq_queueOwner = None\<rparr>"

definition granted :: "string \<Rightarrow> string \<Rightarrow> lock_db \<Rightarrow> lock_db" where
  "granted rnd p db = snd (acquireHardLock sample_config (sample_env rnd) (sample_request p) db)"

definition two_locks :: lock_db where
  "two_locks = granted ''b'' ''c'' (granted ''a'' ''a'' no_locks)"

lemma two_locks_listed: "map lv_id (fst (listLocksFromDb two_locks 1000)) = [''codex-builder-1-a'', ''codex-builder-1-b'']"
  by code_simp

lemma granted_step:
  assumes "requested_paths sample_config (sample_env rnd) (sample_request p) = [q]" "js_trim q = q"
  shows "lock_step sample_config (1000, db) (1000, granted rnd p db)"
  by (rule lock_step.acquire [where env = "sample_env rnd" and rq = "sample_request p"])
    (use assms in \<open>auto simp: granted_def sample_env_def intro: prod.collapse [symmetric]\<close>)

lemma two_locks_reachable: "(lock_step sample_config)\<^sup>*\<^sup>* (1000, no_locks) (1000, two_locks)"
proof -
  have "requested_paths sample_config (sample_env ''a'') (sample_request ''a'') = [''a'']"
    "requested_paths sample_config (sample_env ''b'') (sample_request ''c'') = [''c'']"
    "js_trim ''a'' = ''a''" "js_trim ''c'' = ''c''" by code_simp+
  then have "lock_step sample_config (1000, no_locks) (1000, granted ''a'' ''a'' no_locks)"
    "lock_step sample_config (1000, granted ''a'' ''a'' no_locks) (1000, two_locks)"
    unfolding two_locks_def by (auto intro: granted_step)
  then show ?thesis by (meson converse_rtranclp_into_rtranclp r_into_rtranclp)
qed

theorem locks_mutually_exclusive_witness:
  "\<exists>(a :: lock_view) (b :: lock_view). conflictsWithActiveLock (host_of sample_config) (worktreeMode sample_config) a b = None
     \<and> lv_id a = ''codex-builder-1-a'' \<and> lv_id b = ''codex-builder-1-b'' \<and> cl_paths a = [''a'']"
proof -
  obtain a b where ab: "fst (listLocksFromDb two_locks 1000) = [a, b]" "lv_id a = ''codex-builder-1-a''" "lv_id b = ''codex-builder-1-b''"
    using two_locks_listed by auto
  have "map cl_paths (fst (listLocksFromDb two_locks 1000)) = [[''a''], [''c'']]" by code_simp
  then have "cl_paths a = [''a'']" using ab(1) by simp
  moreover have "conflictsWithActiveLock (host_of sample_config) (worktreeMode sample_config) a b = None"
    by (rule locks_mutually_exclusive [OF two_locks_reachable]) (use ab in \<open>simp_all add: no_locks_def\<close>)
  ultimately show ?thesis using ab(2,3) by blast
qed

text \<open>Two write locks of one path are granted when the path has repeated blank segments: the stored
  path, its request form and its listed form are normalised a different number of times.\<close>

lemma one_path_locked_twice:
  "map normalized_path (locks (granted ''b'' ''a / / / /'' (granted ''a'' ''a / / / /'' no_locks)))
     = [''a / / '', ''a / / '']
   \<and> map lock_mode (locks (granted ''b'' ''a / / / /'' (granted ''a'' ''a / / / /'' no_locks))) = [''write'', ''write'']"
  by code_simp

section \<open>Contracts of the operations\<close>

lemma lock_rows_token: "r \<in> set (lock_rows_of cf l) \<Longrightarrow> run_id r = hl_id l \<and> token r = token_hash cf (hl_token l)"
  by (auto simp: lock_rows_of_def)

lemma before_acquire_locks: "set (locks (before_acquire env db)) \<subseteq> set (locks db)"
  using reclaim_locks by (auto simp: before_acquire_def)

text \<open>An acquisition that is refused, meets a conflict, or whose commit fails (even a durable one)
  adds no lock row, when its clean-up goes through.\<close>

theorem failed_acquire_adds_nothing:
  assumes "acquireHardLock cf env rq db = (res, db')" "\<nexists>l. res = Acquired l" "le_cleanup env"
  shows "set (locks db') \<subseteq> set (locks db)"
  using assms(1)
proof (cases rule: acquireHardLock_cases)
  case (refused e) then show ?thesis using before_acquire_locks [of env db] by auto
next
  case (transaction l recovery res' done')
  show ?thesis
  proof (cases done')
    case None with transaction(7) show ?thesis using before_acquire_locks by simp
  next
    case (Some d)
    note eff = acquire_transaction_effect [OF transaction(1) [unfolded Some]]
    have "set (locks (acquire_cleanup cf l (rq_queueOwner rq) (le_now env) d)) \<subseteq> set (locks (before_acquire env db))"
      using eff(3) lock_rows_token [of _ cf l] by (auto simp: acquire_cleanup_def)
    moreover have "db' = acquire_cleanup cf l (rq_queueOwner rq) (le_now env) d
      \<or> db' = acquire_cleanup cf l (rq_queueOwner rq) (le_now env) (before_acquire env db)"
      using transaction(7) Some eff(1) assms(2,3) by (auto split: commit_outcome.splits)
    ultimately show ?thesis using before_acquire_locks [of env db] cleanup_locks by blast
  qed
qed

theorem failed_acquire_adds_nothing_witness:
  "let e = (sample_env ''b'')\<lparr>le_commit := CommitDurableError\<rparr>; db = granted ''a'' ''a'' no_locks;
       r = acquireHardLock sample_config e (sample_request ''c'') db
   in fst r = Refused ''lock_database_failed'' \<and> set (locks (snd r)) \<subseteq> set (locks db)"
proof -
  let ?e = "(sample_env ''b'')\<lparr>le_commit := CommitDurableError\<rparr>"
  let ?db = "granted ''a'' ''a'' no_locks"
  have r: "fst (acquireHardLock sample_config ?e (sample_request ''c'') ?db) = Refused ''lock_database_failed''"
    by code_simp
  obtain res db' where p: "acquireHardLock sample_config ?e (sample_request ''c'') ?db = (res, db')" by fastforce
  with r have res: "res = Refused ''lock_database_failed''" by simp
  have "set (locks db') \<subseteq> set (locks ?db)" by (rule failed_acquire_adds_nothing [OF p]) (simp_all add: res sample_env_def)
  then show ?thesis by (simp only: Let_def p res fst_conv snd_conv simp_thms)
qed

lemma effective_ttl_bounds: "1000 \<le> effective_ttl ttl \<and> effective_ttl ttl \<le> MAX_LOCK_TTL_MS"
  by (simp add: effective_ttl_def MAX_LOCK_TTL_MS_def)

text \<open>C29: A granted lock has exactly the requested paths in lock form and expires between one second and
  24 hours from now; the table then holds the rows that had not expired, after a due reclaim of
  proven-gone quarantines, and the rows of the new lock, one for each path, and nothing else.\<close>

theorem acquire_grants_exactly:
  assumes "acquireHardLock cf env rq db = (Acquired l, db')"
  shows "hl_paths l = requested_paths cf env rq
    \<and> le_now env + 1000 \<le> hl_expiresAt l \<and> hl_expiresAt l \<le> le_now env + MAX_LOCK_TTL_MS
    \<and> set (locks db') = {r \<in> set (locks (before_acquire env db)). le_now env < expires_at r} \<union> set (lock_rows_of cf l)
    \<and> map normalized_path (lock_rows_of cf l) = requested_paths cf env rq"
  using assms
proof (cases rule: acquireHardLock_cases)
  case (transaction l' recovery res' done')
  have "done' \<noteq> None" using transaction(1,7) unfolding acquire_transaction_def Let_def
    by (auto split: if_split_asm option.split_asm prod.split_asm)
  then obtain d where d: "done' = Some d" by blast
  note eff = acquire_transaction_effect [OF transaction(1) [unfolded d]]
  have "res' = Acquired l'" "l' = l" "db' = d" using transaction(7) d eff(1) by (auto split: commit_outcome.splits)
  moreover have "le_now env < expires_at r" if "r \<in> set (lock_rows_of cf l')" for r
    using that transaction(4) effective_ttl_bounds [of "rq_ttlMs rq"] by (auto simp: lock_rows_of_def)
  ultimately show ?thesis
    using eff(3) transaction(2,4) effective_ttl_bounds [of "rq_ttlMs rq"] by (auto simp: lock_rows_of_def comp_def)
qed simp

theorem acquire_grants_exactly_witness:
  "\<exists>l. fst (acquireHardLock sample_config (sample_env ''a'') (sample_request ''src/app'') no_locks) = Acquired l
     \<and> hl_paths l = [''src/app''] \<and> set (locks (granted ''a'' ''src/app'' no_locks)) = set (lock_rows_of sample_config l)"
proof -
  let ?a = "acquireHardLock sample_config (sample_env ''a'') (sample_request ''src/app'') no_locks"
  have "case fst ?a of Acquired l \<Rightarrow> True | _ \<Rightarrow> False" by code_simp
  then obtain l where l: "?a = (Acquired l, granted ''a'' ''src/app'' no_locks)"
    by (cases ?a) (auto simp: granted_def split: acquire_result.splits)
  have "requested_paths sample_config (sample_env ''a'') (sample_request ''src/app'') = [''src/app'']" by code_simp
  then show ?thesis using acquire_grants_exactly [OF l] l by (auto simp: before_acquire_def no_locks_def sample_env_def)
qed

text \<open>Reclaiming removes the quarantined rows whose recorded processes are proven gone.\<close>

lemma fold_reclaim_locks: "locks (fold (reclaim_run t) is db) =
    filter (\<lambda>r. \<not> (run_id r \<in> set is \<and> expires_at r = MAX_SAFE_INTEGER)) (locks db)"
proof (induction "is" arbitrary: db)
  case (Cons i "is")
  have "locks (reclaim_run t i db) = filter (\<lambda>r. \<not> (run_id r = i \<and> expires_at r = MAX_SAFE_INTEGER)) (locks db)"
    by (simp add: reclaim_run_def Let_def)
  then show ?case by (auto simp: Cons.IH intro!: filter_cong)
qed simp

text \<open>Reclaiming removes exactly the quarantined rows whose recorded containment evidence proves the
  processes gone.\<close>

theorem reclaim_only_proven_gone:
  "locks (reclaimProvenGoneLockQuarantines still t db) =
     filter (\<lambda>r. \<not> (expires_at r = MAX_SAFE_INTEGER \<and> \<not> still (containment_of db (run_id r)))) (locks db)"
  unfolding reclaimProvenGoneLockQuarantines_def fold_reclaim_locks by (rule filter_cong) auto

section \<open>Release\<close>

text \<open>Releasing a lock removes exactly the rows of that id under that token (and expired rows);
  without a row of that token nothing changes.\<close>

theorem release_needs_token:
  assumes "releaseHardLock cf opens now commit i tok [] db = (ok, db')"
  shows "(ok \<longrightarrow> set (locks db') = {r \<in> set (locks db). now < expires_at r \<and> \<not> (run_id r = i \<and> token r = token_hash cf tok)})
    \<and> ((\<forall>r \<in> set (locks db). run_id r = i \<longrightarrow> token r \<noteq> token_hash cf tok) \<longrightarrow> \<not> ok \<and> db' = db)"
proof -
  have "normalizeLockPathList [] = []" by code_simp
  define mine where "mine r \<longleftrightarrow> run_id r = i \<and> token r = token_hash cf tok" for r :: lock_row
  define db1 where "db1 = db\<lparr>locks := filter (\<lambda>r. \<not> mine r) (locks db)\<rparr>"
  define db2 where "db2 = (if no_rows_of db1 i
    then db1\<lparr>runs := map (\<lambda>r. if rn_id r = i then r\<lparr>rn_status := ''released'', rn_finished_at := Some now\<rparr> else r) (runs db1),
             queue_job_locks := filter (\<lambda>q. ql_lock_id q \<noteq> i) (queue_job_locks db1)\<rparr>
    else db1)"
  have eq: "(run_id r = i \<and> token r = token_hash cf tok \<and> (True \<or> normalized_path r \<in> A)) = mine r" for r A
    by (simp add: mine_def)
  have "filter mine (locks db) = [] \<and> \<not> ok \<and> db' = db \<or> \<not> ok \<or> ok \<and> db' = expireLocksFromDb db2 now"
    using assms unfolding releaseHardLock_def Let_def \<open>normalizeLockPathList [] = []\<close> simp_thms(6) eq db1_def [symmetric] db2_def [symmetric]
    by (auto split: if_split_asm commit_outcome.split_asm)
  moreover have "locks db2 = filter (\<lambda>r. \<not> mine r) (locks db)" by (simp add: db2_def db1_def)
  moreover have "\<not> ok \<and> db' = db" if "\<forall>r \<in> set (locks db). \<not> mine r"
  proof -
    have "filter mine (locks db) = []" using that by (simp add: filter_empty_conv)
    then show ?thesis using assms unfolding releaseHardLock_def Let_def \<open>normalizeLockPathList [] = []\<close> simp_thms(6) eq
      by (auto split: if_split_asm)
  qed
  ultimately show ?thesis by (auto simp: mine_def)
qed

theorem release_needs_token_witness:
  "let db = granted ''a'' ''a'' no_locks in
     releaseHardLock sample_config True 2000 Committed ''codex-builder-1-a'' (replicate 50 CHR ''x'') [] db = (False, db)"
proof -
  let ?db = "granted ''a'' ''a'' no_locks"
  obtain ok db' where r: "releaseHardLock sample_config True 2000 Committed ''codex-builder-1-a'' (replicate 50 CHR ''x'') [] ?db = (ok, db')" by fastforce
  have "list_all (\<lambda>r. token r \<noteq> token_hash sample_config (replicate 50 CHR ''x'')) (locks ?db)" by code_simp
  then have "\<not> ok \<and> db' = ?db" using release_needs_token [OF r] by (simp add: list_all_iff)
  then show ?thesis using r by (simp only: Let_def)
qed

section \<open>Renewal\<close>

definition lock_renew :: "config \<Rightarrow> int \<times> bool \<Rightarrow> heartbeat \<Rightarrow> lock_db \<Rightarrow> bool \<times> heartbeat \<times> lock_db" where
  "lock_renew cf e hb db = pulse cf (snd e) (fst e) hb db"

definition heartbeat_ended :: "heartbeat \<Rightarrow> bool" where
  "heartbeat_ended hb \<longleftrightarrow> hb_stopped hb \<or> hb_aborted hb \<noteq> None"

lemma loseOwnership_ended [simp]: "heartbeat_ended (loseOwnership hb)"
  by (simp add: heartbeat_ended_def loseOwnership_def)

interpretation lock_heartbeat: renewal "lock_renew cf" fst heartbeat_ended hb_lastConfirmed for cf
proof
  show "lock_renew cf e hb db = (False, hb, db)" if "heartbeat_ended hb" for e hb and db :: lock_db
    using that by (auto simp: lock_renew_def pulse_def heartbeat_ended_def)
  show "\<exists>s'. lock_renew cf e hb db = (False, s', db) \<and> heartbeat_ended s'" if "hb_lastConfirmed hb \<le> fst e" "\<not> heartbeat_ended hb" for e hb and db :: lock_db
    using that by (auto simp: lock_renew_def pulse_def heartbeat_ended_def loseOwnership_def)
  show "heartbeat_ended hb'" if "lock_renew cf e hb db = (False, hb', db')" for e hb hb' and db db' :: lock_db
    using that unfolding lock_renew_def pulse_def Let_def heartbeat_ended_def [symmetric]
    by (auto split: if_split_asm)
qed

lemma pulse_rows:
  assumes "pulse cf opens now hb db = (ok, hb', db')"
  obtains f where "locks db' = map f (locks db)"
    "\<And>r. f r \<noteq> r \<Longrightarrow> run_id r = hl_id (hb_lock hb) \<and> token r = token_hash cf (hl_token (hb_lock hb))
       \<and> now < expires_at r \<and> expires_at r \<noteq> MAX_SAFE_INTEGER \<and> f r = r\<lparr>expires_at := now + hb_ttl hb\<rparr>"
proof -
  define renewable where "renewable r \<longleftrightarrow> (run_id r = hl_id (hb_lock hb) \<and> token r = token_hash cf (hl_token (hb_lock hb)))
    \<and> expires_at r > now \<and> expires_at r \<noteq> MAX_SAFE_INTEGER" for r :: lock_row
  define f where "f r = (if renewable r then r\<lparr>expires_at := now + hb_ttl hb\<rparr> else r)" for r
  have "db' = db \<or> db' = db\<lparr>locks := map f (locks db)\<rparr>"
    using assms unfolding pulse_def Let_def renewable_def [symmetric] f_def [abs_def, symmetric]
    by (auto split: if_splits)
  then show ?thesis
  proof
    assume "db' = db" then show ?thesis by (intro that [of "\<lambda>r. r"]) simp_all
  next
    assume "db' = db\<lparr>locks := map f (locks db)\<rparr>"
    then show ?thesis by (intro that [of f]) (auto simp: f_def renewable_def split: if_splits)
  qed
qed

text \<open>C30: A lock heartbeat that fires after the last confirmed expiry is refused, leaves the table alone,
  and no later heartbeat of that holder ever succeeds.\<close>

theorem missed_heartbeat_is_final:
  assumes "hb_lastConfirmed hb \<le> t"
  shows "fst (renewals (lock_renew cf) ((t, opens) # es) hb db) = replicate (Suc (length es)) False
    \<and> snd (snd (renewals (lock_renew cf) ((t, opens) # es) hb db)) = db"
  by (rule lock_heartbeat.late_ends) (simp add: assms)

definition sample_heartbeat :: heartbeat where
  "sample_heartbeat = \<lparr>hb_lock = \<lparr>hl_id = ''codex-builder-1-a'', hl_token = ''a'', hl_owner = ''codex'', hl_agent = ''builder'',
     hl_origin = ''internal'', hl_taskSha256 = [], hl_cwd = ''/r'', hl_lockType = ''write'', hl_paths = [''a''],
     hl_createdAt = 1000, hl_expiresAt = 61000, hl_editsCheckout = False\<rparr>,
     hb_ttl = 60000, hb_guard = 15000, hb_lastConfirmed = 61000, hb_stopped = False, hb_aborted = None, hb_renewing = True\<rparr>"

theorem missed_heartbeat_is_final_witness:
  "fst (renewals (lock_renew sample_config) [(61000, True), (61001, True)] sample_heartbeat (granted ''a'' ''a'' no_locks)) = [False, False]
   \<and> fst (renewals (lock_renew sample_config) [(60000, True), (61001, True)] sample_heartbeat (granted ''a'' ''a'' no_locks)) = [True, True]"
proof
  show "fst (renewals (lock_renew sample_config) [(61000, True), (61001, True)] sample_heartbeat (granted ''a'' ''a'' no_locks)) = [False, False]"
    using missed_heartbeat_is_final [of sample_heartbeat 61000 sample_config True "[(61001, True)]"]
    by (simp add: sample_heartbeat_def numeral_2_eq_2)
  show "fst (renewals (lock_renew sample_config) [(60000, True), (61001, True)] sample_heartbeat (granted ''a'' ''a'' no_locks)) = [True, True]"
    by code_simp
qed

text \<open>A heartbeat changes no row other than unexpired, unquarantined rows of its own id and token,
  whose expiry it extends.\<close>

theorem heartbeat_extends_only_live_rows:
  assumes "pulse cf opens now hb db = (ok, hb', db')" "r' \<in> set (locks db')"
  shows "r' \<in> set (locks db) \<or> (\<exists>r \<in> set (locks db). r' = r\<lparr>expires_at := now + hb_ttl hb\<rparr> \<and> now < expires_at r
    \<and> expires_at r \<noteq> MAX_SAFE_INTEGER \<and> run_id r = hl_id (hb_lock hb) \<and> token r = token_hash cf (hl_token (hb_lock hb)))"
proof -
  obtain f where f: "locks db' = map f (locks db)"
    "\<And>r. f r \<noteq> r \<Longrightarrow> run_id r = hl_id (hb_lock hb) \<and> token r = token_hash cf (hl_token (hb_lock hb))
       \<and> now < expires_at r \<and> expires_at r \<noteq> MAX_SAFE_INTEGER \<and> f r = r\<lparr>expires_at := now + hb_ttl hb\<rparr>"
    using pulse_rows [OF assms(1)] by blast
  then obtain r where "r \<in> set (locks db)" "r' = f r" using assms(2) by auto
  then show ?thesis using f(2) [of r] by (cases "f r = r") auto
qed

theorem heartbeat_extends_only_live_rows_witness:
  "\<forall>r' \<in> set (locks (snd (snd (pulse sample_config True 2000 sample_heartbeat (granted ''a'' ''a'' no_locks))))).
     r' \<in> set (locks (granted ''a'' ''a'' no_locks)) \<or> expires_at r' = 62000"
proof
  let ?p = "pulse sample_config True 2000 sample_heartbeat (granted ''a'' ''a'' no_locks)"
  fix r' assume "r' \<in> set (locks (snd (snd ?p)))"
  then have "r' \<in> set (locks (granted ''a'' ''a'' no_locks)) \<or> (\<exists>r \<in> set (locks (granted ''a'' ''a'' no_locks)).
      r' = r\<lparr>expires_at := 2000 + hb_ttl sample_heartbeat\<rparr> \<and> 2000 < expires_at r
      \<and> expires_at r \<noteq> MAX_SAFE_INTEGER \<and> run_id r = hl_id (hb_lock sample_heartbeat) \<and> token r = token_hash sample_config (hl_token (hb_lock sample_heartbeat)))"
    by (intro heartbeat_extends_only_live_rows [where ok = "fst ?p" and hb' = "fst (snd ?p)"]) auto
  then show "r' \<in> set (locks (granted ''a'' ''a'' no_locks)) \<or> expires_at r' = 62000"
    by (auto simp: sample_heartbeat_def)
qed

section \<open>Quarantine\<close>

text \<open>C31: After a containment quarantine that expects no particular lock, every path of the lock is held
  by a row that no expiry clean-up removes, and its run is recorded quarantined with the evidence.\<close>

theorem quarantine_holds_every_path:
  assumes "quarantineHardLock cf te l containment exclusively None db = Some (True, l', db')"
  shows "(\<forall>p \<in> set (hl_paths l). \<exists>r \<in> set (locks db'). normalized_path r = p \<and> run_id r = hl_id l
        \<and> token r = token_hash cf (hl_token l) \<and> expires_at r = MAX_SAFE_INTEGER
        \<and> (t < MAX_SAFE_INTEGER \<longrightarrow> r \<in> set (locks (cleanupExpiredLocks t db'))))
    \<and> (\<exists>run \<in> set (runs db'). rn_id run = hl_id l \<and> rn_status run = ''quarantined'' \<and> rn_finished_at run = None
        \<and> rn_containment run = Some containment)
    \<and> hl_expiresAt l' = MAX_SAFE_INTEGER"
proof -
  define mode where "mode = (if exclusively then ''serial_integration'' else or_string (hl_lockType l) ''write'')"
  define started where "started = (if hl_createdAt l = 0 then te_now te else hl_createdAt l)"
  define rows where "rows = mark_quarantined (hl_id l) (token_hash cf (hl_token l)) mode exclusively (locks db)"
  define held where "held = map normalized_path (filter (\<lambda>r. run_id r = hl_id l \<and> token r = token_hash cf (hl_token l)
      \<and> expires_at r = MAX_SAFE_INTEGER) rows)"
  define missing where "missing = filter (\<lambda>p. p \<notin> set held) (hl_paths l)"
  have db': "locks db' = rows @ map (quarantine_row cf l mode started exclusively) missing"
    "runs db' = upsert_quarantined_run l mode started containment exclusively (runs db)"
    and l': "hl_expiresAt l' = MAX_SAFE_INTEGER"
    using assms unfolding quarantineHardLock_def Let_def mode_def [symmetric] started_def [symmetric] rows_def [symmetric]
      held_def [symmetric] missing_def [symmetric]
    by (auto simp: upgraded_def split: if_split_asm commit_outcome.split_asm)
  have "\<exists>r \<in> set (locks db'). normalized_path r = p \<and> run_id r = hl_id l
        \<and> token r = token_hash cf (hl_token l) \<and> expires_at r = MAX_SAFE_INTEGER" if "p \<in> set (hl_paths l)" for p
  proof (cases "p \<in> set held")
    case True
    then obtain r where "r \<in> set rows" "run_id r = hl_id l" "token r = token_hash cf (hl_token l)"
      "expires_at r = MAX_SAFE_INTEGER" "normalized_path r = p" by (auto simp: held_def)
    then show ?thesis using db'(1) by auto
  next
    case False
    with that have "p \<in> set missing" by (simp add: missing_def)
    then have "quarantine_row cf l mode started exclusively p \<in> set (locks db')" using db'(1) by simp
    then show ?thesis by (rule bexI [rotated]) (simp add: quarantine_row_def)
  qed
  moreover have "r \<in> set (locks (cleanupExpiredLocks t db'))" if "r \<in> set (locks db')" "expires_at r = MAX_SAFE_INTEGER" "t < MAX_SAFE_INTEGER" for r
    unfolding cleanupExpiredLocks_def by (rule lock_expiry.prune_keeps_live) (use that in simp_all)
  moreover have "\<exists>run \<in> set (runs db'). rn_id run = hl_id l \<and> rn_status run = ''quarantined'' \<and> rn_finished_at run = None
        \<and> rn_containment run = Some containment"
    unfolding db'(2) upsert_quarantined_run_def by (auto simp: list_ex_iff bex_Un)
  ultimately show ?thesis using l' by blast
qed

definition sample_txn :: "int \<Rightarrow> txn_env" where
  "sample_txn t = \<lparr>te_opens = True, te_commit = Committed, te_rollback = True, te_reopens = True, te_now = t\<rparr>"

theorem quarantine_holds_every_path_witness:
  "\<exists>r \<in> set (locks (cleanupExpiredLocks 99999999 (snd (snd (the
      (quarantineHardLock sample_config (sample_txn 70000) (hb_lock sample_heartbeat) ''{}'' False None no_locks)))))).
     normalized_path r = ''a'' \<and> expires_at r = MAX_SAFE_INTEGER"
proof -
  let ?q = "quarantineHardLock sample_config (sample_txn 70000) (hb_lock sample_heartbeat) ''{}'' False None no_locks"
  have "case ?q of Some (ok, _) \<Rightarrow> ok | None \<Rightarrow> False" by code_simp
  then obtain l' db' where q: "?q = Some (True, l', db')" by (auto split: option.splits)
  have "''a'' \<in> set (hl_paths (hb_lock sample_heartbeat))" "(99999999 :: int) < MAX_SAFE_INTEGER"
    by (simp_all add: sample_heartbeat_def MAX_SAFE_INTEGER_def)
  with quarantine_holds_every_path [OF q, of 99999999] q show ?thesis by auto
qed

section \<open>The finalizer's round trip\<close>

lemma find_map_same: "(\<And>r. f r = f' (g r)) \<Longrightarrow> List.find (\<lambda>r. f' r = i) (map g xs) = map_option g (List.find (\<lambda>r. f r = i) xs)"
  by (induction xs) auto

lemma filter_map_same: "(\<And>r. P (g r) = P r) \<Longrightarrow> filter P (map g xs) = map g (filter P xs)"
  by (induction xs) auto

lemma begin_protects:
  assumes "beginFinalizerValidationProtection cf te parse blocked containment l db = (Protected l' rc, db')" "te_commit te = Committed"
  shows "l' = upgraded l \<and> finalizerRows cf db l = Some (rc_row rc, rc_run rc) \<and> rc_containment rc = containment
    \<and> db' = protect_rows (hl_id l) (token (rc_row rc)) containment (expireLocksFromDb db (te_now te))
    \<and> lock_mode (rc_row rc) = ''read'' \<and> te_now te < expires_at (rc_row rc) \<and> rn_status (rc_run rc) = ''running''
    \<and> edits_checkout (rc_row rc) = Some (hl_editsCheckout l) \<and> hl_lockType l = ''read''"
  using assms unfolding beginFinalizerValidationProtection_def Let_def
  by (simp only: split: if_split_asm option.split_asm prod.splits commit_outcome.split_asm)
    (auto simp: listLocksFromDb_def Let_def)


lemma expire_runs: "runs (expireLocksFromDb db t) =
    map (\<lambda>r. if rn_id r \<noteq> [] \<and> rn_status r = ''running'' \<and> rn_id r \<in> run_id ` {q \<in> set (locks db). expires_at q \<le> t}
        \<and> rn_id r \<notin> run_id ` {q \<in> set (locks db). t < expires_at q}
      then r\<lparr>rn_status := ''expired'', rn_finished_at := Some (case rn_finished_at r of None \<Rightarrow> t | Some u \<Rightarrow> u)\<rparr> else r) (runs db)"
  by (auto simp: expireLocksFromDb_def Let_def no_rows_of_def not_le image_iff intro!: map_cong)

lemma live_run_kept:
  assumes "q \<in> set (locks db)" "t < expires_at q" "run_id q = rn_id r"
    and "r \<in> set (runs db)"
  shows "r \<in> set (runs (expireLocksFromDb db t))"
proof -
  have "rn_id r \<in> run_id ` {q \<in> set (locks db). t < expires_at q}" using assms(1-3) by force
  then show ?thesis unfolding expire_runs set_map by (intro image_eqI [OF _ assms(4)]) simp
qed

lemma find_unique: "distinct (map f xs) \<Longrightarrow> x \<in> set xs \<Longrightarrow> f x = i \<Longrightarrow> List.find (\<lambda>y. f y = i) xs = Some x"
  by (induction xs) (auto simp: image_iff)

lemma upgraded_sel [simp]: "hl_id (upgraded l) = hl_id l" "hl_token (upgraded l) = hl_token l" "hl_agent (upgraded l) = hl_agent l"
  "hl_cwd (upgraded l) = hl_cwd l" "hl_createdAt (upgraded l) = hl_createdAt l" "hl_taskSha256 (upgraded l) = hl_taskSha256 l"
  by (simp_all add: upgraded_def)

lemma protected_rows:
  assumes "finalizerRows cf db l = Some (row, run)" "t < expires_at row" "rn_status run = ''running''" "distinct (map rn_id (runs db))"
  shows "finalizerRows cf (protect_rows (hl_id l) (token row) containment (expireLocksFromDb db t)) (upgraded l) =
    Some (row\<lparr>lock_mode := ''serial_integration'', edits_checkout := Some True, expires_at := MAX_SAFE_INTEGER\<rparr>,
          run\<lparr>rn_lock_mode := ''serial_integration'', rn_containment := Some containment\<rparr>)"
proof -
  note fr = finalizerRows_SomeD [OF assms(1)]
  let ?e = "expireLocksFromDb db t" let ?p = "protect_rows (hl_id l) (token row) containment ?e"
  let ?g = "\<lambda>r. if run_id r = hl_id l \<and> token r = token row
     then r\<lparr>lock_mode := ''serial_integration'', edits_checkout := Some True, expires_at := MAX_SAFE_INTEGER\<rparr> else r"
  let ?h = "\<lambda>r. if rn_id r = hl_id l \<and> rn_status r = ''running''
     then r\<lparr>rn_lock_mode := ''serial_integration'', rn_containment := Some containment\<rparr> else r"
  have "filter (\<lambda>r. run_id r = hl_id l) (locks ?e) = filter (\<lambda>r. t < expires_at r) (filter (\<lambda>r. run_id r = hl_id l) (locks db))"
    by (simp add: conj_commute)
  also have "\<dots> = [row]" using fr(1) assms(2) by simp
  finally have "filter (\<lambda>r. run_id r = hl_id l) (map ?g (locks ?e)) = [?g row]"
    by (subst filter_map_same) auto
  then have rows: "filter (\<lambda>r. run_id r = hl_id l) (locks ?p) = [?g row]" by (simp add: protect_rows_def)
  have run: "run \<in> set (runs db)" "rn_id run = hl_id l" using fr(8) by (auto simp: find_Some_iff)
  then have "run \<in> set (runs ?e)" using live_run_kept [OF fr(2) assms(2)] fr(3) by simp
  moreover have "distinct (map rn_id (runs ?e))" using assms(4) by simp
  ultimately have "List.find (\<lambda>r. rn_id r = hl_id l) (runs ?e) = Some run" using run(2) find_unique by metis
  then have "List.find (\<lambda>r. rn_id r = hl_id l) (map ?h (runs ?e)) = Some (?h run)"
    using find_map_same [of rn_id rn_id ?h "hl_id l" "runs ?e"] by simp
  then have find: "List.find (\<lambda>r. rn_id r = hl_id l) (runs ?p) = Some (?h run)" by (simp add: protect_rows_def)
  have "isFinalizerRepositoryLock (upgraded l)" using fr(7) by (simp add: isFinalizerRepositoryLock_def upgraded_def)
  moreover have "owner_agent row = hl_agent l \<and> acquisition_origin row = ''internal'' \<and> row_task row = ''sha256:'' @ hl_taskSha256 l
      \<and> rn_agent run = hl_agent l \<and> rn_started_at run = hl_createdAt l"
    using assms(1) unfolding finalizerRows_def by (auto split: list.splits option.splits if_splits)
  moreover have "?g row = row\<lparr>lock_mode := ''serial_integration'', edits_checkout := Some True, expires_at := MAX_SAFE_INTEGER\<rparr>"
    "?h run = run\<lparr>rn_lock_mode := ''serial_integration'', rn_containment := Some containment\<rparr>"
    using fr(3) run(2) assms(3) by simp_all
  ultimately show ?thesis
    unfolding finalizerRows_def upgraded_sel rows find list.case option.case prod.case
    using fr(4-6,9,10) by simp
qed

lemma protect_rows_sel [simp]:
  "locks (protect_rows i tok c db) = map (\<lambda>r. if run_id r = i \<and> token r = tok
     then r\<lparr>lock_mode := ''serial_integration'', edits_checkout := Some True, expires_at := MAX_SAFE_INTEGER\<rparr> else r) (locks db)"
  "runs (protect_rows i tok c db) = map (\<lambda>r. if rn_id r = i \<and> rn_status r = ''running''
     then r\<lparr>rn_lock_mode := ''serial_integration'', rn_containment := Some c\<rparr> else r) (runs db)"
  by (simp_all add: protect_rows_def)

lemma restore_rows_sel [simp]:
  "locks (restore_rows i rc e db) = map (\<lambda>r. if run_id r = i \<and> token r = token (rc_row rc)
     then r\<lparr>lock_mode := ''read'', edits_checkout := edits_checkout (rc_row rc), expires_at := e\<rparr> else r) (locks db)"
  "runs (restore_rows i rc e db) = map (\<lambda>r. if rn_id r = i
     then r\<lparr>rn_status := rn_status (rc_run rc), rn_lock_mode := rn_lock_mode (rc_run rc),
            rn_containment := rn_containment (rc_run rc), rn_finished_at := rn_finished_at (rc_run rc)\<rparr> else r) (runs db)"
  by (simp_all add: restore_rows_def)

text \<open>C32: When both transactions commit, upgrading the finalizer reader to exclusive protection and
  restoring it gives back the same lock, and, compared with the tables after their expired rows were
  removed, the same run rows and the same lock rows with a new expiry.\<close>

theorem finalizer_protection_roundtrip:
  assumes "beginFinalizerValidationProtection cf te parse blocked containment l db = (Protected l' rc, db')" "te_commit te = Committed"
    and "te_opens te'" "te_commit te' = Committed" "distinct (map rn_id (runs db))"
  shows "\<exists>db''. restoreFinalizerReadLease cf te' l' rc ttl db' =
      (Restored (l\<lparr>hl_expiresAt := te_now te' + effective_ttl ttl\<rparr>), db'')
    \<and> locks db'' = map (\<lambda>r. if run_id r = hl_id l then r\<lparr>expires_at := te_now te' + effective_ttl ttl\<rparr> else r)
        (locks (expireLocksFromDb db (te_now te)))
    \<and> runs db'' = runs (expireLocksFromDb db (te_now te))"
proof -
  let ?e = "expireLocksFromDb db (te_now te)" let ?t = "te_now te' + effective_ttl ttl"
  note b = begin_protects [OF assms(1,2)]
  then have l': "l' = upgraded l" and rows: "finalizerRows cf db l = Some (rc_row rc, rc_run rc)"
    and db': "db' = protect_rows (hl_id l) (token (rc_row rc)) containment ?e" by simp_all
  note fr = finalizerRows_SomeD [OF rows]
  have prot: "finalizerRows cf db' l' = Some ((rc_row rc)\<lparr>lock_mode := ''serial_integration'', edits_checkout := Some True, expires_at := MAX_SAFE_INTEGER\<rparr>,
      (rc_run rc)\<lparr>rn_lock_mode := ''serial_integration'', rn_containment := Some containment\<rparr>)"
    unfolding l' db' by (rule protected_rows) (use rows b assms(5) in auto)
  have m: "matchesFinalizerProtection cf db' l' rc None (te_now te')"
    unfolding matchesFinalizerProtection_def prot using fr(3) b by (simp add: same_row_identity_def upgraded_def)
  have lock: "restored_lock l' rc ?t = l\<lparr>hl_expiresAt := ?t\<rparr>"
    using b by (cases l) (simp add: restored_lock_def upgraded_def)
  have run: "rc_run rc \<in> set (runs db)" "rn_id (rc_run rc) = hl_id l" using fr(8) by (auto simp: find_Some_iff)
  have read: "r\<lparr>lock_mode := ''serial_integration'', edits_checkout := c, expires_at := d, lock_mode := ''read'',
      edits_checkout := edits_checkout r, expires_at := u\<rparr> = r\<lparr>expires_at := u\<rparr>" if "lock_mode r = ''read''" for r :: lock_row and c d u
    by (cases r) (use that in simp)
  have only: "r = rc_row rc" if "r \<in> set (locks ?e)" "run_id r = hl_id l" for r
    using filter_single(3) [OF fr(1)] that by simp
  have "locks (restore_rows (hl_id l) rc ?t db') = map (\<lambda>r. if run_id r = hl_id l then r\<lparr>expires_at := ?t\<rparr> else r) (locks ?e)"
    unfolding db' restore_rows_sel protect_rows_sel list.map_comp
    by (rule map_cong [OF refl]) (use only read b in \<open>auto simp: comp_def\<close>)
  moreover have "runs (restore_rows (hl_id l) rc ?t db') = runs ?e"
  proof -
    have "run_id (rc_row rc) = rn_id (rc_run rc)" using fr(3) run(2) by simp
    then have "rc_run rc \<in> set (runs ?e)" using live_run_kept [OF fr(2)] b run(1) by blast
    moreover have "distinct (map rn_id (runs ?e))" using assms(5) by simp
    ultimately have "r = rc_run rc" if "r \<in> set (runs ?e)" "rn_id r = hl_id l" for r
      using that run(2) by (metis distinct_map inj_onD)
    with b show ?thesis unfolding db' restore_rows_sel protect_rows_sel list.map_comp by (intro map_idI) (auto simp: comp_def)
  qed
  ultimately show ?thesis
    unfolding restoreFinalizerReadLease_def Let_def using assms(3,4) m lock l'
    by (simp add: upgraded_def)
qed

definition finalizer_request :: lock_request where
  "finalizer_request = (sample_request [])\<lparr>rq_agent := ''pipeline_finalizer'', rq_lockType := ''read'', rq_repositoryScope := True\<rparr>"

definition finalizer_held :: "acquire_result \<times> lock_db" where
  "finalizer_held = acquireHardLock sample_config (sample_env ''f'') finalizer_request no_locks"

definition sample_evidence :: "string \<Rightarrow> json option" where
  "sample_evidence s = Some (JObj [(''complete'', JBool False), (''pids'', JArr []), (''recordedAt'', JInt 900)])"

theorem finalizer_protection_roundtrip_witness:
  "\<exists>l l' rc db' db''. fst finalizer_held = Acquired l
     \<and> beginFinalizerValidationProtection sample_config (sample_txn 2000) sample_evidence (\<lambda>_. False) ''{}'' l (snd finalizer_held)
         = (Protected l' rc, db') \<and> hl_lockType l' = ''serial_integration''
     \<and> restoreFinalizerReadLease sample_config (sample_txn 3000) l' rc 60000 db' = (Restored (l\<lparr>hl_expiresAt := 63000\<rparr>), db'')"
proof -
  let ?upgrade = "\<lambda>l. beginFinalizerValidationProtection sample_config (sample_txn 2000) sample_evidence (\<lambda>_. False) ''{}'' l (snd finalizer_held)"
  obtain r db where r: "finalizer_held = (r, db)" by fastforce
  have "case finalizer_held of (Acquired l, db) \<Rightarrow>
      (case beginFinalizerValidationProtection sample_config (sample_txn 2000) sample_evidence (\<lambda>_. False) ''{}'' l db of
         (Protected l' rc, _) \<Rightarrow> hl_lockType l' = ''serial_integration'' | _ \<Rightarrow> False) | _ \<Rightarrow> False"
    by code_simp
  then obtain l where f: "finalizer_held = (Acquired l, db)"
    and "case ?upgrade l of (Protected l' rc, _) \<Rightarrow> hl_lockType l' = ''serial_integration'' | _ \<Rightarrow> False"
    unfolding r prod.case snd_conv by (cases r) auto
  then obtain l' rc db' where b: "?upgrade l = (Protected l' rc, db')" and t: "hl_lockType l' = ''serial_integration''"
    by (cases "?upgrade l") (auto split: begin_result.split_asm)
  have l: "fst finalizer_held = Acquired l" unfolding f by simp
  have d: "distinct (map rn_id (runs (snd finalizer_held)))" by code_simp
  have e: "te_now (sample_txn 3000) + effective_ttl 60000 = 63000"
    by (simp add: sample_txn_def effective_ttl_def MAX_LOCK_TTL_MS_def)
  show ?thesis
    using finalizer_protection_roundtrip [OF b _ _ _ d, of "sample_txn 3000" 60000] l b t e by (auto simp: sample_txn_def)
qed

section \<open>Evidence, schema and time to live\<close>

text \<open>A containment record allows release only when it is complete, lists at least one process, none
  of the listed processes still runs and the grace time has passed.\<close>

theorem containment_release_needs_proof:
  assumes "\<not> containmentStillPossible stillRuns grace now evidence"
  shows "\<exists>kv pids at. evidence = Some (JObj kv) \<and> map_of kv ''complete'' = Some (JBool True)
    \<and> map_of kv ''pids'' = Some (JArr pids) \<and> pids \<noteq> [] \<and> map_of kv ''recordedAt'' = Some (JInt at) \<and> 0 < at
    \<and> (\<forall>p \<in> set pids. \<exists>s. \<not> stillRuns p s at) \<and> grace \<le> now - at"
proof -
  obtain kv where ev: "evidence = Some (JObj kv)"
    using assms unfolding containmentStillPossible_def by (simp split: option.split_asm json.split_asm)
  have "\<exists>pids at. map_of kv ''complete'' = Some (JBool True) \<and> map_of kv ''pids'' = Some (JArr pids) \<and> map_of kv ''recordedAt'' = Some (JInt at)"
  proof (rule ccontr)
    assume "\<not> ?thesis"
    then have "containmentStillPossible stillRuns grace now evidence"
      unfolding containmentStillPossible_def ev by (simp split: option.split json.split bool.split) blast
    with assms show False ..
  qed
  then obtain pids at where f: "map_of kv ''complete'' = Some (JBool True)" "map_of kv ''pids'' = Some (JArr pids)"
    "map_of kv ''recordedAt'' = Some (JInt at)" by blast
  have n: "\<not> (pids = [] \<or> \<not> list_all safe_positive pids \<or> \<not> safe_positive (JInt at)
      \<or> (case recorded_creations kv pids of None \<Rightarrow> True
         | Some created \<Rightarrow> list_ex (\<lambda>p. stillRuns p (case map_of created p of None \<Rightarrow> [] | Some s \<Rightarrow> s) at) pids \<or> now - at < grace))"
    using assms unfolding containmentStillPossible_def ev f option.case json.case bool.case prod.case .
  then obtain created where c: "recorded_creations kv pids = Some created" by (cases "recorded_creations kv pids") simp_all
  have "pids \<noteq> []" "0 < at" "\<not> list_ex (\<lambda>p. stillRuns p (case map_of created p of None \<Rightarrow> [] | Some s \<Rightarrow> s) at) pids" "grace \<le> now - at"
    using n unfolding c option.case by (auto simp: safe_positive_def)
  then show ?thesis using ev f unfolding list_ex_iff by blast
qed

definition gone_evidence :: "json option" where
  "gone_evidence = Some (JObj [(''complete'', JBool True), (''pids'', JArr [JInt 7]), (''recordedAt'', JInt 1000)])"

theorem containment_release_needs_proof_witness:
  "\<not> containmentStillPossible (\<lambda>_ _ _. False) 500 2000 gone_evidence
   \<and> (\<exists>pids (at :: int). jfield (the gone_evidence) ''pids'' = Some (JArr pids) \<and> pids \<noteq> []
     \<and> jfield (the gone_evidence) ''recordedAt'' = Some (JInt at) \<and> 500 \<le> 2000 - at)"
proof -
  have n: "\<not> containmentStillPossible (\<lambda>_ _ _. False) 500 2000 gone_evidence" by code_simp
  obtain kv pids at where g: "gone_evidence = Some (JObj kv)" and f: "map_of kv ''pids'' = Some (JArr pids)" "pids \<noteq> []"
    "map_of kv ''recordedAt'' = Some (JInt at)" "500 \<le> 2000 - at"
    using containment_release_needs_proof [OF n] by blast
  then show ?thesis using n unfolding g by (intro conjI exI) simp_all
qed

lemma insert_or_ignore_keys:
  "distinct (map row_key acc) \<Longrightarrow> distinct (map row_key (insert_or_ignore acc rs))
     \<and> row_key ` set (insert_or_ignore acc rs) = row_key ` (set acc \<union> set rs) \<and> set (insert_or_ignore acc rs) \<subseteq> set acc \<union> set rs"
proof (induction rs arbitrary: acc)
  case (Cons r rs)
  show ?case
  proof (cases "row_key r \<in> row_key ` set acc")
    case True with Cons.IH [OF Cons.prems] show ?thesis by (auto simp: image_iff)
  next
    case False
    with Cons.prems have "distinct (map row_key (acc @ [r]))" by (auto simp: image_iff)
    from Cons.IH [OF this] False show ?thesis by auto
  qed
qed simp

text \<open>Migrating a legacy lock table gives the composite key, one row for every path and run of the
  old table, all marked legacy.\<close>

theorem legacy_migration_keeps_every_key:
  assumes "\<not> lockTableHasCompositePrimaryKey t"
  shows "lockTableHasCompositePrimaryKey (ensureLockTableSchema t)
    \<and> distinct (map row_key (tb_rows (ensureLockTableSchema t)))
    \<and> row_key ` set (tb_rows (ensureLockTableSchema t)) = row_key ` set (tb_rows t)
    \<and> (\<forall>r \<in> set (tb_rows (ensureLockTableSchema t)). acquisition_origin r = ''legacy'' \<and> edits_checkout r = None)"
proof -
  let ?rows = "insert_or_ignore [] (map (\<lambda>r. r\<lparr>acquisition_origin := ''legacy'', edits_checkout := None\<rparr>) (tb_rows t))"
  have t: "ensureLockTableSchema t = \<lparr>tb_columns = composite_columns @ [(''edits_checkout'', 0)],
      tb_rows = map (\<lambda>r. r\<lparr>edits_checkout := None\<rparr>) ?rows\<rparr>"
    using assms by (simp add: ensureLockTableSchema_def migrateLegacyLockTable_def composite_columns_def)
  note keys = insert_or_ignore_keys [of "[]" "map (\<lambda>r. r\<lparr>acquisition_origin := ''legacy'', edits_checkout := None\<rparr>) (tb_rows t)", simplified]
  have same: "map row_key (map (\<lambda>r. r\<lparr>edits_checkout := None\<rparr>) rs) = map row_key rs" for rs by (simp add: row_key_def)
  have "row_key ` (\<lambda>r. r\<lparr>acquisition_origin := ''legacy'', edits_checkout := None\<rparr>) ` S = row_key ` S" for S
    by (auto simp: row_key_def image_iff)
  moreover have "lockTableHasCompositePrimaryKey (ensureLockTableSchema t)" unfolding t by code_simp
  moreover have "row_key ` set (tb_rows (ensureLockTableSchema t)) = row_key ` set ?rows"
    using arg_cong [OF same [of ?rows], of set] unfolding t lock_table.simps list.set_map .
  moreover have "distinct (map row_key (tb_rows (ensureLockTableSchema t)))"
    unfolding t lock_table.simps same using keys by blast
  moreover have "row_key ` set ?rows = row_key ` set (tb_rows t)" using keys calculation(1) by simp
  moreover have "acquisition_origin r = ''legacy'' \<and> edits_checkout r = None" if r: "r \<in> set (tb_rows (ensureLockTableSchema t))" for r
  proof -
    obtain q where "q \<in> set ?rows" "r = q\<lparr>edits_checkout := None\<rparr>" using r unfolding t by auto
    moreover then have "q \<in> (\<lambda>r. r\<lparr>acquisition_origin := ''legacy'', edits_checkout := None\<rparr>) ` set (tb_rows t)" using keys by blast
    ultimately show ?thesis by auto
  qed
  ultimately show ?thesis by simp
qed

definition legacy_table :: lock_table where
  "legacy_table = \<lparr>tb_columns = [(''normalized_path'', 1), (''run_id'', 0)], tb_rows = locks two_locks\<rparr>"

theorem legacy_migration_keeps_every_key_witness:
  "map row_key (tb_rows legacy_table) \<noteq> [] \<and> row_key ` set (tb_rows (ensureLockTableSchema legacy_table)) = row_key ` set (tb_rows legacy_table)"
proof -
  have n: "\<not> lockTableHasCompositePrimaryKey legacy_table" and rows: "map row_key (tb_rows legacy_table) \<noteq> []" by code_simp+
  note m = legacy_migration_keeps_every_key [OF n]
  show ?thesis by (rule conjI [OF rows m [THEN conjunct2, THEN conjunct2, THEN conjunct1]])
qed

end
