(* ===== verification/ProviderLimits.thy ===== *)
theory ProviderLimits
  imports LockQuarantine "HOL-Library.AList"
begin

text \<open>
  Model of the limits and keys of \<open>lib/provider-leases.js\<close> and \<open>lib/provider-quarantine.js\<close>: the runtime
  overrides stored in the shared database, the limit in force for a provider key, the keys a
  provider, a model and a quota group share, and the operator's pause targets.  A JavaScript \<open>Map\<close>
  is an association list in insertion order.  Numbers in the database are integers; a limit that
  comes from a tool call is a \<open>json\<close> value.
\<close>

section \<open>State\<close>

record provider_lease_row =
  pl_id :: string
  pl_key :: string
  pl_owner :: string
  pl_pid :: int
  pl_created :: int
  pl_heartbeat :: "int option"
  pl_expires :: int
  pl_containment :: string

record cooldown_row =
  cd_key :: string
  cd_until :: int
  cd_error :: string
  cd_reason :: string
  cd_set :: int

record setting_row =
  st_name :: string
  st_value :: int
  st_updated :: int

record provider_db =
  provider_leases :: "provider_lease_row list"
  provider_capacities :: "(string \<times> int) list"
  provider_cooldowns :: "cooldown_row list"
  runtime_settings :: "setting_row list"
  pause_strikes :: "(string \<times> int \<times> int) list"

text \<open>\<open>RUNTIME_CONCURRENCY\<close> and the part of \<open>CONFIG\<close> that is fixed for the process.\<close>

record runtime_concurrency =
  rt_provider :: "int option"
  rt_queue :: "int option"
  rt_global :: "int option"
  rt_perProvider :: "(string \<times> int) list"

record provider_config =
  pc_instance :: string
  pc_pid :: int
  pc_key :: string
  pc_keyExplicit :: bool
  pc_envProvider :: int
  pc_envQueue :: int
  pc_envGlobal :: int
  pc_envPerProvider :: "(string \<times> int) list"
  pc_quotaGroups :: "string list list"
  pc_leaseMs :: int
  pc_heartbeatMs :: int
  pc_pauseMs :: int
  pc_pauseMaxMs :: int
  pc_waitMaxMs :: int

definition MAX_RUNTIME_CONCURRENCY_LIMIT :: int where "MAX_RUNTIME_CONCURRENCY_LIMIT = 32"
definition MAX_GLOBAL_WORKER_LIMIT :: int where "MAX_GLOBAL_WORKER_LIMIT = 64"
definition MAX_RUNTIME_PROVIDER_LIMIT_ENTRIES :: nat where "MAX_RUNTIME_PROVIDER_LIMIT_ENTRIES = 32"

definition providerConcurrencyLimit :: "provider_config \<Rightarrow> runtime_concurrency \<Rightarrow> int" where
  "providerConcurrencyLimit pc rt = (case rt_provider rt of Some n \<Rightarrow> n | None \<Rightarrow> pc_envProvider pc)"

definition queueParallelLimit :: "provider_config \<Rightarrow> runtime_concurrency \<Rightarrow> int" where
  "queueParallelLimit pc rt = (case rt_queue rt of Some n \<Rightarrow> n | None \<Rightarrow> pc_envQueue pc)"

definition globalWorkerLimit :: "provider_config \<Rightarrow> runtime_concurrency \<Rightarrow> int" where
  "globalWorkerLimit pc rt = (case rt_global rt of Some n \<Rightarrow> n | None \<Rightarrow> pc_envGlobal pc)"

section \<open>Text\<close>

text \<open>SQLite's \<open>LIKE\<close> and \<open>NOCASE\<close> fold the letters A to Z; \<open>LIKE 'p%'\<close> with \<open>p\<close> escaped is a prefix test.\<close>

definition ascii_lower_char :: "char \<Rightarrow> char" where
  "ascii_lower_char c = (if is_alpha c then js_lower_char c else c)"

definition nocase :: "string \<Rightarrow> string" where
  "nocase s = map ascii_lower_char s"

definition like_prefix :: "string \<Rightarrow> string \<Rightarrow> bool" where
  "like_prefix p s = starts_with (nocase p) (nocase s)"

text \<open>\<open>.replace(/[^a-z0-9._-]+/g, '-')\<close>\<close>

definition key_char :: "char \<Rightarrow> bool" where
  "key_char c \<longleftrightarrow> is_digit c \<or> (is_alpha c \<and> js_lower_char c = c) \<or> c \<in> set ''._-''"

fun key_dashed :: "string \<Rightarrow> string" where
  "key_dashed [] = []"
| "key_dashed (c # s) = (if key_char c then c # key_dashed s
     else case s of d # _ \<Rightarrow> if key_char d then CHR ''-'' # key_dashed s else key_dashed s | [] \<Rightarrow> ''-'')"

definition provider_name :: "string \<Rightarrow> string" where
  "provider_name s = key_dashed (js_lower (js_trim s))"

definition PROVIDER_LIMIT_NAME_PATTERN :: "string \<Rightarrow> bool" where
  "PROVIDER_LIMIT_NAME_PATTERN s = (case s of [] \<Rightarrow> False
     | c # r \<Rightarrow> is_alnum c \<and> list_all (\<lambda>d. is_alnum d \<or> d \<in> set ''._-'') r)"

section \<open>Keys\<close>

definition providerKeyForMetadata :: "provider_config \<Rightarrow> string \<Rightarrow> string" where
  "providerKeyForMetadata pc provider = (let p = provider_name provider in
     if pc_keyExplicit pc \<or> p = [] then pc_key pc else pc_key pc @ '':'' @ p)"

definition modelPauseKeyForMetadata :: "provider_config \<Rightarrow> string \<Rightarrow> string \<Rightarrow> string" where
  "modelPauseKeyForMetadata pc provider mdl = (let p = provider_name provider; m = js_trim mdl in
     if p = [] \<or> m = [] \<or> \<not> model_name_ok m then [] else pc_key pc @ '':'' @ p @ ''/'' @ js_lower m)"

definition providerLimitForKey :: "provider_config \<Rightarrow> runtime_concurrency \<Rightarrow> string \<Rightarrow> int" where
  "providerLimitForKey pc rt k =
    (if rt_perProvider rt = [] \<and> pc_envPerProvider pc = [] then providerConcurrencyLimit pc rt
     else let pre = pc_key pc @ '':'' in
       if \<not> starts_with pre k then providerConcurrencyLimit pc rt
       else let provider = drop (length pre) k in
         case map_of (rt_perProvider rt) provider of Some n \<Rightarrow> n
         | None \<Rightarrow> (case map_of (pc_envPerProvider pc) provider of Some n \<Rightarrow> n | None \<Rightarrow> providerConcurrencyLimit pc rt))"

definition quotaGroupProviderKeys :: "provider_config \<Rightarrow> string \<Rightarrow> string list" where
  "quotaGroupProviderKeys pc provider = (let name = provider_name provider in
     if name = [] \<or> pc_keyExplicit pc then []
     else uniq (map (providerKeyForMetadata pc) (concat (filter (\<lambda>g. name \<in> set g) (pc_quotaGroups pc)))))"

section \<open>Runtime overrides\<close>

definition runtimeConcurrencyLimitError :: "json \<Rightarrow> bool" where
  "runtimeConcurrencyLimitError v = (case v of JInt n \<Rightarrow> n < 1 \<or> n > MAX_RUNTIME_CONCURRENCY_LIMIT | _ \<Rightarrow> True)"

definition globalWorkerLimitError :: "json \<Rightarrow> bool" where
  "globalWorkerLimitError v = (case v of JInt n \<Rightarrow> n < 0 \<or> n > MAX_GLOBAL_WORKER_LIMIT | _ \<Rightarrow> True)"

definition runtimeProviderLimitsError :: "json \<Rightarrow> bool" where
  "runtimeProviderLimitsError v = (case v of JObj entries \<Rightarrow>
       length entries > MAX_RUNTIME_PROVIDER_LIMIT_ENTRIES
       \<or> list_ex (\<lambda>(p, n). \<not> PROVIDER_LIMIT_NAME_PATTERN p \<or> (n \<noteq> JNull \<and> runtimeConcurrencyLimitError n)) entries
     | _ \<Rightarrow> True)"

definition RUNTIME_PROVIDER_LIMIT_SETTING :: string where "RUNTIME_PROVIDER_LIMIT_SETTING = ''provider_concurrency_limit''"
definition RUNTIME_QUEUE_LIMIT_SETTING :: string where "RUNTIME_QUEUE_LIMIT_SETTING = ''queue_parallel_limit''"
definition RUNTIME_GLOBAL_LIMIT_SETTING :: string where "RUNTIME_GLOBAL_LIMIT_SETTING = ''global_worker_limit''"
definition RUNTIME_PER_PROVIDER_LIMIT_PREFIX :: string where "RUNTIME_PER_PROVIDER_LIMIT_PREFIX = ''provider_limit:''"

definition override_row :: "setting_row \<Rightarrow> bool" where
  "override_row r \<longleftrightarrow> st_name r \<in> {RUNTIME_PROVIDER_LIMIT_SETTING, RUNTIME_QUEUE_LIMIT_SETTING, RUNTIME_GLOBAL_LIMIT_SETTING}
     \<or> like_prefix RUNTIME_PER_PROVIDER_LIMIT_PREFIX (st_name r)"

definition no_overrides :: runtime_concurrency where
  "no_overrides = \<lparr>rt_provider = None, rt_queue = None, rt_global = None, rt_perProvider = []\<rparr>"

definition read_setting :: "setting_row \<Rightarrow> runtime_concurrency \<Rightarrow> runtime_concurrency" where
  "read_setting r rt = (let v = st_value r; n = st_name r in
     if starts_with RUNTIME_PER_PROVIDER_LIMIT_PREFIX n then
       (let provider = drop (length RUNTIME_PER_PROVIDER_LIMIT_PREFIX) n in
        if \<not> PROVIDER_LIMIT_NAME_PATTERN provider \<or> runtimeConcurrencyLimitError (JInt v) then rt
        else rt\<lparr>rt_perProvider := AList.update (js_lower provider) v (rt_perProvider rt)\<rparr>)
     else if n = RUNTIME_GLOBAL_LIMIT_SETTING then
       (if globalWorkerLimitError (JInt v) then rt else rt\<lparr>rt_global := Some v\<rparr>)
     else if runtimeConcurrencyLimitError (JInt v) then rt
     else if n = RUNTIME_PROVIDER_LIMIT_SETTING then rt\<lparr>rt_provider := Some v\<rparr>
     else rt\<lparr>rt_queue := Some v\<rparr>)"

definition readRuntimeConcurrencyRows :: "provider_db \<Rightarrow> runtime_concurrency" where
  "readRuntimeConcurrencyRows db = fold read_setting (sort_key st_name (filter override_row (runtime_settings db))) no_overrides"

definition upsert_setting :: "string \<Rightarrow> int \<Rightarrow> int \<Rightarrow> setting_row list \<Rightarrow> setting_row list" where
  "upsert_setting n v now rows = (if list_ex (\<lambda>r. st_name r = n) rows
     then map (\<lambda>r. if st_name r = n then r\<lparr>st_value := v, st_updated := now\<rparr> else r) rows
     else rows @ [\<lparr>st_name = n, st_value = v, st_updated = now\<rparr>])"

record concurrency_request =
  cr_provider :: "json option"
  cr_queue :: "json option"
  cr_global :: "json option"
  cr_perProvider :: "json option"
  cr_reset :: bool

text \<open>\<open>!== undefined && !== null\<close>; an empty \<open>providerLimits\<close> object counts as absent.\<close>

definition given :: "json option \<Rightarrow> bool" where
  "given v \<longleftrightarrow> v \<noteq> None \<and> v \<noteq> Some JNull"

definition given_limits :: "json option \<Rightarrow> bool" where
  "given_limits v \<longleftrightarrow> given v \<and> v \<noteq> Some (JObj [])"

definition concurrency_request_invalid :: "concurrency_request \<Rightarrow> bool" where
  "concurrency_request_invalid q =
    (let any = given (cr_provider q) \<or> given (cr_queue q) \<or> given (cr_global q) \<or> given_limits (cr_perProvider q) in
     (cr_reset q \<and> any) \<or> (\<not> cr_reset q \<and> \<not> any)
     \<or> (given (cr_provider q) \<and> runtimeConcurrencyLimitError (the (cr_provider q)))
     \<or> (given (cr_queue q) \<and> runtimeConcurrencyLimitError (the (cr_queue q)))
     \<or> (given (cr_global q) \<and> globalWorkerLimitError (the (cr_global q)))
     \<or> (given_limits (cr_perProvider q) \<and> runtimeProviderLimitsError (the (cr_perProvider q))))"

definition put_limit :: "string \<Rightarrow> json option \<Rightarrow> int \<Rightarrow> setting_row list \<Rightarrow> setting_row list" where
  "put_limit n v now rows = (case v of Some (JInt k) \<Rightarrow> upsert_setting n k now rows | _ \<Rightarrow> rows)"

definition put_provider_limit :: "int \<Rightarrow> string \<times> json \<Rightarrow> setting_row list \<Rightarrow> setting_row list" where
  "put_provider_limit now = (\<lambda>(p, v) rows. let n = RUNTIME_PER_PROVIDER_LIMIT_PREFIX @ js_lower p in
     if v = JNull then filter (\<lambda>r. st_name r \<noteq> n) rows else put_limit n (Some v) now rows)"

definition limit_entries :: "json option \<Rightarrow> (string \<times> json) list" where
  "limit_entries v = (case v of Some (JObj es) \<Rightarrow> es | _ \<Rightarrow> [])"

definition stored_settings :: "concurrency_request \<Rightarrow> int \<Rightarrow> setting_row list \<Rightarrow> setting_row list" where
  "stored_settings q now rows = (if cr_reset q then filter (\<lambda>r. \<not> override_row r) rows
     else fold (put_provider_limit now) (limit_entries (cr_perProvider q))
            (put_limit RUNTIME_GLOBAL_LIMIT_SETTING (cr_global q) now
              (put_limit RUNTIME_QUEUE_LIMIT_SETTING (cr_queue q) now
                (put_limit RUNTIME_PROVIDER_LIMIT_SETTING (cr_provider q) now rows))))"

text \<open>The stored capacities are a cache of the configured limits: the ones a change touches are dropped.\<close>

definition kept_capacities :: "provider_config \<Rightarrow> runtime_concurrency \<Rightarrow> runtime_concurrency \<Rightarrow> (string \<times> int) list \<Rightarrow> (string \<times> int) list" where
  "kept_capacities pc before after caps =
    (if providerConcurrencyLimit pc after \<noteq> providerConcurrencyLimit pc before then []
     else if rt_perProvider after \<noteq> rt_perProvider before then
       filter (\<lambda>(k, n). \<not> list_ex (\<lambda>p. map_of (rt_perProvider before) p \<noteq> map_of (rt_perProvider after) p \<and> k = pc_key pc @ '':'' @ p)
                 (map fst (rt_perProvider before) @ map fst (rt_perProvider after))) caps
     else caps)"

datatype concurrency_result = ConcurrencySet | ConcurrencyInvalid | ConcurrencyPersistFailed

text \<open>The database opens and its transaction commits, or the error is reported and nothing changes.\<close>

definition setRuntimeConcurrency ::
  "provider_config \<Rightarrow> bool \<Rightarrow> int \<Rightarrow> concurrency_request \<Rightarrow> runtime_concurrency \<times> provider_db \<Rightarrow> concurrency_result \<times> runtime_concurrency \<times> provider_db" where
  "setRuntimeConcurrency pc persists now q = (\<lambda>(rt, db).
    if concurrency_request_invalid q then (ConcurrencyInvalid, rt, db)
    else if \<not> persists then (ConcurrencyPersistFailed, rt, db)
    else let before = readRuntimeConcurrencyRows db;
             db1 = db\<lparr>runtime_settings := stored_settings q now (runtime_settings db)\<rparr>;
             after = readRuntimeConcurrencyRows db1
         in (ConcurrencySet, after, db1\<lparr>provider_capacities := kept_capacities pc before after (provider_capacities db1)\<rparr>))"

definition perProviderLimitEntries :: "provider_config \<Rightarrow> runtime_concurrency \<Rightarrow> (string \<times> int \<times> string \<times> int option) list" where
  "perProviderLimitEntries pc rt =
     map (\<lambda>p. case map_of (rt_perProvider rt) p of
         Some n \<Rightarrow> (p, n, ''runtime'', map_of (pc_envPerProvider pc) p)
       | None \<Rightarrow> (p, the (map_of (pc_envPerProvider pc) p), ''env'', map_of (pc_envPerProvider pc) p))
       (sort (uniq (map fst (rt_perProvider rt) @ map fst (pc_envPerProvider pc))))"

section \<open>The operator's pause targets\<close>

record pause_target =
  pt_key :: string
  pt_provider :: string
  pt_model :: string
  pt_modelPrefix :: string

text \<open>Only the first slash splits; \<open>None\<close> for a refused target.\<close>

definition providerPauseTarget :: "provider_config \<Rightarrow> string \<Rightarrow> pause_target option" where
  "providerPauseTarget pc target =
    (let raw = js_trim target; has_model = slash \<in> set raw;
         provider = js_trim (takeWhile (\<lambda>c. c \<noteq> slash) raw);
         mdl = (if has_model then js_trim (tl (dropWhile (\<lambda>c. c \<noteq> slash) raw)) else []);
         norm = key_dashed (js_lower provider)
     in if provider = [] \<or> \<not> model_identifier_ok provider \<or> (has_model \<and> (mdl = [] \<or> \<not> model_name_ok mdl)) then None
        else if mdl \<noteq> [] then Some \<lparr>pt_key = modelPauseKeyForMetadata pc provider mdl, pt_provider = norm, pt_model = mdl, pt_modelPrefix = []\<rparr>
        else Some \<lparr>pt_key = providerKeyForMetadata pc provider, pt_provider = norm, pt_model = [],
                   pt_modelPrefix = pc_key pc @ '':'' @ norm @ ''/''\<rparr>)"

end
