(* ===== verification/ProviderLeases.thy ===== *)
theory ProviderLeases
  imports ProviderLimits Interfaces
begin

text \<open>
  Model of the slots of \<open>lib/provider-leases.js\<close>, the lease quarantine and the capacity snapshot of
  \<open>lib/provider-quarantine.js\<close>, and the wait budget of \<open>lib/provider-wait.js\<close>.  One look for a free
  slot is one transaction; the wait is the list of looks a caller makes, with what other bridge
  processes do to the shared database between two looks as part of each look.
\<close>

section \<open>The wait budget\<close>

record wait_budget =
  wb_requested :: "int option"
  wb_effective :: int
  wb_clamped :: bool

text \<open>\<open>None\<close> for the \<open>RangeError\<close> of a caller bound that is not a positive safe integer.\<close>

definition providerWaitBudget :: "int \<Rightarrow> json option \<Rightarrow> wait_budget option" where
  "providerWaitBudget timeoutMs maxWait =
    (let globalBudget = max 1 (if timeoutMs = 0 then 1 else timeoutMs) in
     case maxWait of
       None \<Rightarrow> Some \<lparr>wb_requested = None, wb_effective = globalBudget, wb_clamped = False\<rparr>
     | Some v \<Rightarrow> if \<not> safe_positive v then None
         else (case v of JInt m \<Rightarrow> Some \<lparr>wb_requested = Some m, wb_effective = min m globalBudget, wb_clamped = m > globalBudget\<rparr>
               | _ \<Rightarrow> None))"

section \<open>Opening the database\<close>

datatype open_outcome = Opened | OpenBusy | OpenFailed
datatype open_result = OpenOk | OpenCancelled | OpenTimeout | OpenError

record open_attempt =
  oa_aborted :: bool
  oa_now :: int
  oa_outcome :: open_outcome
  oa_delay_aborted :: bool

text \<open>At most eight attempts; \<open>n\<close> counts the ones made.  A list that ends early is an attempt still under way.\<close>

fun open_attempts :: "nat \<Rightarrow> int \<Rightarrow> open_attempt list \<Rightarrow> open_result option" where
  "open_attempts n deadline [] = (if n \<ge> 8 then Some OpenError else None)"
| "open_attempts n deadline (a # as) =
    (if n \<ge> 8 then Some OpenError
     else if oa_aborted a then Some OpenCancelled
     else if deadline - oa_now a \<le> 0 then Some OpenTimeout
     else case oa_outcome a of
       Opened \<Rightarrow> Some OpenOk
     | OpenFailed \<Rightarrow> Some OpenError
     | OpenBusy \<Rightarrow> if n = 7 then Some OpenError else if oa_delay_aborted a then Some OpenCancelled
                   else open_attempts (Suc n) deadline as)"

definition openProviderLeaseDb :: "int \<Rightarrow> open_attempt list \<Rightarrow> open_result option" where
  "openProviderLeaseDb deadline as = open_attempts 0 deadline as"

section \<open>One look for a slot\<close>

record slot_request =
  sr_key :: string
  sr_pauseKeys :: "string list"
  sr_bounded :: bool

definition prune_expired :: "provider_db \<Rightarrow> int \<Rightarrow> provider_db" where
  "prune_expired db now = db\<lparr>provider_leases := filter (\<lambda>l. \<not> pl_expires l \<le> now) (provider_leases db),
     provider_cooldowns := filter (\<lambda>c. \<not> cd_until c \<le> now) (provider_cooldowns db)\<rparr>"

definition cooldownKeys :: "slot_request \<Rightarrow> string list" where
  "cooldownKeys q = uniq (filter (\<lambda>k. k \<noteq> []) (sr_key q # sr_pauseKeys q))"

text \<open>\<open>ORDER BY until_at DESC LIMIT 1\<close>\<close>

fun latest_cooldown :: "cooldown_row list \<Rightarrow> cooldown_row option" where
  "latest_cooldown [] = None"
| "latest_cooldown (c # cs) = (case latest_cooldown cs of None \<Rightarrow> Some c
     | Some d \<Rightarrow> Some (if cd_until d > cd_until c then d else c))"

definition held_slots :: "provider_db \<Rightarrow> string \<Rightarrow> int" where
  "held_slots db k = int (length (filter (\<lambda>l. pl_key l = k) (provider_leases db)))"

definition all_slots :: "provider_db \<Rightarrow> int" where
  "all_slots db = int (length (provider_leases db))"

text \<open>The capacity in force and the stored capacities after the look.\<close>

definition effective_capacity :: "provider_config \<Rightarrow> runtime_concurrency \<Rightarrow> provider_db \<Rightarrow> string \<Rightarrow> int \<times> (string \<times> int) list" where
  "effective_capacity pc rt db k =
    (let active = held_slots db k; configured = providerLimitForKey pc rt k; caps = provider_capacities db in
     case map_of caps k of
       None \<Rightarrow> (configured, caps @ [(k, configured)])
     | Some stored \<Rightarrow>
         if stored = configured then (configured, caps)
         else if active > 0 then (if stored > 0 then min stored configured else configured, caps)
         else (configured, AList.update k configured caps))"

datatype look_outcome =
    SlotPaused cooldown_row
  | SlotGranted provider_lease_row
  | SlotTimeout
  | SlotCancelled
  | SlotBusy int int "int option"

text \<open>
  What a look meets: the time read at its start, whether the deadline has passed or the caller has
  aborted right before the row is written and right after the commit, and the random lease id.
\<close>

record look_env =
  lo_now :: int
  lo_late_before :: bool
  lo_aborted_before :: bool
  lo_late_after :: bool
  lo_aborted_after :: bool
  lo_lease_id :: string

definition new_lease :: "provider_config \<Rightarrow> slot_request \<Rightarrow> look_env \<Rightarrow> provider_lease_row" where
  "new_lease pc q e = \<lparr>pl_id = lo_lease_id e, pl_key = sr_key q, pl_owner = pc_instance pc, pl_pid = pc_pid pc,
     pl_created = lo_now e, pl_heartbeat = Some (lo_now e), pl_expires = lo_now e + pc_leaseMs pc, pl_containment = []\<rparr>"

definition slot_look :: "provider_config \<Rightarrow> slot_request \<Rightarrow> look_env \<Rightarrow> provider_db \<Rightarrow> look_outcome \<times> runtime_concurrency \<times> provider_db" where
  "slot_look pc q e db0 =
    (let db = prune_expired db0 (lo_now e); rt = readRuntimeConcurrencyRows db in
     case latest_cooldown (filter (\<lambda>c. cd_key c \<in> set (cooldownKeys q)) (provider_cooldowns db)) of
       Some c \<Rightarrow> (SlotPaused c, rt, db0)
     | None \<Rightarrow>
       let active = held_slots db (sr_key q); (capacity, caps) = effective_capacity pc rt db (sr_key q);
           globalLimit = globalWorkerLimit pc rt; globalHeld = (if globalLimit > 0 then all_slots db else 0)
       in if active < capacity \<and> (\<not> globalLimit > 0 \<or> globalHeld < globalLimit) then
            (if lo_late_before e then (SlotTimeout, rt, db0)
             else if lo_aborted_before e then (SlotCancelled, rt, db0)
             else let l = new_lease pc q e;
                      db' = db\<lparr>provider_capacities := caps, provider_leases := provider_leases db @ [l]\<rparr>;
                      undone = db'\<lparr>provider_leases := filter (\<lambda>r. \<not> (pl_id r = pl_id l \<and> pl_owner r = pc_instance pc)) (provider_leases db')\<rparr>
                  in if lo_aborted_after e then (SlotCancelled, rt, undone)
                     else if lo_late_after e then (SlotTimeout, rt, undone)
                     else (SlotGranted l, rt, db'))
          else (SlotBusy active capacity (if globalLimit > 0 then Some globalHeld else None), rt, db0))"

text \<open>The advisory estimate of a busy look: until enough current leases end, unknown with a quarantined one.\<close>

definition expiryAfterRelease :: "provider_db \<Rightarrow> int \<Rightarrow> string option \<Rightarrow> int \<Rightarrow> int option" where
  "expiryAfterRelease db now k releases =
    (let es = sort (map pl_expires (filter (\<lambda>l. pl_expires l > now \<and> (k = None \<or> k = Some (pl_key l))) (provider_leases db)));
         rest = drop (nat (max 0 (releases - 1))) es
     in case rest of [] \<Rightarrow> None | e # _ \<Rightarrow> if e = MAX_SAFE_INTEGER then None else Some (max 0 (e - now)))"

definition expectedWait :: "provider_db \<Rightarrow> int \<Rightarrow> string \<Rightarrow> int \<Rightarrow> int \<Rightarrow> int \<Rightarrow> int \<Rightarrow> int option" where
  "expectedWait db now k active capacity globalHeld globalLimit =
    (let estimates = (if active \<ge> capacity then [expiryAfterRelease db now (Some k) (active - capacity + 1)] else [])
           @ (if globalLimit > 0 \<and> globalHeld \<ge> globalLimit then [expiryAfterRelease db now None (globalHeld - globalLimit + 1)] else [])
     in if estimates \<noteq> [] \<and> list_all (\<lambda>v. v \<noteq> None) estimates then Some (foldr max (map the estimates) 0) else None)"

section \<open>The wait for a slot\<close>

datatype look_error = LookCancelled | LookDeadline | LookBusyDatabase | LookFailed

text \<open>
  One turn of the loop: the clock and the abort flag at its head, what others did to the database
  since the last turn, an error of the database or of the quarantine reclaim (if any), the look, and
  whether the delay after it was aborted or the remaining time was used up.
\<close>

record wait_turn =
  wt_head :: int
  wt_aborted :: bool
  wt_others :: "provider_db \<Rightarrow> provider_db"
  wt_error :: "look_error option"
  wt_look :: look_env
  wt_delay_aborted :: bool
  wt_no_delay :: bool

datatype wait_result =
    WaitGranted provider_lease_row
  | WaitPaused string int
  | WaitCancelled
  | WaitTimeout string
  | WaitFailed

definition wait_timeout :: "slot_request \<Rightarrow> wait_result" where
  "wait_timeout q = WaitTimeout (if sr_bounded q then ''provider_slot_wait_limit_exceeded'' else ''provider_slot_wait_timeout'')"

definition after_delay :: "wait_turn \<Rightarrow> slot_request \<Rightarrow> wait_result option \<Rightarrow> wait_result option" where
  "after_delay t q next = (if wt_no_delay t then Some (wait_timeout q) else if wt_delay_aborted t then Some WaitCancelled else next)"

fun waitForProviderLease :: "provider_config \<Rightarrow> slot_request \<Rightarrow> int \<Rightarrow> wait_turn list \<Rightarrow> provider_db \<Rightarrow> wait_result option \<times> provider_db" where
  "waitForProviderLease pc q deadline [] db = (None, db)"
| "waitForProviderLease pc q deadline (t # ts) db0 =
    (let db = wt_others t db0 in
     if \<not> wt_head t < deadline then (Some (wait_timeout q), db)
     else if wt_aborted t then (Some WaitCancelled, db)
     else case wt_error t of
       Some LookCancelled \<Rightarrow> (Some WaitCancelled, db)
     | Some LookDeadline \<Rightarrow> (Some (wait_timeout q), db)
     | Some LookFailed \<Rightarrow> (Some WaitFailed, db)
     | Some LookBusyDatabase \<Rightarrow>
         (let (r, db') = waitForProviderLease pc q deadline ts db in
          (after_delay t q r, if wt_no_delay t \<or> wt_delay_aborted t then db else db'))
     | None \<Rightarrow> (case slot_look pc q (wt_look t) db of
         (SlotPaused c, _, db') \<Rightarrow> (Some (WaitPaused (cd_error c) (cd_until c)), db')
       | (SlotGranted l, _, db') \<Rightarrow> (Some (WaitGranted l), db')
       | (SlotTimeout, _, db') \<Rightarrow> (Some (wait_timeout q), db')
       | (SlotCancelled, _, db') \<Rightarrow> (Some WaitCancelled, db')
       | (SlotBusy _ _ _, _, db') \<Rightarrow>
           (let (r, db'') = waitForProviderLease pc q deadline ts db' in
            (after_delay t q r, if wt_no_delay t \<or> wt_delay_aborted t then db' else db''))))"

text \<open>\<open>acquireProviderLease\<close> spends one budget over all its waits.\<close>

definition wait_deadline :: "wait_budget \<Rightarrow> int \<Rightarrow> int \<Rightarrow> int" where
  "wait_deadline b spent started = started + max 0 (wb_effective b - spent)"

section \<open>Keeping, releasing and quarantining a lease\<close>

definition releaseProviderLease :: "provider_config \<Rightarrow> bool \<Rightarrow> string \<Rightarrow> provider_db \<Rightarrow> provider_db" where
  "releaseProviderLease pc opens i db = (if i = [] \<or> \<not> opens then db
     else db\<lparr>provider_leases := filter (\<lambda>l. \<not> (pl_id l = i \<and> pl_owner l = pc_instance pc)) (provider_leases db)\<rparr>)"

record lease_heartbeat =
  lh_id :: string
  lh_ttl :: int
  lh_guard :: int
  lh_confirmed :: int
  lh_stopped :: bool
  lh_aborted :: bool

definition startProviderLeaseHeartbeat :: "provider_config \<Rightarrow> provider_lease_row \<Rightarrow> int \<Rightarrow> int \<Rightarrow> lease_heartbeat option" where
  "startProviderLeaseHeartbeat pc l requestedInterval now =
    (if pl_id l = [] then None else
     let eff = max 250 (if pc_leaseMs pc = 0 then 250 else pc_leaseMs pc);
         interval = (if requestedInterval > 0 then max 20 (min requestedInterval (eff div 2))
                     else max 1000 (min (pc_heartbeatMs pc) (eff div 3)))
     in Some \<lparr>lh_id = pl_id l, lh_ttl = eff, lh_guard = max 20 (min interval (eff div 4)),
              lh_confirmed = (if pl_expires l \<noteq> 0 then pl_expires l else now + eff), lh_stopped = False, lh_aborted = False\<rparr>)"

definition lease_lost :: "lease_heartbeat \<Rightarrow> lease_heartbeat" where
  "lease_lost h = (if lh_stopped h \<or> lh_aborted h then h else h\<lparr>lh_aborted := True\<rparr>)"

definition lease_pulse :: "provider_config \<Rightarrow> bool \<Rightarrow> int \<Rightarrow> lease_heartbeat \<Rightarrow> provider_db \<Rightarrow> bool \<times> lease_heartbeat \<times> provider_db" where
  "lease_pulse pc opens now h db =
    (if lh_stopped h \<or> lh_aborted h then (False, h, db)
     else if lh_confirmed h \<le> now then (False, lease_lost h, db)
     else if \<not> opens then
       (if lh_confirmed h - lh_guard h \<le> now then (False, lease_lost h, db) else (True, h, db))
     else let expires = now + lh_ttl h;
              mine = (\<lambda>l. pl_id l = lh_id h \<and> pl_owner l = pc_instance pc \<and> pl_expires l > now \<and> pl_expires l < MAX_SAFE_INTEGER);
              changes = length (filter mine (provider_leases db));
              db' = db\<lparr>provider_leases := map (\<lambda>l. if mine l then l\<lparr>pl_heartbeat := Some now, pl_expires := expires\<rparr> else l) (provider_leases db)\<rparr>
     in if changes = 1 then (True, h\<lparr>lh_confirmed := expires\<rparr>, db') else (False, lease_lost h, db'))"

text \<open>A quarantine keeps the slot: of the lease if it is still there, else by a new row.  The answer is the row's id.\<close>

definition quarantineProviderLease ::
  "provider_config \<Rightarrow> txn_env \<Rightarrow> string \<Rightarrow> provider_lease_row \<Rightarrow> string \<Rightarrow> provider_db \<Rightarrow> (string \<times> bool) option \<times> provider_db" where
  "quarantineProviderLease pc te rnd l containment db =
    (if pl_id l = [] \<or> \<not> te_opens te then (None, db) else
     let now = te_now te;
         live = (\<lambda>r. pl_id r = pl_id l \<and> pl_owner r = pc_instance pc \<and> pl_expires r > now);
         updated = db\<lparr>provider_leases := map (\<lambda>r. if live r
           then r\<lparr>pl_heartbeat := Some now, pl_expires := MAX_SAFE_INTEGER, pl_containment := containment\<rparr> else r) (provider_leases db)\<rparr>;
         newId = pc_instance pc @ ''-quarantine-'' @ rnd;
         row = \<lparr>pl_id = newId, pl_key = or_string (pl_key l) (pc_key pc), pl_owner = pc_instance pc, pl_pid = pc_pid pc,
                pl_created = now, pl_heartbeat = Some now, pl_expires = MAX_SAFE_INTEGER, pl_containment = containment\<rparr>;
         inserted = updated\<lparr>provider_leases :=
           filter (\<lambda>r. \<not> (pl_id r = pl_id l \<and> pl_owner r = pc_instance pc)) (provider_leases updated) @ [row]\<rparr>;
         (answer, db') = (if length (filter live (provider_leases db)) = 1 then ((pl_id l, False), updated) else ((newId, True), inserted))
     in if snd answer \<and> list_ex (\<lambda>r. pl_id r = newId) (provider_leases updated) then (None, db)
        else case te_commit te of Committed \<Rightarrow> (Some answer, db') | CommitLost \<Rightarrow> (None, db) | CommitDurableError \<Rightarrow> (None, db'))"

text \<open>
  \<open>n\<close> quarantined rows are decided before the deadline, an abort or an error ends the pass (none when
  the pass is throttled); rows decided earlier stay deleted.
\<close>

fun reclaim_rows :: "(string \<Rightarrow> int \<Rightarrow> bool) \<Rightarrow> nat \<Rightarrow> provider_lease_row list \<Rightarrow> provider_lease_row list" where
  "reclaim_rows still n [] = []"
| "reclaim_rows still n (l # ls) =
    (if pl_expires l \<noteq> MAX_SAFE_INTEGER \<or> n = 0 then l # reclaim_rows still n ls
     else if still (pl_containment l) (pl_pid l) then l # reclaim_rows still (n - 1) ls
     else reclaim_rows still (n - 1) ls)"

definition reclaimProvenGoneProviderQuarantines :: "(string \<Rightarrow> int \<Rightarrow> bool) \<Rightarrow> nat \<Rightarrow> provider_db \<Rightarrow> provider_db" where
  "reclaimProvenGoneProviderQuarantines still n db = db\<lparr>provider_leases := reclaim_rows still n (provider_leases db)\<rparr>"

section \<open>Pauses\<close>

definition PROVIDER_COOLDOWN_MAX_MS :: int where "PROVIDER_COOLDOWN_MAX_MS = 24 * 60 * 60 * 1000"

definition longer_cooldown :: "cooldown_row \<Rightarrow> cooldown_row list \<Rightarrow> cooldown_row list" where
  "longer_cooldown c rows = (if list_ex (\<lambda>r. cd_key r = cd_key c) rows
     then map (\<lambda>r. if cd_key r = cd_key c then c\<lparr>cd_until := max (cd_until r) (cd_until c)\<rparr> else r) rows
     else rows @ [c])"

definition replace_cooldown :: "cooldown_row \<Rightarrow> cooldown_row list \<Rightarrow> cooldown_row list" where
  "replace_cooldown c rows = (if list_ex (\<lambda>r. cd_key r = cd_key c) rows
     then map (\<lambda>r. if cd_key r = cd_key c then c else r) rows else rows @ [c])"

text \<open>\<open>exact\<close> is 0 when only a duration is given; reasons arrive redacted and cut.\<close>

definition recordProviderCooldown ::
  "bool \<Rightarrow> int \<Rightarrow> string \<Rightarrow> int \<Rightarrow> int \<Rightarrow> string \<Rightarrow> string \<Rightarrow> provider_db \<Rightarrow> bool \<times> provider_db" where
  "recordProviderCooldown opens now k durationMs exact errorT reason db =
    (let exactUntil = (if exact > 0 then exact else 0);
         bounded = min PROVIDER_COOLDOWN_MAX_MS (max 0 (if exactUntil \<noteq> 0 then exactUntil - now else durationMs));
         until = (if exactUntil \<noteq> 0 \<and> exactUntil - now \<le> PROVIDER_COOLDOWN_MAX_MS then exactUntil else now + bounded)
     in if k = [] \<or> bounded \<le> 0 \<or> \<not> opens \<or> until \<le> now then (False, db)
        else (True, db\<lparr>provider_cooldowns := longer_cooldown \<lparr>cd_key = k, cd_until = until,
                cd_error = or_string errorT ''opencode_quota_exhausted'', cd_reason = reason, cd_set = now\<rparr> (provider_cooldowns db)\<rparr>))"

datatype pause_record = PauseOff | PauseReused int int | PauseStrike int int int | PauseFailed

definition put_strike :: "string \<Rightarrow> int \<Rightarrow> int \<Rightarrow> (string \<times> int \<times> int) list \<Rightarrow> (string \<times> int \<times> int) list" where
  "put_strike k n t ss = AList.update k (n, t) ss"

definition recordRateLimitPause :: "provider_config \<Rightarrow> bool \<Rightarrow> int \<Rightarrow> string \<Rightarrow> string \<Rightarrow> provider_db \<Rightarrow> pause_record \<times> provider_db" where
  "recordRateLimitPause pc persists now k reason db =
    (if k = [] \<or> \<not> pc_pauseMs pc > 0 then (PauseOff, db)
     else if \<not> persists then (PauseFailed, db)
     else let base = pc_pauseMs pc; maxMs = max base (pc_pauseMaxMs pc); strike = map_of (pause_strikes db) k in
     case List.find (\<lambda>c. cd_key c = k \<and> cd_until c > now) (provider_cooldowns db) of
       Some c \<Rightarrow> (PauseReused (cd_until c) (case strike of Some (n, _) \<Rightarrow> if n = 0 then 1 else n | None \<Rightarrow> 1), db)
     | None \<Rightarrow>
       let strikes = (case strike of Some (n, lst) \<Rightarrow> if now - lst < 2 * maxMs then n + 1 else 1 | None \<Rightarrow> 1);
           duration = min (min maxMs PROVIDER_COOLDOWN_MAX_MS) (base * 2 ^ nat (min 20 (strikes - 1)));
           until = now + duration
       in (PauseStrike until strikes duration,
           db\<lparr>pause_strikes := put_strike k strikes now (pause_strikes db),
              provider_cooldowns := longer_cooldown \<lparr>cd_key = k, cd_until = until, cd_error = ''provider_rate_limited'',
                cd_reason = reason, cd_set = now\<rparr> (provider_cooldowns db)\<rparr>))"

datatype pause_error = PauseInvalid | PauseNotStored

text \<open>\<open>untilAt\<close> is the parsed ISO time (\<open>Some None\<close> when it does not parse), \<open>minutes\<close> a JSON value; exactly one is given.\<close>

definition pauseProvider :: "provider_config \<Rightarrow> bool \<Rightarrow> int \<Rightarrow> string \<Rightarrow> int option option \<Rightarrow> json option \<Rightarrow> string \<Rightarrow> provider_db
    \<Rightarrow> (pause_error + int) \<times> provider_db" where
  "pauseProvider pc opens now target untilAt minutes reason db =
    (case providerPauseTarget pc target of None \<Rightarrow> (Inl PauseInvalid, db)
     | Some t \<Rightarrow>
       if (untilAt \<noteq> None) = given minutes then (Inl PauseInvalid, db)
       else let end = (case untilAt of
                Some u \<Rightarrow> (case u of Some n \<Rightarrow> if n \<le> now then None else Some n | None \<Rightarrow> None)
              | None \<Rightarrow> (case minutes of Some (JInt m) \<Rightarrow> if m < 1 \<or> m > 24 * 60 then None else Some (now + m * 60000) | _ \<Rightarrow> None))
       in case end of None \<Rightarrow> (Inl PauseInvalid, db)
        | Some e \<Rightarrow> if e - now > PROVIDER_COOLDOWN_MAX_MS then (Inl PauseInvalid, db)
            else if \<not> opens then (Inl PauseNotStored, db)
            else (Inr e, db\<lparr>provider_cooldowns := replace_cooldown \<lparr>cd_key = pt_key t, cd_until = e, cd_error = ''provider_paused'',
                    cd_reason = reason, cd_set = now\<rparr> (provider_cooldowns db)\<rparr>))"

definition under_target :: "pause_target \<Rightarrow> string \<Rightarrow> bool" where
  "under_target t k \<longleftrightarrow> nocase k = nocase (pt_key t) \<or> (pt_modelPrefix t \<noteq> [] \<and> like_prefix (pt_modelPrefix t) k)"

text \<open>The removed pauses; a whole provider also frees the other members of its quota groups.\<close>

definition resumeProvider :: "provider_config \<Rightarrow> bool \<Rightarrow> string \<Rightarrow> provider_db \<Rightarrow> (pause_error + cooldown_row list) \<times> provider_db" where
  "resumeProvider pc persists target db =
    (case providerPauseTarget pc target of None \<Rightarrow> (Inl PauseInvalid, db)
     | Some t \<Rightarrow> if \<not> persists then (Inl PauseNotStored, db) else
       let group = (if pt_model t = [] then filter (\<lambda>k. k \<noteq> pt_key t) (quotaGroupProviderKeys pc (pt_provider t)) else []);
           rest = filter (\<lambda>c. \<not> under_target t (cd_key c)) (provider_cooldowns db)
       in (Inr (filter (\<lambda>c. under_target t (cd_key c)) (provider_cooldowns db)
                @ concat (map (\<lambda>k. filter (\<lambda>c. cd_key c = k) rest) group)),
           db\<lparr>provider_cooldowns := filter (\<lambda>c. cd_key c \<notin> set group) rest,
              pause_strikes := filter (\<lambda>(k, _). \<not> under_target t k) (pause_strikes db)\<rparr>))"

section \<open>Snapshots\<close>

definition own_key :: "provider_config \<Rightarrow> string \<Rightarrow> bool" where
  "own_key pc k \<longleftrightarrow> k = pc_key pc \<or> like_prefix (pc_key pc @ '':'') k"

definition providerPauseSnapshot :: "provider_config \<Rightarrow> int \<Rightarrow> provider_db \<Rightarrow> cooldown_row list" where
  "providerPauseSnapshot pc now db = sort_key cd_key (filter (\<lambda>c. cd_until c > now \<and> own_key pc (cd_key c)) (provider_cooldowns db))"

definition snapshot_leases :: "provider_config \<Rightarrow> int \<Rightarrow> provider_db \<Rightarrow> provider_lease_row list" where
  "snapshot_leases pc now db = sort_key pl_created (filter (\<lambda>l. pl_expires l > now \<and> own_key pc (pl_key l)) (provider_leases db))"

definition capacityFor :: "provider_config \<Rightarrow> runtime_concurrency \<Rightarrow> int \<Rightarrow> provider_db \<Rightarrow> string \<Rightarrow> int" where
  "capacityFor pc rt now db k = (let configured = providerLimitForKey pc rt k in
     case map_of (filter (\<lambda>(k, n). own_key pc k) (provider_capacities db)) k of
       None \<Rightarrow> configured
     | Some stored \<Rightarrow> if stored \<le> 0 \<or> stored = configured then configured
         else if list_ex (\<lambda>l. pl_key l = k) (snapshot_leases pc now db) then min stored configured else configured)"

record key_snapshot =
  ks_key :: string
  ks_capacity :: int
  ks_leases :: int
  ks_quarantined :: int

definition providerCapacitySnapshot :: "provider_config \<Rightarrow> int \<Rightarrow> provider_db \<Rightarrow> int \<times> key_snapshot list \<times> cooldown_row list \<times> int" where
  "providerCapacitySnapshot pc now db =
    (let rt = readRuntimeConcurrencyRows db; leases = snapshot_leases pc now db;
         names = sort (uniq (map fst (filter (\<lambda>(k, n). own_key pc k) (provider_capacities db)) @ map pl_key leases))
     in (capacityFor pc rt now db (pc_key pc),
         map (\<lambda>k. let held = filter (\<lambda>l. pl_key l = k) leases in
           \<lparr>ks_key = k, ks_capacity = capacityFor pc rt now db k, ks_leases = int (length held),
            ks_quarantined = int (length (filter (\<lambda>l. pl_expires l = MAX_SAFE_INTEGER) held))\<rparr>) names,
         providerPauseSnapshot pc now db,
         int (length (filter (\<lambda>l. pl_expires l > now) (provider_leases db)))))"

end
