(* ===== verification/ProviderSafety.thy ===== *)
theory ProviderSafety
  imports ProviderLeases "HOL-Library.Multiset"
begin

text \<open>
  The provider slots: whatever bridge processes do under one configuration, the leases held at a
  time never exceed the limit of their key nor the global cap.  Then the contracts of waits, pauses,
  runtime overrides, heartbeats and quarantines.
\<close>

section \<open>Slots\<close>

lemma length_filter_filter_le: "length (filter P (filter Q xs)) \<le> length (filter P xs)"
  by (induction xs) auto

lemma prune_expired_leases [simp]: "provider_leases (prune_expired db t) = filter (\<lambda>l. t < pl_expires l) (provider_leases db)"
  by (auto simp: prune_expired_def not_le intro!: filter_cong)

interpretation lease_expiry: expiring_store provider_leases pl_expires prune_expired
  by unfold_locales simp

definition live_slots :: "int \<Rightarrow> provider_db \<Rightarrow> (string \<Rightarrow> bool) \<Rightarrow> int" where
  "live_slots t db P = int (length (filter (\<lambda>l. t < pl_expires l \<and> P (pl_key l)) (provider_leases db)))"

lemma held_slots_pruned: "held_slots (prune_expired db t) k = live_slots t db (\<lambda>x. x = k)"
  by (simp add: held_slots_def live_slots_def conj_commute)

lemma all_slots_pruned: "all_slots (prune_expired db t) = live_slots t db (\<lambda>_. True)"
  by (simp add: all_slots_def live_slots_def)

lemma effective_capacity_le: "fst (effective_capacity pc rt db k) \<le> providerLimitForKey pc rt k"
  by (simp add: effective_capacity_def Let_def split: option.split)

lemma latest_cooldown_None [simp]: "latest_cooldown cs = None \<longleftrightarrow> cs = []"
  by (cases cs) (auto split: option.splits)

lemma latest_cooldown_SomeD: "latest_cooldown cs = Some c \<Longrightarrow> c \<in> set cs \<and> (\<forall>d \<in> set cs. cd_until d \<le> cd_until c)"
  by (induction cs arbitrary: c) (force split: option.splits if_splits)+

lemma slot_look_granted:
  assumes "slot_look pc q e db = (SlotGranted l, rt, db')"
  shows "l = new_lease pc q e" "rt = readRuntimeConcurrencyRows (prune_expired db (lo_now e))"
    "provider_leases db' = provider_leases (prune_expired db (lo_now e)) @ [l]" "runtime_settings db' = runtime_settings db"
    "live_slots (lo_now e) db (\<lambda>k. k = sr_key q) < fst (effective_capacity pc rt (prune_expired db (lo_now e)) (sr_key q))"
    "globalWorkerLimit pc rt > 0 \<Longrightarrow> live_slots (lo_now e) db (\<lambda>_. True) < globalWorkerLimit pc rt"
    "\<And>c. c \<in> set (provider_cooldowns db) \<Longrightarrow> cd_key c \<in> set (cooldownKeys q) \<Longrightarrow> cd_until c \<le> lo_now e"
proof -
  let ?db = "prune_expired db (lo_now e)" let ?rt = "readRuntimeConcurrencyRows ?db"
  obtain capacity caps where ec: "effective_capacity pc ?rt ?db (sr_key q) = (capacity, caps)" by fastforce
  have look: "latest_cooldown (filter (\<lambda>c. cd_key c \<in> set (cooldownKeys q)) (provider_cooldowns ?db)) = None"
    "held_slots ?db (sr_key q) < capacity"
    "\<not> globalWorkerLimit pc ?rt > 0 \<or> (if globalWorkerLimit pc ?rt > 0 then all_slots ?db else 0) < globalWorkerLimit pc ?rt"
    "l = new_lease pc q e" "rt = ?rt"
    "db' = ?db\<lparr>provider_capacities := caps, provider_leases := provider_leases ?db @ [l]\<rparr>"
    using assms unfolding slot_look_def Let_def ec prod.case
    by (auto simp del: prune_expired_leases latest_cooldown_None split: option.split_asm if_split_asm)
  show "l = new_lease pc q e" "rt = ?rt" "provider_leases db' = provider_leases ?db @ [l]" by (simp_all add: look(4-6))
  show "runtime_settings db' = runtime_settings db" by (simp add: look(6) prune_expired_def)
  show "live_slots (lo_now e) db (\<lambda>k. k = sr_key q) < fst (effective_capacity pc rt ?db (sr_key q))"
    using look(2) by (simp add: look(5) ec held_slots_pruned)
  show "live_slots (lo_now e) db (\<lambda>_. True) < globalWorkerLimit pc rt" if "globalWorkerLimit pc rt > 0"
    using look(3) that by (simp add: look(5) all_slots_pruned)
  show "cd_until c \<le> lo_now e" if "c \<in> set (provider_cooldowns db)" "cd_key c \<in> set (cooldownKeys q)" for c
    using look(1) that by (force simp: prune_expired_def filter_empty_conv)
qed

lemma slot_look_refused:
  assumes "slot_look pc q e db = (res, rt, db')" "\<And>l. res \<noteq> SlotGranted l"
  shows "set (provider_leases db') \<subseteq> set (provider_leases db)" "runtime_settings db' = runtime_settings db"
    "live_slots t db' P \<le> live_slots t db P"
proof -
  let ?db = "prune_expired db (lo_now e)"
  obtain capacity caps where ec: "effective_capacity pc (readRuntimeConcurrencyRows ?db) ?db (sr_key q) = (capacity, caps)" by fastforce
  let ?l = "new_lease pc q e"
  define undone where "undone = ?db\<lparr>provider_capacities := caps, provider_leases := filter (\<lambda>r. \<not> (pl_id r = pl_id ?l \<and> pl_owner r = pc_instance pc))
      (provider_leases ?db @ [?l])\<rparr>"
  have undo: "(?db\<lparr>provider_capacities := caps, provider_leases := provider_leases ?db @ [?l]\<rparr>)\<lparr>provider_leases :=
      filter (\<lambda>r. \<not> (pl_id r = pl_id ?l \<and> pl_owner r = pc_instance pc))
        (provider_leases (?db\<lparr>provider_capacities := caps, provider_leases := provider_leases ?db @ [?l]\<rparr>))\<rparr> = undone"
    by (simp add: undone_def)
  have "db' = db \<or> db' = undone"
    using assms unfolding slot_look_def Let_def ec prod.case undo
    by (simp split: option.split_asm if_split_asm del: prune_expired_leases latest_cooldown_None) blast
  moreover have "provider_leases undone = filter (\<lambda>r. \<not> (pl_id r = pl_id ?l \<and> pl_owner r = pc_instance pc) \<and> lo_now e < pl_expires r) (provider_leases db)"
    by (simp add: undone_def new_lease_def conj_commute)
  moreover have "runtime_settings undone = runtime_settings db" by (simp add: undone_def prune_expired_def)
  ultimately have "db' = db \<or> runtime_settings db' = runtime_settings db \<and> provider_leases db' =
      filter (\<lambda>r. \<not> (pl_id r = pl_id ?l \<and> pl_owner r = pc_instance pc) \<and> lo_now e < pl_expires r) (provider_leases db)"
    by blast
  then obtain Q where "provider_leases db' = filter Q (provider_leases db)" and s: "runtime_settings db' = runtime_settings db"
  proof
    assume "db' = db" then show ?thesis using that [of "\<lambda>_. True"] by simp
  qed (use that in blast)
  then show "set (provider_leases db') \<subseteq> set (provider_leases db)" "live_slots t db' P \<le> live_slots t db P"
    by (auto simp: live_slots_def length_filter_filter_le simp del: filter_filter)
  show "runtime_settings db' = runtime_settings db" by (rule s)
qed

section \<open>The slot invariant\<close>

text \<open>The limits bound every provider key and, when a global cap is set, all leases together.\<close>

definition slots_bounded :: "provider_config \<Rightarrow> runtime_concurrency \<Rightarrow> int \<times> provider_db \<Rightarrow> bool" where
  "slots_bounded pc rt = (\<lambda>(t, db). readRuntimeConcurrencyRows db = rt
     \<and> (\<forall>k. live_slots t db (\<lambda>x. x = k) \<le> max 0 (providerLimitForKey pc rt k))
     \<and> (globalWorkerLimit pc rt > 0 \<longrightarrow> live_slots t db (\<lambda>_. True) \<le> globalWorkerLimit pc rt))"

lemma limits_of_process [simp]:
  "providerLimitForKey (pc\<lparr>pc_instance := i, pc_pid := p\<rparr>) rt k = providerLimitForKey pc rt k"
  "globalWorkerLimit (pc\<lparr>pc_instance := i, pc_pid := p\<rparr>) rt = globalWorkerLimit pc rt"
  by (simp_all add: providerLimitForKey_def globalWorkerLimit_def providerConcurrencyLimit_def Let_def split: option.split)

lemma settings_rows: "runtime_settings db' = runtime_settings db \<Longrightarrow> readRuntimeConcurrencyRows db' = readRuntimeConcurrencyRows db"
  by (simp add: readRuntimeConcurrencyRows_def)

text \<open>The limits stay and no selection of live leases grows.\<close>

definition fewer_slots :: "int \<times> provider_db \<Rightarrow> int \<times> provider_db \<Rightarrow> bool" where
  "fewer_slots = (\<lambda>(t, db) (t', db'). runtime_settings db' = runtime_settings db \<and> (\<forall>P. live_slots t' db' P \<le> live_slots t db P))"

lemma fewer_slotsI: "runtime_settings db' = runtime_settings db \<Longrightarrow> (\<And>P. live_slots t' db' P \<le> live_slots t db P) \<Longrightarrow> fewer_slots (t, db) (t', db')"
  by (simp add: fewer_slots_def)

lemma fewer_slots_same: "provider_leases db' = provider_leases db \<Longrightarrow> runtime_settings db' = runtime_settings db \<Longrightarrow> fewer_slots (t, db) (t, db')"
  by (simp add: fewer_slots_def live_slots_def)

lemma bounded_fewer:
  assumes "slots_bounded pc rt s" "fewer_slots s s'"
  shows "slots_bounded pc rt s'"
proof -
  obtain t db t' db' where s: "s = (t, db)" "s' = (t', db')" by fastforce
  have "runtime_settings db' = runtime_settings db" and le: "live_slots t' db' P \<le> live_slots t db P" for P
    using assms(2) by (simp_all add: s fewer_slots_def)
  then have same: "readRuntimeConcurrencyRows db' = readRuntimeConcurrencyRows db" by (intro settings_rows)
  have "readRuntimeConcurrencyRows db' = rt" using assms(1) same by (simp add: s slots_bounded_def)
  moreover have "live_slots t' db' (\<lambda>x. x = k) \<le> max 0 (providerLimitForKey pc rt k)" for k
    by (rule order_trans [OF le]) (use assms(1) in \<open>simp add: s slots_bounded_def\<close>)
  moreover have "live_slots t' db' (\<lambda>_. True) \<le> globalWorkerLimit pc rt" if "globalWorkerLimit pc rt > 0"
    by (rule order_trans [OF le]) (use assms(1) that in \<open>simp add: s slots_bounded_def\<close>)
  ultimately show ?thesis by (simp add: s slots_bounded_def)
qed

lemma length_filter_map_le:
  "(\<And>x. x \<in> set xs \<Longrightarrow> P (f x) \<Longrightarrow> Q x) \<Longrightarrow> length (filter P (map f xs)) \<le> length (filter Q xs)"
  by (induction xs) (auto intro: le_SucI)

lemma live_slots_map:
  assumes "provider_leases db' = map f (provider_leases db)"
    and "\<And>l. l \<in> set (provider_leases db) \<Longrightarrow> pl_key (f l) = pl_key l \<and> (t < pl_expires (f l) \<longrightarrow> t < pl_expires l)"
  shows "live_slots t db' P \<le> live_slots t db P"
  unfolding live_slots_def assms(1) of_nat_le_iff by (rule length_filter_map_le) (use assms(2) in force)

lemma live_slots_filter: "provider_leases db' = filter Q (provider_leases db) \<Longrightarrow> live_slots t db' P \<le> live_slots t db P"
  unfolding live_slots_def by (simp add: length_filter_filter_le del: filter_filter)

lemma reclaim_rows_fewer: "length (filter P (reclaim_rows still n ls)) \<le> length (filter P ls)"
  by (induction still n ls rule: reclaim_rows.induct) auto

lemma reclaim_rows_keeps: "l \<in> set ls \<Longrightarrow> still (pl_containment l) (pl_pid l) \<Longrightarrow> l \<in> set (reclaim_rows still n ls)"
  by (induction still n ls rule: reclaim_rows.induct) auto

lemma filter_mono_length: "(\<And>x. P x \<Longrightarrow> Q x) \<Longrightarrow> length (filter P xs) \<le> length (filter Q xs)"
  using length_filter_map_le [of xs P "\<lambda>x. x" Q] by simp

lemma live_slots_later: "t \<le> t' \<Longrightarrow> live_slots t' db P \<le> live_slots t db P"
  unfolding live_slots_def of_nat_le_iff by (rule filter_mono_length) auto

lemma grant_bounded:
  assumes "slots_bounded pc rt (lo_now e, db)" "slot_look (pc\<lparr>pc_instance := i, pc_pid := p\<rparr>) q e db = (SlotGranted l, rt', db')"
  shows "slots_bounded pc rt (lo_now e, db')"
proof -
  let ?t = "lo_now e" let ?pc = "pc\<lparr>pc_instance := i, pc_pid := p\<rparr>"
  note g = slot_look_granted [OF assms(2)]
  have rt: "readRuntimeConcurrencyRows db = rt" using assms(1) by (simp add: slots_bounded_def)
  then have rt': "rt' = rt" using g(2) settings_rows [of "prune_expired db ?t" db] by (simp add: prune_expired_def)
  have count: "live_slots ?t db' P \<le> live_slots ?t db P + (if P (sr_key q) then 1 else 0)" for P
  proof -
    have "length (filter (\<lambda>l. ?t < pl_expires l \<and> P (pl_key l)) (provider_leases db'))
        \<le> length (filter (\<lambda>l. ?t < pl_expires l \<and> P (pl_key l)) (filter (\<lambda>l. ?t < pl_expires l) (provider_leases db)))
          + (if P (sr_key q) then 1 else 0)"
      unfolding g(3) g(1) by (simp add: new_lease_def)
    also have "\<dots> \<le> length (filter (\<lambda>l. ?t < pl_expires l \<and> P (pl_key l)) (provider_leases db)) + (if P (sr_key q) then 1 else 0)"
      using length_filter_filter_le by (rule add_right_mono)
    finally show ?thesis by (auto simp: live_slots_def split: if_split_asm)
  qed
  have k: "live_slots ?t db' (\<lambda>x. x = k) \<le> max 0 (providerLimitForKey pc rt k)" for k
  proof (cases "k = sr_key q")
    case True
    have "live_slots ?t db (\<lambda>x. x = sr_key q) < providerLimitForKey pc rt (sr_key q)"
      using g(5) effective_capacity_le [of ?pc rt "prune_expired db ?t" "sr_key q"] by (simp add: rt')
    with True count [of "\<lambda>x. x = k"] show ?thesis by simp
  next
    case False
    have "live_slots ?t db (\<lambda>x. x = k) \<le> max 0 (providerLimitForKey pc rt k)" using assms(1) by (simp add: slots_bounded_def)
    with False count [of "\<lambda>x. x = k"] show ?thesis by auto
  qed
  have "live_slots ?t db' (\<lambda>_. True) \<le> globalWorkerLimit pc rt" if "globalWorkerLimit pc rt > 0"
    using g(6) count [of "\<lambda>_. True"] that by (simp add: rt')
  then show ?thesis using k rt settings_rows [OF g(4)] by (simp add: slots_bounded_def)
qed

lemma lease_pulse_rows:
  assumes "lease_pulse pc opens now h db = (ok, h', db')"
  obtains f where "provider_leases db' = map f (provider_leases db)" "runtime_settings db' = runtime_settings db"
    "\<And>l. f l \<noteq> l \<Longrightarrow> pl_id l = lh_id h \<and> pl_owner l = pc_instance pc \<and> now < pl_expires l \<and> pl_expires l < MAX_SAFE_INTEGER
       \<and> f l = l\<lparr>pl_heartbeat := Some now, pl_expires := now + lh_ttl h\<rparr>"
proof -
  define mine where "mine l \<longleftrightarrow> pl_id l = lh_id h \<and> pl_owner l = pc_instance pc \<and> pl_expires l > now \<and> pl_expires l < MAX_SAFE_INTEGER"
    for l :: provider_lease_row
  define f where "f l = (if mine l then l\<lparr>pl_heartbeat := Some now, pl_expires := now + lh_ttl h\<rparr> else l)" for l
  have "db' = db \<or> db' = db\<lparr>provider_leases := map f (provider_leases db)\<rparr>"
    using assms unfolding lease_pulse_def Let_def mine_def [symmetric] f_def [abs_def, symmetric]
    by (auto split: if_split_asm)
  then show ?thesis
  proof
    assume "db' = db" then show ?thesis by (intro that [of "\<lambda>l. l"]) simp_all
  next
    assume "db' = db\<lparr>provider_leases := map f (provider_leases db)\<rparr>"
    then show ?thesis by (intro that [of f]) (auto simp: f_def mine_def split: if_split_asm)
  qed
qed

text \<open>
  One step of any bridge process under one configuration (only instance and process ids differ), or
  the passing of time.  A quarantined lease must still be held, and the stored limits stay.
\<close>

inductive slot_step :: "provider_config \<Rightarrow> int \<times> provider_db \<Rightarrow> int \<times> provider_db \<Rightarrow> bool" for pc where
  tick: "t \<le> t' \<Longrightarrow> slot_step pc (t, db) (t', db)"
| look: "slot_look (pc\<lparr>pc_instance := i, pc_pid := p\<rparr>) q e db = (res, rt, db') \<Longrightarrow> lo_now e = t \<Longrightarrow> slot_step pc (t, db) (t, db')"
| release: "slot_step pc (t, db) (t, releaseProviderLease (pc\<lparr>pc_instance := i, pc_pid := p\<rparr>) opens l db)"
| heartbeat: "lease_pulse (pc\<lparr>pc_instance := i, pc_pid := p\<rparr>) opens t h db = (ok, h', db') \<Longrightarrow> slot_step pc (t, db) (t, db')"
| reclaim: "slot_step pc (t, db) (t, reclaimProvenGoneProviderQuarantines still n db)"
| quarantine: "quarantineProviderLease (pc\<lparr>pc_instance := i, pc_pid := p\<rparr>) te rnd l containment db = (Some (m, False), db') \<Longrightarrow>
    te_now te = t \<Longrightarrow> slot_step pc (t, db) (t, db')"
| pause: "recordProviderCooldown opens t k d x er why db = (ok, db') \<Longrightarrow> slot_step pc (t, db) (t, db')"
| strike: "recordRateLimitPause (pc\<lparr>pc_instance := i, pc_pid := p\<rparr>) persists t k why db = (r, db') \<Longrightarrow> slot_step pc (t, db) (t, db')"
| operator_pause: "pauseProvider pc opens t target u m why db = (a, db') \<Longrightarrow> slot_step pc (t, db) (t, db')"
| operator_resume: "resumeProvider pc persists target db = (b, db') \<Longrightarrow> slot_step pc (t, db) (t, db')"

inductive_cases slot_stepE: "slot_step pc s s'"

lemma quarantine_live_rows:
  assumes "quarantineProviderLease pc te rnd l containment db = (Some (m, False), db')"
  obtains f where "provider_leases db' = map f (provider_leases db)" "runtime_settings db' = runtime_settings db"
    "\<And>r. pl_key (f r) = pl_key r \<and> (te_now te < pl_expires (f r) \<longrightarrow> te_now te < pl_expires r)"
proof -
  define live where "live r \<longleftrightarrow> pl_id r = pl_id l \<and> pl_owner r = pc_instance pc \<and> pl_expires r > te_now te" for r :: provider_lease_row
  define f where "f r = (if live r then r\<lparr>pl_heartbeat := Some (te_now te), pl_expires := MAX_SAFE_INTEGER, pl_containment := containment\<rparr> else r)" for r
  have "db' = db \<or> db' = db\<lparr>provider_leases := map f (provider_leases db)\<rparr>"
    using assms unfolding quarantineProviderLease_def Let_def live_def [symmetric] f_def [abs_def, symmetric]
    by (auto split: if_split_asm commit_outcome.split_asm)
  then show ?thesis
  proof
    assume "db' = db" then show ?thesis by (intro that [of "\<lambda>r. r"]) simp_all
  next
    assume "db' = db\<lparr>provider_leases := map f (provider_leases db)\<rparr>"
    then show ?thesis by (intro that [of f]) (auto simp: f_def live_def)
  qed
qed

lemma cooldown_op_keeps [simp]:
  "provider_leases (snd (recordProviderCooldown opens t k d x er why db)) = provider_leases db"
  "runtime_settings (snd (recordProviderCooldown opens t k d x er why db)) = runtime_settings db"
  by (simp_all add: recordProviderCooldown_def Let_def)

lemma strike_op_keeps [simp]:
  "provider_leases (snd (recordRateLimitPause pc persists t k why db)) = provider_leases db"
  "runtime_settings (snd (recordRateLimitPause pc persists t k why db)) = runtime_settings db"
  by (simp_all add: recordRateLimitPause_def Let_def split: option.split)

lemma pause_op_keeps [simp]:
  "provider_leases (snd (pauseProvider pc opens t target u m why db)) = provider_leases db"
  "runtime_settings (snd (pauseProvider pc opens t target u m why db)) = runtime_settings db"
  unfolding pauseProvider_def Let_def by (auto split: option.split)

lemma resume_op_keeps [simp]:
  "provider_leases (snd (resumeProvider pc persists target db)) = provider_leases db"
  "runtime_settings (snd (resumeProvider pc persists target db)) = runtime_settings db"
  by (simp_all add: resumeProvider_def Let_def split: option.split)

definition grants :: "provider_config \<Rightarrow> int \<times> provider_db \<Rightarrow> int \<times> provider_db \<Rightarrow> bool" where
  "grants pc = (\<lambda>(t, db) (t', db'). t' = t \<and> (\<exists>i p q e l rt. lo_now e = t \<and>
     slot_look (pc\<lparr>pc_instance := i, pc_pid := p\<rparr>) q e db = (SlotGranted l, rt, db')))"

lemma slot_step_cases: "slot_step pc s s' \<Longrightarrow> fewer_slots s s' \<or> grants pc s s'"
proof (induction rule: slot_step.induct)
  case (tick t t' db)
  then have "fewer_slots (t, db) (t', db)" by (simp add: fewer_slots_def live_slots_later)
  then show ?case by simp
next
  case (look i p q e db res r db' t)
  show ?case
  proof (cases "\<exists>l. res = SlotGranted l")
    case True with look show ?thesis unfolding grants_def by auto
  next
    case False
    then have "\<And>l. res \<noteq> SlotGranted l" by blast
    note refused = slot_look_refused [OF look(1) this]
    then have "fewer_slots (t, db) (t, db')" by (intro fewer_slotsI)
    then show ?thesis by simp
  qed
next
  case (release t db p i opens l)
  have "fewer_slots (t, db) (t, releaseProviderLease (pc\<lparr>pc_instance := i, pc_pid := p\<rparr>) opens l db)"
    by (rule fewer_slotsI) (auto simp: releaseProviderLease_def intro!: live_slots_filter)
  then show ?case by simp
next
  case (heartbeat i p opens t h db ok h' db')
  obtain f where f: "provider_leases db' = map f (provider_leases db)" "runtime_settings db' = runtime_settings db"
    "\<And>l. f l \<noteq> l \<Longrightarrow> t < pl_expires l \<and> f l = l\<lparr>pl_heartbeat := Some t, pl_expires := t + lh_ttl h\<rparr>"
    using lease_pulse_rows [OF heartbeat(1)] by metis
  have "pl_key (f l) = pl_key l \<and> (t < pl_expires (f l) \<longrightarrow> t < pl_expires l)" for l
    using f(3) [of l] by (cases "f l = l") simp_all
  then have "fewer_slots (t, db) (t, db')" by (intro fewer_slotsI [OF f(2)] live_slots_map [OF f(1)])
  then show ?case by simp
next
  case (reclaim t db still n)
  have "fewer_slots (t, db) (t, reclaimProvenGoneProviderQuarantines still n db)"
    by (rule fewer_slotsI) (simp_all add: reclaimProvenGoneProviderQuarantines_def live_slots_def reclaim_rows_fewer)
  then show ?case by simp
next
  case (quarantine i p te rnd l containment db m db' t)
  obtain f where f: "provider_leases db' = map f (provider_leases db)" "runtime_settings db' = runtime_settings db"
    "\<And>r. pl_key (f r) = pl_key r \<and> (te_now te < pl_expires (f r) \<longrightarrow> te_now te < pl_expires r)"
    using quarantine_live_rows [OF quarantine(1)] by metis
  have "fewer_slots (t, db) (t, db')" using quarantine(2) f(3) by (intro fewer_slotsI [OF f(2)] live_slots_map [OF f(1)]) simp
  then show ?case by simp
next
  case (pause opens t k d x er why db ok db')
  have "fewer_slots (t, db) (t, db')" by (rule fewer_slots_same) (simp_all add: pause(1) [symmetric, THEN arg_cong [of _ _ snd], simplified])
  then show ?case by simp
next
  case (strike i p persists t k why db r db')
  have "fewer_slots (t, db) (t, db')" by (rule fewer_slots_same) (simp_all add: strike(1) [symmetric, THEN arg_cong [of _ _ snd], simplified])
  then show ?case by simp
next
  case (operator_pause opens t target u m why db a db')
  have "fewer_slots (t, db) (t, db')" by (rule fewer_slots_same) (simp_all add: operator_pause(1) [symmetric, THEN arg_cong [of _ _ snd], simplified])
  then show ?case by simp
next
  case (operator_resume persists target db b db' t)
  have "fewer_slots (t, db) (t, db')" by (rule fewer_slots_same) (simp_all add: operator_resume(1) [symmetric, THEN arg_cong [of _ _ snd], simplified])
  then show ?case by simp
qed

lemma slot_step_bounded: "slot_step pc s s' \<Longrightarrow> slots_bounded pc rt s \<Longrightarrow> slots_bounded pc rt s'"
  using slot_step_cases [of pc s s'] bounded_fewer [of pc rt s s'] grant_bounded [of pc rt] unfolding grants_def by fastforce

text \<open>C7: Whatever bridge processes of one configuration do from an empty lease table (looks, releases,
  heartbeats, reclaims, quarantines of held leases, pauses, time), the live leases of a key never
  exceed its limit nor all together the global cap.\<close>

theorem provider_slots_bounded:
  assumes "(slot_step pc)\<^sup>*\<^sup>* (t0, db0) (t, db)" "provider_leases db0 = []"
  shows "live_slots t db (\<lambda>x. x = k) \<le> max 0 (providerLimitForKey pc (readRuntimeConcurrencyRows db0) k)
    \<and> (globalWorkerLimit pc (readRuntimeConcurrencyRows db0) > 0 \<longrightarrow>
         live_slots t db (\<lambda>_. True) \<le> globalWorkerLimit pc (readRuntimeConcurrencyRows db0))"
proof -
  have "slots_bounded pc (readRuntimeConcurrencyRows db0) (t, db)"
    using assms(1)
  proof (induction rule: rtranclp_induct2)
    case refl then show ?case by (simp add: slots_bounded_def live_slots_def assms(2))
  next
    case (step t1 db1 t2 db2) then show ?case by (blast intro: slot_step_bounded)
  qed
  then show ?thesis by (simp add: slots_bounded_def)
qed

section \<open>The wait\<close>

text \<open>A wait for a provider slot has ended with a result as soon as a turn of its loop starts at or
  after the deadline, whatever the database and other processes did.\<close>

theorem wait_ends_at_deadline:
  assumes "\<exists>t \<in> set ts. deadline \<le> wt_head t"
  shows "fst (waitForProviderLease pc q deadline ts db) \<noteq> None"
  using assms
proof (induction ts arbitrary: db)
  case (Cons t ts)
  show ?case
  proof (cases "wt_head t < deadline")
    case True
    with Cons.prems have "\<exists>t \<in> set ts. deadline \<le> wt_head t" by auto
    then have IH: "fst (waitForProviderLease pc q deadline ts db') \<noteq> None" for db' by (rule Cons.IH)
    then show ?thesis
      by (auto simp: Let_def after_delay_def split: option.split look_error.split look_outcome.split prod.split)
        (metis fst_conv)+
  qed (simp add: Let_def)
qed simp

section \<open>Runtime overrides\<close>

definition limits_in_range :: "runtime_concurrency \<Rightarrow> bool" where
  "limits_in_range rt \<longleftrightarrow>
     (\<forall>n \<in> set_option (rt_provider rt) \<union> set_option (rt_queue rt) \<union> snd ` set (rt_perProvider rt). 1 \<le> n \<and> n \<le> MAX_RUNTIME_CONCURRENCY_LIMIT)
     \<and> (\<forall>n \<in> set_option (rt_global rt). 0 \<le> n \<and> n \<le> MAX_GLOBAL_WORKER_LIMIT)"

lemma limits_in_range_iff: "limits_in_range rt \<longleftrightarrow>
  (\<forall>n \<in> set_option (rt_provider rt). 1 \<le> n \<and> n \<le> MAX_RUNTIME_CONCURRENCY_LIMIT)
  \<and> (\<forall>n \<in> set_option (rt_queue rt). 1 \<le> n \<and> n \<le> MAX_RUNTIME_CONCURRENCY_LIMIT)
  \<and> (\<forall>n \<in> snd ` set (rt_perProvider rt). 1 \<le> n \<and> n \<le> MAX_RUNTIME_CONCURRENCY_LIMIT)
  \<and> (\<forall>n \<in> set_option (rt_global rt). 0 \<le> n \<and> n \<le> MAX_GLOBAL_WORKER_LIMIT)"
  unfolding limits_in_range_def ball_Un by simp

lemma snd_update_subset: "snd ` set (AList.update k v xs) \<subseteq> insert v (snd ` set xs)"
  by (induction xs) auto

lemma read_setting_in_range:
  assumes "limits_in_range rt"
  shows "limits_in_range (read_setting r rt)"
proof -
  let ?v = "st_value r"
  have v: "1 \<le> ?v \<and> ?v \<le> MAX_RUNTIME_CONCURRENCY_LIMIT" if "\<not> runtimeConcurrencyLimitError (JInt ?v)"
    using that by (simp add: runtimeConcurrencyLimitError_def)
  have g: "0 \<le> ?v \<and> ?v \<le> MAX_GLOBAL_WORKER_LIMIT" if "\<not> globalWorkerLimitError (JInt ?v)"
    using that by (simp add: globalWorkerLimitError_def)
  have u: "limits_in_range (rt\<lparr>rt_perProvider := AList.update k ?v (rt_perProvider rt)\<rparr>)" if ok: "\<not> runtimeConcurrencyLimitError (JInt ?v)" for k
  proof -
    have "1 \<le> n \<and> n \<le> MAX_RUNTIME_CONCURRENCY_LIMIT" if "n \<in> snd ` set (AList.update k ?v (rt_perProvider rt))" for n
    proof (cases "n = ?v")
      case False
      have "n \<in> insert ?v (snd ` set (rt_perProvider rt))" by (rule subsetD [OF snd_update_subset that])
      with False have "n \<in> snd ` set (rt_perProvider rt)" by simp
      then show ?thesis using assms unfolding limits_in_range_iff by blast
    qed (use v [OF ok] in simp)
    then show ?thesis using assms by (simp add: limits_in_range_iff)
  qed
  show ?thesis
  proof (cases "runtimeConcurrencyLimitError (JInt ?v)")
    case True
    then show ?thesis using assms g by (simp add: read_setting_def Let_def limits_in_range_iff)
  next
    case False
    have own: "limits_in_range (rt\<lparr>rt_provider := Some ?v\<rparr>)" "limits_in_range (rt\<lparr>rt_queue := Some ?v\<rparr>)"
      using assms v [OF False] by (simp_all add: limits_in_range_iff)
    have glob: "\<not> globalWorkerLimitError (JInt ?v) \<Longrightarrow> limits_in_range (rt\<lparr>rt_global := Some ?v\<rparr>)"
      using assms g by (simp add: limits_in_range_iff)
    show ?thesis unfolding read_setting_def Let_def by (simp only: split: if_split) (use assms u [OF False] own glob in blast)
  qed
qed

lemma fold_settings_in_range: "limits_in_range rt \<Longrightarrow> limits_in_range (fold read_setting rs rt)"
  by (induction rs arbitrary: rt) (simp_all add: read_setting_in_range)

text \<open>C33: The runtime limits read from the database are within 1..32 (0..64 for the global cap), whatever
  rows the table holds.\<close>

theorem stored_limits_in_range: "limits_in_range (readRuntimeConcurrencyRows db)"
  unfolding readRuntimeConcurrencyRows_def by (rule fold_settings_in_range) (simp add: limits_in_range_iff no_overrides_def)

lemma read_no_override_rows: "filter override_row (runtime_settings db) = [] \<Longrightarrow> readRuntimeConcurrencyRows db = no_overrides"
  by (simp add: readRuntimeConcurrencyRows_def)

lemma override_names [simp]:
  "override_row r = (st_name r = RUNTIME_PROVIDER_LIMIT_SETTING \<or> st_name r = RUNTIME_QUEUE_LIMIT_SETTING
     \<or> st_name r = RUNTIME_GLOBAL_LIMIT_SETTING \<or> like_prefix RUNTIME_PER_PROVIDER_LIMIT_PREFIX (st_name r))"
  by (auto simp: override_row_def)

lemma setting_names_distinct:
  "RUNTIME_PROVIDER_LIMIT_SETTING \<noteq> RUNTIME_QUEUE_LIMIT_SETTING" "RUNTIME_PROVIDER_LIMIT_SETTING \<noteq> RUNTIME_GLOBAL_LIMIT_SETTING"
  "\<not> starts_with RUNTIME_PER_PROVIDER_LIMIT_PREFIX RUNTIME_PROVIDER_LIMIT_SETTING"
  by code_simp+

lemma read_setting_provider:
  "rt_provider (read_setting r rt) = (if st_name r = RUNTIME_PROVIDER_LIMIT_SETTING \<and> \<not> runtimeConcurrencyLimitError (JInt (st_value r))
     then Some (st_value r) else rt_provider rt)"
  using setting_names_distinct by (auto simp: read_setting_def Let_def)

lemma fold_settings_provider:
  assumes "\<And>r. r \<in> set rs \<Longrightarrow> st_name r = RUNTIME_PROVIDER_LIMIT_SETTING \<Longrightarrow> st_value r = n" "\<not> runtimeConcurrencyLimitError (JInt n)"
  shows "rt_provider (fold read_setting rs rt) =
    (if \<exists>r \<in> set rs. st_name r = RUNTIME_PROVIDER_LIMIT_SETTING then Some n else rt_provider rt)"
  using assms by (induction rs arbitrary: rt) (auto simp: read_setting_provider)

lemma upsert_setting_rows:
  "(\<forall>r \<in> set (upsert_setting n v now rows). st_name r = n \<longrightarrow> st_value r = v) \<and> (\<exists>r \<in> set (upsert_setting n v now rows). st_name r = n)"
  by (auto simp: upsert_setting_def list_ex_iff bex_Un)

text \<open>C34: Setting a valid provider limit makes it the limit in force at once, drops the stored capacities
  when it changed, and a reset returns every limit to the environment value.\<close>

theorem set_and_reset_provider_limit:
  assumes "1 \<le> n" "n \<le> MAX_RUNTIME_CONCURRENCY_LIMIT"
  defines "q \<equiv> \<lparr>cr_provider = Some (JInt n), cr_queue = None, cr_global = None, cr_perProvider = None, cr_reset = False\<rparr>"
  shows "\<exists>rt1 db1 db2. setRuntimeConcurrency pc True now q (rt, db) = (ConcurrencySet, rt1, db1)
    \<and> providerConcurrencyLimit pc rt1 = n \<and> readRuntimeConcurrencyRows db1 = rt1
    \<and> (providerConcurrencyLimit pc (readRuntimeConcurrencyRows db) \<noteq> n \<longrightarrow> provider_capacities db1 = [])
    \<and> setRuntimeConcurrency pc True now' (q\<lparr>cr_provider := None, cr_reset := True\<rparr>) (rt1, db1) = (ConcurrencySet, no_overrides, db2)
    \<and> providerConcurrencyLimit pc no_overrides = pc_envProvider pc"
proof -
  let ?rows = "upsert_setting RUNTIME_PROVIDER_LIMIT_SETTING n now (runtime_settings db)"
  let ?db = "db\<lparr>runtime_settings := ?rows\<rparr>"
  let ?rt = "readRuntimeConcurrencyRows ?db"
  have ok: "\<not> runtimeConcurrencyLimitError (JInt n)" using assms by (simp add: runtimeConcurrencyLimitError_def)
  have "rt_provider ?rt = Some n"
    unfolding readRuntimeConcurrencyRows_def
    by (subst fold_settings_provider [of _ n]) (use ok upsert_setting_rows [of RUNTIME_PROVIDER_LIMIT_SETTING n now "runtime_settings db"] in auto)
  then have limit: "providerConcurrencyLimit pc ?rt = n" by (simp add: providerConcurrencyLimit_def)
  have settings: "readRuntimeConcurrencyRows (?db\<lparr>provider_capacities := c\<rparr>) = ?rt" for c
    by (simp add: readRuntimeConcurrencyRows_def)
  have set1: "setRuntimeConcurrency pc True now q (rt, db)
      = (ConcurrencySet, ?rt, ?db\<lparr>provider_capacities := kept_capacities pc (readRuntimeConcurrencyRows db) ?rt (provider_capacities db)\<rparr>)"
    using ok by (simp add: setRuntimeConcurrency_def q_def concurrency_request_invalid_def given_def given_limits_def Let_def
        stored_settings_def limit_entries_def put_limit_def)
  have "\<exists>db2. setRuntimeConcurrency pc True now' (q\<lparr>cr_provider := None, cr_reset := True\<rparr>) (r, d) = (ConcurrencySet, no_overrides, db2)" for r d
    by (simp add: setRuntimeConcurrency_def q_def concurrency_request_invalid_def given_def given_limits_def Let_def
        stored_settings_def read_no_override_rows del: override_names)
  then show ?thesis using set1 limit settings by (auto simp: kept_capacities_def providerConcurrencyLimit_def no_overrides_def)
qed

section \<open>Heartbeats\<close>

text \<open>An event is whether the database opens and the time of the pulse.\<close>

definition lease_renew :: "provider_config \<Rightarrow> bool \<times> int \<Rightarrow> lease_heartbeat \<Rightarrow> provider_db \<Rightarrow> bool \<times> lease_heartbeat \<times> provider_db" where
  "lease_renew pc e h db = lease_pulse pc (fst e) (snd e) h db"

definition lease_ended :: "lease_heartbeat \<Rightarrow> bool" where
  "lease_ended h \<longleftrightarrow> lh_stopped h \<or> lh_aborted h"

lemma lease_lost_ended: "lease_ended (lease_lost h)"
  by (simp add: lease_ended_def lease_lost_def)

interpretation lease_heartbeats: renewal "lease_renew pc" "snd :: bool \<times> int \<Rightarrow> int" lease_ended lh_confirmed for pc
proof unfold_locales
  fix h db and e :: "bool \<times> int"
  show "lease_ended h \<Longrightarrow> lease_renew pc e h db = (False, h, db)"
    by (auto simp: lease_renew_def lease_pulse_def lease_ended_def)
next
  fix h db and e :: "bool \<times> int"
  assume "lh_confirmed h \<le> snd e" "\<not> lease_ended h"
  then show "\<exists>h'. lease_renew pc e h db = (False, h', db) \<and> lease_ended h'"
    by (simp add: lease_renew_def lease_pulse_def lease_ended_def lease_lost_def)
next
  fix h db h' db' and e :: "bool \<times> int"
  assume "lease_renew pc e h db = (False, h', db')"
  then show "lease_ended h'"
    by (auto simp: lease_renew_def lease_pulse_def Let_def lease_lost_ended lease_ended_def [of h, symmetric] split: if_split_asm)
qed

section \<open>Pauses\<close>

lemma longer_cooldown_keys: "c \<in> set (longer_cooldown d rows) \<Longrightarrow> c = d \<or> c \<in> set rows \<or> cd_key c = cd_key d"
  by (auto simp: longer_cooldown_def split: if_split_asm)

lemma longer_cooldown_has:
  "\<exists>c \<in> set (longer_cooldown d rows). cd_key c = cd_key d \<and> cd_until d \<le> cd_until c"
  by (auto simp: longer_cooldown_def list_ex_iff bex_Un image_iff)

lemma longer_cooldown_never_shortens:
  assumes "c \<in> set rows"
  shows "\<exists>c' \<in> set (longer_cooldown d rows). cd_key c' = cd_key c \<and> cd_until c \<le> cd_until c'"
proof (cases "cd_key c = cd_key d")
  case True
  let ?f = "\<lambda>r. if cd_key r = cd_key d then d\<lparr>cd_until := max (cd_until r) (cd_until d)\<rparr> else r"
  have "longer_cooldown d rows = map ?f rows" using assms True by (auto simp: longer_cooldown_def list_ex_iff)
  moreover have "?f c \<in> set (map ?f rows)" using assms by simp
  ultimately show ?thesis using True by (intro bexI [of _ "?f c"]) auto
next
  case False
  with assms show ?thesis by (intro bexI [of _ c]) (auto simp: longer_cooldown_def image_iff)
qed

lemma look_while_paused:
  assumes "c \<in> set (provider_cooldowns db)" "cd_key c \<in> set (cooldownKeys q)" "lo_now e < cd_until c"
  shows "\<exists>d rt. slot_look pc q e db = (SlotPaused d, rt, db) \<and> cd_until c \<le> cd_until d \<and> cd_key d \<in> set (cooldownKeys q)"
proof -
  let ?cs = "filter (\<lambda>c. cd_key c \<in> set (cooldownKeys q)) (provider_cooldowns (prune_expired db (lo_now e)))"
  have mem: "c \<in> set ?cs" using assms by (simp add: prune_expired_def)
  then have "?cs \<noteq> []" by (auto simp only: list.set empty_iff)
  then obtain d where d: "latest_cooldown ?cs = Some d" by (cases "latest_cooldown ?cs") (simp_all only: latest_cooldown_None)
  have "cd_until c \<le> cd_until d" "cd_key d \<in> set (cooldownKeys q)" using mem latest_cooldown_SomeD [OF d] by auto
  then show ?thesis by (simp add: slot_look_def Let_def d)
qed

text \<open>After a cooldown is recorded on a key, every look for a slot that checks the key is refused as
  paused until its end, and no stored cooldown is shortened.\<close>

theorem pause_blocks_slots:
  assumes "recordProviderCooldown True now k durationMs 0 x why db = (True, db')"
    and "k \<in> set (cooldownKeys q)" "lo_now e < now + min PROVIDER_COOLDOWN_MAX_MS durationMs"
  shows "(\<exists>d rt. slot_look pc q e db' = (SlotPaused d, rt, db') \<and> now + min PROVIDER_COOLDOWN_MAX_MS durationMs \<le> cd_until d)
    \<and> (\<forall>c \<in> set (provider_cooldowns db). \<exists>c' \<in> set (provider_cooldowns db'). cd_key c' = cd_key c \<and> cd_until c \<le> cd_until c')"
proof -
  define until where "until = now + min PROVIDER_COOLDOWN_MAX_MS (max 0 durationMs)"
  define row where "row = \<lparr>cd_key = k, cd_until = until, cd_error = or_string x ''opencode_quota_exhausted'', cd_reason = why, cd_set = now\<rparr>"
  have db': "db' = db\<lparr>provider_cooldowns := longer_cooldown row (provider_cooldowns db)\<rparr>" and pos: "0 < durationMs"
    using assms(1) by (auto simp: recordProviderCooldown_def Let_def row_def until_def min_def max_def split: if_split_asm)
  obtain c where c: "c \<in> set (provider_cooldowns db')" "cd_key c = k" "until \<le> cd_until c"
    using longer_cooldown_has [of row "provider_cooldowns db"] by (auto simp: db' row_def)
  have until: "until = now + min PROVIDER_COOLDOWN_MAX_MS durationMs" using pos by (simp add: until_def)
  have "\<exists>d rt. slot_look pc q e db' = (SlotPaused d, rt, db') \<and> cd_until c \<le> cd_until d \<and> cd_key d \<in> set (cooldownKeys q)"
    by (rule look_while_paused [OF c(1)]) (use c assms(2,3) until in auto)
  moreover have "\<forall>c \<in> set (provider_cooldowns db). \<exists>c' \<in> set (provider_cooldowns db'). cd_key c' = cd_key c \<and> cd_until c \<le> cd_until c'"
    using longer_cooldown_never_shortens by (simp add: db')
  ultimately show ?thesis using c(3) until by force
qed

text \<open>The delays of repeated rate limits double up to the cap; a quiet time of twice the cap starts over.\<close>

definition backoff_cap :: "provider_config \<Rightarrow> int" where
  "backoff_cap pc = max (pc_pauseMs pc) (pc_pauseMaxMs pc)"

definition backoff_delay :: "provider_config \<Rightarrow> int \<Rightarrow> int" where
  "backoff_delay pc n = min (min (backoff_cap pc) PROVIDER_COOLDOWN_MAX_MS) (pc_pauseMs pc * 2 ^ nat (min 20 (n - 1)))"

lemma map_of_put_strike: "map_of (put_strike k n t ss) k = Some (n, t)"
  by (simp add: put_strike_def update_conv)

lemma longer_cooldown_until:
  assumes "\<And>c. c \<in> set rows \<Longrightarrow> cd_key c = cd_key d \<Longrightarrow> cd_until c \<le> cd_until d"
  shows "c \<in> set (longer_cooldown d rows) \<Longrightarrow> cd_key c = cd_key d \<Longrightarrow> cd_until c = cd_until d"
  using assms by (auto simp: longer_cooldown_def list_ex_iff max_def split: if_split_asm)

definition next_strike :: "provider_config \<Rightarrow> int \<Rightarrow> (int \<times> int) option \<Rightarrow> int" where
  "next_strike pc now strike = (case strike of Some (n, lst) \<Rightarrow> if now - lst < 2 * backoff_cap pc then n + 1 else 1 | None \<Rightarrow> 1)"

definition rate_limit_row :: "string \<Rightarrow> int \<Rightarrow> string \<Rightarrow> int \<Rightarrow> cooldown_row" where
  "rate_limit_row k until why now = \<lparr>cd_key = k, cd_until = until, cd_error = ''provider_rate_limited'', cd_reason = why, cd_set = now\<rparr>"

abbreviation running_pause :: "string \<Rightarrow> int \<Rightarrow> provider_db \<Rightarrow> cooldown_row option" where
  "running_pause k now db \<equiv> List.find (\<lambda>c. cd_key c = k \<and> cd_until c > now) (provider_cooldowns db)"

lemma rate_limit_new_strike:
  assumes "k \<noteq> []" "pc_pauseMs pc > 0" "running_pause k now db = None"
  defines "n \<equiv> next_strike pc now (map_of (pause_strikes db) k)"
  shows "recordRateLimitPause pc True now k why db = (PauseStrike (now + backoff_delay pc n) n (backoff_delay pc n),
    db\<lparr>pause_strikes := put_strike k n now (pause_strikes db),
       provider_cooldowns := longer_cooldown (rate_limit_row k (now + backoff_delay pc n) why now) (provider_cooldowns db)\<rparr>)"
  using assms(1,2) unfolding recordRateLimitPause_def assms(3) Let_def n_def next_strike_def backoff_delay_def backoff_cap_def rate_limit_row_def
  by (simp only: if_False not_True_eq_False simp_thms option.case)

lemma rate_limit_reused:
  assumes "k \<noteq> []" "pc_pauseMs pc > 0" "running_pause k now db = Some c"
  shows "recordRateLimitPause pc True now k why db = (PauseReused (cd_until c)
    (case map_of (pause_strikes db) k of Some (n, _) \<Rightarrow> if n = 0 then 1 else n | None \<Rightarrow> 1), db)"
  using assms(1,2) unfolding recordRateLimitPause_def assms(3) Let_def by (simp only: if_False not_True_eq_False simp_thms option.case)

lemma backoff_positive: "pc_pauseMs pc > 0 \<Longrightarrow> 0 < backoff_delay pc n"
  by (simp add: backoff_delay_def backoff_cap_def PROVIDER_COOLDOWN_MAX_MS_def)

lemma rate_limit_pause_row:
  assumes "running_pause k now db = None" "now < until" "provider_cooldowns db1 = longer_cooldown (rate_limit_row k until why now) (provider_cooldowns db)"
  shows "running_pause k now' db1 = None \<longleftrightarrow> until \<le> now'" "running_pause k now' db1 = Some c \<Longrightarrow> cd_until c = until"
proof -
  have old: "cd_until c \<le> until" if "c \<in> set (provider_cooldowns db)" "cd_key c = k" for c
    using assms(1,2) that by (force simp: find_None_iff)
  have all: "cd_until c = until" if "c \<in> set (provider_cooldowns db1)" "cd_key c = k" for c
    using longer_cooldown_until [of "provider_cooldowns db" "rate_limit_row k until why now" c] old that by (simp add: assms(3) rate_limit_row_def)
  obtain c0 where c0: "c0 \<in> set (provider_cooldowns db1)" "cd_key c0 = k"
    using longer_cooldown_has [of "rate_limit_row k until why now" "provider_cooldowns db"] by (auto simp: assms(3) rate_limit_row_def)
  show "running_pause k now' db1 = None \<longleftrightarrow> until \<le> now'"
    unfolding find_None_iff using all c0 by (metis not_le)
  show "running_pause k now' db1 = Some c \<Longrightarrow> cd_until c = until"
    unfolding find_Some_iff using all nth_mem by metis
qed

text \<open>A rate-limit pause of strike n lasts min(cap, base * 2^(n-1)); reports during it reuse it and
  add no strike; after it the next strike doubles, or starts over after a quiet time of twice the cap.\<close>

theorem rate_limit_backoff:
  assumes "k \<noteq> []" "recordRateLimitPause pc True now k why db = (PauseStrike until n d, db1)" "1 \<le> n"
  shows "until = now + d \<and> d = backoff_delay pc n
    \<and> (now' < until \<longrightarrow> recordRateLimitPause pc True now' k why' db1 = (PauseReused until n, db1))
    \<and> (until \<le> now' \<longrightarrow> fst (recordRateLimitPause pc True now' k why' db1) =
        (let m = if now' - now < 2 * backoff_cap pc then n + 1 else 1 in PauseStrike (now' + backoff_delay pc m) m (backoff_delay pc m)))"
proof -
  have on: "pc_pauseMs pc > 0" using assms(1,2) by (rule_tac ccontr) (simp add: recordRateLimitPause_def)
  have none: "running_pause k now db = None"
    using rate_limit_reused [OF assms(1) on] assms(2) by (cases "running_pause k now db") force+
  note new = rate_limit_new_strike [OF assms(1) on none, of why, unfolded assms(2)]
  then have n: "n = next_strike pc now (map_of (pause_strikes db) k)" and d: "d = backoff_delay pc n" and u: "until = now + d"
    and strike: "map_of (pause_strikes db1) k = Some (n, now)"
    and rows: "provider_cooldowns db1 = longer_cooldown (rate_limit_row k until why now) (provider_cooldowns db)"
    by (simp_all add: map_of_put_strike)
  have "now < until" using backoff_positive [OF on] by (simp add: u d)
  note row = rate_limit_pause_row [OF none this rows]
  have "recordRateLimitPause pc True now' k why' db1 = (PauseReused until n, db1)" if "now' < until"
  proof -
    obtain c where c: "running_pause k now' db1 = Some c" using row(1) [of now'] \<open>now' < until\<close> by auto
    show ?thesis using assms(3) by (simp add: rate_limit_reused [OF assms(1) on c] row(2) [OF c] strike)
  qed
  moreover have "fst (recordRateLimitPause pc True now' k why' db1) =
      (let m = if now' - now < 2 * backoff_cap pc then n + 1 else 1 in PauseStrike (now' + backoff_delay pc m) m (backoff_delay pc m))"
    if "until \<le> now'"
    by (simp only: rate_limit_new_strike [OF assms(1) on row(1) [THEN iffD2, OF that]] strike next_strike_def fst_conv Let_def option.case prod.case)
  ultimately show ?thesis using d u by blast
qed

section \<open>Resuming\<close>

lemma filter_keys_partition:
  "distinct ks \<Longrightarrow> mset (concat (map (\<lambda>k. filter (\<lambda>c. f c = k) xs) ks)) + mset (filter (\<lambda>c. f c \<notin> set ks) xs) = mset xs"
proof (induction ks)
  case (Cons k ks)
  have "mset (filter (\<lambda>c. f c \<notin> set ks) xs) = mset (filter (\<lambda>c. f c = k) xs) + mset (filter (\<lambda>c. f c \<notin> set (k # ks)) xs)"
    using Cons.prems by (induction xs) auto
  with Cons show ?case by (simp add: ac_simps)
qed simp

text \<open>Resuming a target splits the stored pauses into the removed and the kept ones, keeps none of
  the target, forgets its strikes and touches no lease.\<close>

theorem resume_removes_exactly_the_target:
  assumes "resumeProvider pc True target db = (Inr removed, db')" "providerPauseTarget pc target = Some pt"
  shows "mset removed + mset (provider_cooldowns db') = mset (provider_cooldowns db)
    \<and> (\<forall>c \<in> set (provider_cooldowns db'). \<not> under_target pt (cd_key c))
    \<and> map_of (pause_strikes db') (pt_key pt) = None \<and> provider_leases db' = provider_leases db"
proof -
  define keys where "keys = (if pt_model pt = [] then filter (\<lambda>k. k \<noteq> pt_key pt) (quotaGroupProviderKeys pc (pt_provider pt)) else [])"
  define rest where "rest = filter (\<lambda>c. \<not> under_target pt (cd_key c)) (provider_cooldowns db)"
  have r: "removed = filter (\<lambda>c. under_target pt (cd_key c)) (provider_cooldowns db) @ concat (map (\<lambda>k. filter (\<lambda>c. cd_key c = k) rest) keys)"
    "db' = db\<lparr>provider_cooldowns := filter (\<lambda>c. cd_key c \<notin> set keys) rest, pause_strikes := filter (\<lambda>(k, _). \<not> under_target pt k) (pause_strikes db)\<rparr>"
    using assms by (simp_all add: resumeProvider_def Let_def keys_def rest_def)
  have "distinct keys" by (simp add: keys_def quotaGroupProviderKeys_def Let_def)
  then have "mset (concat (map (\<lambda>k. filter (\<lambda>c. cd_key c = k) rest) keys)) + mset (provider_cooldowns db') = mset rest"
    using filter_keys_partition [of keys cd_key rest] by (simp add: r(2))
  moreover have "mset (filter (\<lambda>c. under_target pt (cd_key c)) (provider_cooldowns db)) + mset rest = mset (provider_cooldowns db)"
    unfolding rest_def by simp
  ultimately have "mset removed + mset (provider_cooldowns db') = mset (provider_cooldowns db)"
    by (simp add: r(1) add.assoc)
  moreover have "\<forall>c \<in> set (provider_cooldowns db'). \<not> under_target pt (cd_key c)" by (simp add: r(2) rest_def)
  moreover have "under_target pt (pt_key pt)" by (simp add: under_target_def)
  then have "map_of (pause_strikes db') (pt_key pt) = None" by (auto simp: r(2) map_of_eq_None_iff)
  ultimately show ?thesis by (simp add: r(2))
qed

section \<open>Quarantine\<close>

text \<open>A committed quarantine answers the id of a row that holds the slot of the lease key for good,
  and a reclaim pass removes it only when the recorded containment is proven gone.\<close>

theorem provider_quarantine_keeps_slot:
  assumes "quarantineProviderLease pc te rnd l containment db = (Some (m, fresh), db')"
    "\<And>r. r \<in> set (provider_leases db) \<Longrightarrow> pl_id r = pl_id l \<Longrightarrow> pl_key r = pl_key l" "pl_key l \<noteq> []" "te_commit te = Committed"
  shows "(\<exists>r \<in> set (provider_leases db'). pl_id r = m \<and> pl_key r = pl_key l \<and> pl_expires r = MAX_SAFE_INTEGER \<and> pl_containment r = containment)
    \<and> (\<forall>t < MAX_SAFE_INTEGER. 1 \<le> live_slots t db' (\<lambda>k. k = pl_key l))
    \<and> (\<forall>still n. (\<forall>pid. still containment pid) \<longrightarrow> (\<forall>t < MAX_SAFE_INTEGER.
         1 \<le> live_slots t (reclaimProvenGoneProviderQuarantines still n db') (\<lambda>k. k = pl_key l)))"
proof -
  define now where "now = te_now te"
  define live where "live r \<longleftrightarrow> pl_id r = pl_id l \<and> pl_owner r = pc_instance pc \<and> pl_expires r > now" for r :: provider_lease_row
  define f where "f r = (if live r then r\<lparr>pl_heartbeat := Some now, pl_expires := MAX_SAFE_INTEGER, pl_containment := containment\<rparr> else r)" for r
  define row where "row = \<lparr>pl_id = pc_instance pc @ ''-quarantine-'' @ rnd, pl_key = or_string (pl_key l) (pc_key pc), pl_owner = pc_instance pc,
    pl_pid = pc_pid pc, pl_created = now, pl_heartbeat = Some now, pl_expires = MAX_SAFE_INTEGER, pl_containment = containment\<rparr>"
  note q = assms(1) [unfolded quarantineProviderLease_def Let_def now_def [symmetric] live_def [symmetric] f_def [abs_def, symmetric] row_def [symmetric]]
  have key: "or_string (pl_key l) (pc_key pc) = pl_key l" using assms(3) by (simp add: or_string_def)
  have "\<exists>r \<in> set (provider_leases db'). pl_id r = m \<and> pl_key r = pl_key l \<and> pl_expires r = MAX_SAFE_INTEGER \<and> pl_containment r = containment"
  proof (cases "length (filter live (provider_leases db)) = 1")
    case True
    with q assms(4) have m: "m = pl_id l" and db': "db' = db\<lparr>provider_leases := map f (provider_leases db)\<rparr>"
      by (simp_all split: if_split_asm)
    from True have "filter live (provider_leases db) \<noteq> []" by auto
    then obtain r where r: "r \<in> set (provider_leases db)" "live r" by (auto simp: filter_empty_conv)
    then have "f r \<in> set (provider_leases db')" by (simp add: db')
    moreover have "pl_id r = pl_id l" using r(2) by (simp add: live_def)
    ultimately show ?thesis using r assms(2) [OF r(1)] by (intro bexI [of _ "f r"]) (simp_all add: f_def m)
  next
    case False
    with q assms(4) have "m = pl_id row" "row \<in> set (provider_leases db')"
      by (auto simp: row_def split: if_split_asm)
    then show ?thesis by (intro bexI [of _ row]) (simp_all add: row_def key)
  qed
  then obtain r where r: "r \<in> set (provider_leases db')" "pl_id r = m" "pl_key r = pl_key l" "pl_expires r = MAX_SAFE_INTEGER"
    "pl_containment r = containment" by blast
  have held: "1 \<le> live_slots t db'' (\<lambda>k. k = pl_key l)" if "r \<in> set (provider_leases db'')" "t < MAX_SAFE_INTEGER" for t db''
  proof -
    have "filter (\<lambda>x. t < pl_expires x \<and> pl_key x = pl_key l) (provider_leases db'') \<noteq> []"
      using that r(3,4) unfolding filter_empty_conv by (metis)
    then show ?thesis by (simp add: live_slots_def Suc_le_eq)
  qed
  have "r \<in> set (provider_leases (reclaimProvenGoneProviderQuarantines still n db'))" if "\<forall>pid. still containment pid" for still n
    using r that by (simp add: reclaimProvenGoneProviderQuarantines_def reclaim_rows_keeps)
  then show ?thesis using r held by blast
qed

section \<open>Refinement of a counting semaphore\<close>

text \<open>
  The specification: a bag of the keys whose slots are taken.  Slots come back in any number, and one
  slot is taken while its key is below its limit and, with a positive total, the bag is below the total.
\<close>

inductive semaphore_step :: "(string \<Rightarrow> int) \<Rightarrow> int \<Rightarrow> string multiset \<Rightarrow> string multiset \<Rightarrow> bool" for cap total where
  put_back: "M' \<subseteq># M \<Longrightarrow> semaphore_step cap total M M'"
| take_slot: "int (count M k) < cap k \<Longrightarrow> total \<le> 0 \<or> int (size M) < total \<Longrightarrow> semaphore_step cap total M (add_mset k M)"

definition live_keys :: "int \<Rightarrow> provider_db \<Rightarrow> string multiset" where
  "live_keys t db = mset (map pl_key (filter (\<lambda>l. t < pl_expires l) (provider_leases db)))"

lemma count_map_filter: "count (mset (map f xs)) k = length (filter (\<lambda>x. f x = k) xs)"
  by (induction xs) auto

lemma count_live_keys: "int (count (live_keys t db) k) = live_slots t db (\<lambda>x. x = k)"
  unfolding live_keys_def live_slots_def count_map_filter filter_filter by (simp add: conj_commute)

lemma size_live_keys: "int (size (live_keys t db)) = live_slots t db (\<lambda>_. True)"
  unfolding live_keys_def live_slots_def size_mset length_map by simp

lemma fewer_keys: "fewer_slots (t, db) (t', db') \<Longrightarrow> live_keys t' db' \<subseteq># live_keys t db"
  by (rule mset_subset_eqI) (simp add: fewer_slots_def flip: of_nat_le_iff [where 'a = int] add: count_live_keys)

lemma granted_keys:
  assumes "slot_look pc q e db = (SlotGranted l, rt, db')"
  shows "live_keys (lo_now e) db' = (if 0 < pc_leaseMs pc then add_mset (sr_key q) (live_keys (lo_now e) db) else live_keys (lo_now e) db)"
  using slot_look_granted(1,3) [OF assms] by (simp add: live_keys_def new_lease_def)

lemma slot_step_semaphore:
  assumes "slot_step pc (t, db) (t', db')" "readRuntimeConcurrencyRows db = rt"
  shows "semaphore_step (providerLimitForKey pc rt) (globalWorkerLimit pc rt) (live_keys t db) (live_keys t' db') \<and> readRuntimeConcurrencyRows db' = rt"
  using slot_step_cases [OF assms(1)]
proof
  assume fewer: "fewer_slots (t, db) (t', db')"
  then have "runtime_settings db' = runtime_settings db" by (simp add: fewer_slots_def)
  with fewer show ?thesis using settings_rows assms(2) by (blast intro: put_back fewer_keys)
next
  assume "grants pc (t, db) (t', db')"
  then obtain i p q e l rt' where g: "t' = t" "lo_now e = t" "slot_look (pc\<lparr>pc_instance := i, pc_pid := p\<rparr>) q e db = (SlotGranted l, rt', db')"
    by (auto simp: grants_def)
  note granted = slot_look_granted [OF g(3)]
  have "runtime_settings (prune_expired db t) = runtime_settings db" by (simp add: prune_expired_def)
  then have rt': "rt' = rt" unfolding granted(2) g(2) assms(2) [symmetric] by (rule settings_rows)
  have "live_slots t db (\<lambda>x. x = sr_key q) < providerLimitForKey pc rt (sr_key q)"
    using granted(5) effective_capacity_le [of "pc\<lparr>pc_instance := i, pc_pid := p\<rparr>" rt "prune_expired db t" "sr_key q"] by (simp add: rt' g(2))
  then have key: "int (count (live_keys t db) (sr_key q)) < providerLimitForKey pc rt (sr_key q)" by (simp add: count_live_keys)
  have "globalWorkerLimit pc rt > 0 \<Longrightarrow> live_slots t db (\<lambda>_. True) < globalWorkerLimit pc rt" using granted(6) by (simp add: rt' g(2))
  then have total: "globalWorkerLimit pc rt \<le> 0 \<or> int (size (live_keys t db)) < globalWorkerLimit pc rt" unfolding size_live_keys by linarith
  have step: "semaphore_step (providerLimitForKey pc rt) (globalWorkerLimit pc rt) (live_keys t db) (live_keys t db')"
    unfolding granted_keys [OF g(3), unfolded g(2)] using take_slot [of "live_keys t db" "sr_key q" "providerLimitForKey pc rt", OF key total] put_back [OF subset_mset.order_refl] by simp
  have "readRuntimeConcurrencyRows db' = rt" using settings_rows [OF granted(4)] assms(2) by simp
  with step show ?thesis by (simp add: g(1))
qed

text \<open>C12: Every run of the slot protocol is a run of a counting semaphore on the bag of live keys: slots
  come back, or one is taken while its key is below its limit and the bag below the total.\<close>

theorem slots_refine_semaphore:
  assumes "(slot_step pc)\<^sup>*\<^sup>* (t0, db0) (t, db)"
  defines "rt \<equiv> readRuntimeConcurrencyRows db0"
  shows "(semaphore_step (providerLimitForKey pc rt) (globalWorkerLimit pc rt))\<^sup>*\<^sup>* (live_keys t0 db0) (live_keys t db)"
proof -
  have "(semaphore_step (providerLimitForKey pc rt) (globalWorkerLimit pc rt))\<^sup>*\<^sup>* (live_keys t0 db0) (live_keys t db)
      \<and> readRuntimeConcurrencyRows db = rt"
    using assms(1)
  proof (induction rule: rtranclp_induct2)
    case (step t1 db1 t2 db2)
    then show ?case using slot_step_semaphore [OF step(2)] by (auto intro: rtranclp.rtrancl_into_rtrancl)
  qed (simp add: rt_def)
  then show ?thesis by simp
qed

section \<open>Sample runs\<close>

definition sample_provider :: provider_config where
  "sample_provider = \<lparr>pc_instance = ''i1'', pc_pid = 100, pc_key = ''oc'', pc_keyExplicit = False, pc_envProvider = 2, pc_envQueue = 4,
     pc_envGlobal = 3, pc_envPerProvider = [], pc_quotaGroups = [[''a'', ''b'']], pc_leaseMs = 60000, pc_heartbeatMs = 10000,
     pc_pauseMs = 1000, pc_pauseMaxMs = 4000, pc_waitMaxMs = 60000\<rparr>"

definition no_slots :: provider_db where
  "no_slots = \<lparr>provider_leases = [], provider_capacities = [], provider_cooldowns = [], runtime_settings = [], pause_strikes = []\<rparr>"

definition sample_look :: "int \<Rightarrow> look_env" where
  "sample_look t = \<lparr>lo_now = t, lo_late_before = False, lo_aborted_before = False, lo_late_after = False, lo_aborted_after = False, lo_lease_id = ''l1''\<rparr>"

definition sample_slot :: slot_request where
  "sample_slot = \<lparr>sr_key = ''oc:a'', sr_pauseKeys = [''oc:a/m''], sr_bounded = True\<rparr>"

definition one_slot :: provider_db where
  "one_slot = snd (snd (slot_look sample_provider sample_slot (sample_look 5) no_slots))"

lemma sample_run: "(slot_step sample_provider)\<^sup>*\<^sup>* (0, no_slots) (5, one_slot)"
proof -
  have same: "sample_provider\<lparr>pc_instance := ''i1'', pc_pid := 100\<rparr> = sample_provider" by (simp add: sample_provider_def)
  obtain r rt where "slot_look sample_provider sample_slot (sample_look 5) no_slots = (r, rt, one_slot)"
    unfolding one_slot_def by (metis prod.collapse)
  then have "slot_step sample_provider (5, no_slots) (5, one_slot)"
    using slot_step.look [where pc = sample_provider and i = "''i1''" and p = 100] by (simp add: same sample_look_def)
  moreover have "slot_step sample_provider (0, no_slots) (5, no_slots)" by (rule slot_step.tick) simp
  ultimately show ?thesis by (meson converse_rtranclp_into_rtranclp r_into_rtranclp)
qed

lemma provider_slots_bounded_witness:
  "live_slots 5 one_slot (\<lambda>x. x = ''oc:a'') = 1
   \<and> live_slots 5 one_slot (\<lambda>x. x = ''oc:a'') \<le> max 0 (providerLimitForKey sample_provider (readRuntimeConcurrencyRows no_slots) ''oc:a'')"
proof -
  have "live_slots 5 one_slot (\<lambda>x. x = ''oc:a'') = 1" by code_simp
  moreover have "provider_leases no_slots = []" by (simp add: no_slots_def)
  ultimately show ?thesis using provider_slots_bounded [OF sample_run, of "''oc:a''"] by blast
qed

lemma slots_refine_semaphore_witness:
  "live_keys 5 one_slot = {#''oc:a''#} \<and> (semaphore_step (providerLimitForKey sample_provider (readRuntimeConcurrencyRows no_slots))
     (globalWorkerLimit sample_provider (readRuntimeConcurrencyRows no_slots)))\<^sup>*\<^sup>* (live_keys 0 no_slots) (live_keys 5 one_slot)"
proof -
  have "map pl_key (filter (\<lambda>l. 5 < pl_expires l) (provider_leases one_slot)) = [''oc:a'']" by code_simp
  then have "live_keys 5 one_slot = {#''oc:a''#}" by (simp add: live_keys_def)
  then show ?thesis using slots_refine_semaphore [OF sample_run] by simp
qed

definition sample_turn :: "int \<Rightarrow> wait_turn" where
  "sample_turn t = \<lparr>wt_head = t, wt_aborted = False, wt_others = id, wt_error = Some LookBusyDatabase, wt_look = sample_look t,
     wt_delay_aborted = False, wt_no_delay = False\<rparr>"

lemma wait_ends_at_deadline_witness:
  "fst (waitForProviderLease sample_provider sample_slot 10 [sample_turn 5, sample_turn 20] no_slots) \<noteq> None"
  by (rule wait_ends_at_deadline) (simp add: sample_turn_def)

lemma set_and_reset_provider_limit_witness:
  "providerConcurrencyLimit sample_provider no_overrides = 2 \<and> (\<exists>rt1 db1 db2.
     setRuntimeConcurrency sample_provider True 7 \<lparr>cr_provider = Some (JInt 5), cr_queue = None, cr_global = None, cr_perProvider = None, cr_reset = False\<rparr>
       (no_overrides, no_slots) = (ConcurrencySet, rt1, db1) \<and> providerConcurrencyLimit sample_provider rt1 = 5
     \<and> setRuntimeConcurrency sample_provider True 9 \<lparr>cr_provider = None, cr_queue = None, cr_global = None, cr_perProvider = None, cr_reset = True\<rparr>
       (rt1, db1) = (ConcurrencySet, no_overrides, db2))"
proof -
  have "1 \<le> (5::int)" "5 \<le> MAX_RUNTIME_CONCURRENCY_LIMIT" by (simp_all add: MAX_RUNTIME_CONCURRENCY_LIMIT_def)
  from set_and_reset_provider_limit [OF this, of sample_provider 7 no_overrides no_slots 9]
  show ?thesis by (auto simp: sample_provider_def)
qed

definition paused_db :: provider_db where
  "paused_db = snd (recordProviderCooldown True 100 ''oc:a'' 5000 0 [] ''limit'' no_slots)"

lemma pause_blocks_slots_witness:
  "\<exists>d rt. slot_look sample_provider sample_slot (sample_look 4000) paused_db = (SlotPaused d, rt, paused_db) \<and> 5100 \<le> cd_until d"
proof -
  have "fst (recordProviderCooldown True 100 ''oc:a'' 5000 0 [] ''limit'' no_slots)" by code_simp
  then have "recordProviderCooldown True 100 ''oc:a'' 5000 0 [] ''limit'' no_slots = (True, paused_db)"
    by (simp add: paused_db_def prod_eq_iff)
  moreover have "''oc:a'' \<in> set (cooldownKeys sample_slot)" "min PROVIDER_COOLDOWN_MAX_MS 5000 = 5000" by code_simp+
  ultimately show ?thesis
    using pause_blocks_slots [of 100 "''oc:a''" 5000 "[]" "''limit''" no_slots paused_db sample_slot "sample_look 4000" sample_provider]
    by (simp add: sample_look_def)
qed

definition struck_db :: provider_db where
  "struck_db = snd (recordRateLimitPause sample_provider True 100 ''oc:a'' ''429'' no_slots)"

lemma rate_limit_backoff_witness:
  "recordRateLimitPause sample_provider True 600 ''oc:a'' ''429'' struck_db = (PauseReused 1100 1, struck_db)
   \<and> fst (recordRateLimitPause sample_provider True 1200 ''oc:a'' ''429'' struck_db) = PauseStrike 3200 2 2000"
proof -
  have "fst (recordRateLimitPause sample_provider True 100 ''oc:a'' ''429'' no_slots) = PauseStrike 1100 1 1000" by code_simp
  then have first: "recordRateLimitPause sample_provider True 100 ''oc:a'' ''429'' no_slots = (PauseStrike 1100 1 1000, struck_db)"
    by (simp add: struck_db_def prod_eq_iff)
  have "backoff_delay sample_provider 2 = 2000" "backoff_cap sample_provider = 4000" by code_simp+
  then show ?thesis
    using rate_limit_backoff [OF _ first, of 600 "''429''"] rate_limit_backoff [OF _ first, of 1200 "''429''"] by (simp add: Let_def)
qed

lemma resume_removes_exactly_the_target_witness:
  "\<exists>removed db'. resumeProvider sample_provider True ''a'' paused_db = (Inr removed, db') \<and> length removed = 1
     \<and> mset removed + mset (provider_cooldowns db') = mset (provider_cooldowns paused_db)"
proof -
  let ?r = "resumeProvider sample_provider True ''a'' paused_db"
  have r: "case fst ?r of Inl _ \<Rightarrow> False | Inr removed \<Rightarrow> length removed = 1" by code_simp
  then obtain removed where removed: "fst ?r = Inr removed" "length removed = 1" by (auto split: sum.split_asm)
  have "map_option pt_key (providerPauseTarget sample_provider ''a'') = Some ''oc:a''" by code_simp
  then obtain pt where pt: "providerPauseTarget sample_provider ''a'' = Some pt" "pt_key pt = ''oc:a''" by auto
  have res: "?r = (Inr removed, snd ?r)" by (simp add: removed(1) [symmetric])
  from resume_removes_exactly_the_target [OF this pt(1)]
  have kept: "mset removed + mset (provider_cooldowns (snd ?r)) = mset (provider_cooldowns paused_db)" by blast
  show ?thesis by (intro exI conjI, rule res, rule removed(2), rule kept)
qed

definition commit_at :: "int \<Rightarrow> txn_env" where
  "commit_at t = \<lparr>te_opens = True, te_commit = Committed, te_rollback = True, te_reopens = True, te_now = t\<rparr>"

lemma provider_quarantine_keeps_slot_witness:
  "\<exists>db'. quarantineProviderLease sample_provider (commit_at 9) ''r'' (hd (provider_leases one_slot)) ''tree'' one_slot = (Some (''l1'', False), db')
     \<and> 1 \<le> live_slots 9999999 db' (\<lambda>k. k = ''oc:a'')"
proof -
  let ?l = "hd (provider_leases one_slot)"
  let ?q = "quarantineProviderLease sample_provider (commit_at 9) ''r'' ?l ''tree'' one_slot"
  have q: "fst ?q = Some (''l1'', False)" by code_simp
  have one: "provider_leases one_slot = [?l]" "pl_key ?l = ''oc:a''" by code_simp+
  from q have "?q = (Some (''l1'', False), snd ?q)" by (simp add: prod_eq_iff)
  moreover have "9999999 < MAX_SAFE_INTEGER" by code_simp
  moreover have "pl_key r = pl_key ?l" if "r \<in> set (provider_leases one_slot)" for r using that one(1) by (metis empty_iff insert_iff list.set)
  moreover have "pl_key ?l \<noteq> []" "te_commit (commit_at 9) = Committed" by (simp_all add: one(2) commit_at_def)
  ultimately have "1 \<le> live_slots 9999999 (snd ?q) (\<lambda>k. k = pl_key ?l)"
    using provider_quarantine_keeps_slot [of sample_provider "commit_at 9" "''r''" ?l "''tree''" one_slot "''l1''" False "snd ?q"] by blast
  then show ?thesis using \<open>?q = _\<close> by (simp only: one(2)) blast
qed

end
