(* ===== verification/QueueRecord.thy ===== *)
theory QueueRecord
  imports ProviderLimits
begin

text \<open>
  Queue jobs: the record a bridge keeps of one (and stores as \<open>record_json\<close>), and the pure functions of
  \<open>lib/queue.js\<close> and of the model allowlist (\<open>lib/agent-policy.js\<close>).  A time is an integer, an absent or
  unparsable ISO time is \<open>None\<close>; an absent text is empty and an absent count 0.  The record is built in
  three layers: lineage and retry counters, ownership, and the rest.  Free text for people is left out.
\<close>

section \<open>The record\<close>

record queue_lineage =
  q_jobId :: string
  q_parentJobId :: string
  q_idempotencyKey :: string
  q_requestFingerprint :: string
  q_requeuedFrom :: string
  q_requeuedAs :: string
  q_requeueSequence :: int
  q_requeuedAt :: "int option"
  q_retryAttempt :: int
  q_maxAttempts :: int
  q_retryDecisionPendingAt :: "int option"
  q_retryDecisionOutcome :: string
  q_retryDecisionAt :: "int option"
  q_retryDeferredAt :: "int option"
  q_attemptHistory :: "string list"
  q_slotWaitRequeues :: int
  q_pauseWaitRequeues :: int
  q_infraRetryRequeues :: int
  q_startAfter :: "int option"
  q_startAfterReason :: string

record queue_ownership = queue_lineage +
  q_status :: string
  q_revision :: int
  q_ownerInstanceId :: string
  q_ownerProcessId :: int
  q_ownerGeneration :: string
  q_heartbeatAt :: "int option"
  q_leaseExpiresAt :: "int option"
  q_childProcessId :: int
  q_childProcessStartedAt :: "int option"
  q_cancellationRequested :: bool
  q_cancellationRequestedAt :: "int option"
  q_orphanChildProcessId :: int
  q_orphanChildProcessAlive :: bool
  q_createdAt :: "int option"
  q_startedAt :: "int option"
  q_agentStartedAt :: "int option"
  q_finishedAt :: "int option"

record queue_record = queue_ownership +
  q_agent :: string
  q_cwd :: string
  q_mode :: string
  q_lockedPaths :: "string list"
  q_allowedEdits :: "string list"
  q_readScope :: "string list"
  q_modelRequirement :: "model_requirement option"
  q_request :: "job option"
  q_requestEncrypted :: string
  q_worktreePath :: string
  q_worktreeBaseCommit :: string
  q_patchSha256 :: string
  q_changedFiles :: "string list"
  q_noChanges :: bool
  q_errorType :: string
  q_completionOutcome :: string
  q_resultText :: string
  q_resultReportTruncated :: bool
  q_outputCount :: int
  q_finalResponseDetected :: bool
  q_providerRefusedUntil :: "int option"
  q_configuredProvider :: string
  q_configuredModel :: string
  q_agentProcessMs :: "int option"
  q_afterAgentMs :: "int option"
  q_lockId :: string
  q_dryRun :: bool
  q_workspaceWaits :: int

abbreviation pre_execution :: "string set" where
  "pre_execution \<equiv> {''held'', ''pending'', ''planned'', ''blocked''}"

abbreviation active_statuses :: "string set" where
  "active_statuses \<equiv> {''running'', ''validating'', ''reviewing'', ''testing''}"

abbreviation terminal_statuses :: "string set" where
  "terminal_statuses \<equiv> {''completed'', ''failed'', ''cancelled'', ''interrupted'', ''not_resumable''}"

definition REQUEUE_ELIGIBLE_STATUSES :: "string set" where
  "REQUEUE_ELIGIBLE_STATUSES = {''failed'', ''cancelled'', ''interrupted'', ''not_resumable''}"

definition REQUEUE_UNFINISHED_STATUSES :: "string set" where
  "REQUEUE_UNFINISHED_STATUSES = {''held'', ''pending'', ''planned'', ''blocked'', ''running'', ''validating'', ''reviewing'', ''testing''}"

section \<open>Times\<close>

definition queueStartAfterPending :: "queue_record \<Rightarrow> int \<Rightarrow> bool" where
  "queueStartAfterPending r now = (case q_startAfter r of Some at \<Rightarrow> at > now | None \<Rightarrow> False)"

record agent_timing =
  at_agentRunMs :: int
  at_waitBeforeAgentMs :: int
  at_afterAgentMs :: "int option"

definition queueAgentTiming :: "queue_record \<Rightarrow> int \<Rightarrow> agent_timing" where
  "queueAgentTiming r now = (case q_agentStartedAt r of
      None \<Rightarrow> \<lparr>at_agentRunMs = 0, at_waitBeforeAgentMs = 0, at_afterAgentMs = None\<rparr>
    | Some started \<Rightarrow>
        let wait = (case q_startedAt r of Some s \<Rightarrow> max 0 (started - s) | None \<Rightarrow> 0) in
        (case (q_finishedAt r, q_agentProcessMs r) of
           (Some finished, Some process) \<Rightarrow>
             \<lparr>at_agentRunMs = max 0 process, at_waitBeforeAgentMs = wait, at_afterAgentMs = Some
                (case q_afterAgentMs r of Some after \<Rightarrow> max 0 after | None \<Rightarrow> max 0 (finished - started - process))\<rparr>
         | (finished, _) \<Rightarrow>
             \<lparr>at_agentRunMs = max 0 ((case finished of Some f \<Rightarrow> f | None \<Rightarrow> now) - started), at_waitBeforeAgentMs = wait, at_afterAgentMs = None\<rparr>))"

definition autoIntegrationRetryDelayMs :: "bool \<Rightarrow> nat \<Rightarrow> int" where
  "autoIntegrationRetryDelayMs self_test round = (let base = (if self_test then 25 else 5000) in min (base * 12) (base * 2 ^ round))"

section \<open>Requeue keys\<close>

fun decimal :: "nat \<Rightarrow> string" where
  "decimal n = (if n < 10 then [char_of (48 + n)] else decimal (n div 10) @ [char_of (48 + n mod 10)])"

declare decimal.simps [simp del]

text \<open>\<open>REQUEUE_KEY_SUFFIX\<close>, one group at a time from the end.\<close>

definition requeue_tail :: "string \<Rightarrow> string option" where
  "requeue_tail s = (let r = rev s; digits = takeWhile is_digit r; rest = drop (length digits) r; mark = rev '':requeue:'' in
     if digits \<noteq> [] \<and> starts_with mark rest then Some (rev (drop (length mark) rest)) else None)"

lemma requeue_tail_Some:
  assumes "requeue_tail s = Some t"
  obtains ds where "s = t @ '':requeue:'' @ ds" "ds \<noteq> []" "list_all is_digit ds"
proof -
  let ?digits = "takeWhile is_digit (rev s)" let ?rest = "drop (length ?digits) (rev s)" let ?mark = "rev '':requeue:''"
  have d: "?digits \<noteq> []" "starts_with ?mark ?rest" and t: "t = rev (drop (length ?mark) ?rest)"
    using assms unfolding requeue_tail_def Let_def by (simp_all only: split: if_split_asm) (simp_all only: option.inject option.distinct simp_thms)
  from d(2) obtain r where r: "?rest = ?mark @ r" unfolding starts_with_iff by blast
  have "rev s = ?digits @ ?rest" by (metis takeWhile_eq_take append_take_drop_id)
  then have "s = rev (?digits @ ?mark @ r)" unfolding r by (metis rev_rev_ident)
  then have "s = rev r @ rev ?mark @ rev ?digits" by (simp only: rev_append append_assoc)
  moreover have "t = rev r" unfolding t r by (simp only: drop_append diff_self_eq_0 drop_0 drop_all order_refl append_Nil)
  ultimately have split: "s = t @ '':requeue:'' @ rev ?digits" by (simp only: rev_rev_ident)
  have digits: "list_all is_digit (rev ?digits)" unfolding list_all_iff set_rev by (intro ballI) (erule set_takeWhileD [THEN conjunct2])
  show ?thesis by (rule that [OF split _ digits]) (simp only: rev_is_Nil_conv d(1) not_False_eq_True)
qed

lemma requeue_tail_shorter: "requeue_tail s = Some t \<Longrightarrow> length t < length s"
  by (erule requeue_tail_Some) simp

function strip_requeue :: "string \<Rightarrow> string" where
  "strip_requeue s = (case requeue_tail s of None \<Rightarrow> s | Some t \<Rightarrow> strip_requeue t)"
  by auto
termination by (relation "measure length") (auto simp: requeue_tail_shorter)

declare strip_requeue.simps [simp del]

definition requeueIdempotencyKey :: "(string \<Rightarrow> string) \<Rightarrow> string \<Rightarrow> string \<Rightarrow> nat \<Rightarrow> string" where
  "requeueIdempotencyKey sha256 key jobId sequence =
    (let base = (let b = strip_requeue key in if b \<noteq> [] then b else jobId); suffix = '':requeue:'' @ decimal sequence in
     if length base + length suffix \<le> 200 then base @ suffix
     else let digest = take 16 (sha256 base) in
       take (200 - length suffix - length digest - 1) base @ ''~'' @ digest @ suffix)"

section \<open>Models\<close>

record model_entry =
  me_provider :: string
  me_model :: string
  me_variant :: string

definition last_index :: "char \<Rightarrow> string \<Rightarrow> nat option" where
  "last_index c s = (if c \<in> set s then Some (length s - 1 - length (takeWhile (\<lambda>d. d \<noteq> c) (rev s))) else None)"

definition parseModelAllowlistEntry :: "string \<Rightarrow> model_entry option" where
  "parseModelAllowlistEntry entry =
    (let raw = js_trim entry;
         at = (case last_index (CHR ''@'') raw of Some n \<Rightarrow> n | None \<Rightarrow> 0);
         model_part = (if at > 0 then js_trim (take at raw) else raw);
         variant = (if at > 0 then js_trim (drop (at + 1) raw) else []);
         before = takeWhile (\<lambda>c. c \<noteq> slash) model_part;
         after = drop (length before + 1) model_part;
         provider = js_trim before; mdl = js_trim after
     in if raw = [] \<or> slash \<notin> set model_part \<or> before = [] \<or> after = [] \<or> (at > 0 \<and> variant = [])
           \<or> \<not> model_identifier_ok provider \<or> \<not> model_name_ok mdl \<or> (variant \<noteq> [] \<and> \<not> model_identifier_ok variant)
        then None else Some \<lparr>me_provider = provider, me_model = mdl, me_variant = variant\<rparr>)"

definition MCP_SANITIZED_READER_AGENT :: string where "MCP_SANITIZED_READER_AGENT = ''mcp-sanitized-reader''"

fun allowlist_override :: "model_requirement \<Rightarrow> string list \<Rightarrow> model_entry option" where
  "allowlist_override q [] = None"
| "allowlist_override q (entry # rest) =
    (case parseModelAllowlistEntry entry of
       None \<Rightarrow> allowlist_override q rest
     | Some p \<Rightarrow>
         if me_provider p \<noteq> mr_provider q \<or> me_model p \<noteq> mr_model q
            \<or> (me_variant p \<noteq> [] \<and> mr_variant q \<noteq> None \<and> mr_variant q \<noteq> Some (me_variant p))
         then allowlist_override q rest
         else Some (p\<lparr>me_variant := (case mr_variant q of Some v \<Rightarrow> v | None \<Rightarrow> me_variant p)\<rparr>))"

definition allowlistedModelOverride :: "string list \<Rightarrow> model_requirement option \<Rightarrow> string \<Rightarrow> model_entry option" where
  "allowlistedModelOverride allowlist requirement agt = (case requirement of None \<Rightarrow> None
     | Some q \<Rightarrow> if mr_provider q = [] \<or> mr_model q = [] \<or> js_lower (js_trim agt) = js_lower MCP_SANITIZED_READER_AGENT then None
         else allowlist_override q allowlist)"

definition retryPolicyRequirement :: "model_entry \<Rightarrow> model_requirement" where
  "retryPolicyRequirement p = \<lparr>mr_provider = me_provider p, mr_model = me_model p,
     mr_variant = (if me_variant p \<noteq> [] then Some (me_variant p) else None), mr_requireRuntimeEvidence = None\<rparr>"

definition retryPolicyModelSpec :: "model_entry \<Rightarrow> string" where
  "retryPolicyModelSpec p = me_provider p @ ''/'' @ me_model p @ (if me_variant p \<noteq> [] then ''@'' @ me_variant p else [])"

definition retryPolicyModelLabel :: "queue_record \<Rightarrow> string" where
  "retryPolicyModelLabel r =
    (if q_configuredModel r \<noteq> [] then or_string (q_configuredProvider r) ''?'' @ ''/'' @ q_configuredModel r
     else case q_modelRequirement r of
       Some q \<Rightarrow> if mr_model q \<noteq> [] then mr_provider q @ ''/'' @ mr_model q else ''profile model''
     | None \<Rightarrow> ''profile model'')"

section \<open>The retry policy's constants\<close>

definition RETRY_POLICY_DEFAULT_ATTEMPTS :: int where "RETRY_POLICY_DEFAULT_ATTEMPTS = 4"
definition RETRY_POLICY_MAX_ATTEMPTS :: int where "RETRY_POLICY_MAX_ATTEMPTS = 10"
definition RETRY_POLICY_MAX_SLOT_WAITS :: int where "RETRY_POLICY_MAX_SLOT_WAITS = 12"
definition RETRY_POLICY_MAX_PAUSE_WAITS :: int where "RETRY_POLICY_MAX_PAUSE_WAITS = 24"
definition RETRY_POLICY_MAX_INFRA_RETRIES :: int where "RETRY_POLICY_MAX_INFRA_RETRIES = 3"
definition RETRY_POLICY_INFRA_RETRY_BASE_MS :: int where "RETRY_POLICY_INFRA_RETRY_BASE_MS = 45000"

definition RETRY_POLICY_HISTORY_MAX :: nat where
  "RETRY_POLICY_HISTORY_MAX = nat (RETRY_POLICY_MAX_ATTEMPTS + RETRY_POLICY_MAX_SLOT_WAITS + RETRY_POLICY_MAX_PAUSE_WAITS + RETRY_POLICY_MAX_INFRA_RETRIES)"

definition RETRY_POLICY_INFRA_ERROR_TYPES :: "string set" where
  "RETRY_POLICY_INFRA_ERROR_TYPES = {''agent_metadata_unavailable'', ''managed_skill_integrity_failed'', ''external_plugin_integrity_failed''}"

definition RETRY_POLICY_RATE_LIMIT_ERROR_TYPES :: "string set" where
  "RETRY_POLICY_RATE_LIMIT_ERROR_TYPES = {''provider_rate_limited'', ''opencode_rate_limited'', ''opencode_quota_exhausted''}"

definition RETRY_POLICY_ERROR_TYPES :: "string set" where
  "RETRY_POLICY_ERROR_TYPES = {
     ''provider_rate_limited'', ''provider_paused'', ''provider_slot_wait_timeout'',
     ''opencode_rate_limited'', ''opencode_quota_exhausted'', ''opencode_billing_error'', ''opencode_auth_error'',
     ''opencode_model_error'', ''opencode_transient_provider_error'', ''opencode_provider_unavailable'',
     ''opencode_transport_error'', ''opencode_api_error'', ''opencode_native_fallback'', ''opencode_stream_malformed'',
     ''agent_idle_timeout'', ''agent_timeout'', ''agent_empty_final_response'', ''agent_exit_nonzero'',
     ''essential_output_truncated'', ''validation_command_failed'', ''self_check_failed'', ''writer_no_changes'',
     ''queue_job_interrupted'', ''queue_ownership_lost'', ''process_supervisor_watchdog_expired''}"

text \<open>A list of models or a count in the request is truthy when it is given (and not 0).\<close>

definition request_asks_retries :: "job option \<Rightarrow> bool" where
  "request_asks_retries q = (case q of None \<Rightarrow> False
     | Some j \<Rightarrow> job_models j \<noteq> None \<or> (maxAttempts j \<noteq> None \<and> maxAttempts j \<noteq> Some 0))"

definition queueRetryDecisionPending :: "queue_record \<Rightarrow> bool \<Rightarrow> bool" where
  "queueRetryDecisionPending r hasRequest \<longleftrightarrow> hasRequest \<and> q_status r \<in> {''failed'', ''interrupted''}
     \<and> q_parentJobId r = [] \<and> \<not> q_cancellationRequested r \<and> q_cancellationRequestedAt r = None
     \<and> q_requeuedAs r = [] \<and> q_completionOutcome r \<noteq> ''gave_up'' \<and> q_retryDecisionOutcome r = []
     \<and> (request_asks_retries (q_request r) \<or> q_maxAttempts r \<noteq> 0 \<or> q_retryAttempt r \<noteq> 0 \<or> q_retryDeferredAt r \<noteq> None)"

section \<open>Fingerprint and lock request\<close>

text \<open>\<open>json\<close> is \<open>JSON.stringify\<close>; an empty field is a deleted one.\<close>

definition queueRequestFingerprint :: "config \<Rightarrow> (job \<Rightarrow> string) \<Rightarrow> job \<Rightarrow> string" where
  "queueRequestFingerprint cf json j = sha256_hex cf (json (j\<lparr>internalQueueContractorProof := [], internalQueueJobId := []\<rparr>))"

datatype lock_refusal = RepositoryScopeReserved | UnsafeLockPath path_reason | LockPathsRequired | AmbiguousLockPath

definition queueHardLockRequestRefusal :: "host \<Rightarrow> queue_record \<Rightarrow> lock_refusal option" where
  "queueHardLockRequestRefusal h r =
    (let raw = (if q_mode r = ''read'' then firstNonEmptyList [q_lockedPaths r, q_readScope r, [REPOSITORY_SCOPE_LOCK_PATH]]
                else firstNonEmptyList [q_allowedEdits r, q_lockedPaths r]);
         repository = (raw = [REPOSITORY_SCOPE_LOCK_PATH]);
         unsafe = (if repository then None else unsafePathReason h raw (q_cwd r));
         normalized = (if repository then [REPOSITORY_SCOPE_LOCK_PATH] else normalizeLockPathListForCwd h raw (q_cwd r))
     in if repository \<and> q_mode r \<noteq> ''read'' then Some RepositoryScopeReserved
        else case unsafe of Some reason \<Rightarrow> Some (UnsafeLockPath reason)
        | None \<Rightarrow> if normalized = [] then Some LockPathsRequired
            else if hasAmbiguousPathPattern h normalized (q_cwd r) then Some AmbiguousLockPath else None)"

section \<open>Worker presence\<close>

datatype kill_result = KillDone | KillNotPermitted | KillFailed

text \<open>\<open>wp_pid\<close> is \<open>None\<close> for a pid that is not an integer.\<close>

record worker_presence =
  wp_pid :: "int option"
  wp_heartbeatAt :: "int option"

definition QUEUE_WORKER_PRESENCE_FRESH_MS :: int where "QUEUE_WORKER_PRESENCE_FRESH_MS = 2 * 60 * 1000"
definition QUEUE_WORKER_PRESENCE_ABANDONED_MS :: int where "QUEUE_WORKER_PRESENCE_ABANDONED_MS = 10 * 60 * 1000"
definition QUEUE_WORKER_CLOCK_SKEW_MS :: int where "QUEUE_WORKER_CLOCK_SKEW_MS = 60 * 1000"

text \<open>\<open>None\<close> is an infinite age.\<close>

definition queueWorkerHeartbeatAgeMs :: "worker_presence \<Rightarrow> int \<Rightarrow> int option" where
  "queueWorkerHeartbeatAgeMs p now = map_option (\<lambda>at. now - at) (wp_heartbeatAt p)"

definition age_between :: "int option \<Rightarrow> int \<Rightarrow> bool" where
  "age_between age limit = (case age of None \<Rightarrow> False | Some a \<Rightarrow> - QUEUE_WORKER_CLOCK_SKEW_MS \<le> a \<and> a < limit)"

definition queueWorkerPresenceFresh :: "worker_presence \<Rightarrow> int \<Rightarrow> bool" where
  "queueWorkerPresenceFresh p now = age_between (queueWorkerHeartbeatAgeMs p now) QUEUE_WORKER_PRESENCE_FRESH_MS"

definition queueWorkerPidAlive :: "(int \<Rightarrow> kill_result) \<Rightarrow> int option \<Rightarrow> bool" where
  "queueWorkerPidAlive kill pid = (case pid of None \<Rightarrow> False | Some n \<Rightarrow> n > 0 \<and> kill n \<noteq> KillFailed)"

definition queueWorkerPresenceRecordsDeadPid :: "(int \<Rightarrow> kill_result) \<Rightarrow> worker_presence \<Rightarrow> bool" where
  "queueWorkerPresenceRecordsDeadPid kill p = (case wp_pid p of None \<Rightarrow> False | Some n \<Rightarrow> n > 0 \<and> \<not> queueWorkerPidAlive kill (Some n))"

definition queueWorkerPresenceLive :: "(int \<Rightarrow> kill_result) \<Rightarrow> worker_presence option \<Rightarrow> int \<Rightarrow> bool" where
  "queueWorkerPresenceLive kill presence now = (case presence of None \<Rightarrow> False
     | Some p \<Rightarrow> if queueWorkerPresenceRecordsDeadPid kill p then False
         else if queueWorkerPresenceFresh p now then True
         else age_between (queueWorkerHeartbeatAgeMs p now) QUEUE_WORKER_PRESENCE_ABANDONED_MS \<and> queueWorkerPidAlive kill (wp_pid p))"

end
