(* ===== verification/QueueStore.thy ===== *)
theory QueueStore
  imports QueueRecord
begin

text \<open>
  Model of \<open>lib/queue/store.js\<close>: the durable job table, its guarded writes and the race between a
  finishing owner and a cancellation, with the propagation of a child's end to its pipeline and siblings
  (\<open>server.js\<close>).  One transaction is one step with an outcome; the encryption and the redaction of
  results are functions of the process record.  Of a pipeline row its status, owner, batch and revision are kept.
\<close>

section \<open>The tables\<close>

record queue_row =
  qr_job_id :: string
  qr_cwd :: string
  qr_status :: string
  qr_agent :: string
  qr_mode :: string
  qr_created_at :: "int option"
  qr_started_at :: "int option"
  qr_finished_at :: "int option"
  qr_updated_at :: "int option"
  qr_owner_instance_id :: string
  qr_owner_process_id :: int
  qr_owner_generation :: string
  qr_heartbeat_at :: "int option"
  qr_lease_expires_at :: "int option"
  qr_cancellation_requested_at :: "int option"
  qr_child_process_id :: int
  qr_child_process_started_at :: "int option"
  qr_revision :: int
  qr_idempotency_key :: "string option"
  qr_request_encrypted :: "string option"
  qr_result_encrypted :: "string option"
  qr_record :: "queue_record option"

record pipeline_row =
  pl_pipeline_id :: string
  pl_status :: string
  pl_owner_instance_id :: string
  pl_owner_generation :: string
  pl_owner_heartbeat_at :: "int option"
  pl_owner_lease_expires_at :: "int option"
  pl_expected_child_count :: int
  pl_batch_state :: string
  pl_updated_at :: "int option"
  pl_finished_at :: "int option"
  pl_revision :: int

text \<open>\<open>qd_children\<close> pairs a pipeline with a job; a job is in at most one pair.\<close>

record queue_db =
  qd_jobs :: "queue_row list"
  qd_pipelines :: "pipeline_row list"
  qd_children :: "(string \<times> string) list"
  qd_instances :: "(string \<times> int) list"
  qd_locks :: lock_db

record queue_process =
  qp_instance :: string
  qp_pid :: int
  qp_mode :: string
  qp_leaseMs :: int
  qp_heartbeatMs :: int
  qp_staleAfterMs :: int
  qp_resultMaxChars :: nat
  qp_encrypt :: "queue_record \<Rightarrow> string"
  qp_redact :: "string \<Rightarrow> string"

definition find_job :: "queue_db \<Rightarrow> string \<Rightarrow> queue_row option" where
  "find_job db i = List.find (\<lambda>r. qr_job_id r = i) (qd_jobs db)"

text \<open>\<open>UPDATE ... WHERE\<close>: the number of changed rows and the table after it.\<close>

definition update_jobs :: "(queue_row \<Rightarrow> bool) \<Rightarrow> (queue_row \<Rightarrow> queue_row) \<Rightarrow> queue_db \<Rightarrow> nat \<times> queue_db" where
  "update_jobs P f db = (length (filter P (qd_jobs db)), db\<lparr>qd_jobs := map (\<lambda>r. if P r then f r else r) (qd_jobs db)\<rparr>)"

text \<open>Texts of times compare like the times; an empty text is below all of them.\<close>

definition later_than :: "int option \<Rightarrow> int \<Rightarrow> bool" where
  "later_than t now = (case t of Some n \<Rightarrow> n > now | None \<Rightarrow> False)"

definition instance_live :: "queue_db \<Rightarrow> string \<Rightarrow> int \<Rightarrow> bool" where
  "instance_live db i now = list_ex (\<lambda>(n, e). n = i \<and> e > now) (qd_instances db)"

definition or_time :: "int option \<Rightarrow> int option \<Rightarrow> int option" where
  "or_time a b = (case a of Some t \<Rightarrow> Some t | None \<Rightarrow> b)"

section \<open>Records and rows\<close>

definition blank_record :: queue_record where
  "blank_record = \<lparr>q_jobId = [], q_parentJobId = [], q_idempotencyKey = [], q_requestFingerprint = [], q_requeuedFrom = [],
     q_requeuedAs = [], q_requeueSequence = 0, q_requeuedAt = None, q_retryAttempt = 0, q_maxAttempts = 0,
     q_retryDecisionPendingAt = None, q_retryDecisionOutcome = [], q_retryDecisionAt = None, q_retryDeferredAt = None,
     q_attemptHistory = [], q_slotWaitRequeues = 0, q_pauseWaitRequeues = 0, q_infraRetryRequeues = 0,
     q_startAfter = None, q_startAfterReason = [], q_status = [], q_revision = 0, q_ownerInstanceId = [],
     q_ownerProcessId = 0, q_ownerGeneration = [], q_heartbeatAt = None, q_leaseExpiresAt = None, q_childProcessId = 0,
     q_childProcessStartedAt = None, q_cancellationRequested = False, q_cancellationRequestedAt = None,
     q_orphanChildProcessId = 0, q_orphanChildProcessAlive = False, q_createdAt = None, q_startedAt = None,
     q_agentStartedAt = None, q_finishedAt = None, q_agent = [], q_cwd = [], q_mode = [], q_lockedPaths = [],
     q_allowedEdits = [], q_readScope = [], q_modelRequirement = None, q_request = None, q_requestEncrypted = [],
     q_worktreePath = [], q_worktreeBaseCommit = [], q_patchSha256 = [], q_changedFiles = [], q_noChanges = False,
     q_errorType = [], q_completionOutcome = [], q_resultText = [], q_resultReportTruncated = False, q_outputCount = 0,
     q_finalResponseDetected = False, q_providerRefusedUntil = None, q_configuredProvider = [], q_configuredModel = [],
     q_agentProcessMs = None, q_afterAgentMs = None, q_lockId = [], q_dryRun = False, q_workspaceWaits = 0\<rparr>"

definition last_entries :: "nat \<Rightarrow> 'a list \<Rightarrow> 'a list" where
  "last_entries n xs = drop (length xs - n) xs"

definition result_cut :: "queue_process \<Rightarrow> queue_record \<Rightarrow> bool" where
  "result_cut qp r \<longleftrightarrow> q_resultReportTruncated r \<or> length (qp_redact qp (q_resultText r)) > qp_resultMaxChars qp"

definition queueRecordDurableSummary :: "queue_process \<Rightarrow> queue_record \<Rightarrow> queue_record" where
  "queueRecordDurableSummary qp r = r\<lparr>q_attemptHistory := last_entries RETRY_POLICY_HISTORY_MAX (q_attemptHistory r),
     q_startAfterReason := (if q_startAfter r = None then [] else q_startAfterReason r),
     q_completionOutcome := (if q_completionOutcome r \<noteq> [] then q_completionOutcome r
       else if q_status r = ''completed'' \<and> result_cut qp r then ''completed_with_truncated_output'' else []),
     q_request := None, q_requestEncrypted := [], q_resultText := [], q_resultReportTruncated := False, q_dryRun := False\<rparr>"

text \<open>A finished record that runs no code keeps its summary only.\<close>

definition releaseFinishedQueueDetails :: "queue_process \<Rightarrow> bool \<Rightarrow> queue_record \<Rightarrow> queue_record" where
  "releaseFinishedQueueDetails qp executing r =
    (if qp_mode qp \<noteq> ''sqlite'' \<or> executing \<or> q_status r \<notin> terminal_statuses then r else queueRecordDurableSummary qp r)"

definition enforceQueueResultEvidence :: "queue_process \<Rightarrow> queue_record \<Rightarrow> queue_record" where
  "enforceQueueResultEvidence qp r =
    (let text = qp_redact qp (q_resultText r);
         without_final = (q_status r = ''completed'' \<and> js_trim text = []);
         without_evidence = (q_status r = ''completed'' \<and> q_mode r = ''write'' \<and> \<not> q_noChanges r
            \<and> q_changedFiles r = [] \<and> q_patchSha256 r = [])
     in if without_final \<or> without_evidence
        then r\<lparr>q_status := ''failed'', q_errorType := (if without_final then ''completion_evidence_missing'' else ''write_completion_evidence_missing'')\<rparr>
        else if q_status r = ''completed'' \<and> (q_resultReportTruncated r \<or> length text > qp_resultMaxChars qp)
        then r\<lparr>q_completionOutcome := ''completed_with_truncated_output''\<rparr>
        else if q_status r = ''completed'' \<and> q_mode r = ''write'' \<and> q_noChanges r \<and> q_completionOutcome r = []
        then r\<lparr>q_completionOutcome := ''completed_no_changes''\<rparr>
        else if q_status r = ''failed'' \<and> q_mode r = ''write'' \<and> q_completionOutcome r = []
             \<and> q_errorType r \<in> {''agent_timeout'', ''agent_idle_timeout''} \<and> q_changedFiles r \<noteq> []
        then r\<lparr>q_completionOutcome := ''timed_out_with_changes''\<rparr> else r)"

definition with_columns :: "queue_row \<Rightarrow> queue_record \<Rightarrow> queue_record" where
  "with_columns row r = r\<lparr>q_status := qr_status row, q_startedAt := qr_started_at row, q_finishedAt := qr_finished_at row,
     q_ownerInstanceId := qr_owner_instance_id row, q_ownerProcessId := qr_owner_process_id row,
     q_ownerGeneration := qr_owner_generation row, q_heartbeatAt := qr_heartbeat_at row, q_leaseExpiresAt := qr_lease_expires_at row,
     q_cancellationRequested := qr_cancellation_requested_at row \<noteq> None, q_cancellationRequestedAt := qr_cancellation_requested_at row,
     q_childProcessId := qr_child_process_id row, q_childProcessStartedAt := qr_child_process_started_at row,
     q_revision := qr_revision row,
     q_idempotencyKey := (case qr_idempotency_key row of Some k \<Rightarrow> or_string k (q_idempotencyKey r) | None \<Rightarrow> q_idempotencyKey r)\<rparr>"

definition persistedQueueRecordFromRow :: "queue_row \<Rightarrow> queue_record" where
  "persistedQueueRecordFromRow row = with_columns row (case qr_record row of Some s \<Rightarrow> s | None \<Rightarrow> blank_record)"

text \<open>The fields a stored summary does not have stay as they are in memory.\<close>

definition loadPersistedQueueRecord :: "queue_record \<Rightarrow> queue_row option \<Rightarrow> queue_record" where
  "loadPersistedQueueRecord r row = (case row of None \<Rightarrow> r
     | Some row \<Rightarrow> with_columns row (case qr_record row of None \<Rightarrow> r
         | Some s \<Rightarrow> s\<lparr>q_request := q_request r, q_requestEncrypted := q_requestEncrypted r, q_resultText := q_resultText r,
             q_resultReportTruncated := q_resultReportTruncated r, q_dryRun := q_dryRun r\<rparr>))"

section \<open>A child ends: its pipeline and its siblings\<close>

definition row_summary :: "queue_row \<Rightarrow> queue_record" where
  "row_summary row = (case qr_record row of Some s \<Rightarrow> s | None \<Rightarrow> blank_record)"

definition sibling_of :: "queue_db \<Rightarrow> string \<Rightarrow> string \<Rightarrow> queue_row \<Rightarrow> bool" where
  "sibling_of db pipeline child row \<longleftrightarrow> qr_job_id row \<noteq> child \<and> (pipeline, qr_job_id row) \<in> set (qd_children db)"

definition cancel_unstarted :: "int \<Rightarrow> queue_row \<Rightarrow> queue_row" where
  "cancel_unstarted at x = x\<lparr>qr_status := ''cancelled'', qr_finished_at := Some at, qr_cancellation_requested_at := Some at,
     qr_updated_at := Some at, qr_heartbeat_at := None, qr_lease_expires_at := None, qr_child_process_id := 0,
     qr_child_process_started_at := None, qr_record := Some ((row_summary x)\<lparr>q_status := ''cancelled'', q_finishedAt := Some at,
       q_cancellationRequested := True, q_cancellationRequestedAt := Some at, q_errorType := ''agent_cancelled''\<rparr>),
     qr_revision := qr_revision x + 1\<rparr>"

definition request_cancellation :: "int \<Rightarrow> queue_row \<Rightarrow> queue_row" where
  "request_cancellation at x = x\<lparr>qr_cancellation_requested_at := or_time (qr_cancellation_requested_at x) (Some at),
     qr_updated_at := Some at, qr_record := Some ((row_summary x)\<lparr>q_cancellationRequested := True, q_cancellationRequestedAt := Some at\<rparr>),
     qr_revision := qr_revision x + 1\<rparr>"

definition end_pipeline :: "string \<Rightarrow> string \<Rightarrow> int \<Rightarrow> pipeline_row \<Rightarrow> pipeline_row" where
  "end_pipeline pipeline status at p = (if pl_pipeline_id p = pipeline \<and> pl_status p \<in> {''planned'', ''running''}
     then p\<lparr>pl_status := status, pl_updated_at := Some at, pl_finished_at := Some at, pl_revision := pl_revision p + 1\<rparr> else p)"

definition child_rows :: "queue_db \<Rightarrow> string \<Rightarrow> queue_row list" where
  "child_rows db pipeline = filter (\<lambda>r. (pipeline, qr_job_id r) \<in> set (qd_children db)) (qd_jobs db)"

definition failed_parent_status :: "queue_row list \<Rightarrow> string" where
  "failed_parent_status rs = (if list_ex (\<lambda>r. qr_status r \<in> {''failed'', ''interrupted'', ''not_resumable''}) rs then ''failed''
     else if list_ex (\<lambda>r. qr_status r = ''cancelled'') rs then ''cancelled'' else [])"

definition propagatePipelineTerminal :: "string \<Rightarrow> int \<Rightarrow> queue_db \<Rightarrow> queue_db" where
  "propagatePipelineTerminal child at db =
    (case List.find (\<lambda>(_, j). j = child) (qd_children db) of None \<Rightarrow> db
     | Some (pipeline, _) \<Rightarrow>
       (case List.find (\<lambda>p. pl_pipeline_id p = pipeline) (qd_pipelines db) of None \<Rightarrow> db
        | Some parent \<Rightarrow> if pl_status parent \<notin> {''planned'', ''running''} then db
            else let status = failed_parent_status (child_rows db pipeline) in if status = [] then db
            else let db1 = snd (update_jobs (\<lambda>r. sibling_of db pipeline child r \<and> qr_status r \<in> pre_execution) (cancel_unstarted at) db);
                     db2 = snd (update_jobs (\<lambda>r. sibling_of db pipeline child r \<and> qr_status r \<in> active_statuses) (request_cancellation at) db1)
                 in db2\<lparr>qd_pipelines := map (end_pipeline pipeline status at) (qd_pipelines db2)\<rparr>))"

text \<open>The time handed to the propagation: the record's end, or now.\<close>

definition propagated :: "int \<Rightarrow> queue_record \<Rightarrow> queue_db \<Rightarrow> queue_db" where
  "propagated now t db = propagatePipelineTerminal (q_jobId t) (case q_finishedAt t of Some at \<Rightarrow> at | None \<Rightarrow> now) db"

section \<open>Cancellation\<close>

definition applyDurableCancellationOutcome :: "queue_record \<Rightarrow> int option \<Rightarrow> queue_record" where
  "applyDurableCancellationOutcome r requestedAt = r\<lparr>q_status := ''cancelled'', q_retryDecisionPendingAt := None,
     q_cancellationRequested := True, q_cancellationRequestedAt := or_time requestedAt (q_cancellationRequestedAt r),
     q_errorType := ''agent_cancelled'', q_resultText := [], q_resultReportTruncated := False\<rparr>"

datatype cancel_result =
    CancelMissing
  | CancelAlreadyTerminal string
  | CancelUnsupported string
  | CancelAlreadyStarted string
  | CancelDone int int
  | CancelRequested string int int
  | CancelContention
  | CancelThrown

definition cancel_refusal :: "bool \<Rightarrow> queue_row option \<Rightarrow> cancel_result option" where
  "cancel_refusal unstarted row = (case row of None \<Rightarrow> Some CancelMissing
     | Some r \<Rightarrow> if qr_status r \<in> terminal_statuses then Some (CancelAlreadyTerminal (qr_status r))
         else if qr_status r \<notin> pre_execution \<and> qr_status r \<notin> active_statuses then Some (CancelUnsupported (qr_status r))
         else if unstarted \<and> qr_status r \<notin> pre_execution then Some (CancelAlreadyStarted (qr_status r))
         else None)"

definition makeCancellationPatch :: "int \<Rightarrow> queue_row \<Rightarrow> int \<times> bool \<times> queue_record" where
  "makeCancellationPatch now row =
    (let requestedAt = (case qr_cancellation_requested_at row of Some t \<Rightarrow> t | None \<Rightarrow> now);
         r = (persistedQueueRecordFromRow row)\<lparr>q_jobId := qr_job_id row\<rparr>;
         pre = (qr_status row \<in> pre_execution)
     in (requestedAt, pre,
         if pre then (applyDurableCancellationOutcome r (Some requestedAt))\<lparr>q_finishedAt := Some requestedAt, q_heartbeatAt := None,
              q_leaseExpiresAt := None, q_childProcessId := 0, q_childProcessStartedAt := None, q_revision := qr_revision row + 1\<rparr>
         else r\<lparr>q_cancellationRequested := True, q_cancellationRequestedAt := Some requestedAt, q_revision := qr_revision row + 1\<rparr>))"

definition same_row_version :: "queue_row \<Rightarrow> queue_row \<Rightarrow> bool" where
  "same_row_version row r \<longleftrightarrow> qr_job_id r = qr_job_id row \<and> qr_status r = qr_status row \<and> qr_revision r = qr_revision row
     \<and> qr_owner_instance_id r = qr_owner_instance_id row \<and> qr_owner_generation r = qr_owner_generation row"

definition cancel_row :: "queue_process \<Rightarrow> int \<Rightarrow> queue_row \<Rightarrow> queue_row \<Rightarrow> queue_row" where
  "cancel_row qp now row r = (case makeCancellationPatch now row of (requestedAt, pre, next) \<Rightarrow>
     if pre then r\<lparr>qr_status := ''cancelled'', qr_finished_at := Some requestedAt, qr_cancellation_requested_at := Some requestedAt,
          qr_updated_at := Some requestedAt, qr_heartbeat_at := None, qr_lease_expires_at := None, qr_child_process_id := 0,
          qr_child_process_started_at := None, qr_record := Some (queueRecordDurableSummary qp next),
          qr_result_encrypted := Some (qp_encrypt qp next), qr_revision := qr_revision r + 1\<rparr>
     else r\<lparr>qr_cancellation_requested_at := or_time (qr_cancellation_requested_at r) (Some requestedAt), qr_updated_at := Some requestedAt,
          qr_record := Some (queueRecordDurableSummary qp next), qr_revision := qr_revision r + 1\<rparr>)"

text \<open>The write of one attempt; the end of a job that never ran reaches its pipeline.\<close>

definition cancel_transaction :: "queue_process \<Rightarrow> int \<Rightarrow> queue_row \<Rightarrow> queue_db \<Rightarrow> nat \<times> queue_db" where
  "cancel_transaction qp now row db = (case update_jobs (same_row_version row) (cancel_row qp now row) db of (changes, db') \<Rightarrow>
     (changes, if changes = 1 \<and> qr_status row \<in> pre_execution
        then propagatePipelineTerminal (qr_job_id row) (case qr_cancellation_requested_at row of Some at \<Rightarrow> at | None \<Rightarrow> now) db' else db'))"

text \<open>
  One attempt: a look outside the transaction, what other processes do before the write lock is taken,
  and the transaction.  The list of attempts is the retry budget (8 by default).
\<close>

record cancel_turn =
  cn_others :: "queue_db \<Rightarrow> queue_db"
  cn_now :: int
  cn_commit :: commit_outcome

fun cancelPersistedQueueJob :: "queue_process \<Rightarrow> bool \<Rightarrow> string \<Rightarrow> cancel_turn list \<Rightarrow> queue_db \<Rightarrow> cancel_result \<times> queue_db" where
  "cancelPersistedQueueJob qp unstarted i [] db = (CancelContention, db)"
| "cancelPersistedQueueJob qp unstarted i (t # ts) db0 =
    (case cancel_refusal unstarted (find_job db0 i) of Some e \<Rightarrow> (e, db0)
     | None \<Rightarrow> let db = cn_others t db0 in
       (case find_job db i of None \<Rightarrow> (CancelMissing, db)
        | Some row \<Rightarrow> (case cancel_refusal unstarted (Some row) of Some e \<Rightarrow> (e, db)
          | None \<Rightarrow> (case cancel_transaction qp (cn_now t) row db of (changes, db'') \<Rightarrow>
              (case cn_commit t of CommitLost \<Rightarrow> (CancelThrown, db) | CommitDurableError \<Rightarrow> (CancelThrown, db'')
               | Committed \<Rightarrow> if changes = 1
                   then (case makeCancellationPatch (cn_now t) row of (requestedAt, pre, next) \<Rightarrow>
                          if pre then CancelDone requestedAt (qr_revision row + 1)
                          else CancelRequested (qr_status row) requestedAt (qr_revision row + 1), db'')
                   else cancelPersistedQueueJob qp unstarted i ts db'')))))"

section \<open>The terminal write\<close>

text \<open>A revision that only heartbeats advanced: the stored summary is not newer than the copy being written.\<close>

definition summary_not_newer :: "queue_row \<Rightarrow> int \<Rightarrow> bool" where
  "summary_not_newer row revision = (case qr_record row of None \<Rightarrow> False
     | Some s \<Rightarrow> 0 \<le> q_revision s \<and> q_revision s \<le> revision \<and> q_status s = qr_status row)"

definition heartbeatOnlyQueueAdvance :: "queue_process \<Rightarrow> queue_row option \<Rightarrow> queue_record \<Rightarrow> int \<Rightarrow> bool" where
  "heartbeatOnlyQueueAdvance qp current r attempted = (case current of None \<Rightarrow> False
     | Some row \<Rightarrow> qr_owner_instance_id row = qp_instance qp \<and> q_ownerGeneration r \<noteq> [] \<and> qr_owner_generation row = q_ownerGeneration r
         \<and> qr_revision row > attempted \<and> summary_not_newer row attempted)"

datatype terminal_result =
    TerminalPersisted string bool
  | NeedsCancellationEnvelope
  | TerminalRefused string bool bool
  | TerminalThrown

text \<open>\<open>terminalRecord\<close> as first built, and its retry intent.\<close>

definition terminal_record :: "queue_row option \<Rightarrow> int \<Rightarrow> queue_record \<Rightarrow> queue_record" where
  "terminal_record current attempted r = (case current of
      None \<Rightarrow> r\<lparr>q_revision := attempted + 1\<rparr>
    | Some row \<Rightarrow> r\<lparr>q_ownerInstanceId := or_string (qr_owner_instance_id row) (q_ownerInstanceId r),
        q_ownerProcessId := (if qr_owner_process_id row \<noteq> 0 then qr_owner_process_id row else q_ownerProcessId r),
        q_ownerGeneration := or_string (qr_owner_generation row) (q_ownerGeneration r), q_revision := attempted + 1\<rparr>)"

definition noteRetryIntent :: "int \<Rightarrow> queue_row option \<Rightarrow> queue_record \<Rightarrow> queue_record" where
  "noteRetryIntent now current t = t\<lparr>q_retryDecisionPendingAt :=
     (if queueRetryDecisionPending t (case current of Some row \<Rightarrow> qr_request_encrypted row \<noteq> None | None \<Rightarrow> False)
      then or_time (q_retryDecisionPendingAt t) (Some now) else None)\<rparr>"

definition owned_version :: "queue_process \<Rightarrow> string \<Rightarrow> string \<Rightarrow> int \<Rightarrow> queue_row \<Rightarrow> bool" where
  "owned_version qp i generation revision r \<longleftrightarrow> qr_job_id r = i \<and> qr_owner_instance_id r = qp_instance qp
     \<and> qr_owner_generation r = generation \<and> generation \<noteq> [] \<and> qr_revision r = revision"

definition write_terminal :: "queue_process \<Rightarrow> int \<Rightarrow> queue_record \<Rightarrow> string option \<Rightarrow> queue_row \<Rightarrow> queue_row" where
  "write_terminal qp now t envelope r = r\<lparr>qr_status := q_status t, qr_started_at := q_startedAt t, qr_finished_at := q_finishedAt t,
     qr_updated_at := Some now, qr_heartbeat_at := q_heartbeatAt t, qr_lease_expires_at := q_leaseExpiresAt t,
     qr_child_process_id := q_childProcessId t, qr_child_process_started_at := q_childProcessStartedAt t,
     qr_record := Some (queueRecordDurableSummary qp t), qr_result_encrypted := envelope, qr_revision := qr_revision r + 1\<rparr>"

definition unleased :: "int \<Rightarrow> queue_record \<Rightarrow> queue_record" where
  "unleased now t = t\<lparr>q_finishedAt := or_time (q_finishedAt t) (Some now), q_heartbeatAt := None, q_leaseExpiresAt := None,
     q_childProcessId := 0, q_childProcessStartedAt := None\<rparr>"

definition attempted_revision :: "queue_process \<Rightarrow> queue_row option \<Rightarrow> queue_record \<Rightarrow> int" where
  "attempted_revision qp current r =
    (if heartbeatOnlyQueueAdvance qp current r (q_revision r) then qr_revision (the current) else q_revision r)"

text \<open>The owner ends a job that never ran.\<close>

definition ends_unstarted :: "queue_process \<Rightarrow> queue_row option \<Rightarrow> queue_record \<Rightarrow> bool" where
  "ends_unstarted qp current r = (case current of None \<Rightarrow> False
     | Some row \<Rightarrow> qr_status row \<in> pre_execution \<and> qr_owner_instance_id row = qp_instance qp
         \<and> qr_owner_generation row = q_ownerGeneration r \<and> q_status r \<in> {''failed'', ''cancelled''})"

definition ended_record :: "queue_process \<Rightarrow> int \<Rightarrow> queue_row option \<Rightarrow> queue_record \<Rightarrow> queue_record" where
  "ended_record qp now current r = (let t = terminal_record current (attempted_revision qp current r) r in
     if \<not> ends_unstarted qp current r then t
     else case qr_cancellation_requested_at (the current) of None \<Rightarrow> unleased now t
       | Some at \<Rightarrow> applyDurableCancellationOutcome (unleased now t) (Some at))"

text \<open>The three guarded writes, tried in this order; \<open>envelope\<close> is the encrypted cancellation result, once made.\<close>

definition unstarted_write :: "queue_process \<Rightarrow> int \<Rightarrow> string option \<Rightarrow> queue_record \<Rightarrow> queue_record \<Rightarrow> queue_db \<Rightarrow> nat \<times> queue_db" where
  "unstarted_write qp now envelope r t db = (let current = find_job db (q_jobId r) in
     if \<not> ends_unstarted qp current r then (0, db)
     else update_jobs (\<lambda>x. owned_version qp (q_jobId r) (q_ownerGeneration r) (attempted_revision qp current r) x
            \<and> qr_status x = qr_status (the current))
       (write_terminal qp now t (if q_status t = ''cancelled'' then envelope else Some (qp_encrypt qp r))) db)"

definition active_write :: "queue_process \<Rightarrow> int \<Rightarrow> queue_record \<Rightarrow> queue_record \<Rightarrow> queue_db \<Rightarrow> nat \<times> queue_db" where
  "active_write qp now r t db = update_jobs
     (\<lambda>x. owned_version qp (q_jobId r) (q_ownerGeneration r) (attempted_revision qp (find_job db (q_jobId r)) r) x
        \<and> qr_status x \<in> active_statuses \<and> qr_cancellation_requested_at x = None \<and> instance_live db (qr_owner_instance_id x) now)
     (write_terminal qp now t (Some (qp_encrypt qp r))) db"

definition owns_cancelled :: "queue_process \<Rightarrow> queue_record \<Rightarrow> queue_row option \<Rightarrow> bool" where
  "owns_cancelled qp r current = (case current of None \<Rightarrow> False
     | Some row \<Rightarrow> qr_owner_instance_id row = qp_instance qp \<and> qr_owner_generation row = q_ownerGeneration r
         \<and> qr_status row \<in> active_statuses \<and> qr_cancellation_requested_at row \<noteq> None)"

definition cancelled_record :: "int \<Rightarrow> queue_record \<Rightarrow> queue_row \<Rightarrow> queue_record" where
  "cancelled_record now r row = (unleased now (applyDurableCancellationOutcome r (qr_cancellation_requested_at row)))\<lparr>
     q_ownerInstanceId := qr_owner_instance_id row, q_ownerProcessId := qr_owner_process_id row,
     q_ownerGeneration := qr_owner_generation row, q_revision := qr_revision row + 1\<rparr>"

definition cancellation_write :: "queue_process \<Rightarrow> int \<Rightarrow> string option \<Rightarrow> queue_record \<Rightarrow> queue_row \<Rightarrow> queue_db \<Rightarrow> nat \<times> queue_db" where
  "cancellation_write qp now envelope r row db = update_jobs
     (\<lambda>x. owned_version qp (q_jobId r) (q_ownerGeneration r) (qr_revision row) x \<and> qr_status x \<in> active_statuses
        \<and> qr_cancellation_requested_at x \<noteq> None)
     (write_terminal qp now (cancelled_record now r row) envelope) db"

definition terminal_refusal :: "queue_process \<Rightarrow> queue_record \<Rightarrow> int \<Rightarrow> queue_db \<Rightarrow> terminal_result" where
  "terminal_refusal qp r attempted db = (case find_job db (q_jobId r) of None \<Rightarrow> TerminalRefused ''missing'' False False
     | Some x \<Rightarrow> TerminalRefused (qr_status x) (qr_cancellation_requested_at x \<noteq> None)
         (\<not> (qr_owner_instance_id x = qp_instance qp \<and> qr_owner_generation x = q_ownerGeneration r \<and> qr_revision x = attempted)))"

text \<open>A write that changed no row leaves the table as it was, so the next one is tried on \<open>db\<close> again.\<close>

definition terminal_transaction ::
  "queue_process \<Rightarrow> int \<Rightarrow> string option \<Rightarrow> queue_record \<Rightarrow> queue_db \<Rightarrow> terminal_result \<times> queue_record \<times> queue_db" where
  "terminal_transaction qp now envelope r db =
    (let current = find_job db (q_jobId r); ended = ended_record qp now current r; t = noteRetryIntent now current ended in
     if ends_unstarted qp current r \<and> q_status ended = ''cancelled'' \<and> envelope = None then (NeedsCancellationEnvelope, r, db)
     else case unstarted_write qp now envelope r t db of (changes1, db1) \<Rightarrow>
       if changes1 = 1 then (TerminalPersisted (q_status t) (q_status t = ''cancelled''), t, propagated now t db1)
       else case active_write qp now r t db of (changes2, db2) \<Rightarrow>
         if changes2 = 1 then (TerminalPersisted (q_status t) False, t, propagated now t db2)
         else if owns_cancelled qp r current \<and> envelope = None then (NeedsCancellationEnvelope, r, db)
         else case (if owns_cancelled qp r current then cancellation_write qp now envelope r (the current) db else (0, db)) of (changes3, db3) \<Rightarrow>
           if changes3 = 1 then let c = cancelled_record now r (the current) in (TerminalPersisted ''cancelled'' True, c, propagated now c db3)
           else (terminal_refusal qp r (attempted_revision qp current r) db, loadPersistedQueueRecord r current, db))"

text \<open>A commit that fails leaves the record alone; the table changes only when the commit was durable all the same.\<close>

definition persistTerminalQueueRecord ::
  "queue_process \<Rightarrow> int \<Rightarrow> commit_outcome \<Rightarrow> string option \<Rightarrow> queue_record \<Rightarrow> queue_db \<Rightarrow> terminal_result \<times> queue_record \<times> queue_db" where
  "persistTerminalQueueRecord qp now commit envelope r db =
    (case terminal_transaction qp now envelope r db of (res, r', db') \<Rightarrow>
       if res = NeedsCancellationEnvelope then (res, r', db')
       else case commit of Committed \<Rightarrow> (res, r', db') | CommitLost \<Rightarrow> (TerminalThrown, r, db) | CommitDurableError \<Rightarrow> (TerminalThrown, r, db'))"

section \<open>Persisting a record\<close>

datatype persist_result =
    Persisted string int
  | PersistDeduplicated string
  | PersistConflict string
  | PersistFull
  | PersistRefused string int
  | PersistTerminal terminal_result
  | PersistThrown

text \<open>
  What a write meets: the time and commit outcome of its transaction, whether the database is over its
  capacity, whether the record still runs code here, and, for the second terminal attempt (made after
  the cancellation envelope is encrypted), what others did in between and that attempt's outcome.
\<close>

record persist_env =
  pe_now :: int
  pe_commit :: commit_outcome
  pe_full :: bool
  pe_executing :: bool
  pe_others :: "queue_db \<Rightarrow> queue_db"
  pe_now2 :: int
  pe_commit2 :: commit_outcome

definition insert_row :: "queue_process \<Rightarrow> int \<Rightarrow> queue_record \<Rightarrow> queue_row" where
  "insert_row qp now r = \<lparr>qr_job_id = q_jobId r, qr_cwd = q_cwd r, qr_status = q_status r, qr_agent = q_agent r, qr_mode = q_mode r,
     qr_created_at = q_createdAt r, qr_started_at = q_startedAt r, qr_finished_at = q_finishedAt r, qr_updated_at = Some now,
     qr_owner_instance_id = q_ownerInstanceId r, qr_owner_process_id = q_ownerProcessId r, qr_owner_generation = q_ownerGeneration r,
     qr_heartbeat_at = q_heartbeatAt r, qr_lease_expires_at = q_leaseExpiresAt r,
     qr_cancellation_requested_at = q_cancellationRequestedAt r, qr_child_process_id = q_childProcessId r,
     qr_child_process_started_at = q_childProcessStartedAt r, qr_revision = q_revision r,
     qr_idempotency_key = (if q_idempotencyKey r \<noteq> [] then Some (q_idempotencyKey r) else None),
     qr_request_encrypted = (if q_requestEncrypted r \<noteq> [] then Some (q_requestEncrypted r) else None),
     qr_result_encrypted = Some (qp_encrypt qp r), qr_record = Some (queueRecordDurableSummary qp r)\<rparr>"

definition fingerprint_matches :: "queue_row \<Rightarrow> queue_record \<Rightarrow> bool" where
  "fingerprint_matches row r = (case qr_record row of None \<Rightarrow> False
     | Some s \<Rightarrow> q_requestFingerprint s \<noteq> [] \<and> q_requestFingerprint s = q_requestFingerprint r)"

definition insert_transaction :: "queue_process \<Rightarrow> persist_env \<Rightarrow> queue_record \<Rightarrow> queue_db \<Rightarrow> persist_result \<times> queue_db" where
  "insert_transaction qp e r db =
    (let existing = (if q_idempotencyKey r = [] then None
           else List.find (\<lambda>x. qr_idempotency_key x = Some (q_idempotencyKey r)) (qd_jobs db))
     in case existing of
          Some x \<Rightarrow> if \<not> fingerprint_matches x r then (PersistConflict (qr_job_id x), db) else (PersistDeduplicated (qr_job_id x), db)
        | None \<Rightarrow> if pe_full e then (PersistFull, db)
            else (Persisted (q_status r) (q_revision r), db\<lparr>qd_jobs := qd_jobs db @ [insert_row qp (pe_now e) r]\<rparr>))"

definition write_row :: "queue_process \<Rightarrow> int \<Rightarrow> queue_record \<Rightarrow> string \<Rightarrow> queue_row \<Rightarrow> queue_row" where
  "write_row qp now n envelope x = x\<lparr>qr_cwd := q_cwd n, qr_status := q_status n, qr_agent := q_agent n, qr_mode := q_mode n,
     qr_started_at := q_startedAt n, qr_finished_at := q_finishedAt n, qr_record := Some (queueRecordDurableSummary qp n),
     qr_owner_instance_id := q_ownerInstanceId n, qr_owner_process_id := q_ownerProcessId n, qr_owner_generation := q_ownerGeneration n,
     qr_updated_at := Some now, qr_heartbeat_at := q_heartbeatAt n, qr_lease_expires_at := q_leaseExpiresAt n,
     qr_cancellation_requested_at := or_time (qr_cancellation_requested_at x) (q_cancellationRequestedAt n),
     qr_child_process_id := q_childProcessId n, qr_child_process_started_at := q_childProcessStartedAt n,
     qr_result_encrypted := Some envelope, qr_revision := qr_revision x + 1\<rparr>"

definition update_transaction :: "queue_process \<Rightarrow> int \<Rightarrow> queue_record \<Rightarrow> queue_row \<Rightarrow> queue_db \<Rightarrow> persist_result \<times> queue_record \<times> queue_db" where
  "update_transaction qp now r row db =
    (let sameOwner = (qr_owner_instance_id row = qp_instance qp \<and> qr_owner_generation row = q_ownerGeneration r \<and> q_ownerGeneration r \<noteq> []);
         advance = (sameOwner \<and> qr_revision row > q_revision r \<and> summary_not_newer row (q_revision r));
         r1 = (if advance then r\<lparr>q_revision := qr_revision row, q_heartbeatAt := or_time (qr_heartbeat_at row) (q_heartbeatAt r),
                 q_leaseExpiresAt := or_time (qr_lease_expires_at row) (q_leaseExpiresAt r)\<rparr> else r)
     in if qr_status row \<in> terminal_statuses \<or> \<not> sameOwner \<or> (qr_revision row \<noteq> q_revision r \<and> \<not> advance)
        then (PersistRefused (qr_status row) (qr_revision row), loadPersistedQueueRecord r1 (Some row), db)
        else let n = r1\<lparr>q_cancellationRequested := qr_cancellation_requested_at row \<noteq> None \<or> q_cancellationRequested r1,
                   q_cancellationRequestedAt := or_time (qr_cancellation_requested_at row) (q_cancellationRequestedAt r1),
                   q_revision := qr_revision row + 1\<rparr>;
                 (changes, db') = update_jobs
                   (\<lambda>x. owned_version qp (q_jobId r) (q_ownerGeneration r) (qr_revision row) x \<and> qr_status x = qr_status row
                      \<and> later_than (qr_lease_expires_at x) now \<and> qr_cancellation_requested_at x = None
                      \<and> instance_live db (qr_owner_instance_id x) now)
                   (write_row qp now n (qp_encrypt qp r)) db
             in if changes = 1 then (Persisted (q_status n) (q_revision n), n, db')
                else let current = find_job db' (q_jobId r) in
                  (PersistRefused (case current of Some x \<Rightarrow> qr_status x | None \<Rightarrow> ''missing'') (case current of Some x \<Rightarrow> qr_revision x | None \<Rightarrow> 0),
                   loadPersistedQueueRecord r1 current, db'))"

definition persistQueueRecord :: "queue_process \<Rightarrow> persist_env \<Rightarrow> queue_record \<Rightarrow> queue_db \<Rightarrow> persist_result \<times> queue_record \<times> queue_db" where
  "persistQueueRecord qp e r0 db =
    (let r = enforceQueueResultEvidence qp r0 in
     if qp_mode qp \<noteq> ''sqlite'' then (Persisted (q_status r) (q_revision r + 1), r\<lparr>q_revision := q_revision r + 1\<rparr>, db)
     else if q_status r \<in> {''completed'', ''failed'', ''cancelled''} then
       (case persistTerminalQueueRecord qp (pe_now e) (pe_commit e) None r db of (res, r1, db1) \<Rightarrow>
          if res \<noteq> NeedsCancellationEnvelope
          then (PersistTerminal res, (case res of TerminalPersisted _ _ \<Rightarrow> releaseFinishedQueueDetails qp (pe_executing e) r1 | _ \<Rightarrow> r1), db1)
          else (case persistTerminalQueueRecord qp (pe_now2 e) (pe_commit2 e) (Some (qp_encrypt qp (applyDurableCancellationOutcome r None))) r (pe_others e db1)
             of (res2, r2, db2) \<Rightarrow>
               (PersistTerminal res2, (case res2 of TerminalPersisted _ _ \<Rightarrow> releaseFinishedQueueDetails qp (pe_executing e) r2 | _ \<Rightarrow> r2), db2)))
     else case find_job db (q_jobId r) of
       None \<Rightarrow> (case insert_transaction qp e r db of (res, db') \<Rightarrow>
          (case res of Persisted _ _ \<Rightarrow> (case pe_commit e of Committed \<Rightarrow> (res, r, db') | CommitLost \<Rightarrow> (PersistThrown, r, db) | CommitDurableError \<Rightarrow> (PersistThrown, r, db'))
           | PersistDeduplicated _ \<Rightarrow> (if pe_commit e = Committed then res else PersistThrown, r, db)
           | _ \<Rightarrow> (res, r, db)))
     | Some row \<Rightarrow> (case update_transaction qp (pe_now e) r row db of (res, r', db') \<Rightarrow>
          (case pe_commit e of Committed \<Rightarrow> (res, r', db') | CommitLost \<Rightarrow> (PersistThrown, r, db) | CommitDurableError \<Rightarrow> (PersistThrown, r, db'))))"

text \<open>
  \<open>updateQueueRecordDurable\<close>: \<open>live\<close> is the record as a heartbeat may have left it during the write; a
  renewal it made is kept.  The answer is the write's result and the record the process goes on with.
\<close>

definition merge_live :: "queue_record \<Rightarrow> queue_record \<Rightarrow> queue_record" where
  "merge_live live candidate =
    (if q_revision live > q_revision candidate \<and> q_ownerGeneration live = q_ownerGeneration candidate
     then candidate\<lparr>q_revision := q_revision live, q_heartbeatAt := q_heartbeatAt live, q_leaseExpiresAt := q_leaseExpiresAt live\<rparr>
     else candidate)"

definition updateQueueRecordDurable ::
  "queue_process \<Rightarrow> persist_env \<Rightarrow> (queue_record \<Rightarrow> queue_record) \<Rightarrow> (queue_record \<Rightarrow> queue_record) \<Rightarrow> queue_record \<Rightarrow> queue_db
    \<Rightarrow> persist_result \<times> queue_record \<times> queue_db" where
  "updateQueueRecordDurable qp e patch heartbeat r db =
    (case persistQueueRecord qp e (patch r) db of (res, candidate, db') \<Rightarrow> (res, merge_live (heartbeat r) candidate, db'))"

section \<open>Reading\<close>

definition readPersistedQueueRecord :: "queue_process \<Rightarrow> string \<Rightarrow> queue_db \<Rightarrow> queue_record option" where
  "readPersistedQueueRecord qp i db = (if qp_mode qp \<noteq> ''sqlite'' then None else
     Option.bind (find_job db i) (\<lambda>row. map_option (\<lambda>s. s\<lparr>q_status := qr_status row, q_finishedAt := qr_finished_at row,
       q_heartbeatAt := qr_heartbeat_at row, q_leaseExpiresAt := qr_lease_expires_at row,
       q_cancellationRequested := qr_cancellation_requested_at row \<noteq> None, q_cancellationRequestedAt := qr_cancellation_requested_at row,
       q_childProcessId := qr_child_process_id row, q_childProcessStartedAt := qr_child_process_started_at row,
       q_revision := qr_revision row\<rparr>) (qr_record row)))"

end
