(* ===== verification/QueueLeases.thy ===== *)
theory QueueLeases
  imports QueueStore
begin

text \<open>
  Model of the queue part of \<open>lib/queue/leases.js\<close>: renewing and re-taking the lease of a job row, the
  fence that stops local work before the lease ends, the hand-over of a row another process ended, the
  heartbeat of one state database (jobs and pipelines) and the reconciliation of rows whose owner is gone.  A process keeps a
  \<open>local_job\<close> for every record it tracks; the fence timer is the time at which it fires.
\<close>

section \<open>Local ownership\<close>

record local_job =
  lj_record :: queue_record
  lj_ownershipLost :: bool
  lj_aborted :: "string option"
  lj_running :: bool
  lj_fence :: "int option"

text \<open>\<open>abortController?.abort(error)\<close>: the first abort wins.\<close>

definition abort_local :: "string \<Rightarrow> local_job \<Rightarrow> local_job" where
  "abort_local e j = (if lj_running j \<and> lj_aborted j = None then j\<lparr>lj_aborted := Some e\<rparr> else j)"

definition loseQueueOwnership :: "local_job \<Rightarrow> local_job" where
  "loseQueueOwnership j = (if lj_ownershipLost j then j
     else abort_local ''queue_ownership_lost'' (j\<lparr>lj_ownershipLost := True\<rparr>))"

definition QUEUE_TERMINAL_ROW_STATUSES :: "string set" where
  "QUEUE_TERMINAL_ROW_STATUSES = {''completed'', ''failed'', ''cancelled'', ''interrupted'', ''not_resumable''}"

definition QUEUE_PRE_EXECUTION_STATUSES :: "string set" where
  "QUEUE_PRE_EXECUTION_STATUSES = {''held'', ''pending'', ''planned'', ''blocked''}"

datatype handover = HandoverCancelled string | HandoverFinished string

definition queueOwnershipHandover :: "queue_db \<Rightarrow> queue_record \<Rightarrow> handover option" where
  "queueOwnershipHandover db r = (case find_job db (q_jobId r) of None \<Rightarrow> None
     | Some row \<Rightarrow> if qr_cancellation_requested_at row \<noteq> None \<or> qr_status row = ''cancelled'' then Some (HandoverCancelled (qr_status row))
         else if qr_status row \<in> QUEUE_TERMINAL_ROW_STATUSES then Some (HandoverFinished (qr_status row)) else None)"

definition releaseQueueOwnership :: "handover \<Rightarrow> local_job \<Rightarrow> local_job" where
  "releaseQueueOwnership h j = (if lj_ownershipLost j then j
     else abort_local (case h of HandoverCancelled _ \<Rightarrow> ''agent_cancelled'' | _ \<Rightarrow> ''queue_job_finished_elsewhere'')
       (j\<lparr>lj_ownershipLost := True,
          lj_record := (case h of HandoverCancelled _ \<Rightarrow> (lj_record j)\<lparr>q_cancellationRequested := True\<rparr> | _ \<Rightarrow> lj_record j)\<rparr>))"

definition resetQueueLeaseFence :: "queue_process \<Rightarrow> int \<Rightarrow> local_job \<Rightarrow> local_job" where
  "resetQueueLeaseFence qp now j0 = (let j = j0\<lparr>lj_fence := None\<rparr>; r = lj_record j in
     if qp_mode qp \<noteq> ''sqlite'' \<or> \<not> lj_running j \<or> q_status r \<notin> active_statuses then j
     else case q_leaseExpiresAt r of None \<Rightarrow> loseQueueOwnership j
       | Some e \<Rightarrow> j\<lparr>lj_fence := Some (now + max 0 (e - now - max 20 (min (qp_heartbeatMs qp) (qp_leaseMs qp div 4))))\<rparr>)"

definition noteQueueLeaseRenewalFailure :: "queue_process \<Rightarrow> int \<Rightarrow> bool \<Rightarrow> local_job \<Rightarrow> local_job" where
  "noteQueueLeaseRenewalFailure qp now definitive j = (case q_leaseExpiresAt (lj_record j) of
      None \<Rightarrow> loseQueueOwnership j
    | Some e \<Rightarrow> if definitive \<or> now + qp_heartbeatMs qp \<ge> e then loseQueueOwnership j else j)"

section \<open>Renewing and re-taking a lease\<close>

definition unfinished :: "string \<Rightarrow> bool" where
  "unfinished s \<longleftrightarrow> s \<in> pre_execution \<or> s \<in> active_statuses"

definition renew_row :: "int \<Rightarrow> int \<Rightarrow> queue_row \<Rightarrow> queue_row" where
  "renew_row now expires x = x\<lparr>qr_heartbeat_at := Some now, qr_lease_expires_at := Some expires, qr_updated_at := Some now,
     qr_revision := qr_revision x + 1\<rparr>"

text \<open>The renewed record, or \<open>None\<close>; \<open>RETURNING revision\<close> reads the first changed row.\<close>

definition renewed_record :: "int \<Rightarrow> int \<Rightarrow> (queue_row \<Rightarrow> bool) \<Rightarrow> queue_record \<Rightarrow> queue_db \<Rightarrow> queue_record option \<times> queue_db" where
  "renewed_record now expires P r db = (case List.find P (qd_jobs db) of None \<Rightarrow> (None, db)
     | Some x \<Rightarrow> (Some (r\<lparr>q_heartbeatAt := Some now, q_leaseExpiresAt := Some expires,
           q_revision := (if qr_revision x + 1 \<noteq> 0 then qr_revision x + 1 else q_revision r)\<rparr>), snd (update_jobs P (renew_row now expires) db)))"

definition renewPersistedQueueRecordLease :: "queue_process \<Rightarrow> int \<Rightarrow> int \<Rightarrow> queue_record \<Rightarrow> queue_db \<Rightarrow> queue_record option \<times> queue_db" where
  "renewPersistedQueueRecordLease qp now expires r db = renewed_record now expires
     (\<lambda>x. qr_job_id x = q_jobId r \<and> qr_owner_instance_id x = qp_instance qp \<and> qr_owner_generation x = q_ownerGeneration r
        \<and> later_than (qr_lease_expires_at x) now \<and> unfinished (qr_status x) \<and> qr_cancellation_requested_at x = None
        \<and> instance_live db (qr_owner_instance_id x) now) r db"

definition reacquirePersistedQueueRecordLease :: "queue_process \<Rightarrow> int \<Rightarrow> int \<Rightarrow> queue_record \<Rightarrow> queue_db \<Rightarrow> queue_record option \<times> queue_db" where
  "reacquirePersistedQueueRecordLease qp now expires r db = (if q_ownerGeneration r = [] then (None, db)
     else renewed_record now expires (\<lambda>x. owned_version qp (q_jobId r) (q_ownerGeneration r) (q_revision r) x
        \<and> unfinished (qr_status x) \<and> qr_cancellation_requested_at x = None) r db)"

text \<open>\<open>check()\<close> of the probe during a provider wait: the local job and the error it throws, if any.\<close>

definition wait_ownership_check :: "queue_process \<Rightarrow> int \<Rightarrow> queue_db \<Rightarrow> local_job \<Rightarrow> local_job \<times> string option" where
  "wait_ownership_check qp now db j = (let r = lj_record j in
     case find_job db (q_jobId r) of None \<Rightarrow> (loseQueueOwnership j, Some ''queue_ownership_lost'')
     | Some row \<Rightarrow>
         if qr_status row = ''cancelled'' \<or> qr_cancellation_requested_at row \<noteq> None then
           (releaseQueueOwnership (HandoverCancelled (qr_status row))
              (j\<lparr>lj_record := r\<lparr>q_revision := (if qr_revision row \<noteq> 0 then qr_revision row else q_revision r),
                 q_cancellationRequestedAt := or_time (qr_cancellation_requested_at row) (q_cancellationRequestedAt r)\<rparr>\<rparr>), Some ''agent_cancelled'')
         else if qr_status row \<in> QUEUE_TERMINAL_ROW_STATUSES then
           (releaseQueueOwnership (HandoverFinished (qr_status row)) j, Some ''queue_job_finished_elsewhere'')
         else if qr_owner_instance_id row \<noteq> qp_instance qp \<or> qr_owner_generation row \<noteq> q_ownerGeneration r
              \<or> qr_status row \<notin> active_statuses \<or> \<not> later_than (qr_lease_expires_at row) now
              \<or> \<not> instance_live db (qr_owner_instance_id row) now
         then (loseQueueOwnership j, Some ''queue_ownership_lost'') else (j, None))"

definition assertQueueRecordDurableOwnership :: "queue_process \<Rightarrow> int \<Rightarrow> queue_db \<Rightarrow> queue_record \<Rightarrow> bool" where
  "assertQueueRecordDurableOwnership qp now db r = (qp_mode qp \<noteq> ''sqlite'' \<or> (case find_job db (q_jobId r) of None \<Rightarrow> False
     | Some row \<Rightarrow> qr_status row \<in> active_statuses \<and> qr_owner_instance_id row = qp_instance qp
         \<and> qr_owner_generation row = q_ownerGeneration r \<and> later_than (qr_lease_expires_at row) now))"

text \<open>The deadline to go on until, or \<open>None\<close>.\<close>

definition renewQueueRecordDurableOwnership :: "queue_process \<Rightarrow> int \<Rightarrow> local_job \<Rightarrow> queue_db \<Rightarrow> int option \<times> local_job \<times> queue_db" where
  "renewQueueRecordDurableOwnership qp now j db = (if qp_mode qp \<noteq> ''sqlite'' then (Some (now + qp_leaseMs qp), j, db)
     else case renewPersistedQueueRecordLease qp now (now + qp_leaseMs qp) (lj_record j) db of
       (None, db') \<Rightarrow> (None, noteQueueLeaseRenewalFailure qp now True j, db')
     | (Some r, db') \<Rightarrow> (q_leaseExpiresAt r, resetQueueLeaseFence qp now (j\<lparr>lj_record := r\<rparr>), db'))"

section \<open>The heartbeat of one state database\<close>

definition upsert_instance :: "string \<Rightarrow> int \<Rightarrow> (string \<times> int) list \<Rightarrow> (string \<times> int) list" where
  "upsert_instance i e xs = (if list_ex (\<lambda>(n, _). n = i) xs then map (\<lambda>(n, x). (n, if n = i then e else x)) xs else xs @ [(i, e)])"

definition beats :: "queue_process \<Rightarrow> local_job \<Rightarrow> bool" where
  "beats qp j \<longleftrightarrow> q_ownerInstanceId (lj_record j) = qp_instance qp \<and> unfinished (q_status (lj_record j))"

text \<open>One tracked job inside the transaction: the row is renewed, re-taken, handed over or lost.\<close>

definition beat_job :: "queue_process \<Rightarrow> int \<Rightarrow> local_job \<Rightarrow> queue_db \<Rightarrow> local_job \<times> queue_db" where
  "beat_job qp now j db =
    (let expires = now + qp_leaseMs qp; r = lj_record j;
         adopt = (\<lambda>j' n. resetQueueLeaseFence qp now (j'\<lparr>lj_record := r\<lparr>q_heartbeatAt := q_heartbeatAt n, q_leaseExpiresAt := q_leaseExpiresAt n, q_revision := q_revision n\<rparr>\<rparr>))
     in case renewPersistedQueueRecordLease qp now expires r db of
          (Some n, db') \<Rightarrow> (adopt j n, db')
        | (None, _) \<Rightarrow>
            (case (if q_status r \<in> QUEUE_PRE_EXECUTION_STATUSES then reacquirePersistedQueueRecordLease qp now expires r db else (None, db)) of
               (Some n, db') \<Rightarrow> (adopt (j\<lparr>lj_ownershipLost := False\<rparr>) n, db')
             | (None, _) \<Rightarrow> (case queueOwnershipHandover db r of
                   Some h \<Rightarrow> (releaseQueueOwnership h j, db)
                 | None \<Rightarrow> (noteQueueLeaseRenewalFailure qp now True j, db))))"

fun beat_jobs :: "queue_process \<Rightarrow> int \<Rightarrow> local_job list \<Rightarrow> queue_db \<Rightarrow> local_job list \<times> queue_db" where
  "beat_jobs qp now [] db = ([], db)"
| "beat_jobs qp now (j # js) db =
    (case (if beats qp j then beat_job qp now j db else (j, db)) of (j', db') \<Rightarrow>
       case beat_jobs qp now js db' of (js', db'') \<Rightarrow> (j' # js', db''))"

definition note_cancellation :: "queue_process \<Rightarrow> queue_db \<Rightarrow> local_job \<Rightarrow> local_job" where
  "note_cancellation qp db j = (case find_job db (q_jobId (lj_record j)) of None \<Rightarrow> j
     | Some row \<Rightarrow> if qr_owner_instance_id row = qp_instance qp \<and> qr_cancellation_requested_at row \<noteq> None \<and> unfinished (qr_status row)
         then abort_local ''abort'' (j\<lparr>lj_record := (lj_record j)\<lparr>q_revision := (if qr_revision row \<noteq> 0 then qr_revision row else q_revision (lj_record j)),
                  q_cancellationRequested := True, q_cancellationRequestedAt := qr_cancellation_requested_at row\<rparr>\<rparr>) else j)"

section \<open>Rows whose owner is gone\<close>

definition processIsAlive :: "(int \<Rightarrow> kill_result) \<Rightarrow> int \<Rightarrow> bool" where
  "processIsAlive kill pid \<longleftrightarrow> pid > 0 \<and> kill pid = KillDone"

definition releaseQueueJobLocks :: "int \<Rightarrow> string \<Rightarrow> lock_db \<Rightarrow> nat \<times> lock_db" where
  "releaseQueueJobLocks now lockId db =
    (let gone = (\<lambda>r. run_id r = lockId \<and> expires_at r \<noteq> MAX_SAFE_INTEGER);
         removed = length (filter gone (locks db));
         db1 = db\<lparr>locks := filter (\<lambda>r. \<not> gone r) (locks db)\<rparr>;
         db2 = (if removed > 0 \<and> no_rows_of db1 lockId then db1\<lparr>runs := map (\<lambda>r. if rn_id r = lockId \<and> rn_status r = ''running''
                  then r\<lparr>rn_status := ''expired'', rn_finished_at := Some now\<rparr> else r) (runs db1)\<rparr> else db1)
     in (removed, if no_rows_of db2 lockId then db2\<lparr>queue_job_locks := filter (\<lambda>q. ql_lock_id q \<noteq> lockId) (queue_job_locks db2)\<rparr> else db2))"

definition activity_at :: "queue_row \<Rightarrow> int option" where
  "activity_at row = (let s = row_summary row in or_time (qr_heartbeat_at row) (or_time (qr_lease_expires_at row)
     (or_time (qr_started_at row) (or_time (q_startedAt s) (or_time (qr_created_at row) (q_createdAt s))))))"

definition recently_active :: "queue_process \<Rightarrow> int \<Rightarrow> queue_row \<Rightarrow> bool" where
  "recently_active qp now row = (case activity_at row of Some a \<Rightarrow> now - a < qp_staleAfterMs qp | None \<Rightarrow> False)"

definition has_owner :: "queue_row \<Rightarrow> bool" where
  "has_owner row \<longleftrightarrow> qr_owner_instance_id row \<noteq> [] \<or> qr_owner_process_id row \<noteq> 0 \<or> qr_owner_generation row \<noteq> []"

definition still_owned :: "queue_process \<Rightarrow> int \<Rightarrow> queue_db \<Rightarrow> queue_row \<Rightarrow> bool" where
  "still_owned qp now db row =
    (if has_owner row then
       (case or_time (qr_lease_expires_at row) (q_leaseExpiresAt (row_summary row)) of
          Some e \<Rightarrow> e > now | None \<Rightarrow> recently_active qp now row)
       \<or> (qr_owner_instance_id row \<noteq> [] \<and> qr_owner_instance_id row \<noteq> qp_instance qp
          \<and> (case map_of (qd_instances db) (qr_owner_instance_id row) of Some e \<Rightarrow> e > now | None \<Rightarrow> False))
     else recently_active qp now row)"

definition reconciled_status :: "queue_row \<Rightarrow> string" where
  "reconciled_status row =
    (if qr_cancellation_requested_at row \<noteq> None \<or> q_cancellationRequestedAt (row_summary row) \<noteq> None then ''cancelled''
     else if qr_status row \<in> active_statuses then ''interrupted'' else ''not_resumable'')"

definition reconciled_summary :: "(int \<Rightarrow> kill_result) \<Rightarrow> int \<Rightarrow> queue_row \<Rightarrow> queue_record" where
  "reconciled_summary kill now row =
    (let s = row_summary row;
         pid = (if qr_child_process_id row \<noteq> 0 then qr_child_process_id row else q_childProcessId s);
         alive = (qr_status row \<in> active_statuses \<and> processIsAlive kill pid);
         status = reconciled_status row;
         n = s\<lparr>q_status := status, q_finishedAt := Some now, q_heartbeatAt := None, q_leaseExpiresAt := None,
           q_revision := qr_revision row + 1,
           q_errorType := (if status = ''cancelled'' then ''agent_cancelled'' else if status = ''interrupted'' then ''queue_job_interrupted''
              else ''queue_job_not_resumable''),
           q_orphanChildProcessId := (if alive then pid else 0), q_orphanChildProcessAlive := alive\<rparr>
     in n\<lparr>q_retryDecisionPendingAt := (if queueRetryDecisionPending n (qr_request_encrypted row \<noteq> None)
            then or_time (q_retryDecisionPendingAt n) (Some now) else None)\<rparr>)"

definition reconciles :: "queue_process \<Rightarrow> string set \<Rightarrow> int \<Rightarrow> queue_db \<Rightarrow> queue_row \<Rightarrow> bool" where
  "reconciles qp tracked now db row \<longleftrightarrow> unfinished (qr_status row) \<and> qr_job_id row \<notin> tracked
     \<and> \<not> (qr_status row \<in> pre_execution \<and> qr_request_encrypted row \<noteq> None) \<and> \<not> still_owned qp now db row
     \<and> \<not> later_than (qr_lease_expires_at row) now
     \<and> (qr_owner_instance_id row = qp_instance qp \<or> \<not> instance_live db (qr_owner_instance_id row) now)"

definition reconciled_row :: "(int \<Rightarrow> kill_result) \<Rightarrow> int \<Rightarrow> queue_row \<Rightarrow> queue_row" where
  "reconciled_row kill now row = row\<lparr>qr_status := reconciled_status row, qr_finished_at := Some now, qr_updated_at := Some now,
     qr_heartbeat_at := None, qr_lease_expires_at := None, qr_record := Some (reconciled_summary kill now row),
     qr_revision := qr_revision row + 1\<rparr>"

text \<open>The locks of a job whose run was interrupted; the owner's associations and the recorded lock.\<close>

definition interrupted_lock_ids :: "queue_db \<Rightarrow> queue_row \<Rightarrow> string list" where
  "interrupted_lock_ids db row = uniq ((if q_lockId (row_summary row) \<noteq> [] then [q_lockId (row_summary row)] else [])
     @ map ql_lock_id (filter (\<lambda>q. ql_job_id q = qr_job_id row \<and> ql_owner_generation q = qr_owner_generation row) (queue_job_locks (qd_locks db))))"

fun reconcile_rows :: "queue_process \<Rightarrow> (int \<Rightarrow> kill_result) \<Rightarrow> string set \<Rightarrow> int \<Rightarrow> queue_row list \<Rightarrow> queue_db
    \<Rightarrow> (string \<times> string) list \<times> queue_db" where
  "reconcile_rows qp kill tracked now [] db = ([], db)"
| "reconcile_rows qp kill tracked now (row # rows) db =
    (if \<not> reconciles qp tracked now db row then reconcile_rows qp kill tracked now rows db
     else let (changes, db0) = update_jobs (same_row_version row) (reconciled_row kill now) db;
              db1 = propagatePipelineTerminal (qr_job_id row) now db0;
              ids = (if qr_status row \<in> active_statuses then interrupted_lock_ids db row else []);
              db2 = db1\<lparr>qd_locks := fold (\<lambda>i ld. snd (releaseQueueJobLocks now i ld)) ids (qd_locks db1)\<rparr>;
              (done, db3) = reconcile_rows qp kill tracked now rows (if changes > 0 then db2 else db0)
          in (if changes > 0 then (qr_job_id row, reconciled_status row) # done else done, db3))"

text \<open>The reconciled jobs with their new status, and the jobs to run the retry policy for.\<close>

definition reconcileStaleQueueRecords ::
  "queue_process \<Rightarrow> (int \<Rightarrow> kill_result) \<Rightarrow> string set \<Rightarrow> int \<Rightarrow> commit_outcome \<Rightarrow> queue_db
    \<Rightarrow> ((string \<times> string) list \<times> string list) option \<times> queue_db" where
  "reconcileStaleQueueRecords qp kill tracked now commit db =
    (case reconcile_rows qp kill tracked now (qd_jobs db) db of (reconciled, db') \<Rightarrow>
       case commit of CommitLost \<Rightarrow> (None, db) | CommitDurableError \<Rightarrow> (None, db')
       | Committed \<Rightarrow> (Some (reconciled, map fst (filter (\<lambda>(i, s). s = ''interrupted''
           \<and> (case find_job db i of Some row \<Rightarrow> qr_request_encrypted row \<noteq> None | None \<Rightarrow> False)) reconciled)), db'))"

text \<open>
  A tracked pipeline keeps its lease, or re-takes it under its generation; one another owner holds is
  dropped.  The loss is noted during the transaction, the new lease after its commit.
\<close>

record local_pipeline =
  pp_pipelineId :: string
  pp_status :: string
  pp_ownerInstanceId :: string
  pp_ownerGeneration :: string
  pp_heartbeatAt :: "int option"
  pp_leaseExpiresAt :: "int option"
  pp_ownershipLost :: bool
  pp_tracked :: bool

definition beats_pipeline :: "queue_process \<Rightarrow> local_pipeline \<Rightarrow> bool" where
  "beats_pipeline qp p \<longleftrightarrow> pp_tracked p \<and> pp_ownerInstanceId p = qp_instance qp \<and> pp_ownerGeneration p \<noteq> []
     \<and> pp_status p \<notin> {''completed'', ''failed'', ''cancelled''}"

definition renew_pipeline :: "int \<Rightarrow> int \<Rightarrow> (pipeline_row \<Rightarrow> bool) \<Rightarrow> queue_db \<Rightarrow> nat \<times> queue_db" where
  "renew_pipeline now expires P db = (length (filter P (qd_pipelines db)), db\<lparr>qd_pipelines := map (\<lambda>x. if P x
     then x\<lparr>pl_owner_heartbeat_at := Some now, pl_owner_lease_expires_at := Some expires\<rparr> else x) (qd_pipelines db)\<rparr>)"

definition owns_pipeline :: "queue_process \<Rightarrow> local_pipeline \<Rightarrow> pipeline_row \<Rightarrow> bool" where
  "owns_pipeline qp p x \<longleftrightarrow> pl_pipeline_id x = pp_pipelineId p \<and> pl_owner_instance_id x = qp_instance qp
     \<and> pl_owner_generation x = pp_ownerGeneration p"

definition beat_pipeline :: "queue_process \<Rightarrow> int \<Rightarrow> local_pipeline \<Rightarrow> queue_db \<Rightarrow> bool \<times> local_pipeline \<times> queue_db" where
  "beat_pipeline qp now p db = (let expires = now + qp_leaseMs qp;
       open_row = (\<lambda>x. owns_pipeline qp p x \<and> pl_status x \<notin> {''completed'', ''failed'', ''cancelled''}) in
     case renew_pipeline now expires (\<lambda>x. open_row x \<and> later_than (pl_owner_lease_expires_at x) now) db of (renewed, db1) \<Rightarrow>
       if renewed = 1 then (True, p, db1)
       else case renew_pipeline now expires open_row db1 of (reclaimed, db2) \<Rightarrow>
         if reclaimed = 1 then (True, p, db2)
         else (False, p\<lparr>pp_ownershipLost := True, pp_tracked := pp_tracked p \<and> list_ex (owns_pipeline qp p) (qd_pipelines db2)\<rparr>, db2))"

text \<open>The pipelines as the transaction leaves them, and as the commit does.\<close>

fun beat_pipelines :: "queue_process \<Rightarrow> int \<Rightarrow> local_pipeline list \<Rightarrow> queue_db \<Rightarrow> local_pipeline list \<times> local_pipeline list \<times> queue_db" where
  "beat_pipelines qp now [] db = ([], [], db)"
| "beat_pipelines qp now (p # ps) db =
    (case (if beats_pipeline qp p then beat_pipeline qp now p db else (False, p, db)) of (renewed, p', db') \<Rightarrow>
       case beat_pipelines qp now ps db' of (ps', done, db'') \<Rightarrow>
         (p' # ps', (if renewed then p'\<lparr>pp_heartbeatAt := Some now, pp_leaseExpiresAt := Some (now + qp_leaseMs qp)\<rparr> else p') # done, db''))"

text \<open>\<open>foreign\<close>: a live worker of another process owns the repository's queue, so its rows are left alone.\<close>

definition heartbeatKnownQueueState ::
  "queue_process \<Rightarrow> (int \<Rightarrow> kill_result) \<Rightarrow> bool \<Rightarrow> int \<Rightarrow> commit_outcome \<Rightarrow> commit_outcome \<Rightarrow> local_job list \<Rightarrow> local_pipeline list \<Rightarrow> queue_db
    \<Rightarrow> local_job list \<times> local_pipeline list \<times> queue_db" where
  "heartbeatKnownQueueState qp kill foreign now commit commit2 js ps db =
    (let db1 = db\<lparr>qd_instances := filter (\<lambda>(_, e). \<not> e < now - qp_staleAfterMs qp) (upsert_instance (qp_instance qp) (now + qp_leaseMs qp) (qd_instances db))\<rparr>;
         (js1, dbj) = beat_jobs qp now js db1;
         (ps1, ps2, db2) = beat_pipelines qp now ps dbj;
         failed = (\<lambda>now js. map (\<lambda>j. if beats qp j then noteQueueLeaseRenewalFailure qp now False j else j) js);
         applied = map (note_cancellation qp db2) js1;
         tracked = set (map (\<lambda>j. q_jobId (lj_record j)) js)
     in case commit of CommitLost \<Rightarrow> (failed now js, ps1, db) | CommitDurableError \<Rightarrow> (failed now js, ps1, db2)
        | Committed \<Rightarrow> if foreign then (applied, ps2, db2)
            else (case reconcileStaleQueueRecords qp kill tracked now commit2 db2 of (res, db3) \<Rightarrow>
               (case res of Some _ \<Rightarrow> applied | None \<Rightarrow> failed now applied, ps2, db3)))"

end
