(* ===== verification/RetryPolicy.thy ===== *)
theory RetryPolicy
  imports QueueLeases
begin

text \<open>
  Model of \<open>lib/queue/retry.js\<close>: the retry policy a job asks for, the choice of the next model, the
  guarded updates of a finished row, the decision after a failed attempt and the requeue.  Enqueueing,
  decryption, the pauses and the worktree commands are functions of the environment.  Requests were
  checked against the job schema when they were stored, so their fields are typed.
\<close>

section \<open>The policy of a job\<close>

record retry_policy =
  rp_models :: "model_entry list"
  rp_maxAttempts :: int

record queue_config =
  qc_config :: config
  qc_provider :: provider_config
  qc_allowlist :: "string list"
  qc_blockedPollMs :: int
  qc_autoResumeInterrupted :: bool
  qc_autoIntegrateAllowed :: bool

datatype policy_check = NoPolicy | Policy retry_policy | PolicyError string

fun policy_models :: "string list \<Rightarrow> string \<Rightarrow> string list \<Rightarrow> string + model_entry list" where
  "policy_models allowlist agt [] = Inr []"
| "policy_models allowlist agt (e # es) =
    (case parseModelAllowlistEntry e of None \<Rightarrow> Inl ''retry_policy_invalid''
     | Some p \<Rightarrow> if allowlistedModelOverride allowlist (Some (retryPolicyRequirement p)) agt = None then Inl ''retry_policy_model_not_allowlisted''
         else (case policy_models allowlist agt es of Inl x \<Rightarrow> Inl x | Inr ps \<Rightarrow> Inr (p # ps)))"

definition jobRetryPolicy :: "queue_config \<Rightarrow> job \<Rightarrow> policy_check" where
  "jobRetryPolicy qc j =
    (if job_models j = None \<and> maxAttempts j = None then NoPolicy
     else if (case job_models j of None \<Rightarrow> False | Some ms \<Rightarrow> ms = [] \<or> length ms > 8) then PolicyError ''retry_policy_invalid''
     else if (case maxAttempts j of None \<Rightarrow> False | Some n \<Rightarrow> n < 1 \<or> n > RETRY_POLICY_MAX_ATTEMPTS) then PolicyError ''retry_policy_invalid''
     else case policy_models (qc_allowlist qc) (agent j) (case job_models j of None \<Rightarrow> [] | Some ms \<Rightarrow> ms) of
       Inl e \<Rightarrow> PolicyError e
     | Inr ps \<Rightarrow> Policy \<lparr>rp_models = ps, rp_maxAttempts = (case maxAttempts j of Some n \<Rightarrow> n | None \<Rightarrow> RETRY_POLICY_DEFAULT_ATTEMPTS)\<rparr>)"

definition requirement_in :: "model_requirement \<Rightarrow> model_entry list \<Rightarrow> bool" where
  "requirement_in q ps = list_ex (\<lambda>p. me_provider p = mr_provider q \<and> me_model p = mr_model q
     \<and> (mr_variant q = None \<or> mr_variant q = Some [] \<or> mr_variant q = Some (me_variant p))) ps"

definition empty_contract :: raw_contract where
  "empty_contract = \<lparr>rc_agent = [], rc_role = [], rc_mode = [], rc_read = [], rc_write = [], rc_allowedEdits = [], rc_forbidden = [],
     rc_shared = [], rc_serialOnly = [], rc_validationCommand = [], rc_scope = None, rc_actions = [], rc_validation = None,
     rc_timeoutMs = None, rc_timeoutPolicy = None, rc_modelRequirement = None, rc_selfCheckCommands = None\<rparr>"

text \<open>The requirement of the first model, with the evidence flag the contract already had.\<close>

definition pinned_requirement :: "model_requirement option \<Rightarrow> model_requirement \<Rightarrow> model_requirement" where
  "pinned_requirement previous q = (case previous of None \<Rightarrow> q | Some p \<Rightarrow> q\<lparr>mr_requireRuntimeEvidence := mr_requireRuntimeEvidence p\<rparr>)"

text \<open>\<open>None\<close> when \<open>hasWriteIntent\<close> throws.\<close>

definition applyRetryPolicyToJob :: "queue_config \<Rightarrow> string \<Rightarrow> job \<Rightarrow> string \<Rightarrow> (policy_check \<times> job) option" where
  "applyRetryPolicyToJob qc mode j parentJobId =
    (case jobRetryPolicy qc j of
       PolicyError e \<Rightarrow> Some (PolicyError e, j)
     | NoPolicy \<Rightarrow> Some (NoPolicy, j)
     | Policy p \<Rightarrow>
         if mode \<noteq> ''sqlite'' \<or> parentJobId \<noteq> [] \<or> sanitizedWorkspace j \<or> orchestratorMode j = ''contractor''
         then Some (PolicyError ''retry_policy_not_applicable'', j)
         else let requirement = Option.bind (scopeContract j) rc_modelRequirement in
         (case (rp_models p, requirement) of
            ([], _) \<Rightarrow> Some (Policy p, j)
          | (ms, Some q) \<Rightarrow> if \<not> requirement_in q ms then Some (PolicyError ''retry_policy_invalid'', j) else Some (Policy p, j)
          | (m # _, None) \<Rightarrow>
              (case scopeContract j of
                 Some c \<Rightarrow> Some (Policy p, j\<lparr>scopeContract := Some (c\<lparr>rc_modelRequirement := Some (retryPolicyRequirement m)\<rparr>)\<rparr>)
               | None \<Rightarrow> map_option (\<lambda>w. (Policy p, j\<lparr>scopeContract := Some (empty_contract\<lparr>rc_mode := (if w then ''write'' else ''read''),
                    rc_modelRequirement := Some (retryPolicyRequirement m)\<rparr>)\<rparr>)) (hasWriteIntent (qc_config qc) j))))"

section \<open>The next model\<close>

definition pause_end :: "(string \<times> int) list \<Rightarrow> string \<Rightarrow> int" where
  "pause_end pauses k = (case map_of pauses k of Some t \<Rightarrow> t | None \<Rightarrow> 0)"

definition candidatePausedUntil :: "provider_config \<Rightarrow> (string \<times> int) list \<Rightarrow> string \<Rightarrow> string \<Rightarrow> int" where
  "candidatePausedUntil pc pauses provider mdl = foldr max
     (map (pause_end pauses) ([providerKeyForMetadata pc provider] @ (if mdl \<noteq> [] then [modelPauseKeyForMetadata pc provider mdl] else [])
        @ quotaGroupProviderKeys pc provider)) (pause_end pauses (providerKeyForMetadata pc provider))"

fun first_free :: "int \<Rightarrow> (string \<times> int) list \<Rightarrow> (string \<times> int) option \<Rightarrow> string \<times> int option" where
  "first_free now [] best = (case best of Some (s, u) \<Rightarrow> (s, Some u) | None \<Rightarrow> ([], None))"
| "first_free now ((spec, until) # cs) best =
    (if until = 0 \<or> until \<le> now then (spec, None)
     else first_free now cs (case best of None \<Rightarrow> Some (spec, until) | Some (s, u) \<Rightarrow> if until < u then Some (spec, until) else Some (s, u)))"

text \<open>The candidates in order, as (text, provider, model); a job without models has the one it ran on.\<close>

definition retry_candidates :: "retry_policy \<Rightarrow> nat \<Rightarrow> queue_record \<Rightarrow> (string \<times> string \<times> string) list" where
  "retry_candidates p n failed = (let ms = rp_models p in
     if ms = [] then [([], q_configuredProvider failed, q_configuredModel failed)]
     else map (\<lambda>i. let m = ms ! ((n + i) mod length ms) in (retryPolicyModelSpec m, me_provider m, me_model m)) [0..<length ms])"

text \<open>\<open>pauses\<close> is \<open>None\<close> when the provider database cannot be read.  The answer is the model's text and a start time.\<close>

definition chooseRetryModel :: "queue_config \<Rightarrow> (string \<times> int) list option \<Rightarrow> int \<Rightarrow> retry_policy \<Rightarrow> nat \<Rightarrow> queue_record \<Rightarrow> string \<times> int option" where
  "chooseRetryModel qc pauses now p n failed =
    (let cs = retry_candidates p n failed in
     case pauses of None \<Rightarrow> (fst (hd cs), Some (now + max 250 (qc_blockedPollMs qc)))
     | Some ps \<Rightarrow> first_free now (map (\<lambda>(spec, provider, mdl).
         (spec, if provider \<noteq> [] then candidatePausedUntil (qc_provider qc) ps provider mdl else 0)) cs) None)"

section \<open>Guarded updates of a finished row\<close>

datatype patch_result = Patched | NotTerminal | Unreadable | ConditionFailed queue_record | KeptChanging

text \<open>
  One attempt reads the row, decides on its summary and writes it if the row is still at that revision
  and status; \<open>others\<close> is what other processes do between the read and the write.
\<close>

definition patch_row :: "(queue_record \<Rightarrow> queue_record) \<Rightarrow> int \<Rightarrow> queue_row \<Rightarrow> queue_record \<Rightarrow> queue_row \<Rightarrow> queue_row" where
  "patch_row upd now row summary r = r\<lparr>qr_record := Some ((upd summary)\<lparr>q_revision := qr_revision row + 1\<rparr>),
     qr_updated_at := Some now, qr_revision := qr_revision r + 1\<rparr>"

definition at_version :: "queue_row \<Rightarrow> queue_row \<Rightarrow> bool" where
  "at_version row r \<longleftrightarrow> qr_job_id r = qr_job_id row \<and> qr_revision r = qr_revision row \<and> qr_status r = qr_status row"

fun patchTerminalQueueSummary ::
  "(queue_record \<Rightarrow> queue_record) \<Rightarrow> (queue_record \<Rightarrow> queue_row \<Rightarrow> bool) \<Rightarrow> int \<Rightarrow> string \<Rightarrow> (queue_db \<Rightarrow> queue_db) list \<Rightarrow> queue_db
    \<Rightarrow> patch_result \<times> queue_db" where
  "patchTerminalQueueSummary upd onlyIf now i [] db = (KeptChanging, db)"
| "patchTerminalQueueSummary upd onlyIf now i (others # rest) db =
    (case find_job db i of None \<Rightarrow> (NotTerminal, db)
     | Some row \<Rightarrow> if qr_status row \<notin> terminal_statuses then (NotTerminal, db)
         else (case qr_record row of None \<Rightarrow> (Unreadable, db)
         | Some summary \<Rightarrow> if \<not> onlyIf summary row then (ConditionFailed summary, db)
             else (case update_jobs (at_version row) (patch_row upd now row summary) (others db) of (changes, db') \<Rightarrow>
               if changes = 1 then (Patched, db') else patchTerminalQueueSummary upd onlyIf now i rest db')))"

datatype mark_result = Marked | MarkRefused | MarkTaken string

definition requeued_fields :: "string \<Rightarrow> int \<Rightarrow> queue_record \<Rightarrow> queue_record" where
  "requeued_fields new now s = s\<lparr>q_requeuedAs := new, q_requeuedAt := Some now, q_retryDecisionPendingAt := None,
     q_retryDeferredAt := None, q_retryDecisionOutcome := ''requeued'', q_retryDecisionAt := Some now\<rparr>"

fun markQueueJobRequeued :: "int \<Rightarrow> string \<Rightarrow> string \<Rightarrow> (queue_db \<Rightarrow> queue_db) list \<Rightarrow> queue_db \<Rightarrow> mark_result \<times> queue_db" where
  "markQueueJobRequeued now i new [] db = (MarkRefused, db)"
| "markQueueJobRequeued now i new (others # rest) db =
    (case find_job db i of None \<Rightarrow> (MarkRefused, db)
     | Some row \<Rightarrow> if qr_status row \<notin> terminal_statuses then (MarkRefused, db)
         else (case qr_record row of None \<Rightarrow> (MarkRefused, db)
         | Some s \<Rightarrow> if q_requeuedAs s \<noteq> [] \<and> q_requeuedAs s \<noteq> new then (MarkTaken (q_requeuedAs s), db)
             else if q_requeuedAs s = new \<and> q_retryDecisionOutcome s = ''requeued'' \<and> q_retryDecisionPendingAt s = None then (Marked, db)
             else (case update_jobs (at_version row) (patch_row (requeued_fields new now) now row s) (others db) of (changes, db') \<Rightarrow>
               if changes = 1 then (Marked, db') else markQueueJobRequeued now i new rest db')))"

section \<open>The decision after a failed attempt\<close>

record retry_fields =
  rf_retryAttempt :: int
  rf_maxAttempts :: int
  rf_attemptHistory :: "string list"
  rf_startAfter :: "int option"
  rf_startAfterReason :: string
  rf_slotWaitRequeues :: int
  rf_pauseWaitRequeues :: int
  rf_infraRetryRequeues :: int

datatype retry_step = StepSettle string | StepGiveUp "string list" | StepRequeue string retry_fields

definition producedNothing :: "queue_record \<Rightarrow> bool" where
  "producedNothing s \<longleftrightarrow> \<not> q_outputCount s > 0 \<and> \<not> q_finalResponseDetected s \<and> q_changedFiles s = []"

definition retry_error_type :: "queue_row \<Rightarrow> queue_record \<Rightarrow> string" where
  "retry_error_type row s = (if qr_status row = ''interrupted'' then ''queue_job_interrupted'' else q_errorType s)"

text \<open>Which allowance, if any, lets the next run go uncounted.\<close>

record uncounted =
  un_slotWait :: bool
  un_pauseWait :: bool
  un_rateLimit :: bool
  un_infraRetry :: bool

definition uncounted_of :: "string \<Rightarrow> queue_record \<Rightarrow> uncounted" where
  "uncounted_of e s =
    (let infra = (e \<in> RETRY_POLICY_INFRA_ERROR_TYPES \<and> q_infraRetryRequeues s < RETRY_POLICY_MAX_INFRA_RETRIES);
         slot = (e = ''provider_slot_wait_timeout'' \<and> q_slotWaitRequeues s < RETRY_POLICY_MAX_SLOT_WAITS);
         pause = (\<not> slot \<and> q_providerRefusedUntil s \<noteq> None \<and> q_pauseWaitRequeues s < RETRY_POLICY_MAX_PAUSE_WAITS);
         rate = (\<not> slot \<and> \<not> pause \<and> e \<in> RETRY_POLICY_RATE_LIMIT_ERROR_TYPES \<and> producedNothing s
                   \<and> q_pauseWaitRequeues s < RETRY_POLICY_MAX_PAUSE_WAITS)
     in \<lparr>un_slotWait = slot, un_pauseWait = pause, un_rateLimit = rate, un_infraRetry = infra\<rparr>)"

definition any_uncounted :: "uncounted \<Rightarrow> bool" where
  "any_uncounted u \<longleftrightarrow> un_slotWait u \<or> un_pauseWait u \<or> un_rateLimit u \<or> un_infraRetry u"

definition uncounted_note :: "uncounted \<Rightarrow> string" where
  "uncounted_note u = (if un_slotWait u then '' (not counted: the agent never started)''
     else if un_pauseWait u then '' (not counted: the model was paused, the agent never started)''
     else if un_rateLimit u then '' (not counted: the model was rate-limited before it produced output)''
     else if un_infraRetry u then '' (not counted: the bridge could not attest the role)'' else [])"

definition retry_attempt :: "queue_record \<Rightarrow> int" where
  "retry_attempt s = max 1 (if q_retryAttempt s = 0 then 1 else q_retryAttempt s)"

definition retry_history :: "string \<Rightarrow> string \<Rightarrow> queue_record \<Rightarrow> string list" where
  "retry_history jobId e s = last_entries RETRY_POLICY_HISTORY_MAX
     (q_attemptHistory s @ [jobId @ '' '' @ retryPolicyModelLabel s @ '' '' @ e @ uncounted_note (uncounted_of e s)])"

definition next_fields :: "retry_policy \<Rightarrow> string \<Rightarrow> string \<Rightarrow> queue_record \<Rightarrow> int option \<Rightarrow> retry_fields" where
  "next_fields p jobId e s start = (let u = uncounted_of e s in
     \<lparr>rf_retryAttempt = (if any_uncounted u then retry_attempt s else retry_attempt s + 1), rf_maxAttempts = rp_maxAttempts p,
      rf_attemptHistory = retry_history jobId e s, rf_startAfter = start,
      rf_startAfterReason = (if start = None then [] else if un_infraRetry u then ''infrastructure_retry'' else ''provider_pause''),
      rf_slotWaitRequeues = (if un_slotWait u then q_slotWaitRequeues s + 1 else q_slotWaitRequeues s),
      rf_pauseWaitRequeues = (if un_pauseWait u \<or> un_rateLimit u then q_pauseWaitRequeues s + 1 else q_pauseWaitRequeues s),
      rf_infraRetryRequeues = (if un_infraRetry u then q_infraRetryRequeues s + 1 else q_infraRetryRequeues s)\<rparr>)"

definition retry_step :: "queue_config \<Rightarrow> (string \<times> int) list option \<Rightarrow> int \<Rightarrow> retry_policy \<Rightarrow> queue_row \<Rightarrow> queue_record \<Rightarrow> retry_step" where
  "retry_step qc pauses now p row s =
    (let e = retry_error_type row s; u = uncounted_of e s; attempt = retry_attempt s in
     if e \<notin> RETRY_POLICY_ERROR_TYPES \<and> \<not> un_infraRetry u then StepSettle ''not_eligible''
     else if e = ''queue_job_interrupted'' \<and> \<not> qc_autoResumeInterrupted qc then StepSettle ''resume_disabled''
     else if \<not> any_uncounted u \<and> attempt \<ge> rp_maxAttempts p then StepGiveUp (retry_history (qr_job_id row) e s)
     else let n = (if any_uncounted u then attempt + q_slotWaitRequeues s + q_pauseWaitRequeues s else attempt);
              (spec, start) = (if un_infraRetry u then ([], Some (now + RETRY_POLICY_INFRA_RETRY_BASE_MS * 2 ^ nat (q_infraRetryRequeues s)))
                 else chooseRetryModel qc pauses now p (nat n) s)
          in StepRequeue spec (next_fields p (qr_job_id row) e s start))"

definition RETRY_DECISION_FINAL_ACTIONS :: "string set" where
  "RETRY_DECISION_FINAL_ACTIONS = {''requeued'', ''gave_up'', ''none'', ''not_eligible'', ''resume_disabled''}"

text \<open>A decision is open while nothing final, no successor and no cancellation is on the row.\<close>

definition decision_open :: "queue_record \<Rightarrow> queue_row \<Rightarrow> bool" where
  "decision_open s row \<longleftrightarrow> qr_status row \<in> {''failed'', ''interrupted''} \<and> q_parentJobId s = [] \<and> \<not> q_cancellationRequested s
     \<and> q_cancellationRequestedAt s = None \<and> q_requeuedAs s = [] \<and> q_completionOutcome s \<noteq> ''gave_up''
     \<and> q_retryDecisionOutcome s \<notin> RETRY_DECISION_FINAL_ACTIONS"

datatype retry_action = ActNone | ActDone string | ActRequeuedAs string | ActDeferred | ActFailed string

definition settled_fields :: "string \<Rightarrow> int \<Rightarrow> (queue_record \<Rightarrow> queue_record) \<Rightarrow> queue_record \<Rightarrow> queue_record" where
  "settled_fields action now upd s = (upd s)\<lparr>q_retryDecisionPendingAt := None, q_retryDeferredAt := None,
     q_retryDecisionOutcome := action, q_retryDecisionAt := Some now\<rparr>"

definition settle :: "string \<Rightarrow> (queue_record \<Rightarrow> queue_record) \<Rightarrow> int \<Rightarrow> string \<Rightarrow> (queue_db \<Rightarrow> queue_db) list \<Rightarrow> queue_db \<Rightarrow> retry_action \<times> queue_db" where
  "settle action upd now i others db =
    (case patchTerminalQueueSummary (settled_fields action now upd) decision_open now i others db of (res, db') \<Rightarrow>
       (case res of Patched \<Rightarrow> ActDone action
        | ConditionFailed s \<Rightarrow> if q_requeuedAs s \<noteq> [] then ActRequeuedAs (q_requeuedAs s)
            else if q_retryDecisionOutcome s \<in> RETRY_DECISION_FINAL_ACTIONS then ActDone (q_retryDecisionOutcome s)
            else ActFailed ''retry_decision_persistence_failed''
        | _ \<Rightarrow> ActFailed ''retry_decision_persistence_failed'', db'))"

section \<open>The worktree of a failed attempt\<close>

record worktree_facts =
  wf_exists :: bool
  wf_status_exit :: int
  wf_status_output :: string
  wf_head_exit :: int
  wf_head :: string

definition hex_commit :: "string \<Rightarrow> bool" where
  "hex_commit s \<longleftrightarrow> 40 \<le> length s \<and> length s \<le> 64
     \<and> list_all (\<lambda>c. is_digit c \<or> js_lower_char c \<in> set ''abcdef'') s"

text \<open>Whether the worktree is handed to the clean-up: it holds nothing and is still at its base commit.\<close>

definition removes_empty_worktree :: "worktree_facts \<Rightarrow> queue_record \<Rightarrow> bool" where
  "removes_empty_worktree w s \<longleftrightarrow> q_mode s = ''write'' \<and> q_worktreePath s \<noteq> [] \<and> q_changedFiles s = [] \<and> wf_exists w
     \<and> hex_commit (q_worktreeBaseCommit s) \<and> wf_status_exit w = 0 \<and> js_trim (wf_status_output w) = []
     \<and> wf_head_exit w = 0 \<and> js_lower (js_trim (wf_head w)) = js_lower (q_worktreeBaseCommit s)"

end
