(* ===== verification/QueueAdmission.thy ===== *)
theory QueueAdmission
  imports RetryPolicy
begin

text \<open>
  Model of the admission of a queue job, \<open>enqueueQueueJob\<close> of \<open>server.js\<close>: the mode checks, the retry
  policy, the lock plan, the worktree and auto-integration rules, the record and its first durable write.
  The Git root of a directory, random bytes, encryption and \<open>JSON.stringify\<close> are fields of the
  environment of one call.
\<close>

section \<open>Names\<close>

definition name_char :: "char \<Rightarrow> bool" where
  "name_char c \<longleftrightarrow> (let n = of_char c :: nat in 97 \<le> n \<and> n \<le> 122) \<or> is_digit c \<or> c \<in> {CHR ''.'', CHR ''_'', CHR ''-''}"

text \<open>\<open>replace(/[^a-z0-9._-]+/g, "-")\<close>; the flag says that the run before was replaced already.\<close>

fun dash_runs :: "bool \<Rightarrow> string \<Rightarrow> string" where
  "dash_runs run [] = []"
| "dash_runs run (c # s) = (if name_char c then c # dash_runs False s else if run then dash_runs True s else CHR ''-'' # dash_runs True s)"

definition strip_dashes :: "string \<Rightarrow> string" where
  "strip_dashes s = rev (dropWhile ((=) (CHR ''-'')) (rev (dropWhile ((=) (CHR ''-'')) s)))"

definition safeNamePart :: "string \<Rightarrow> string \<Rightarrow> string" where
  "safeNamePart v fallback = or_string (take 80 (strip_dashes (dash_runs False (js_lower (js_trim v))))) fallback"

definition makeQueueJobId :: "int \<Rightarrow> string \<Rightarrow> string \<Rightarrow> string" where
  "makeQueueJobId now random agt = safeNamePart (or_string agt ''agent'') ''agent'' @ ''-'' @ decimal (nat now) @ ''-'' @ random"

section \<open>Rules of admission\<close>

definition shouldUseWorktree :: "job \<Rightarrow> lock_plan \<Rightarrow> string \<Rightarrow> bool \<Rightarrow> bool" where
  "shouldUseWorktree j p wmode noWorktree =
    (if dryRun j then False
     else if sanitizedWorkspace j \<or> lp_sanitizedWorkspace p then False
     else if noWorktree \<and> lp_lockType p = ''read'' then False
     else if lp_orchestratorMode p = ''contractor'' then True
     else if wmode = ''all'' then True
     else wmode = ''write'' \<and> lp_lockType p = ''write'')"

definition autoIntegrateJobError :: "string \<Rightarrow> bool \<Rightarrow> job \<Rightarrow> lock_plan \<Rightarrow> string \<Rightarrow> string option" where
  "autoIntegrateJobError qmode allowed j p parentJobId =
    (if autoIntegrate j = None \<or> autoIntegrate j = Some False then None
     else if qmode \<noteq> ''sqlite'' then Some ''auto_integrate_not_applicable''
     else if \<not> allowed then Some ''auto_integrate_disabled''
     else if parentJobId \<noteq> [] then Some ''auto_integrate_not_applicable''
     else if lp_lockType p = ''read'' \<or> sanitizedWorkspace j \<or> dryRun j then Some ''auto_integrate_not_applicable''
     else if js_trim (lp_validationCommand p) = [] then Some ''auto_integrate_needs_validation''
     else None)"

text \<open>
  What one call meets: the time, random parts, the root of the repository of a directory, the root of the
  sanitized workspace, serialisation, encryption, whether the encryption works, the provider pauses and
  the write of the record.
\<close>

record enqueue_env =
  ee_now :: int
  ee_random :: string
  ee_generation :: string
  ee_projectRoot :: "string \<Rightarrow> string"
  ee_sanitizedRoot :: string
  ee_json :: "job \<Rightarrow> string"
  ee_encryptRequest :: "job \<Rightarrow> string \<Rightarrow> string option"
  ee_pauses :: "(string \<times> int) list option"
  ee_persist :: persist_env

record enqueue_options =
  eo_schedule :: bool
  eo_initialStatus :: string
  eo_persist :: bool
  eo_recordFields :: "(queue_record \<Rightarrow> queue_record) option"
  eo_unowned :: bool

definition enqueue_defaults :: enqueue_options where
  "enqueue_defaults = \<lparr>eo_schedule = True, eo_initialStatus = ''pending'', eo_persist = True, eo_recordFields = None, eo_unowned = False\<rparr>"

datatype enqueue_result =
    EnqueueRefused string
  | EnqueueConflict string
  | Enqueued queue_record
  | EnqueueDeduplicated "queue_record option"
  | EnqueuePrepared queue_record
  | EnqueueUnowned queue_record
  | EnqueueThrown

definition normalizeJobCwd :: "config \<Rightarrow> enqueue_env \<Rightarrow> job \<Rightarrow> job" where
  "normalizeJobCwd cf e j = (if sanitizedWorkspace j then j\<lparr>job_cwd := path_resolve (host_of cf) (ee_sanitizedRoot e)\<rparr>
     else j\<lparr>job_cwd := ee_projectRoot e (or_string (job_cwd j) (process_cwd (host_of cf)))\<rparr>)"

text \<open>The request as it is stored: without the contractor token, and with the proof of a contractor's job.\<close>

definition safe_request :: "config \<Rightarrow> string \<Rightarrow> lock_plan \<Rightarrow> job \<Rightarrow> job" where
  "safe_request cf jobId p j =
    (let r = j\<lparr>contractorAuthorizationToken_field := [],
           job_delegation := map_option (\<lambda>d. d\<lparr>dg_contractorAuthorizationToken := []\<rparr>) (job_delegation j)\<rparr>
     in if lp_orchestratorMode p = ''contractor''
        then r\<lparr>internalQueueJobId := jobId, internalQueueContractorProof := makeInternalQueueContractorProof cf jobId []\<rparr> else r)"

section \<open>The record of a new job\<close>

definition new_record ::
  "queue_process \<Rightarrow> enqueue_env \<Rightarrow> string \<Rightarrow> string \<Rightarrow> job \<Rightarrow> lock_plan \<Rightarrow> job \<Rightarrow> string \<Rightarrow> string \<Rightarrow> string \<Rightarrow> queue_record" where
  "new_record qp e jobId parentJobId request p j idempotencyKey encrypted fingerprint = blank_record\<lparr>
     q_jobId := jobId, q_parentJobId := parentJobId, q_request := Some request, q_cwd := job_cwd j, q_agent := agent j,
     q_idempotencyKey := idempotencyKey, q_requestEncrypted := encrypted, q_requestFingerprint := fingerprint,
     q_mode := (if lp_lockType p = ''read'' then ''read'' else ''write''),
     q_modelRequirement := Option.bind (lp_scopeContract p) ct_modelRequirement,
     q_readScope := (case lp_scopeContract p of Some c \<Rightarrow> ct_read c | None \<Rightarrow> []),
     q_lockedPaths := lp_lockedPaths p, q_allowedEdits := lp_allowedEdits p,
     q_createdAt := Some (ee_now e), q_ownerInstanceId := qp_instance qp, q_ownerProcessId := qp_pid qp,
     q_ownerGeneration := ee_generation e, q_heartbeatAt := Some (ee_now e), q_leaseExpiresAt := Some (ee_now e + qp_leaseMs qp)\<rparr>"

text \<open>The attempt counters, the lineage fields, a start after the pauses, and the fields of a row without an owner.\<close>

definition admitted_record ::
  "queue_config \<Rightarrow> enqueue_env \<Rightarrow> enqueue_options \<Rightarrow> policy_check \<Rightarrow> job \<Rightarrow> queue_record \<Rightarrow> queue_record" where
  "admitted_record qc e opts policy j r0 =
    (let r1 = r0\<lparr>q_status := (if eo_initialStatus opts = ''held'' then ''held'' else ''pending'')\<rparr>;
         r2 = (case policy of Policy p \<Rightarrow> r1\<lparr>q_retryAttempt := 1, q_maxAttempts := rp_maxAttempts p\<rparr> | _ \<Rightarrow> r1);
         r3 = (case eo_recordFields opts of Some f \<Rightarrow> f r2 | None \<Rightarrow> r2);
         first = (case policy of Policy p \<Rightarrow>
             if eo_recordFields opts = None \<and> rp_models p \<noteq> [] \<and> \<not> dryRun j
             then snd (chooseRetryModel qc (ee_pauses e) (ee_now e) p 0 blank_record) else None | _ \<Rightarrow> None);
         r4 = (case first of Some t \<Rightarrow> r3\<lparr>q_startAfter := Some t, q_startAfterReason := ''provider_pause''\<rparr> | None \<Rightarrow> r3);
         r5 = (if q_startAfter r4 = None then r4\<lparr>q_startAfterReason := []\<rparr> else r4)
     in if eo_unowned opts then r5\<lparr>q_ownerInstanceId := [], q_ownerProcessId := 0, q_ownerGeneration := [], q_heartbeatAt := None,
          q_leaseExpiresAt := None\<rparr> else r5)"

definition enqueue_mode_error :: "string \<Rightarrow> bool \<Rightarrow> string \<Rightarrow> string option" where
  "enqueue_mode_error qmode unowned key =
    (if unowned \<and> qmode \<noteq> ''sqlite'' then Some ''queue_worker_needs_sqlite''
     else if qmode = ''off'' then Some ''queue_disabled''
     else if qmode = ''memory'' \<and> key \<noteq> [] then Some ''idempotency_requires_sqlite'' else None)"

section \<open>Admission\<close>

text \<open>The refusal of an accepted retry policy's job with its plan; the outer \<open>None\<close> when a planner throws.\<close>

definition admission_error :: "queue_process \<Rightarrow> queue_config \<Rightarrow> job \<Rightarrow> plan_error option \<Rightarrow> lock_plan \<Rightarrow> bool \<Rightarrow> string \<Rightarrow> string option option" where
  "admission_error qp qc j err p noWorktree parentJobId =
    (case err of Some x \<Rightarrow> Some (Some (case errorType x of Some t \<Rightarrow> t | None \<Rightarrow> ''lock_plan_rejected''))
     | None \<Rightarrow> map_option (\<lambda>w.
         if w \<and> lp_lockType p = ''read'' then Some ''lock_plan_rejected''
         else if \<not> dryRun j \<and> lp_lockType p \<noteq> ''read'' \<and> \<not> shouldUseWorktree j p (worktreeMode (qc_config qc)) noWorktree
           then Some ''queue_write_requires_worktree''
         else autoIntegrateJobError (qp_mode qp) (qc_autoIntegrateAllowed qc) j p parentJobId) (hasWriteIntent (qc_config qc) j))"

text \<open>The last step: the durable write of a prepared record, and what the caller is told.\<close>

definition enqueue_write ::
  "queue_process \<Rightarrow> enqueue_env \<Rightarrow> enqueue_options \<Rightarrow> queue_record \<Rightarrow> queue_db \<Rightarrow> enqueue_result \<times> queue_db" where
  "enqueue_write qp e opts r db =
    (case persistQueueRecord qp (ee_persist e) r db of (res, r', db') \<Rightarrow>
       (case res of
          PersistConflict i \<Rightarrow> EnqueueConflict i
        | PersistDeduplicated i \<Rightarrow> EnqueueDeduplicated (readPersistedQueueRecord qp i db')
        | Persisted _ _ \<Rightarrow> if eo_unowned opts then EnqueueUnowned r' else Enqueued r'
        | PersistThrown \<Rightarrow> EnqueueThrown
        | PersistFull \<Rightarrow> EnqueueRefused ''state_capacity_exceeded''
        | _ \<Rightarrow> EnqueueRefused ''queue_persistence_failed'', db'))"

text \<open>
  An \<open>Enqueued\<close> record is tracked by the process and, with \<open>eo_schedule\<close>, wakes the scheduler.
  \<open>noWorktree\<close> is an internal field of pipeline gates.
\<close>

definition enqueueQueueJob ::
  "queue_process \<Rightarrow> queue_config \<Rightarrow> enqueue_env \<Rightarrow> enqueue_options \<Rightarrow> job \<Rightarrow> bool \<Rightarrow> string \<Rightarrow> string \<Rightarrow> queue_db \<Rightarrow> enqueue_result \<times> queue_db" where
  "enqueueQueueJob qp qc e opts job0 noWorktree key parentJobId db =
    (case enqueue_mode_error (qp_mode qp) (eo_unowned opts) key of Some x \<Rightarrow> (EnqueueRefused x, db)
     | None \<Rightarrow>
       (case applyRetryPolicyToJob qc (qp_mode qp) job0 parentJobId of
          None \<Rightarrow> (EnqueueThrown, db)
        | Some (PolicyError x, _) \<Rightarrow> (EnqueueRefused x, db)
        | Some (policy, j0) \<Rightarrow>
            let cf = qc_config qc; j = normalizeJobCwd cf e j0 in
            (case validateSingleLockPlan cf j of None \<Rightarrow> (EnqueueThrown, db)
             | Some (err, p) \<Rightarrow>
               (case admission_error qp qc j err p noWorktree parentJobId of
                  None \<Rightarrow> (EnqueueThrown, db)
                | Some (Some x) \<Rightarrow> (EnqueueRefused x, db)
                | Some None \<Rightarrow>
                    let jobId = makeQueueJobId (ee_now e) (ee_random e) (agent j0);
                        request = safe_request cf jobId p j;
                        encrypted = (if qp_mode qp = ''sqlite'' then ee_encryptRequest e request jobId else Some [])
                    in case encrypted of None \<Rightarrow> (EnqueueThrown, db)
                       | Some text \<Rightarrow>
                           let r = admitted_record qc e opts policy j (new_record qp e jobId parentJobId request p j (js_trim key) text
                                 (queueRequestFingerprint cf (ee_json e) request))
                           in if \<not> eo_persist opts then (EnqueuePrepared r, db) else enqueue_write qp e opts r db))))"

end
