(* ===== verification/QueueRetry.thy ===== *)
theory QueueRetry
  imports QueueAdmission
begin

text \<open>
  Model of the two transactions of \<open>lib/queue/retry.js\<close> that span components: \<open>requeueQueueJob\<close>, which makes
  a new job of a stored request through the normal admission, and \<open>applyQueueRetryPolicy\<close>, the decision
  after a failed or interrupted attempt.
\<close>

section \<open>Requeue\<close>

text \<open>
  \<open>rq_schema_ok\<close> is the check against the job schema, \<open>rq_matches\<close> whether a stored directory is of this
  repository, \<open>rq_errorText\<close> the message of a refusal, and \<open>rq_mark\<close> what other processes do between the
  reads and writes of the mark on the original.
\<close>

record requeue_env =
  rq_decrypt :: "string \<Rightarrow> string \<Rightarrow> job option"
  rq_schema_ok :: "job \<Rightarrow> bool"
  rq_matches :: "string \<Rightarrow> bool"
  rq_kill :: "int \<Rightarrow> kill_result"
  rq_errorText :: "string \<Rightarrow> string"
  rq_enqueue :: enqueue_env
  rq_mark :: "(queue_db \<Rightarrow> queue_db) list"

record requeue_request =
  rr_jobId :: string
  rr_model :: string
  rr_timeoutMs :: "int option"
  rr_recordFields :: "(queue_record \<Rightarrow> queue_record) option"

datatype requeue_result =
    RequeueRefused string
  | RequeueThrown
  | Requeued queue_record bool bool

definition requeue_argument_error :: "queue_process \<Rightarrow> requeue_request \<Rightarrow> string option" where
  "requeue_argument_error qp q =
    (if js_trim (rr_jobId q) = [] then Some ''requeue_invalid_arguments''
     else if (case rr_timeoutMs q of None \<Rightarrow> False | Some n \<Rightarrow> n \<le> 0 \<or> n > int MAX_AGENT_TIMEOUT_MS) then Some ''requeue_invalid_arguments''
     else if qp_mode qp \<noteq> ''sqlite'' then Some ''requeue_requires_sqlite_queue''
     else if rr_model q \<noteq> [] \<and> parseModelAllowlistEntry (rr_model q) = None then Some ''requeue_model_invalid'' else None)"

definition requeue_row_error :: "requeue_env \<Rightarrow> queue_row option \<Rightarrow> string option" where
  "requeue_row_error env row = (case row of None \<Rightarrow> Some ''requeue_job_not_found''
     | Some r \<Rightarrow> let s = row_summary r in
         if qr_status r = ''completed'' then Some ''requeue_job_completed''
         else if qr_status r \<in> REQUEUE_UNFINISHED_STATUSES then Some ''requeue_job_not_terminal''
         else if qr_status r \<notin> REQUEUE_ELIGIBLE_STATUSES then Some ''requeue_job_status_unsupported''
         else if q_parentJobId s \<noteq> [] then Some ''requeue_pipeline_child''
         else if q_requeuedAs s \<noteq> [] then Some ''requeue_already_requeued''
         else if qr_status r = ''interrupted'' \<and> q_orphanChildProcessAlive s \<and> processIsAlive (rq_kill env) (q_orphanChildProcessId s)
           then Some ''requeue_orphan_child_alive''
         else if qr_request_encrypted r = None then Some ''requeue_request_not_stored'' else None)"

definition requeue_request_error :: "requeue_env \<Rightarrow> job option \<Rightarrow> string option" where
  "requeue_request_error env stored = (case stored of None \<Rightarrow> Some ''requeue_request_unreadable''
     | Some j \<Rightarrow> if orchestratorMode j = ''contractor'' \<or> internalQueueContractorProof j \<noteq> [] \<or> internalQueueJobId j \<noteq> []
           then Some ''requeue_contractor_unsupported''
         else if \<not> rq_schema_ok env j then Some ''requeue_request_invalid''
         else if \<not> sanitizedWorkspace j \<and> \<not> rq_matches env (job_cwd j) then Some ''requeue_request_invalid'' else None)"

definition pin_model :: "model_entry \<Rightarrow> job \<Rightarrow> job" where
  "pin_model m j = (let c = (case scopeContract j of Some c \<Rightarrow> c | None \<Rightarrow> empty_contract)
     in j\<lparr>scopeContract := Some (c\<lparr>rc_modelRequirement := Some (pinned_requirement (rc_modelRequirement c) (retryPolicyRequirement m))\<rparr>)\<rparr>)"

text \<open>The job with its overrides, or the refusal of a model that is not allowed.\<close>

definition requeue_job :: "queue_config \<Rightarrow> requeue_request \<Rightarrow> job \<Rightarrow> string + job" where
  "requeue_job qc q j =
    (let timed = (\<lambda>j. case rr_timeoutMs q of Some n \<Rightarrow> j\<lparr>job_timeoutMs := Some (nat n)\<rparr> | None \<Rightarrow> j)
     in case (if rr_model q = [] then None else parseModelAllowlistEntry (rr_model q)) of
          None \<Rightarrow> Inr (timed j)
        | Some m \<Rightarrow> if allowlistedModelOverride (qc_allowlist qc) (Some (retryPolicyRequirement m)) (agent j) = None
            then Inl ''requeue_model_not_allowlisted'' else Inr (timed (pin_model m j)))"

definition requeue_key :: "config \<Rightarrow> queue_row \<Rightarrow> string" where
  "requeue_key cf row = (let s = row_summary row in
     requeueIdempotencyKey (sha256_hex cf)
       (case qr_idempotency_key row of Some k \<Rightarrow> or_string k (q_idempotencyKey s) | None \<Rightarrow> q_idempotencyKey s)
       (qr_job_id row) (nat (q_requeueSequence s + 1)))"

definition lineage_fields :: "int \<Rightarrow> queue_row \<Rightarrow> requeue_request \<Rightarrow> queue_record \<Rightarrow> queue_record" where
  "lineage_fields now row q r = ((case rr_recordFields q of Some f \<Rightarrow> f r | None \<Rightarrow> r)\<lparr>
     q_requeuedFrom := qr_job_id row, q_requeueSequence := q_requeueSequence (row_summary row) + 1, q_requeuedAt := Some now\<rparr>)"

text \<open>\<open>Requeued r deduplicated marked\<close>; the mark on the original may fail while the new job exists.\<close>

definition requeueQueueJob :: "queue_process \<Rightarrow> queue_config \<Rightarrow> requeue_env \<Rightarrow> requeue_request \<Rightarrow> queue_db \<Rightarrow> requeue_result \<times> queue_db" where
  "requeueQueueJob qp qc env q db =
    (case requeue_argument_error qp q of Some x \<Rightarrow> (RequeueRefused x, db)
     | None \<Rightarrow> (case requeue_row_error env (find_job db (rr_jobId q)) of Some x \<Rightarrow> (RequeueRefused x, db)
     | None \<Rightarrow> let row = the (find_job db (rr_jobId q)); stored = rq_decrypt env (the (qr_request_encrypted row)) (qr_job_id row);
                  e = rq_enqueue env
               in (case requeue_request_error env stored of Some x \<Rightarrow> (RequeueRefused x, db)
               | None \<Rightarrow> (case requeue_job qc q (the stored) of Inl x \<Rightarrow> (RequeueRefused x, db)
               | Inr j \<Rightarrow>
                   (case enqueueQueueJob qp qc e (enqueue_defaults\<lparr>eo_recordFields := Some (lineage_fields (ee_now e) row q)\<rparr>)
                       j False (requeue_key (qc_config qc) row) [] db of (res, db1) \<Rightarrow>
                     (case (case res of Enqueued r \<Rightarrow> Some (r, False) | EnqueueDeduplicated (Some r) \<Rightarrow> Some (r, True) | _ \<Rightarrow> None) of
                        Some (r, dedup) \<Rightarrow>
                          (case markQueueJobRequeued (ee_now e) (rr_jobId q) (q_jobId r) (rq_mark env) db1 of (m, db2) \<Rightarrow>
                             (Requeued r dedup (m = Marked), db2))
                      | None \<Rightarrow> ((case res of EnqueueRefused x \<Rightarrow> RequeueRefused x | EnqueueConflict _ \<Rightarrow> RequeueRefused ''queue_idempotency_conflict''
                          | _ \<Rightarrow> RequeueThrown), db1)))))))"

section \<open>The retry decision\<close>

text \<open>\<open>/sqlite|database|persist|encrypt|capacity|infrastructure/i\<close>.\<close>

definition contains_word :: "string \<Rightarrow> string \<Rightarrow> bool" where
  "contains_word w s = list_ex (\<lambda>n. starts_with w (drop n s)) [0..<Suc (length s)]"

definition infrastructure_refusal :: "string \<Rightarrow> string \<Rightarrow> bool" where
  "infrastructure_refusal e message = (e = ''requeue_request_unreadable''
     \<or> list_ex (\<lambda>w. contains_word w (js_lower (e @ '' '' @ message)))
         [''sqlite'', ''database'', ''persist'', ''encrypt'', ''capacity'', ''infrastructure''])"

definition apply_retry_fields :: "retry_fields \<Rightarrow> queue_record \<Rightarrow> queue_record" where
  "apply_retry_fields f r = r\<lparr>q_retryAttempt := rf_retryAttempt f, q_maxAttempts := rf_maxAttempts f,
     q_attemptHistory := rf_attemptHistory f, q_startAfter := rf_startAfter f, q_startAfterReason := rf_startAfterReason f,
     q_slotWaitRequeues := rf_slotWaitRequeues f, q_pauseWaitRequeues := rf_pauseWaitRequeues f,
     q_infraRetryRequeues := rf_infraRetryRequeues f\<rparr>"

record retry_env =
  re_requeue :: requeue_env
  re_now :: int
  re_pauses :: "(string \<times> int) list option"
  re_worktree :: worktree_facts
  re_patch :: "(queue_db \<Rightarrow> queue_db) list"
  re_after :: "queue_db \<Rightarrow> queue_db"

definition gave_up_fields :: "string list \<Rightarrow> queue_record \<Rightarrow> queue_record" where
  "gave_up_fields history r = r\<lparr>q_completionOutcome := ''gave_up'', q_attemptHistory := history\<rparr>"

definition deferred_fields :: "int \<Rightarrow> queue_record \<Rightarrow> queue_record \<Rightarrow> queue_record" where
  "deferred_fields now seen r = r\<lparr>q_retryDeferredAt := Some now, q_retryDecisionPendingAt := or_time (q_retryDecisionPendingAt seen) (Some now)\<rparr>"

text \<open>What the terminal row tells after the requeue.\<close>

definition stored_summary :: "string \<Rightarrow> queue_db \<Rightarrow> queue_record option" where
  "stored_summary i db = (case find_job db i of None \<Rightarrow> None
     | Some row \<Rightarrow> if qr_status row \<in> terminal_statuses then qr_record row else None)"

definition after_requeue :: "retry_env \<Rightarrow> queue_row \<Rightarrow> queue_record \<Rightarrow> string list \<Rightarrow> requeue_result \<Rightarrow> queue_db \<Rightarrow> retry_action \<times> bool \<times> queue_db" where
  "after_requeue env row s history res db1 = (let i = qr_job_id row; now = re_now env; db = re_after env db1 in
     case res of
       RequeueThrown \<Rightarrow> (ActFailed ''retry_policy_failed'', False, db)
     | RequeueRefused x \<Rightarrow>
         if x = ''requeue_orphan_child_alive'' then
           (ActDeferred, False, snd (patchTerminalQueueSummary (deferred_fields now s)
              (\<lambda>c _. q_requeuedAs c = [] \<and> q_retryDecisionOutcome c \<notin> RETRY_DECISION_FINAL_ACTIONS) now i (re_patch env) db))
         else if x = ''requeue_already_requeued'' then
           (case stored_summary i db of Some c \<Rightarrow> if q_requeuedAs c \<noteq> [] then (ActRequeuedAs (q_requeuedAs c), False, db) else (ActFailed x, False, db)
            | None \<Rightarrow> (ActFailed x, False, db))
         else if infrastructure_refusal x (rq_errorText (re_requeue env) x) then (ActFailed x, False, db)
         else (case settle ''gave_up'' (gave_up_fields history) now i (re_patch env) db of (a, db') \<Rightarrow> (a, False, db'))
     | Requeued r _ _ \<Rightarrow>
         (case stored_summary i db of
            Some c \<Rightarrow> if q_requeuedAs c \<noteq> q_jobId r \<or> q_retryDecisionPendingAt c \<noteq> None \<or> q_retryDecisionOutcome c \<noteq> ''requeued''
              then (ActFailed ''retry_decision_persistence_failed'', False, db)
              else (ActRequeuedAs (q_jobId r), qr_status row = ''failed'' \<and> removes_empty_worktree (re_worktree env) s, db)
          | None \<Rightarrow> (ActFailed ''retry_decision_persistence_failed'', False, db)))"

text \<open>The action, whether the worktree of the failed attempt goes to the clean-up, and the database.\<close>

definition applyQueueRetryPolicy ::
  "queue_process \<Rightarrow> queue_config \<Rightarrow> retry_env \<Rightarrow> string \<Rightarrow> queue_db \<Rightarrow> retry_action \<times> bool \<times> queue_db" where
  "applyQueueRetryPolicy qp qc env i db =
    (if qp_mode qp \<noteq> ''sqlite'' \<or> i = [] then (ActNone, False, db)
     else case find_job db i of None \<Rightarrow> (ActNone, False, db)
     | Some row \<Rightarrow> (case qr_record row of None \<Rightarrow> (ActNone, False, db)
     | Some s \<Rightarrow> if \<not> decision_open s row \<or> qr_cancellation_requested_at row \<noteq> None then (ActNone, False, db)
         else let settled = (\<lambda>a upd. case settle a upd (re_now env) i (re_patch env) db of (x, db') \<Rightarrow> (x, False, db'))
         in case qr_request_encrypted row of None \<Rightarrow> settled ''none'' (\<lambda>r. r)
         | Some text \<Rightarrow> (case rq_decrypt (re_requeue env) text i of None \<Rightarrow> (ActFailed ''requeue_request_unreadable'', False, db)
         | Some request \<Rightarrow> (case jobRetryPolicy qc request of
             Policy p \<Rightarrow>
               (case retry_step qc (re_pauses env) (re_now env) p row s of
                  StepSettle a \<Rightarrow> settled a (\<lambda>r. r)
                | StepGiveUp history \<Rightarrow> settled ''gave_up'' (gave_up_fields history)
                | StepRequeue spec f \<Rightarrow>
                    (case requeueQueueJob qp qc (re_requeue env) \<lparr>rr_jobId = i, rr_model = spec, rr_timeoutMs = None,
                         rr_recordFields = Some (apply_retry_fields f)\<rparr> db of (res, db1) \<Rightarrow>
                       after_requeue env row s (rf_attemptHistory f) res db1))
           | _ \<Rightarrow> settled ''none'' (\<lambda>r. r)))))"

end
