(* ===== verification/QueueClaims.thy ===== *)
theory QueueClaims
  imports QueueLeases
begin

text \<open>
  Model of the claims of \<open>server.js\<close> on queue rows: the claim before a job runs (\<open>claimQueueRecord\<close>), the
  takeover of a waiting row whose owner is gone (\<open>claimPersistedQueueRecordForStartup\<close>), the failure of one
  that cannot be resumed, the atomic activation of a pipeline's children, and the removal of old finished
  rows.  A new owner generation is random text the caller passes.
\<close>

section \<open>Claiming a row to run it\<close>

datatype claim_result = ClaimOk | ClaimRefused string | ClaimThrown

text \<open>The status and batch state of the pipeline a job belongs to.\<close>

definition claim_parent :: "queue_db \<Rightarrow> string \<Rightarrow> pipeline_row option" where
  "claim_parent db i = (case List.find (\<lambda>(_, j). j = i) (qd_children db) of None \<Rightarrow> None
     | Some (p, _) \<Rightarrow> List.find (\<lambda>x. pl_pipeline_id x = p) (qd_pipelines db))"

definition running_state :: "queue_process \<Rightarrow> int \<Rightarrow> string \<Rightarrow> queue_record \<Rightarrow> queue_record" where
  "running_state qp now fresh r = r\<lparr>q_status := ''running'', q_startedAt := or_time (q_startedAt r) (Some now),
     q_ownerInstanceId := qp_instance qp, q_ownerProcessId := qp_pid qp, q_ownerGeneration := or_string (q_ownerGeneration r) fresh,
     q_heartbeatAt := Some now, q_leaseExpiresAt := Some (now + qp_leaseMs qp), q_errorType := [], q_revision := q_revision r + 1\<rparr>"

definition claimable :: "queue_process \<Rightarrow> int \<Rightarrow> queue_record \<Rightarrow> pipeline_row option \<Rightarrow> queue_row \<Rightarrow> bool" where
  "claimable qp now r parent row \<longleftrightarrow> qr_status row \<in> {''pending'', ''planned'', ''blocked''}
     \<and> (case parent of None \<Rightarrow> True | Some p \<Rightarrow> pl_status p = ''running'' \<and> pl_batch_state p = ''released'')
     \<and> qr_owner_instance_id row = qp_instance qp \<and> qr_owner_generation row = q_ownerGeneration r
     \<and> qr_revision row = q_revision r \<and> later_than (qr_lease_expires_at row) now \<and> qr_cancellation_requested_at row = None"

text \<open>The parent ended: the child is cancelled by the claim.\<close>

definition parent_ended :: "pipeline_row option \<Rightarrow> queue_row option \<Rightarrow> bool" where
  "parent_ended parent row = (case (parent, row) of
     (Some p, Some x) \<Rightarrow> pl_batch_state p = ''released'' \<and> pl_status p \<noteq> ''running'' \<and> qr_status x \<in> {''pending'', ''planned'', ''blocked''}
   | _ \<Rightarrow> False)"

definition claimed_row :: "queue_process \<Rightarrow> int \<Rightarrow> queue_record \<Rightarrow> queue_row \<Rightarrow> queue_row" where
  "claimed_row qp now n x = x\<lparr>qr_status := ''running'', qr_started_at := q_startedAt n, qr_updated_at := Some now,
     qr_heartbeat_at := Some now, qr_lease_expires_at := q_leaseExpiresAt n, qr_owner_process_id := qp_pid qp,
     qr_record := Some (queueRecordDurableSummary qp n), qr_revision := qr_revision x + 1\<rparr>"

definition cancelled_copy :: "int \<Rightarrow> int option \<Rightarrow> queue_record \<Rightarrow> queue_record" where
  "cancelled_copy now requested r = r\<lparr>q_status := ''cancelled'', q_cancellationRequested := True,
     q_cancellationRequestedAt := or_time (or_time requested (q_cancellationRequestedAt r)) (Some now),
     q_finishedAt := or_time (q_finishedAt r) (Some now), q_errorType := ''agent_cancelled''\<rparr>"

text \<open>The claim transaction, before its commit.\<close>

definition claim_transaction :: "queue_process \<Rightarrow> int \<Rightarrow> string \<Rightarrow> queue_record \<Rightarrow> queue_db \<Rightarrow> claim_result \<times> queue_record \<times> queue_db" where
  "claim_transaction qp now fresh r db =
    (let row = find_job db (q_jobId r); parent = claim_parent db (q_jobId r); n = running_state qp now fresh r in
     if parent_ended parent row then
       (case update_jobs (same_row_version (the row)) (cancel_unstarted now) db of (changes, db') \<Rightarrow>
          if changes = 1 then (ClaimRefused ''cancelled'', r\<lparr>q_status := ''cancelled'', q_finishedAt := Some now, q_cancellationRequested := True,
               q_cancellationRequestedAt := Some now, q_errorType := ''agent_cancelled'', q_heartbeatAt := None, q_leaseExpiresAt := None,
               q_revision := qr_revision (the row) + 1\<rparr>, db')
          else (ClaimRefused ''claim_lost'', r, db))
     else case row of None \<Rightarrow> (ClaimRefused ''missing'', r, db)
     | Some x \<Rightarrow> if \<not> claimable qp now r parent x then
           (ClaimRefused (qr_status x), if qr_status x = ''cancelled'' \<or> qr_cancellation_requested_at x \<noteq> None
              then cancelled_copy now (qr_cancellation_requested_at x) r else r, db)
         else (case update_jobs (\<lambda>y. same_row_version x y \<and> later_than (qr_lease_expires_at y) now \<and> qr_cancellation_requested_at y = None
                  \<and> instance_live db (qr_owner_instance_id y) now) (claimed_row qp now n) db of (changes, db') \<Rightarrow>
             if changes = 1 then (ClaimOk, n, db') else (ClaimRefused ''claim_lost'', r, db)))"

definition claimQueueRecord :: "queue_process \<Rightarrow> int \<Rightarrow> string \<Rightarrow> commit_outcome \<Rightarrow> queue_record \<Rightarrow> queue_db \<Rightarrow> claim_result \<times> queue_record \<times> queue_db" where
  "claimQueueRecord qp now fresh commit r db =
    (if qp_mode qp \<noteq> ''sqlite'' then (ClaimOk, running_state qp now fresh r, db)
     else case claim_transaction qp now fresh r db of (res, r', db') \<Rightarrow>
       if db' = db \<or> commit = Committed then (res, r', db')
       else (ClaimThrown, r, if commit = CommitDurableError then db' else db))"

section \<open>Taking over waiting rows\<close>

text \<open>A row nobody holds: its lease ended and so did the one of the instance that owns it.\<close>

definition abandoned :: "int \<Rightarrow> queue_db \<Rightarrow> queue_row \<Rightarrow> bool" where
  "abandoned now db x \<longleftrightarrow> \<not> later_than (qr_lease_expires_at x) now \<and> \<not> instance_live db (qr_owner_instance_id x) now"

definition resumed_record :: "queue_process \<Rightarrow> int \<Rightarrow> string \<Rightarrow> job \<Rightarrow> queue_row \<Rightarrow> queue_record" where
  "resumed_record qp now generation request row = (persistedQueueRecordFromRow row)\<lparr>q_jobId := qr_job_id row,
     q_request := Some request, q_status := (if qr_status row = ''held'' then ''held'' else ''pending''),
     q_ownerInstanceId := qp_instance qp, q_ownerProcessId := qp_pid qp, q_ownerGeneration := generation,
     q_heartbeatAt := Some now, q_leaseExpiresAt := Some (now + qp_leaseMs qp), q_revision := qr_revision row\<rparr>"

definition takeover_row :: "queue_process \<Rightarrow> int \<Rightarrow> queue_record \<Rightarrow> queue_row \<Rightarrow> queue_row" where
  "takeover_row qp now n x = x\<lparr>qr_status := q_status n, qr_owner_instance_id := q_ownerInstanceId n, qr_owner_process_id := q_ownerProcessId n,
     qr_owner_generation := q_ownerGeneration n, qr_heartbeat_at := q_heartbeatAt n, qr_lease_expires_at := q_leaseExpiresAt n,
     qr_updated_at := Some now, qr_record := Some (queueRecordDurableSummary qp (n\<lparr>q_revision := q_revision n + 1\<rparr>)),
     qr_revision := qr_revision x + 1\<rparr>"

definition claimPersistedQueueRecordForStartup ::
  "queue_process \<Rightarrow> int \<Rightarrow> string \<Rightarrow> string \<Rightarrow> int \<Rightarrow> job \<Rightarrow> queue_db \<Rightarrow> queue_record option \<times> queue_db" where
  "claimPersistedQueueRecordForStartup qp now generation i expected request db =
    (case find_job db i of None \<Rightarrow> (None, db)
     | Some row \<Rightarrow> if qr_revision row \<noteq> expected \<or> qr_status row \<notin> pre_execution then (None, db)
         else let n = resumed_record qp now generation request row in
           (case update_jobs (\<lambda>x. qr_job_id x = qr_job_id row \<and> qr_revision x = q_revision n \<and> qr_status x \<in> pre_execution
                \<and> qr_owner_instance_id x = qr_owner_instance_id row \<and> qr_owner_generation x = qr_owner_generation row
                \<and> abandoned now db x) (takeover_row qp now n) db of (changes, db') \<Rightarrow>
              if changes = 1 then (Some (n\<lparr>q_revision := q_revision n + 1\<rparr>), db') else (None, db')))"

text \<open>\<open>seen\<close> is the row as the recovery pass read it earlier.\<close>

definition failPersistedQueueStartupRecovery ::
  "queue_process \<Rightarrow> int \<Rightarrow> queue_row \<Rightarrow> queue_record \<Rightarrow> string option \<Rightarrow> queue_db \<Rightarrow> bool \<times> queue_db" where
  "failPersistedQueueStartupRecovery qp now seen failed envelope db =
    (let at = (case q_finishedAt failed of Some t \<Rightarrow> t | None \<Rightarrow> now);
         (changes, db') = update_jobs (\<lambda>x. qr_job_id x = qr_job_id seen \<and> qr_revision x = qr_revision seen \<and> qr_status x \<in> pre_execution
            \<and> qr_owner_instance_id x = qr_owner_instance_id seen \<and> qr_owner_generation x = qr_owner_generation seen \<and> abandoned at db x)
          (\<lambda>x. x\<lparr>qr_status := ''failed'', qr_finished_at := Some at, qr_updated_at := Some at, qr_heartbeat_at := None,
             qr_lease_expires_at := None, qr_child_process_id := 0, qr_child_process_started_at := None,
             qr_record := Some (queueRecordDurableSummary qp failed), qr_result_encrypted := envelope, qr_revision := qr_revision x + 1\<rparr>) db
     in if changes = 1 then (True, propagatePipelineTerminal (qr_job_id seen) at db') else (False, db'))"

section \<open>Activating a pipeline\<close>

datatype activation = Activated | ActivationRefused string

definition held_row :: "queue_process \<Rightarrow> int \<Rightarrow> int \<Rightarrow> queue_record \<Rightarrow> queue_row" where
  "held_row qp now expires r = (insert_row qp now (r\<lparr>q_status := ''held'', q_revision := 0, q_startedAt := None, q_finishedAt := None,
     q_heartbeatAt := Some now, q_leaseExpiresAt := Some expires, q_cancellationRequestedAt := None, q_childProcessId := 0,
     q_childProcessStartedAt := None\<rparr>))"

definition released_row :: "queue_process \<Rightarrow> int \<Rightarrow> queue_record \<Rightarrow> queue_row \<Rightarrow> queue_row" where
  "released_row qp now r x = x\<lparr>qr_status := ''pending'', qr_updated_at := Some now,
     qr_record := Some (queueRecordDurableSummary qp (r\<lparr>q_status := ''pending'', q_revision := 1\<rparr>)), qr_revision := qr_revision x + 1\<rparr>"

definition unique_violation :: "queue_db \<Rightarrow> queue_record list \<Rightarrow> bool" where
  "unique_violation db children = (list_ex (\<lambda>r. find_job db (q_jobId r) \<noteq> None) children
     \<or> list_ex (\<lambda>r. q_jobId r \<in> snd ` set (qd_children db)) children
     \<or> \<not> distinct (filter (\<lambda>k. k \<noteq> []) (map q_idempotencyKey children))
     \<or> list_ex (\<lambda>r. q_idempotencyKey r \<noteq> [] \<and> list_ex (\<lambda>x. qr_idempotency_key x = Some (q_idempotencyKey r)) (qd_jobs db)) children)"

definition activation_claim :: "queue_process \<Rightarrow> string \<Rightarrow> string \<Rightarrow> int \<Rightarrow> queue_db \<Rightarrow> bool" where
  "activation_claim qp pipeline generation expected db =
    (case List.find (\<lambda>p. pl_pipeline_id p = pipeline) (qd_pipelines db) of None \<Rightarrow> False
     | Some p \<Rightarrow> pl_status p = ''planned'' \<and> pl_revision p = expected \<and> pl_owner_instance_id p = qp_instance qp
         \<and> pl_owner_generation p = generation \<and> pl_expected_child_count p = 0
         \<and> list_all (\<lambda>(q, _). q \<noteq> pipeline) (qd_children db) \<and> or_string (pl_batch_state p) ''unstarted'' \<in> {''unstarted'', ''legacy''})"

text \<open>\<open>activatePipelineBatch\<close>: every child is inserted held, released and paired with the pipeline, or nothing happens.\<close>

definition activatePipelineBatch ::
  "queue_process \<Rightarrow> persist_env \<Rightarrow> string \<Rightarrow> string \<Rightarrow> int \<Rightarrow> queue_record list \<Rightarrow> queue_db \<Rightarrow> activation \<times> queue_db" where
  "activatePipelineBatch qp e pipeline generation expected children db =
    (let now = pe_now e; expires = now + qp_leaseMs qp in
     if qp_mode qp \<noteq> ''sqlite'' then (ActivationRefused ''pipeline_requires_sqlite_queue'', db)
     else if children = [] \<or> list_ex (\<lambda>r. q_requestEncrypted r = []) children \<or> \<not> distinct (map q_jobId children)
       then (ActivationRefused ''pipeline_batch_invalid'', db)
     else if pe_full e then (ActivationRefused ''state_capacity_exceeded'', db)
     else if \<not> activation_claim qp pipeline generation expected db then (ActivationRefused ''pipeline_concurrent_update'', db)
     else if unique_violation db children then (ActivationRefused ''pipeline_batch_idempotency_conflict'', db)
     else if list_ex (\<lambda>r. q_ownerInstanceId r \<noteq> qp_instance qp) children
        \<or> \<not> list_ex (\<lambda>p. pl_pipeline_id p = pipeline \<and> later_than (pl_owner_lease_expires_at p) now
              \<and> instance_live db (pl_owner_instance_id p) now) (qd_pipelines db)
       then (ActivationRefused ''pipeline_batch_persistence_failed'', db)
     else let db' = db\<lparr>qd_jobs := qd_jobs db @ map (\<lambda>r. released_row qp now (r\<lparr>q_heartbeatAt := Some now, q_leaseExpiresAt := Some expires\<rparr>)
                  (held_row qp now expires r)) children,
                qd_children := qd_children db @ map (\<lambda>r. (pipeline, q_jobId r)) children,
                qd_pipelines := map (\<lambda>p. if pl_pipeline_id p = pipeline then p\<lparr>pl_status := ''running'', pl_updated_at := Some now,
                  pl_revision := expected + 1, pl_owner_heartbeat_at := Some now, pl_owner_lease_expires_at := Some expires,
                  pl_expected_child_count := int (length children), pl_batch_state := ''released''\<rparr> else p) (qd_pipelines db)\<rparr>
          in case pe_commit e of Committed \<Rightarrow> (Activated, db')
             | CommitLost \<Rightarrow> (ActivationRefused ''pipeline_batch_persistence_failed'', db)
             | CommitDurableError \<Rightarrow> (ActivationRefused ''pipeline_batch_persistence_failed'', db'))"

section \<open>Removing old rows\<close>

text \<open>\<open>row_age\<close> is the time a row is sorted by; equal times are ordered by the text of the id.\<close>

definition time_less :: "int option \<Rightarrow> int option \<Rightarrow> bool" where
  "time_less a b = (case (a, b) of (_, None) \<Rightarrow> False | (None, _) \<Rightarrow> True | (Some s, Some t) \<Rightarrow> s < t)"

definition row_age :: "queue_row \<Rightarrow> int option" where
  "row_age x = or_time (qr_finished_at x) (or_time (qr_updated_at x) (qr_created_at x))"

definition older_row :: "queue_row \<Rightarrow> queue_row \<Rightarrow> bool" where
  "older_row x y = (if row_age x = row_age y then text_less (qr_job_id x) (qr_job_id y) else time_less (row_age x) (row_age y))"

definition older_pipeline :: "pipeline_row \<Rightarrow> pipeline_row \<Rightarrow> bool" where
  "older_pipeline p q = (if pl_updated_at p = pl_updated_at q then text_less (pl_pipeline_id p) (pl_pipeline_id q)
     else time_less (pl_updated_at p) (pl_updated_at q))"

text \<open>\<open>names p\<close> are the job ids in the stored record of a pipeline.\<close>

definition prunable :: "(pipeline_row \<Rightarrow> string list) \<Rightarrow> queue_db \<Rightarrow> queue_row \<Rightarrow> bool" where
  "prunable names db x \<longleftrightarrow> qr_status x \<in> terminal_statuses \<and> qr_job_id x \<notin> snd ` set (qd_children db)
     \<and> list_all (\<lambda>p. qr_job_id x \<notin> set (names p)) (qd_pipelines db)"

definition delete_pipelines :: "(pipeline_row \<Rightarrow> bool) \<Rightarrow> queue_db \<Rightarrow> queue_db" where
  "delete_pipelines P db = db\<lparr>qd_pipelines := filter (\<lambda>p. \<not> P p) (qd_pipelines db),
     qd_children := filter (\<lambda>(q, _). \<not> list_ex (\<lambda>p. pl_pipeline_id p = q \<and> P p) (qd_pipelines db)) (qd_children db)\<rparr>"

definition delete_jobs :: "(queue_row \<Rightarrow> bool) \<Rightarrow> queue_db \<Rightarrow> queue_db" where
  "delete_jobs P db = db\<lparr>qd_jobs := filter (\<lambda>x. \<not> P x) (qd_jobs db)\<rparr>"

text \<open>\<open>ORDER BY ... DESC LIMIT -1 OFFSET n\<close>: all but the first \<open>n\<close> of the selected rows.\<close>

definition past_offset :: "('r \<Rightarrow> 'r \<Rightarrow> bool) \<Rightarrow> ('r \<Rightarrow> bool) \<Rightarrow> nat \<Rightarrow> 'r list \<Rightarrow> 'r \<Rightarrow> bool" where
  "past_offset older sel n xs x \<longleftrightarrow> sel x \<and> n \<le> length (filter (\<lambda>y. sel y \<and> older x y) xs)"

text \<open>Old runs go with no lock row left; the tables of the integration journal are not part of the model.\<close>

definition prune_runs :: "int \<Rightarrow> int \<Rightarrow> lock_db \<Rightarrow> lock_db" where
  "prune_runs now cutoff ldb = (let ldb = expireLocksFromDb ldb now
     in ldb\<lparr>runs := filter (\<lambda>r. \<not> (rn_status r \<in> {''released'', ''expired'', ''quarantine_released''}
          \<and> (case rn_finished_at r of None \<Rightarrow> False | Some t \<Rightarrow> t < cutoff) \<and> no_rows_of ldb (rn_id r))) (runs ldb)\<rparr>)"

definition prunePersistedState :: "(pipeline_row \<Rightarrow> string list) \<Rightarrow> int \<Rightarrow> int \<Rightarrow> int \<Rightarrow> nat \<Rightarrow> nat \<Rightarrow> queue_db \<Rightarrow> queue_db" where
  "prunePersistedState names now cutoff audit_cutoff pipelines_max jobs_max db =
    (let db1 = delete_pipelines (\<lambda>p. pl_status p \<in> terminal_statuses \<and> time_less (pl_updated_at p) (Some cutoff))
           (db\<lparr>qd_locks := prune_runs now audit_cutoff (qd_locks db)\<rparr>);
         db2 = delete_jobs (\<lambda>x. prunable names db1 x \<and> time_less (row_age x) (Some cutoff)) db1;
         db3 = delete_pipelines (past_offset older_pipeline (\<lambda>p. pl_status p \<in> {''completed'', ''failed'', ''cancelled''}) pipelines_max
           (qd_pipelines db2)) db2
     in delete_jobs (past_offset older_row (prunable names db3) jobs_max (qd_jobs db3)) db3)"

end
