(* ===== verification/QueueSafety.thy ===== *)
theory QueueSafety
  imports QueueRetry QueueClaims
begin

text \<open>
  Safety of the queue table.  \<open>evolves\<close> says what one write may make of a row; every transaction of the
  store, the leases, the claims and the retry policy lets every row evolve, so facts about rows (a finished
  row stays finished, a cancellation wins, ids and keys stay unique) hold for any interleaving of bridges.
\<close>

declare not_None_eq [simp del]

section \<open>Rows with versions\<close>

text \<open>A write raises the version of a row; a compare-and-set on the version can therefore lose no update.\<close>

locale versioned_rows =
  fixes version :: "'r \<Rightarrow> int" and evolves_to :: "'r \<Rightarrow> 'r \<Rightarrow> bool"
  assumes unchanged: "evolves_to r r"
    and later: "evolves_to r s \<Longrightarrow> evolves_to s t \<Longrightarrow> evolves_to r t"
    and grows: "evolves_to r s \<Longrightarrow> r = s \<or> version r < version s"
begin

definition table_advances :: "'r list \<Rightarrow> 'r list \<Rightarrow> bool" where
  "table_advances xs ys \<longleftrightarrow> list_all2 evolves_to xs ys"

lemma table_advances_refl: "table_advances xs xs"
  unfolding table_advances_def by (rule list_all2_refl) (rule unchanged)

lemma table_advances_trans: "table_advances xs ys \<Longrightarrow> table_advances ys zs \<Longrightarrow> table_advances xs zs"
  unfolding table_advances_def by (rule list_all2_trans [of evolves_to evolves_to]) (rule later)

lemma table_advances_map:
  assumes "\<And>x. x \<in> set xs \<Longrightarrow> P x \<Longrightarrow> evolves_to x (f x)"
  shows "table_advances xs (map (\<lambda>x. if P x then f x else x) xs)"
  unfolding table_advances_def list_all2_conv_all_nth using assms unchanged by auto

lemma table_advances_mem: "table_advances xs ys \<Longrightarrow> y \<in> set ys \<Longrightarrow> \<exists>x \<in> set xs. evolves_to x y"
  unfolding table_advances_def by (metis in_set_conv_nth list_all2_conv_all_nth)

lemma table_advances_from: "table_advances xs ys \<Longrightarrow> x \<in> set xs \<Longrightarrow> \<exists>y \<in> set ys. evolves_to x y"
  unfolding table_advances_def by (metis in_set_conv_nth list_all2_conv_all_nth)

lemma same_version_same_row: "evolves_to r s \<Longrightarrow> version s \<le> version r \<Longrightarrow> s = r"
  using grows by fastforce

end

definition finished :: "string \<Rightarrow> bool" where
  "finished s \<longleftrightarrow> s \<in> terminal_statuses"

definition same_request :: "queue_row \<Rightarrow> queue_row \<Rightarrow> bool" where
  "same_request x y \<longleftrightarrow> qr_job_id y = qr_job_id x \<and> qr_idempotency_key y = qr_idempotency_key x
     \<and> qr_request_encrypted y = qr_request_encrypted x \<and> qr_created_at y = qr_created_at x"

definition same_end :: "queue_row \<Rightarrow> queue_row \<Rightarrow> bool" where
  "same_end x y \<longleftrightarrow> qr_status y = qr_status x \<and> qr_finished_at y = qr_finished_at x
     \<and> qr_result_encrypted y = qr_result_encrypted x \<and> qr_cancellation_requested_at y = qr_cancellation_requested_at x
     \<and> qr_owner_generation y = qr_owner_generation x"

definition keeps_end :: "queue_row \<Rightarrow> queue_row \<Rightarrow> bool" where
  "keeps_end x y \<longleftrightarrow> (finished (qr_status x) \<longrightarrow> same_end x y)"

text \<open>A row whose cancellation was requested keeps the request, and is completed only if it was.\<close>

definition keeps_cancellation :: "queue_row \<Rightarrow> queue_row \<Rightarrow> bool" where
  "keeps_cancellation x y \<longleftrightarrow> (qr_cancellation_requested_at x \<noteq> None \<longrightarrow> qr_cancellation_requested_at y \<noteq> None
     \<and> (qr_status y = ''completed'' \<longrightarrow> qr_status x = ''completed''))"

definition keeps :: "queue_row \<Rightarrow> queue_row \<Rightarrow> bool" where
  "keeps x y \<longleftrightarrow> same_request x y \<and> keeps_end x y \<and> keeps_cancellation x y"

lemma same_request_trans: "same_request x y \<Longrightarrow> same_request y z \<Longrightarrow> same_request x z"
  unfolding same_request_def by (elim conjE) simp

lemma same_end_trans: "same_end x y \<Longrightarrow> same_end y z \<Longrightarrow> same_end x z"
  unfolding same_end_def by (elim conjE) simp

lemma keeps_end_trans: "keeps_end x y \<Longrightarrow> keeps_end y z \<Longrightarrow> keeps_end x z"
  unfolding keeps_end_def by (metis same_end_def same_end_trans)

lemma keeps_cancellation_trans: "keeps_cancellation x y \<Longrightarrow> keeps_cancellation y z \<Longrightarrow> keeps_cancellation x z"
  unfolding keeps_cancellation_def by blast

definition evolves :: "queue_row \<Rightarrow> queue_row \<Rightarrow> bool" where
  "evolves x y \<longleftrightarrow> y = x \<or> (qr_revision x < qr_revision y \<and> keeps x y)"

lemma keeps_trans: "keeps x y \<Longrightarrow> keeps y z \<Longrightarrow> keeps x z"
  unfolding keeps_def by (blast intro: same_request_trans keeps_end_trans keeps_cancellation_trans)

interpretation vr: versioned_rows qr_revision evolves
proof unfold_locales
  fix r s t assume "evolves r s" "evolves s t"
  then show "evolves r t" unfolding evolves_def by (metis keeps_trans less_trans)
qed (auto simp: evolves_def)

abbreviation advances :: "queue_db \<Rightarrow> queue_db \<Rightarrow> bool" where
  "advances db db' \<equiv> vr.table_advances (qd_jobs db) (qd_jobs db')"

lemma update_jobs_advances:
  assumes "\<And>x. x \<in> set (qd_jobs db) \<Longrightarrow> P x \<Longrightarrow> evolves x (f x)"
  shows "advances db (snd (update_jobs P f db))"
  unfolding update_jobs_def by (simp add: vr.table_advances_map [of _ P f] assms)

lemma evolves_write:
  assumes "qr_revision y = qr_revision x + 1" "keeps x y"
  shows "evolves x y"
  using assms unfolding evolves_def by simp

section \<open>Every transaction lets rows evolve\<close>

lemma unstarted_not_finished: "s \<in> pre_execution \<Longrightarrow> \<not> finished s"
  unfolding finished_def by auto

lemma active_not_finished: "s \<in> active_statuses \<Longrightarrow> \<not> finished s"
  unfolding finished_def by auto

lemma unfinished_not_finished: "unfinished s \<Longrightarrow> \<not> finished s"
  unfolding unfinished_def using unstarted_not_finished active_not_finished by blast

lemma keeps_unfinished:
  assumes "same_request x y" "\<not> finished (qr_status x)"
    "qr_cancellation_requested_at x \<noteq> None \<Longrightarrow> qr_cancellation_requested_at y \<noteq> None \<and> qr_status y \<noteq> ''completed''"
  shows "keeps x y"
  using assms unfolding keeps_def keeps_end_def keeps_cancellation_def by blast

text \<open>A write to a row that is not finished.\<close>

lemma evolves_unfinished:
  assumes "\<not> finished (qr_status x)" "qr_revision y = qr_revision x + 1" "same_request x y"
    "qr_cancellation_requested_at x \<noteq> None \<Longrightarrow> qr_cancellation_requested_at y \<noteq> None \<and> qr_status y \<noteq> ''completed''"
  shows "evolves x y"
  using evolves_write keeps_unfinished assms by blast

lemma or_time_Some [simp]: "or_time a b \<noteq> None \<longleftrightarrow> a \<noteq> None \<or> b \<noteq> None"
  by (simp add: or_time_def split: option.split)

lemma cancel_unstarted_evolves: "qr_status x \<in> pre_execution \<Longrightarrow> evolves x (cancel_unstarted at x)"
  by (rule evolves_unfinished, erule unstarted_not_finished) (simp_all add: cancel_unstarted_def same_request_def)

lemma request_cancellation_evolves: "qr_status x \<in> active_statuses \<Longrightarrow> evolves x (request_cancellation at x)"
  by (rule evolves_unfinished, erule active_not_finished)
    (auto simp: request_cancellation_def same_request_def or_time_def split: option.split)

lemma propagate_advances: "advances db (propagatePipelineTerminal child at db)"
proof -
  define early where "early e p x \<longleftrightarrow> sibling_of e p child x \<and> qr_status x \<in> pre_execution" for e p x
  define late where "late e p x \<longleftrightarrow> sibling_of e p child x \<and> qr_status x \<in> active_statuses" for e p x
  define two where "two e p = snd (update_jobs (late e p) (request_cancellation at) (snd (update_jobs (early e p) (cancel_unstarted at) e)))" for e p
  have "advances e (snd (update_jobs (early e p) (cancel_unstarted at) e))" for e p
    by (rule update_jobs_advances) (rule cancel_unstarted_evolves, simp only: early_def)
  moreover have "advances d (snd (update_jobs (late e p) (request_cancellation at) d))" for d e p
    by (rule update_jobs_advances) (rule request_cancellation_evolves, simp only: late_def)
  ultimately have "advances e (two e p)" for e p
    unfolding two_def by (rule vr.table_advances_trans)
  then show ?thesis unfolding propagatePipelineTerminal_def Let_def early_def [symmetric] late_def [symmetric] two_def [symmetric]
    by (auto split: option.split intro: vr.table_advances_refl)
qed

lemma update_jobs_unfinished:
  assumes "\<And>x. x \<in> set (qd_jobs db) \<Longrightarrow> P x \<Longrightarrow> \<not> finished (qr_status x) \<and> qr_revision (f x) = qr_revision x + 1 \<and> same_request x (f x)
     \<and> (qr_cancellation_requested_at x = None \<or> (qr_cancellation_requested_at (f x) \<noteq> None \<and> qr_status (f x) \<noteq> ''completed''))"
  shows "advances db (snd (update_jobs P f db))"
proof (rule update_jobs_advances)
  fix x assume x: "x \<in> set (qd_jobs db)" "P x"
  show "evolves x (f x)"
    using assms [OF x] evolves_unfinished [of x "f x"] by blast
qed

lemma update_result: "update_jobs P f db = (n, db') \<Longrightarrow> db' = snd (update_jobs P f db)"
  by simp

text \<open>What the writes of one row keep.\<close>

lemma write_terminal_row [simp]:
  "qr_revision (write_terminal qp now t e x) = qr_revision x + 1" "same_request x (write_terminal qp now t e x)"
  "qr_status (write_terminal qp now t e x) = q_status t"
  "qr_cancellation_requested_at (write_terminal qp now t e x) = qr_cancellation_requested_at x"
  by (simp_all add: write_terminal_def same_request_def)

lemma write_row_row [simp]:
  "qr_revision (write_row qp now t e x) = qr_revision x + 1" "same_request x (write_row qp now t e x)"
  by (simp_all add: write_row_def same_request_def)

lemma renew_row_row [simp]:
  "qr_revision (renew_row now expires x) = qr_revision x + 1" "same_request x (renew_row now expires x)"
  "qr_cancellation_requested_at (renew_row now expires x) = qr_cancellation_requested_at x"
  by (simp_all add: renew_row_def same_request_def)

lemma cancel_row_row [simp]:
  "qr_revision (cancel_row qp now row x) = qr_revision x + 1" "same_request x (cancel_row qp now row x)"
  "qr_cancellation_requested_at (cancel_row qp now row x) \<noteq> None"
  by (simp_all add: cancel_row_def makeCancellationPatch_def Let_def same_request_def or_time_def split: option.split)

lemma cancel_row_status:
  "qr_status (cancel_row qp now row x) = (if qr_status row \<in> pre_execution then ''cancelled'' else qr_status x)"
  by (simp add: cancel_row_def makeCancellationPatch_def Let_def)

lemma reconciled_row_row [simp]:
  "qr_revision (reconciled_row kill now x) = qr_revision x + 1" "same_request x (reconciled_row kill now x)"
  "qr_status (reconciled_row kill now x) = reconciled_status x"
  "qr_cancellation_requested_at (reconciled_row kill now x) = qr_cancellation_requested_at x"
  by (simp_all add: reconciled_row_def same_request_def)

lemma reconciled_status_not_completed: "reconciled_status x \<noteq> ''completed''"
  by (simp add: reconciled_status_def)

lemma claimed_row_row [simp]:
  "qr_revision (claimed_row qp now n x) = qr_revision x + 1" "same_request x (claimed_row qp now n x)"
  by (simp_all add: claimed_row_def same_request_def)

lemma takeover_row_row [simp]:
  "qr_revision (takeover_row qp now n x) = qr_revision x + 1" "same_request x (takeover_row qp now n x)"
  "qr_cancellation_requested_at (takeover_row qp now n x) = qr_cancellation_requested_at x"
  "qr_status (takeover_row qp now n x) = q_status n"
  by (simp_all add: takeover_row_def same_request_def)

section \<open>The transactions\<close>

lemma if_cases: "(b \<Longrightarrow> Q x) \<Longrightarrow> (\<not> b \<Longrightarrow> Q y) \<Longrightarrow> Q (if b then x else y)"
  by simp

lemma advances_propagate: "advances db d \<Longrightarrow> advances db (propagatePipelineTerminal child at d)"
  by (rule vr.table_advances_trans [OF _ propagate_advances])

lemma cancel_advances:
  assumes "cancel_refusal unstarted (Some row) = None"
  shows "advances db (snd (cancel_transaction qp now row db))"
proof -
  have unfinished: "\<not> finished (qr_status row)" and known: "qr_status row \<in> pre_execution \<or> qr_status row \<in> active_statuses"
    using assms unfolding cancel_refusal_def finished_def by (simp_all only: option.simps split: if_split_asm) blast+
  have completed: "qr_status row \<noteq> ''completed''" using unfinished unfolding finished_def by blast
  have "advances db (snd (update_jobs (same_row_version row) (cancel_row qp now row) db))"
    by (rule update_jobs_unfinished) (use unfinished completed in \<open>simp only: cancel_row_row cancel_row_status same_row_version_def if_splits\<close>, simp)
  then show ?thesis unfolding cancel_transaction_def split_beta snd_conv
    by (simp only: advances_propagate split: if_split) simp
qed

lemma ended_record_status:
  "q_status (ended_record qp now current r) = q_status r \<or> q_status (ended_record qp now current r) = ''cancelled''"
  by (simp add: ended_record_def Let_def terminal_record_def unleased_def applyDurableCancellationOutcome_def split: option.split)

lemma noteRetryIntent_status [simp]: "q_status (noteRetryIntent now current t) = q_status t"
  by (simp add: noteRetryIntent_def)

lemma unstarted_write_advances:
  assumes "q_status t \<noteq> ''completed''"
  shows "advances db (snd (unstarted_write qp now envelope r t db))"
proof (cases "ends_unstarted qp (find_job db (q_jobId r)) r")
  case True
  then have pre: "\<not> finished (qr_status (the (find_job db (q_jobId r))))"
    unfolding ends_unstarted_def using unstarted_not_finished by (simp only: split: option.split_asm) (simp only: option.sel; blast)
  show ?thesis unfolding unstarted_write_def Let_def
    by (simp only: True not_True_eq_False if_False) (rule update_jobs_unfinished, use assms pre in \<open>simp del: not_None_eq\<close>)
qed (simp add: unstarted_write_def vr.table_advances_refl)

lemma active_write_advances: "advances db (snd (active_write qp now r t db))"
  unfolding active_write_def by (rule update_jobs_unfinished) (use active_not_finished in \<open>simp only: write_terminal_row simp_thms\<close>)

lemma cancellation_write_advances: "advances db (snd (cancellation_write qp now envelope r row db))"
  unfolding cancellation_write_def
  by (rule update_jobs_unfinished) (use active_not_finished in \<open>simp add: cancelled_record_def unleased_def applyDurableCancellationOutcome_def\<close>)

lemma terminal_advances: "advances db (snd (snd (terminal_transaction qp now envelope r db)))"
proof -
  let ?current = "find_job db (q_jobId r)"
  let ?ended = "ended_record qp now ?current r" let ?t = "noteRetryIntent now ?current ?ended"
  have one: "advances db (snd (unstarted_write qp now envelope r ?t db))"
  proof (cases "ends_unstarted qp ?current r")
    case True
    then have "q_status r \<noteq> ''completed''" unfolding ends_unstarted_def by (auto split: option.split_asm)
    then have "q_status ?t \<noteq> ''completed''" using ended_record_status [of qp now ?current r] by auto
    then show ?thesis by (rule unstarted_write_advances)
  qed (simp add: unstarted_write_def vr.table_advances_refl)
  show ?thesis unfolding terminal_transaction_def Let_def split_beta propagated_def
    by (intro if_cases [where Q = "\<lambda>x. advances db (snd (snd x))"])
      (simp_all only: snd_conv vr.table_advances_refl advances_propagate one active_write_advances cancellation_write_advances split: if_split, simp_all)
qed

lemma update_transaction_advances:
  assumes "update_transaction qp now r row db = (res, r', db')"
  shows "advances db db'"
proof (cases "finished (qr_status row)")
  case True
  then have "db' = db" using assms unfolding update_transaction_def Let_def finished_def by simp
  then show ?thesis by (simp add: vr.table_advances_refl)
next
  case False
  have "advances db (snd (update_jobs
     (\<lambda>x. owned_version qp (q_jobId r) (q_ownerGeneration r) (qr_revision row) x \<and> qr_status x = qr_status row
        \<and> later_than (qr_lease_expires_at x) now \<and> qr_cancellation_requested_at x = None
        \<and> instance_live db (qr_owner_instance_id x) now) (write_row qp now n e) db))" for n e
    by (rule update_jobs_unfinished) (use False in simp)
  then show ?thesis using assms vr.table_advances_refl unfolding update_transaction_def Let_def split_beta
    by (auto split: if_split_asm simp: advances_propagate)
qed

lemma renewed_record_advances:
  assumes "\<And>x. x \<in> set (qd_jobs db) \<Longrightarrow> P x \<Longrightarrow> unfinished (qr_status x) \<and> qr_cancellation_requested_at x = None"
  shows "advances db (snd (renewed_record now expires P r db))"
proof (cases "List.find P (qd_jobs db)")
  case (Some x)
  have "advances db (snd (update_jobs P (renew_row now expires) db))"
    by (rule update_jobs_unfinished) (use assms unfinished_not_finished in simp)
  then show ?thesis by (simp add: renewed_record_def Some)
qed (simp add: renewed_record_def vr.table_advances_refl)

lemma renew_advances: "advances db (snd (renewPersistedQueueRecordLease qp now expires r db))"
  unfolding renewPersistedQueueRecordLease_def by (rule renewed_record_advances) simp

lemma reacquire_advances: "advances db (snd (reacquirePersistedQueueRecordLease qp now expires r db))"
  unfolding reacquirePersistedQueueRecordLease_def
  by (rule if_cases [where Q = "\<lambda>x. advances db (snd x)"]) (simp add: vr.table_advances_refl, rule renewed_record_advances, simp)

lemma reconciled_update_advances:
  assumes "unfinished (qr_status row)"
  shows "advances db (snd (update_jobs (same_row_version row) (reconciled_row kill now) db))"
proof (rule update_jobs_unfinished)
  fix x assume "same_row_version row x"
  then have "qr_status x = qr_status row" by (simp add: same_row_version_def)
  then show "\<not> finished (qr_status x) \<and> qr_revision (reconciled_row kill now x) = qr_revision x + 1 \<and> same_request x (reconciled_row kill now x)
     \<and> (qr_cancellation_requested_at x = None \<or> (qr_cancellation_requested_at (reconciled_row kill now x) \<noteq> None
        \<and> qr_status (reconciled_row kill now x) \<noteq> ''completed''))"
    using assms unfinished_not_finished reconciled_status_not_completed by simp
qed

lemma reconcile_rows_advances: "advances db (snd (reconcile_rows qp kill tracked now rows db))"
proof (induction rows arbitrary: db)
  case Nil show ?case by (simp add: vr.table_advances_refl)
next
  case (Cons row rows)
  show ?case
  proof (cases "reconciles qp tracked now db row")
    case True
    then have u: "unfinished (qr_status row)" by (simp add: reconciles_def)
    define d0 where "d0 = snd (update_jobs (same_row_version row) (reconciled_row kill now) db)"
    have a0: "advances db d0" unfolding d0_def by (rule reconciled_update_advances [OF u])
    define d2 where "d2 = (let d1 = propagatePipelineTerminal (qr_job_id row) now d0 in d1\<lparr>qd_locks := fold (\<lambda>i ld. snd (releaseQueueJobLocks now i ld))
       (if qr_status row \<in> active_statuses then interrupted_lock_ids db row else []) (qd_locks d1)\<rparr>)"
    have a2: "advances db d2" using advances_propagate [OF a0] unfolding d2_def Let_def by simp
    have "snd (reconcile_rows qp kill tracked now (row # rows) db)
      = snd (reconcile_rows qp kill tracked now rows (if fst (update_jobs (same_row_version row) (reconciled_row kill now) db) > 0 then d2 else d0))"
      unfolding d0_def d2_def Let_def by (simp add: True Let_def split: prod.split)
    then show ?thesis using vr.table_advances_trans [OF a0 Cons.IH] vr.table_advances_trans [OF a2 Cons.IH] by simp
  qed (simp add: Cons.IH)
qed

lemma claim_advances: "advances db (snd (snd (claim_transaction qp now fresh r db)))"
proof -
  have cancelled: "advances db (snd (update_jobs (same_row_version x) (cancel_unstarted now) db))"
    if "qr_status x \<in> pre_execution" for x
  proof (rule update_jobs_advances)
    fix y assume "same_row_version x y"
    then have "qr_status y \<in> pre_execution" using that by (simp only: same_row_version_def)
    then show "evolves y (cancel_unstarted now y)" by (rule cancel_unstarted_evolves)
  qed
  have ended: "qr_status (the (find_job db (q_jobId r))) \<in> pre_execution"
    if "parent_ended (claim_parent db (q_jobId r)) (find_job db (q_jobId r))"
    using that unfolding parent_ended_def by (auto split: option.split_asm)
  have claimed: "advances db (snd (update_jobs (\<lambda>y. same_row_version x y \<and> later_than (qr_lease_expires_at y) now
      \<and> qr_cancellation_requested_at y = None \<and> instance_live db (qr_owner_instance_id y) now) (claimed_row qp now n) db))"
    if "claimable qp now r p x" for x n p
  proof (rule update_jobs_unfinished)
    have "qr_status x \<in> pre_execution" using that unfolding claimable_def by blast
    then have "\<not> finished (qr_status x)" by (rule unstarted_not_finished)
    then show "\<not> finished (qr_status y) \<and> qr_revision (claimed_row qp now n y) = qr_revision y + 1 \<and> same_request y (claimed_row qp now n y)
       \<and> (qr_cancellation_requested_at y = None \<or> (qr_cancellation_requested_at (claimed_row qp now n y) \<noteq> None
          \<and> qr_status (claimed_row qp now n y) \<noteq> ''completed''))"
      if "same_row_version x y \<and> later_than (qr_lease_expires_at y) now \<and> qr_cancellation_requested_at y = None
        \<and> instance_live db (qr_owner_instance_id y) now" for y
      using that by (simp add: same_row_version_def)
  qed
  show ?thesis unfolding claim_transaction_def Let_def split_beta
    using ended cancelled claimed
    by (simp add: vr.table_advances_refl split: option.split if_split)
qed

lemma takeover_advances: "advances db (snd (claimPersistedQueueRecordForStartup qp now g i expected request db))"
proof -
  have "advances db (snd (update_jobs (\<lambda>x. qr_job_id x = i' \<and> qr_revision x = v \<and> qr_status x \<in> pre_execution
      \<and> qr_owner_instance_id x = oi \<and> qr_owner_generation x = og \<and> abandoned now db x) (takeover_row qp now n) db))"
    if "q_status n \<noteq> ''completed''" for i' v oi og n
    by (rule update_jobs_unfinished, simp only: takeover_row_row simp_thms) (use unstarted_not_finished that in blast)
  moreover have "q_status (resumed_record qp now g request row) \<noteq> ''completed''" for row
    by (simp add: resumed_record_def)
  ultimately show ?thesis unfolding claimPersistedQueueRecordForStartup_def Let_def split_beta
    by (simp add: vr.table_advances_refl split: option.split)
qed

lemma fail_startup_advances: "advances db (snd (failPersistedQueueStartupRecovery qp now seen failed envelope db))"
proof -
  define dead :: "int \<Rightarrow> queue_row \<Rightarrow> queue_row" where "dead at x = x\<lparr>qr_status := ''failed'', qr_finished_at := Some at, qr_updated_at := Some at, qr_heartbeat_at := None,
             qr_lease_expires_at := None, qr_child_process_id := 0, qr_child_process_started_at := None,
             qr_record := Some (queueRecordDurableSummary qp failed), qr_result_encrypted := envelope, qr_revision := qr_revision x + 1\<rparr>" for at x
  have "advances db (snd (update_jobs (\<lambda>x. qr_job_id x = i' \<and> qr_revision x = v \<and> qr_status x \<in> pre_execution
      \<and> qr_owner_instance_id x = oi \<and> qr_owner_generation x = og \<and> abandoned at db x) (dead at) db))" for i' v oi og at
    by (rule update_jobs_unfinished) (use unstarted_not_finished in \<open>simp add: dead_def same_request_def\<close>)
  then show ?thesis unfolding failPersistedQueueStartupRecovery_def Let_def split_beta dead_def
    by (simp add: advances_propagate)
qed

lemma patch_row_evolves: "evolves x (patch_row upd now row s x)"
  by (rule evolves_write)
    (simp_all add: patch_row_def keeps_def same_request_def keeps_end_def same_end_def keeps_cancellation_def)

lemma patch_advances: "advances db (snd (update_jobs P (patch_row upd now row s) db))"
  by (rule update_jobs_advances) (rule patch_row_evolves)

section \<open>Tables with unique ids and keys\<close>

definition unique_rows :: "queue_row list \<Rightarrow> bool" where
  "unique_rows rows \<longleftrightarrow> distinct (map qr_job_id rows) \<and> distinct (List.map_filter qr_idempotency_key rows)"

lemma evolves_same_request: "evolves x y \<Longrightarrow> same_request x y"
  unfolding evolves_def keeps_def by (auto simp: same_request_def)

lemma advances_same_request: "vr.table_advances xs ys \<Longrightarrow> list_all2 same_request xs ys"
  unfolding vr.table_advances_def by (erule list_all2_mono) (rule evolves_same_request)

lemma same_request_ids: "list_all2 same_request xs ys \<Longrightarrow> map qr_job_id ys = map qr_job_id xs"
  by (induction rule: list_all2_induct) (auto simp: same_request_def)

lemma same_request_keys: "list_all2 same_request xs ys \<Longrightarrow> List.map_filter qr_idempotency_key ys = List.map_filter qr_idempotency_key xs"
  by (induction rule: list_all2_induct) (auto simp: same_request_def List.map_filter_simps split: option.split)

lemma advances_unique: "vr.table_advances xs ys \<Longrightarrow> unique_rows xs \<Longrightarrow> unique_rows ys"
  unfolding unique_rows_def using advances_same_request same_request_ids same_request_keys by metis

lemma set_map_filter_key: "set (List.map_filter f xs) = {k. \<exists>x \<in> set xs. f x = Some k}"
  by (induction xs) (auto simp: List.map_filter_simps split: option.split)

lemma distinct_map_filter: "distinct (List.map_filter f xs) \<Longrightarrow> distinct (List.map_filter f (filter P xs))"
  by (induction xs) (auto simp: List.map_filter_simps set_map_filter_key split: option.splits)

lemma filter_unique: "unique_rows xs \<Longrightarrow> unique_rows (filter P xs)"
  unfolding unique_rows_def using distinct_map_filter by (auto simp: distinct_map inj_on_def)

lemma map_filter_append: "List.map_filter f (xs @ ys) = List.map_filter f xs @ List.map_filter f ys"
  by (simp add: List.map_filter_def)

lemma append_unique:
  assumes "unique_rows xs" "unique_rows ys" "\<And>x y. x \<in> set xs \<Longrightarrow> y \<in> set ys \<Longrightarrow> qr_job_id x \<noteq> qr_job_id y
     \<and> (qr_idempotency_key x \<noteq> qr_idempotency_key y \<or> qr_idempotency_key x = None)"
  shows "unique_rows (xs @ ys)"
  using assms unfolding unique_rows_def by (fastforce simp: map_filter_append set_map_filter_key)

lemma find_job_None: "find_job db i = None \<longleftrightarrow> (\<forall>x \<in> set (qd_jobs db). qr_job_id x \<noteq> i)"
  by (simp add: find_job_def find_None_not)

lemma find_job_Some: "find_job db i = Some x \<Longrightarrow> x \<in> set (qd_jobs db) \<and> qr_job_id x = i"
  unfolding find_job_def by (drule find_Some_ex) simp

lemma unique_row: "unique_rows xs \<Longrightarrow> x \<in> set xs \<Longrightarrow> y \<in> set xs \<Longrightarrow> qr_job_id x = qr_job_id y \<Longrightarrow> x = y"
  unfolding unique_rows_def by (meson distinct_map inj_onD)

section \<open>Steps of any bridge\<close>

text \<open>
  One transaction of some process, at any time, on the shared table; what the process does with the
  answer is not restricted.  \<open>other\<close> stands for writes to instances, locks and pipelines only.
\<close>

inductive queue_step :: "queue_db \<Rightarrow> queue_db \<Rightarrow> bool" where
  insert: "find_job db (q_jobId r) = None \<Longrightarrow> insert_transaction qp e r db = (res, db') \<Longrightarrow> queue_step db db'"
| update: "find_job db (q_jobId r) = Some row \<Longrightarrow> update_transaction qp now r row db = (res, r', db') \<Longrightarrow> queue_step db db'"
| terminal: "terminal_transaction qp now envelope r db = (res, r', db') \<Longrightarrow> queue_step db db'"
| cancel: "find_job db i = Some row \<Longrightarrow> cancel_refusal unstarted (Some row) = None \<Longrightarrow> cancel_transaction qp now row db = (n, db')
    \<Longrightarrow> queue_step db db'"
| renew: "renewPersistedQueueRecordLease qp now expires r db = (rn, db') \<Longrightarrow> queue_step db db'"
| reacquire: "reacquirePersistedQueueRecordLease qp now expires r db = (rn, db') \<Longrightarrow> queue_step db db'"
| reconcile: "reconcile_rows qp kill tracked now (qd_jobs db) db = (rs, db') \<Longrightarrow> queue_step db db'"
| claim: "claim_transaction qp now fresh r db = (cr, r', db') \<Longrightarrow> queue_step db db'"
| takeover: "claimPersistedQueueRecordForStartup qp now g i expected request db = (rn, db') \<Longrightarrow> queue_step db db'"
| fail_startup: "failPersistedQueueStartupRecovery qp now seen failed envelope db = (ok, db') \<Longrightarrow> queue_step db db'"
| activate: "activatePipelineBatch qp e pipeline g expected children db = (ar, db') \<Longrightarrow> queue_step db db'"
| patch: "find_job db i = Some row \<Longrightarrow> qr_status row \<in> terminal_statuses
    \<Longrightarrow> update_jobs (at_version row) (patch_row upd now row s) db = (n, db') \<Longrightarrow> queue_step db db'"
| prune: "queue_step db (prunePersistedState names now cutoff audit_cutoff pipelines_max jobs_max db)"
| other: "qd_jobs db' = qd_jobs db \<Longrightarrow> queue_step db db'"

abbreviation queue_run :: "queue_db \<Rightarrow> queue_db \<Rightarrow> bool" where
  "queue_run \<equiv> queue_step\<^sup>*\<^sup>*"

text \<open>Rows evolve, new rows have new ids and keys, and old finished rows go.\<close>

definition table_step :: "queue_row list \<Rightarrow> queue_row list \<Rightarrow> bool" where
  "table_step xs ys \<longleftrightarrow> (unique_rows xs \<longrightarrow> unique_rows ys)
     \<and> (\<forall>y \<in> set ys. (\<exists>x \<in> set xs. evolves x y) \<or> (\<forall>x \<in> set xs. qr_job_id x \<noteq> qr_job_id y))
     \<and> (\<forall>x \<in> set xs. finished (qr_status x) \<or> (\<exists>y \<in> set ys. evolves x y))"

lemma advances_step: "advances db db' \<Longrightarrow> table_step (qd_jobs db) (qd_jobs db')"
  unfolding table_step_def using advances_unique vr.table_advances_mem vr.table_advances_from by blast

lemma append_step:
  assumes "unique_rows ys" "\<And>x y. x \<in> set xs \<Longrightarrow> y \<in> set ys \<Longrightarrow> qr_job_id x \<noteq> qr_job_id y
     \<and> (qr_idempotency_key x \<noteq> qr_idempotency_key y \<or> qr_idempotency_key x = None)"
  shows "table_step xs (xs @ ys)"
  unfolding table_step_def using append_unique [OF _ assms] assms(2) vr.unchanged by fastforce

lemma insert_step:
  assumes "find_job db (q_jobId r) = None" "insert_transaction qp e r db = (res, db')"
  shows "table_step (qd_jobs db) (qd_jobs db')"
proof (cases "qd_jobs db' = qd_jobs db")
  case False
  let ?key = "q_idempotencyKey r" let ?row = "insert_row qp (pe_now e) r"
  have k: "?key = [] \<or> List.find (\<lambda>x. qr_idempotency_key x = Some ?key) (qd_jobs db) = None"
    and j: "qd_jobs db' = qd_jobs db @ [?row]"
    using assms(2) False unfolding insert_transaction_def Let_def
    by (auto split: if_split_asm option.split_asm)
  show ?thesis unfolding j
  proof (rule append_step)
    show "unique_rows [?row]" unfolding unique_rows_def by (simp add: List.map_filter_simps split: option.split)
    fix x y assume x: "x \<in> set (qd_jobs db)" and y: "y \<in> set [?row]"
    then have "qr_job_id y = q_jobId r" "qr_idempotency_key y = (if ?key \<noteq> [] then Some ?key else None)"
      by (simp_all add: insert_row_def)
    then show "qr_job_id x \<noteq> qr_job_id y \<and> (qr_idempotency_key x \<noteq> qr_idempotency_key y \<or> qr_idempotency_key x = None)"
      using k x assms(1) unfolding find_job_None find_None_not by (auto split: if_split_asm)
  qed
qed (simp add: advances_step vr.table_advances_refl)

lemma released_child [simp]:
  "qr_job_id (released_row qp now r' (held_row qp now x r)) = q_jobId r"
  "qr_idempotency_key (released_row qp now r' (held_row qp now x r)) = (if q_idempotencyKey r \<noteq> [] then Some (q_idempotencyKey r) else None)"
  by (simp_all add: released_row_def held_row_def insert_row_def)

lemma children_keys:
  "List.map_filter qr_idempotency_key (map (\<lambda>r. released_row qp now (u r) (held_row qp now x r)) rs)
    = filter (\<lambda>k. k \<noteq> []) (map q_idempotencyKey rs)"
  by (induction rs) (simp_all add: List.map_filter_simps)

lemma activate_step:
  assumes "activatePipelineBatch qp e pipeline g expected children db = (ar, db')"
  shows "table_step (qd_jobs db) (qd_jobs db')"
proof (cases "qd_jobs db' = qd_jobs db")
  case False
  define u where "u r = r\<lparr>q_heartbeatAt := Some (pe_now e), q_leaseExpiresAt := Some (pe_now e + qp_leaseMs qp)\<rparr>" for r :: queue_record
  define rows where "rows = map (\<lambda>r. released_row qp (pe_now e) (u r) (held_row qp (pe_now e) (pe_now e + qp_leaseMs qp) r)) children"
  have d: "distinct (map q_jobId children)" and v: "\<not> unique_violation db children" and j: "qd_jobs db' = qd_jobs db @ rows"
    using assms False unfolding activatePipelineBatch_def Let_def rows_def u_def
    by (auto split: if_split_asm commit_outcome.split_asm)
  have "map qr_job_id rows = map q_jobId children" unfolding rows_def by simp
  moreover have "List.map_filter qr_idempotency_key rows = filter (\<lambda>k. k \<noteq> []) (map q_idempotencyKey children)"
    unfolding rows_def by (rule children_keys)
  ultimately have "unique_rows rows" using d v unfolding unique_rows_def unique_violation_def by auto
  then show ?thesis unfolding j
  proof (rule append_step)
    fix x y assume x: "x \<in> set (qd_jobs db)" and "y \<in> set rows"
    then obtain r where r: "r \<in> set children" "qr_job_id y = q_jobId r"
      "qr_idempotency_key y = (if q_idempotencyKey r \<noteq> [] then Some (q_idempotencyKey r) else None)"
      unfolding rows_def by auto
    have "qr_job_id x \<noteq> q_jobId r" using v r(1) x find_job_None [of db "q_jobId r"] unfolding unique_violation_def by (auto simp: list_ex_iff)
    moreover have "q_idempotencyKey r \<noteq> [] \<Longrightarrow> qr_idempotency_key x \<noteq> Some (q_idempotencyKey r)"
      using v r(1) x unfolding unique_violation_def by (auto simp: list_ex_iff)
    ultimately show "qr_job_id x \<noteq> qr_job_id y \<and> (qr_idempotency_key x \<noteq> qr_idempotency_key y \<or> qr_idempotency_key x = None)"
      using r by auto
  qed
qed (simp add: advances_step vr.table_advances_refl)

lemma filter_step: "(\<And>x. x \<in> set xs \<Longrightarrow> \<not> P x \<Longrightarrow> finished (qr_status x)) \<Longrightarrow> table_step xs (filter P xs)"
  unfolding table_step_def set_filter by (intro conjI impI ballI) (erule filter_unique, use vr.unchanged in blast, use vr.unchanged in blast)

lemma qd_jobs_deletes [simp]:
  "qd_jobs (delete_pipelines P db) = qd_jobs db"
  "qd_jobs (delete_jobs Q db) = filter (\<lambda>x. \<not> Q x) (qd_jobs db)"
  by (simp_all add: delete_pipelines_def delete_jobs_def)

lemma prune_step: "table_step (qd_jobs db) (qd_jobs (prunePersistedState names now cutoff audit_cutoff pipelines_max jobs_max db))"
proof -
  have old: "prunable names d x \<Longrightarrow> finished (qr_status x)" "past_offset older (prunable names d) n xs x \<Longrightarrow> finished (qr_status x)"
    for d x older n xs by (simp_all add: prunable_def finished_def past_offset_def)
  have kept: "qd_jobs (db\<lparr>qd_locks := l\<rparr>) = qd_jobs db" for l by simp
  show ?thesis unfolding prunePersistedState_def Let_def qd_jobs_deletes kept filter_filter
    by (rule filter_step) (use old in blast)
qed

lemma queue_step_table: "queue_step db db' \<Longrightarrow> table_step (qd_jobs db) (qd_jobs db')"
proof (induction rule: queue_step.induct)
  case (update db r row qp now res r' db') then show ?case using advances_step update_transaction_advances by blast
next
  case (terminal qp now envelope r db res r' db') then show ?case using advances_step terminal_advances by (metis snd_conv)
next
  case (cancel db i row unstarted qp now n db') then show ?case using advances_step cancel_advances by (metis snd_conv)
next
  case (renew qp now expires r db rn db') then show ?case using advances_step renew_advances by (metis snd_conv)
next
  case (reacquire qp now expires r db rn db') then show ?case using advances_step reacquire_advances by (metis snd_conv)
next
  case (reconcile qp kill tracked now db rs db') then show ?case using advances_step reconcile_rows_advances by (metis snd_conv)
next
  case (claim qp now fresh r db cr r' db') then show ?case using advances_step claim_advances by (metis snd_conv)
next
  case (takeover qp now g i expected request db rn db') then show ?case using advances_step takeover_advances by (metis snd_conv)
next
  case (fail_startup qp now seen failed envelope db ok db') then show ?case using advances_step fail_startup_advances by (metis snd_conv)
next
  case (patch db i row upd now s n db') then show ?case using advances_step patch_advances by (metis snd_conv)
qed (auto intro: insert_step activate_step prune_step advances_step vr.table_advances_refl simp: vr.table_advances_refl)

section \<open>Properties of every run\<close>

text \<open>In a run, a row of the table stays, evolving, until it is finished; a finished one may be pruned.\<close>

lemma run_unique: "queue_run db db' \<Longrightarrow> unique_rows (qd_jobs db) \<Longrightarrow> unique_rows (qd_jobs db')"
  by (induction rule: rtranclp_induct) (use queue_step_table table_step_def in blast)+

lemma evolves_finished: "evolves x y \<Longrightarrow> finished (qr_status x) \<Longrightarrow> finished (qr_status y)"
  unfolding evolves_def keeps_def keeps_end_def same_end_def by auto

text \<open>The run of one id: rows with it, one after the other, all evolve while the id is in the table.\<close>

inductive row_run :: "queue_row \<Rightarrow> queue_db \<Rightarrow> queue_row \<Rightarrow> queue_db \<Rightarrow> bool" where
  here: "x \<in> set (qd_jobs db) \<Longrightarrow> row_run x db x db"
| further: "row_run x db y db' \<Longrightarrow> queue_step db' db'' \<Longrightarrow> z \<in> set (qd_jobs db'') \<Longrightarrow> qr_job_id z = qr_job_id y \<Longrightarrow> row_run x db z db''"

lemma row_run_evolves:
  assumes "row_run x db y db'" "unique_rows (qd_jobs db)"
  shows "evolves x y \<and> y \<in> set (qd_jobs db') \<and> unique_rows (qd_jobs db') \<and> queue_run db db'"
  using assms
proof (induction rule: row_run.induct)
  case (here x db) then show ?case by (simp add: vr.unchanged)
next
  case (further x db y db' db'' z)
  then have y: "evolves x y" "y \<in> set (qd_jobs db')" "unique_rows (qd_jobs db')" "queue_run db db'" by simp_all
  have t: "table_step (qd_jobs db') (qd_jobs db'')" by (rule queue_step_table) (rule further.hyps)
  with y(2) further.hyps(3,4) obtain w where "w \<in> set (qd_jobs db')" "evolves w z" unfolding table_step_def by metis
  moreover from this have "qr_job_id w = qr_job_id z" using evolves_same_request same_request_def by metis
  ultimately have "w = y" using unique_row [OF y(3)] y(2) further.hyps(4) by metis
  then show ?case using \<open>evolves w z\<close> vr.later [OF y(1)] t y(3,4) further.hyps(2,3) unfolding table_step_def
    by (meson rtranclp.rtrancl_into_rtrancl)
qed

end
