(* ===== verification/QueueProperties.thy ===== *)
theory QueueProperties
  imports QueueSafety
begin

text \<open>
  What the queue promises: rows of finished jobs are final, a cancellation is never overtaken by a
  completion, keys admit one job, a stale owner writes nothing, guarded updates lose nothing, recovery
  spares rows with a live owner, a failed child stops its siblings, and a claim is exclusive.
\<close>

section \<open>A sample queue\<close>

definition sample_process :: queue_process where
  "sample_process = \<lparr>qp_instance = ''b1'', qp_pid = 7, qp_mode = ''sqlite'', qp_leaseMs = 60, qp_heartbeatMs = 5, qp_staleAfterMs = 90,
     qp_resultMaxChars = 9, qp_encrypt = (\<lambda>r. ''enc''), qp_redact = (\<lambda>t. t)\<rparr>"

definition sample_record :: queue_record where
  "sample_record = blank_record\<lparr>q_jobId := ''j1'', q_status := ''running'', q_mode := ''read'', q_ownerInstanceId := ''b1'',
     q_ownerProcessId := 7, q_ownerGeneration := ''g1'', q_leaseExpiresAt := Some 50, q_revision := 3, q_idempotencyKey := ''k1'',
     q_requestEncrypted := ''req'', q_retryAttempt := 1, q_maxAttempts := 2\<rparr>"

definition sample_row :: "string \<Rightarrow> int option \<Rightarrow> queue_row" where
  "sample_row status requested = (insert_row sample_process 1 sample_record)\<lparr>qr_status := status, qr_cancellation_requested_at := requested\<rparr>"

definition queue_of :: "queue_row list \<Rightarrow> queue_db" where
  "queue_of rows = \<lparr>qd_jobs = rows, qd_pipelines = [], qd_children = [], qd_instances = [(''b1'', 80)], 
     qd_locks = \<lparr>locks = [], runs = [], queue_job_locks = [], integration_operations = [], opencode_jobs = []\<rparr>\<rparr>"

lemma unique_one [simp]: "unique_rows [x]"
  by (simp add: unique_rows_def List.map_filter_simps split: option.split)

section \<open>Finished rows and cancellations\<close>

text \<open>C4: Whatever transactions bridge processes run on the job table, a row in a finished status never
  leaves it: its status, finish time, result, cancellation mark and owner generation stay, and every
  change of it raises the revision.\<close>

theorem finished_rows_are_final:
  assumes "row_run x db y db'" "unique_rows (qd_jobs db)" "qr_status x \<in> terminal_statuses"
  shows "qr_status y = qr_status x \<and> qr_finished_at y = qr_finished_at x \<and> qr_result_encrypted y = qr_result_encrypted x
    \<and> qr_cancellation_requested_at y = qr_cancellation_requested_at x \<and> qr_owner_generation y = qr_owner_generation x
    \<and> (y = x \<or> qr_revision x < qr_revision y)"
proof -
  have "evolves x y" using row_run_evolves [OF assms(1,2)] by blast
  then show ?thesis using assms(3) unfolding evolves_def keeps_def keeps_end_def same_end_def finished_def by blast
qed

definition noted :: "queue_record \<Rightarrow> queue_record" where
  "noted s = s\<lparr>q_requeuedAs := ''j2''\<rparr>"

definition failed_db :: queue_db where "failed_db = queue_of [sample_row ''failed'' None]"

definition noted_db :: queue_db where
  "noted_db = snd (update_jobs (at_version (sample_row ''failed'' None)) (patch_row noted 9 (sample_row ''failed'' None) sample_record) failed_db)"

lemma noted_step: "queue_step failed_db noted_db"
  by (rule queue_step.patch [where i = "''j1''" and row = "sample_row ''failed'' None" and upd = noted and now = 9 and s = sample_record and n = 1]) code_simp+

lemma noted_row: "qd_jobs noted_db = [patch_row noted 9 (sample_row ''failed'' None) sample_record (sample_row ''failed'' None)]"
  by code_simp

lemma failed_rows: "qd_jobs failed_db = [sample_row ''failed'' None]"
  by (simp add: failed_db_def queue_of_def)

lemma noted_run: "row_run (sample_row ''failed'' None) failed_db (hd (qd_jobs noted_db)) noted_db"
  by (rule row_run.further [OF row_run.here noted_step])
    (simp_all add: noted_row failed_rows patch_row_def)

theorem finished_rows_are_final_witness:
  "qr_status (hd (qd_jobs noted_db)) = ''failed'' \<and> qr_revision (hd (qd_jobs noted_db)) = 4"
proof -
  have "qr_status (hd (qd_jobs noted_db)) = qr_status (sample_row ''failed'' None)"
    by (rule conjunct1 [OF finished_rows_are_final [OF noted_run]])
      (simp_all add: failed_rows sample_row_def)
  then show ?thesis by (simp add: sample_row_def noted_row patch_row_def insert_row_def sample_record_def)
qed

text \<open>C5: A row whose cancellation was requested before it completed is never completed afterwards, by any
  transaction of any process, and the request mark stays.\<close>

theorem cancellation_wins:
  assumes "row_run x db y db'" "unique_rows (qd_jobs db)" "qr_cancellation_requested_at x \<noteq> None" "qr_status x \<noteq> ''completed''"
  shows "qr_status y \<noteq> ''completed'' \<and> qr_cancellation_requested_at y \<noteq> None"
proof -
  have "evolves x y" using row_run_evolves [OF assms(1,2)] by blast
  then show ?thesis using assms(3,4) unfolding evolves_def keeps_def keeps_cancellation_def by blast
qed

definition cancelling_db :: queue_db where "cancelling_db = queue_of [sample_row ''running'' (Some 5)]"

definition completed_record :: queue_record where
  "completed_record = sample_record\<lparr>q_status := ''completed'', q_resultText := ''done'', q_finishedAt := Some 9\<rparr>"

definition cancelled_db :: queue_db where
  "cancelled_db = snd (snd (terminal_transaction sample_process 9 (Some ''c'') completed_record cancelling_db))"

lemma cancelled_step: "queue_step cancelling_db cancelled_db"
proof -
  obtain res r d where t: "terminal_transaction sample_process 9 (Some ''c'') completed_record cancelling_db = (res, r, d)" by (rule prod_cases3)
  show ?thesis unfolding cancelled_db_def t snd_conv by (rule queue_step.terminal [OF t])
qed

lemma cancelled_status: "map qr_status (qd_jobs cancelled_db) = [''cancelled'']" "map qr_job_id (qd_jobs cancelled_db) = [''j1'']"
  by code_simp+

theorem cancellation_wins_witness:
  "qr_status (hd (qd_jobs cancelled_db)) \<noteq> ''completed'' \<and> qr_cancellation_requested_at (hd (qd_jobs cancelled_db)) \<noteq> None"
proof -
  have rows: "qd_jobs cancelling_db = [sample_row ''running'' (Some 5)]" by (simp add: cancelling_db_def queue_of_def)
  have "row_run (sample_row ''running'' (Some 5)) cancelling_db (hd (qd_jobs cancelled_db)) cancelled_db"
    by (rule row_run.further [OF row_run.here cancelled_step])
      (use cancelled_status in \<open>auto simp: rows sample_row_def insert_row_def sample_record_def\<close>)
  then show ?thesis by (rule cancellation_wins) (simp_all add: rows sample_row_def)
qed

section \<open>Keys\<close>

lemma key_row_unique:
  "distinct (List.map_filter f xs) \<Longrightarrow> x \<in> set xs \<Longrightarrow> y \<in> set xs \<Longrightarrow> f x = Some k \<Longrightarrow> f y = Some k \<Longrightarrow> x = y"
  by (induction xs) (auto simp: List.map_filter_simps set_map_filter_key split: option.splits)

lemma insert_key_taken:
  assumes "distinct (List.map_filter qr_idempotency_key (qd_jobs db))" "x \<in> set (qd_jobs db)"
    "qr_idempotency_key x = Some (q_idempotencyKey r)" "q_idempotencyKey r \<noteq> []"
  shows "snd (insert_transaction qp e r db) = db
    \<and> fst (insert_transaction qp e r db) \<in> {PersistDeduplicated (qr_job_id x), PersistConflict (qr_job_id x)}"
proof (cases "List.find (\<lambda>y. qr_idempotency_key y = Some (q_idempotencyKey r)) (qd_jobs db)")
  case None then show ?thesis using assms(2,3) by (auto simp: find_None_not)
next
  case (Some y)
  then have "y = x" using find_Some_ex [OF Some] key_row_unique [OF assms(1)] assms(2,3) by blast
  with Some assms(4) show ?thesis unfolding insert_transaction_def Let_def by simp
qed

text \<open>C14: In every reachable job table the job ids are distinct, and inserting a record whose idempotency
  key is taken adds nothing and answers the job that has the key, as a duplicate or a conflict.\<close>

theorem one_job_per_key:
  assumes "queue_run (queue_of []) db"
  shows "distinct (map qr_job_id (qd_jobs db))
    \<and> (\<forall>x \<in> set (qd_jobs db). \<forall>qp e r. q_idempotencyKey r \<noteq> [] \<and> qr_idempotency_key x = Some (q_idempotencyKey r) \<longrightarrow>
        snd (insert_transaction qp e r db) = db
        \<and> fst (insert_transaction qp e r db) \<in> {PersistDeduplicated (qr_job_id x), PersistConflict (qr_job_id x)})"
proof -
  have "unique_rows (qd_jobs db)" by (rule run_unique [OF assms]) (simp add: queue_of_def unique_rows_def List.map_filter_simps)
  then show ?thesis using insert_key_taken unfolding unique_rows_def by blast
qed

definition quiet_env :: persist_env where
  "quiet_env = \<lparr>pe_now = 1, pe_commit = Committed, pe_full = False, pe_executing = False, pe_others = (\<lambda>d. d), pe_now2 = 1, pe_commit2 = Committed\<rparr>"

definition pending_record :: queue_record where
  "pending_record = sample_record\<lparr>q_status := ''pending'', q_revision := 0, q_requestFingerprint := ''f1''\<rparr>"

definition admitted_db :: queue_db where
  "admitted_db = queue_of [insert_row sample_process 1 pending_record]"

lemma admitted_run: "queue_run (queue_of []) admitted_db"
  by (rule r_into_rtranclp, rule queue_step.insert [where r = pending_record and qp = sample_process and e = quiet_env])
    (code_simp, simp add: insert_transaction_def admitted_db_def queue_of_def quiet_env_def pending_record_def sample_record_def)

theorem one_job_per_key_witness:
  "fst (insert_transaction sample_process quiet_env (pending_record\<lparr>q_jobId := ''j2''\<rparr>) admitted_db)
    \<in> {PersistDeduplicated ''j1'', PersistConflict ''j1''}"
proof -
  let ?x = "insert_row sample_process 1 pending_record"
  have x: "?x \<in> set (qd_jobs admitted_db)" "qr_job_id ?x = ''j1''" "qr_idempotency_key ?x = Some ''k1''"
    by (simp_all add: admitted_db_def queue_of_def insert_row_def pending_record_def sample_record_def)
  have k: "q_idempotencyKey (pending_record\<lparr>q_jobId := ''j2''\<rparr>) = ''k1''" by (simp add: pending_record_def sample_record_def)
  have "q_idempotencyKey (pending_record\<lparr>q_jobId := ''j2''\<rparr>) \<noteq> [] \<and> qr_idempotency_key ?x = Some (q_idempotencyKey (pending_record\<lparr>q_jobId := ''j2''\<rparr>))"
    using x(3) k by simp
  then show ?thesis using one_job_per_key [OF admitted_run] x(1,2) by metis
qed

section \<open>Fencing\<close>



lemma update_children [simp]: "qd_children (snd (update_jobs P f db)) = qd_children db"
  by (simp add: update_jobs_def)

text \<open>
  The row of a record was taken over: it has another owner or generation, or a newer version than heartbeats
  alone made of the one the record was read from, and no cancellation is asked of it.
\<close>

definition superseded :: "queue_process \<Rightarrow> queue_record \<Rightarrow> queue_db \<Rightarrow> bool" where
  "superseded qp r db \<longleftrightarrow> unique_rows (qd_jobs db) \<and> (\<exists>x. find_job db (q_jobId r) = Some x
     \<and> (qr_owner_instance_id x \<noteq> qp_instance qp \<or> qr_owner_generation x \<noteq> q_ownerGeneration r
        \<or> qr_revision x \<noteq> q_revision r \<and> \<not> heartbeatOnlyQueueAdvance qp (Some x) r (q_revision r)
          \<and> qr_cancellation_requested_at x = None))"

lemma update_no_row: "\<forall>x \<in> set (qd_jobs db). \<not> P x \<Longrightarrow> update_jobs P f db = (0, db)"
  by (simp add: update_jobs_def filter_empty_conv cong: map_cong)

lemma supersededE:
  assumes "superseded qp r db"
  obtains x where "find_job db (q_jobId r) = Some x" "\<not> owns_cancelled qp r (Some x)"
    "\<forall>y \<in> set (qd_jobs db). \<not> owned_version qp (q_jobId r) (q_ownerGeneration r) (attempted_revision qp (Some x) r) y"
    "\<not> (qr_owner_instance_id x = qp_instance qp \<and> qr_owner_generation x = q_ownerGeneration r)
      \<or> qr_revision x \<noteq> q_revision r \<and> \<not> heartbeatOnlyQueueAdvance qp (Some x) r (q_revision r)"
proof -
  obtain x where u: "unique_rows (qd_jobs db)" and x: "find_job db (q_jobId r) = Some x"
    and s: "qr_owner_instance_id x \<noteq> qp_instance qp \<or> qr_owner_generation x \<noteq> q_ownerGeneration r
        \<or> qr_revision x \<noteq> q_revision r \<and> \<not> heartbeatOnlyQueueAdvance qp (Some x) r (q_revision r)
          \<and> qr_cancellation_requested_at x = None"
    using assms unfolding superseded_def by blast
  have c: "\<not> owns_cancelled qp r (Some x)" using s by (auto simp: owns_cancelled_def)
  have "\<not> owned_version qp (q_jobId r) (q_ownerGeneration r) (attempted_revision qp (Some x) r) y" if "y \<in> set (qd_jobs db)" for y
  proof
    assume o: "owned_version qp (q_jobId r) (q_ownerGeneration r) (attempted_revision qp (Some x) r) y"
    have "y = x" using unique_row [OF u that] find_job_Some [OF x] o unfolding owned_version_def by metis
    then show False using o s unfolding owned_version_def attempted_revision_def by (auto simp: heartbeatOnlyQueueAdvance_def)
  qed
  with that [OF x c] s show ?thesis by blast
qed

lemma superseded_terminal:
  assumes "superseded qp r db" "terminal_transaction qp now envelope r db = (res, r', d)"
  shows "d = db \<and> (\<forall>st b. res \<noteq> TerminalPersisted st b)"
proof -
  obtain x where x: "find_job db (q_jobId r) = Some x" and c: "\<not> owns_cancelled qp r (Some x)"
    and n: "\<forall>y \<in> set (qd_jobs db). \<not> owned_version qp (q_jobId r) (q_ownerGeneration r) (attempted_revision qp (Some x) r) y"
    by (rule supersededE [OF assms(1)])
  have "unstarted_write qp now envelope r t db = (0, db)" "active_write qp now r t db = (0, db)" for t
    unfolding unstarted_write_def active_write_def Let_def x using n by (auto intro: update_no_row)
  then show ?thesis using assms(2) c
    unfolding terminal_transaction_def Let_def x terminal_refusal_def by (auto split: if_split_asm)
qed

lemma superseded_persist:
  assumes "superseded qp r db" "persistTerminalQueueRecord qp now commit envelope r db = (res, r', d)"
  shows "d = db \<and> (\<forall>st b. res \<noteq> TerminalPersisted st b)"
proof -
  obtain res1 r1 d1 where t: "terminal_transaction qp now envelope r db = (res1, r1, d1)" by (rule prod_cases3)
  with superseded_terminal [OF assms(1) t] show ?thesis
    using assms(2) by (auto simp: persistTerminalQueueRecord_def split: if_split_asm commit_outcome.split_asm)
qed

lemma superseded_update:
  assumes "superseded qp r db" "find_job db (q_jobId r) = Some x" "update_transaction qp now r x db = (res, r', d)"
  shows "d = db \<and> (\<forall>st n. res \<noteq> Persisted st n)"
proof -
  obtain y where "find_job db (q_jobId r) = Some y" "\<not> (qr_owner_instance_id y = qp_instance qp \<and> qr_owner_generation y = q_ownerGeneration r)
      \<or> qr_revision y \<noteq> q_revision r \<and> \<not> heartbeatOnlyQueueAdvance qp (Some y) r (q_revision r)"
    by (rule supersededE [OF assms(1)])
  with assms(2) have "\<not> (qr_owner_instance_id x = qp_instance qp \<and> qr_owner_generation x = q_ownerGeneration r)
      \<or> qr_revision x \<noteq> q_revision r \<and> \<not> heartbeatOnlyQueueAdvance qp (Some x) r (q_revision r)" by simp
  then show ?thesis using assms(3) unfolding update_transaction_def heartbeatOnlyQueueAdvance_def Let_def
    by (auto split: if_split_asm)
qed

lemma enforce_identity [simp]:
  "q_jobId (enforceQueueResultEvidence qp r) = q_jobId r" "q_ownerGeneration (enforceQueueResultEvidence qp r) = q_ownerGeneration r"
  by (simp_all add: enforceQueueResultEvidence_def Let_def)

lemma enforce_superseded [simp]: "superseded qp (enforceQueueResultEvidence qp r) db = superseded qp r db"
proof -
  have "q_revision (enforceQueueResultEvidence qp r) = q_revision r" by (simp add: enforceQueueResultEvidence_def Let_def)
  then show ?thesis by (simp add: superseded_def heartbeatOnlyQueueAdvance_def)
qed

text \<open>C13: A call that persists a record whose row was taken over (another owner or generation, or a newer
  revision that is more than heartbeats, with no cancellation requested) writes nothing: the database
  stays as the other processes leave it during the call, and the answer is never that the record was
  stored. The table is kept in SQLite with distinct job ids, and the row is taken over at the start
  and, for the second attempt, after what others did.\<close>

theorem stale_owner_writes_nothing:
  assumes "persistQueueRecord qp e r db = (res, r', d)" "qp_mode qp = ''sqlite''" "superseded qp r db" "superseded qp r (pe_others e db)"
  shows "(d = db \<or> d = pe_others e db) \<and> (\<forall>st n. res \<noteq> Persisted st n) \<and> (\<forall>st b. res \<noteq> PersistTerminal (TerminalPersisted st b))"
proof -
  define m where "m = enforceQueueResultEvidence qp r"
  have s: "superseded qp m db" "superseded qp m (pe_others e db)" using assms(3,4) by (simp_all add: m_def)
  obtain x where x: "find_job db (q_jobId m) = Some x" by (rule supersededE [OF s(1)])
  obtain res1 r1 d1 where t1: "persistTerminalQueueRecord qp (pe_now e) (pe_commit e) None m db = (res1, r1, d1)" by (rule prod_cases3)
  note e1 = superseded_persist [OF s(1) t1]
  obtain res2 r2 d2 where t2: "persistTerminalQueueRecord qp (pe_now2 e) (pe_commit2 e)
      (Some (qp_encrypt qp (applyDurableCancellationOutcome m None))) m (pe_others e d1) = (res2, r2, d2)" by (rule prod_cases3)
  have e2: "d2 = pe_others e db \<and> (\<forall>st b. res2 \<noteq> TerminalPersisted st b)" using superseded_persist [OF _ t2] s(2) e1 by simp
  obtain res3 r3 d3 where t3: "update_transaction qp (pe_now e) m x db = (res3, r3, d3)" by (rule prod_cases3)
  note e3 = superseded_update [OF s(1) x t3]
  show ?thesis
  proof (cases "q_status m \<in> {''completed'', ''failed'', ''cancelled''}")
    case True
    then have "d = d1 \<and> res = PersistTerminal res1 \<or> d = d2 \<and> res = PersistTerminal res2"
      using assms(1,2) t1 t2 unfolding persistQueueRecord_def Let_def m_def [symmetric] by (simp split: if_split_asm)
    then show ?thesis using e1 e2 by auto
  next
    case False
    then have "(d = d3 \<or> d = db) \<and> (res = res3 \<or> res = PersistThrown)"
      using assms(1,2) x t3 unfolding persistQueueRecord_def Let_def m_def [symmetric] by (auto split: commit_outcome.split_asm)
    moreover have "res3 \<noteq> PersistTerminal t" for t using t3 unfolding update_transaction_def Let_def by (auto split: if_split_asm prod.split_asm)
    ultimately show ?thesis using e3 by auto
  qed
qed

definition taken_row :: queue_row where "taken_row = (sample_row ''running'' None)\<lparr>qr_owner_generation := ''g2''\<rparr>"

theorem stale_owner_writes_nothing_witness:
  "snd (snd (persistQueueRecord sample_process quiet_env completed_record (queue_of [taken_row]))) = queue_of [taken_row]"
proof -
  obtain res r' d where p: "persistQueueRecord sample_process quiet_env completed_record (queue_of [taken_row]) = (res, r', d)" by (rule prod_cases3)
  have "superseded sample_process completed_record (queue_of [taken_row])"
    by (simp add: superseded_def find_job_def taken_row_def queue_of_def sample_row_def insert_row_def completed_record_def sample_record_def)
  then show ?thesis using stale_owner_writes_nothing [OF p] p by (simp add: sample_process_def quiet_env_def)
qed

section \<open>Guarded updates\<close>

text \<open>Steps of other processes while the row of a job is in the table.\<close>

definition keeping :: "string \<Rightarrow> queue_db \<Rightarrow> queue_db \<Rightarrow> bool" where
  "keeping i d d' \<longleftrightarrow> queue_step d d' \<and> find_job d' i \<noteq> None"

lemma find_job_unique: "unique_rows (qd_jobs db) \<Longrightarrow> x \<in> set (qd_jobs db) \<Longrightarrow> qr_job_id x = i \<Longrightarrow> find_job db i = Some x"
  using find_job_None [of db i] find_job_Some [of db i] unique_row [of "qd_jobs db"] by (metis not_Some_eq)

lemma keeping_evolves:
  assumes "(keeping i)\<^sup>*\<^sup>* db d" "unique_rows (qd_jobs db)" "find_job db i = Some row"
  shows "unique_rows (qd_jobs d) \<and> (\<exists>x. find_job d i = Some x \<and> evolves row x)"
  using assms(1)
proof (induction rule: rtranclp_induct)
  case base then show ?case using assms(2,3) vr.unchanged by blast
next
  case (step d d')
  then obtain x where u: "unique_rows (qd_jobs d)" and x: "find_job d i = Some x" "evolves row x" by blast
  from step.hyps(2) have s: "queue_step d d'" "find_job d' i \<noteq> None" unfolding keeping_def by simp_all
  then obtain y where y: "find_job d' i = Some y" by blast
  from queue_step_table [OF s(1)] have t: "table_step (qd_jobs d) (qd_jobs d')" .
  obtain w where w: "w \<in> set (qd_jobs d)" "evolves w y"
    using t find_job_Some [OF y] find_job_Some [OF x(1)] unfolding table_step_def by metis
  then have "qr_job_id w = i" using evolves_same_request [OF w(2)] find_job_Some [OF y] unfolding same_request_def by simp
  then have "w = x" using unique_row [OF u w(1), of x] find_job_Some [OF x(1)] by simp
  then have "evolves row y" using w(2) vr.later [OF x(2)] by blast
  moreover have "unique_rows (qd_jobs d')" using t u unfolding table_step_def by (elim conjE) (erule mp, assumption)
  ultimately show ?case using y by (intro conjI exI)
qed

lemma same_version_row:
  assumes "unique_rows (qd_jobs d)" "find_job d i = Some x" "evolves row x" "find_job db i = Some row"
    and "fst (update_jobs (at_version row) f d) = 1"
  shows "x = row"
proof -
  obtain y where y: "y \<in> set (qd_jobs d)" "at_version row y"
    using assms(5) unfolding update_jobs_def by (force simp: length_Suc_conv filter_eq_Cons_iff)
  have "y = x" using unique_row [OF assms(1) y(1)] find_job_Some [OF assms(2)] find_job_Some [OF assms(4)] y(2)
    unfolding at_version_def by metis
  with y(2) show ?thesis using vr.same_version_same_row [OF assms(3)] unfolding at_version_def by simp
qed

lemma at_most_one:
  assumes "distinct xs" "\<And>x y. x \<in> set xs \<Longrightarrow> y \<in> set xs \<Longrightarrow> x = y"
  shows "length xs \<le> 1"
  using assms(2) distinct_card [OF assms(1)] card_le_Suc0_iff_eq [of "set xs"] by simp

lemma refused_update_changes_nothing:
  assumes "unique_rows (qd_jobs d)" "fst (update_jobs (at_version row) f d) \<noteq> 1"
  shows "snd (update_jobs (at_version row) f d) = d"
proof -
  have "distinct (qd_jobs d)" using assms(1) unfolding unique_rows_def by (simp add: distinct_map)
  then have "distinct (filter (at_version row) (qd_jobs d))" by simp
  moreover have "x = y" if "x \<in> set (filter (at_version row) (qd_jobs d))" "y \<in> set (filter (at_version row) (qd_jobs d))" for x y
    using that unique_row [OF assms(1), of x y] unfolding at_version_def by simp
  ultimately have "length (filter (at_version row) (qd_jobs d)) \<le> 1" by (rule at_most_one)
  moreover have "length (filter (at_version row) (qd_jobs d)) \<noteq> 1" using assms(2) unfolding update_jobs_def by simp
  ultimately have "filter (at_version row) (qd_jobs d) = []" by (simp add: le_Suc_eq)
  then have "map (\<lambda>r. if at_version row r then f r else r) (qd_jobs d) = qd_jobs d" by (auto simp: filter_empty_conv intro: map_idI)
  then show ?thesis unfolding update_jobs_def by simp
qed

text \<open>What a successful guarded update did: one write, on the row and summary the decision was made on.\<close>

definition patched_once :: "(queue_record \<Rightarrow> queue_record) \<Rightarrow> (queue_record \<Rightarrow> queue_row \<Rightarrow> bool) \<Rightarrow> int \<Rightarrow> string \<Rightarrow> queue_db \<Rightarrow> queue_db \<Rightarrow> bool" where
  "patched_once upd onlyIf now i d db' \<longleftrightarrow> (\<exists>row s. find_job d i = Some row \<and> qr_status row \<in> terminal_statuses \<and> qr_record row = Some s
     \<and> onlyIf s row \<and> qd_jobs db' = map (\<lambda>x. if x = row then patch_row upd now row s row else x) (qd_jobs d))"

text \<open>C35: A patch of a finished row that reports success was computed from the summary of the very
  version it overwrote, one revision higher, whatever other processes did between its attempts short
  of removing the row.\<close>

theorem patch_loses_no_update:
  assumes "patchTerminalQueueSummary upd onlyIf now i turns db = (Patched, db')" "unique_rows (qd_jobs db)"
    and "\<And>f d. f \<in> set turns \<Longrightarrow> (keeping i)\<^sup>*\<^sup>* d (f d)"
  shows "\<exists>d. (keeping i)\<^sup>*\<^sup>* db d \<and> patched_once upd onlyIf now i d db'"
  using assms
proof (induction turns arbitrary: db)
  case Nil then show ?case by simp
next
  case (Cons f turns)
  from Cons.prems(1) obtain row s where row: "find_job db i = Some row" "qr_status row \<in> terminal_statuses" "qr_record row = Some s"
    "onlyIf s row" by (auto split: option.split_asm if_split_asm)
  let ?u = "update_jobs (at_version row) (patch_row upd now row s) (f db)"
  have run: "(keeping i)\<^sup>*\<^sup>* db (f db)" by (rule Cons.prems(3)) simp
  obtain x where u: "unique_rows (qd_jobs (f db))" and x: "find_job (f db) i = Some x" "evolves row x"
    using keeping_evolves [OF run Cons.prems(2) row(1)] by blast
  from Cons.prems(1) row have goes: "if fst ?u = 1 then snd ?u = db' else patchTerminalQueueSummary upd onlyIf now i turns (snd ?u) = (Patched, db')"
    by (simp add: split_beta split: if_split_asm)
  show ?case
  proof (cases "fst ?u = 1")
    case True
    have xr: "x = row" by (rule same_version_row [OF u x row(1) True])
    have "at_version row y \<longleftrightarrow> y = row" if "y \<in> set (qd_jobs (f db))" for y
      using that unique_row [OF u that] find_job_Some [OF x(1)] xr unfolding at_version_def by blast
    then have "qd_jobs (snd ?u) = map (\<lambda>y. if y = row then patch_row upd now row s row else y) (qd_jobs (f db))"
      unfolding update_jobs_def by auto
    then show ?thesis using goes True run x(1) xr row unfolding patched_once_def by (intro exI [of _ "f db"]) auto
  next
    case False
    have same: "snd ?u = f db" by (rule refused_update_changes_nothing [OF u False])
    have "patchTerminalQueueSummary upd onlyIf now i turns (f db) = (Patched, db')" using goes False same by (simp only: if_False)
    then obtain d where "(keeping i)\<^sup>*\<^sup>* (f db) d" "patched_once upd onlyIf now i d db'"
      using Cons.IH u Cons.prems(3) by (metis list.set_intros(2))
    then show ?thesis using run by (meson rtranclp_trans)
  qed
qed

text \<open>Another bridge marks the row between the read and the write: the second turn decides on the marked row.\<close>

definition patch_twice :: "patch_result \<times> queue_db" where
  "patch_twice = patchTerminalQueueSummary (\<lambda>s. s\<lparr>q_retryAttempt := 2\<rparr>) (\<lambda>_ _. True) 10 ''j1''
     [(\<lambda>d. if d = failed_db then noted_db else d), (\<lambda>d. d)] failed_db"

theorem patch_loses_no_update_witness:
  "fst patch_twice = Patched \<and> (\<exists>d. patched_once (\<lambda>s. s\<lparr>q_retryAttempt := 2\<rparr>) (\<lambda>_ _. True) 10 ''j1'' d (snd patch_twice))"
proof -
  let ?f = "\<lambda>d. if d = failed_db then noted_db else d"
  have k: "(keeping ''j1'')\<^sup>*\<^sup>* d (?f d)" for d
    using noted_step by (auto simp: keeping_def noted_row find_job_def patch_row_def sample_row_def insert_row_def sample_record_def)
  have "fst patch_twice = Patched" by code_simp
  then obtain e where e: "patch_twice = (Patched, e)" by (metis prod.collapse)
  have "\<exists>d. (keeping ''j1'')\<^sup>*\<^sup>* failed_db d \<and> patched_once (\<lambda>s. s\<lparr>q_retryAttempt := 2\<rparr>) (\<lambda>_ _. True) 10 ''j1'' d e"
    by (rule patch_loses_no_update [OF e [unfolded patch_twice_def]]) (use k in \<open>auto simp: failed_rows\<close>)
  then show ?thesis unfolding e fst_conv snd_conv by blast
qed

section \<open>Recovery\<close>



lemma propagate_instances [simp]: "qd_instances (propagatePipelineTerminal child at db) = qd_instances db"
  unfolding propagatePipelineTerminal_def Let_def update_jobs_def by (simp split: option.split)

lemma propagate_children [simp]: "qd_children (propagatePipelineTerminal child at db) = qd_children db"
  unfolding propagatePipelineTerminal_def Let_def update_jobs_def by (simp split: option.split)

lemma update_instances [simp]: "qd_instances (snd (update_jobs P f db)) = qd_instances db"
  by (simp add: update_jobs_def)


text \<open>The rows after the propagation: siblings that had not started are cancelled, running ones are asked to stop.\<close>

definition stop_sibling :: "queue_db \<Rightarrow> string \<Rightarrow> string \<Rightarrow> int \<Rightarrow> queue_row \<Rightarrow> queue_row" where
  "stop_sibling db p child at x = (if sibling_of db p child x \<and> qr_status x \<in> pre_execution then cancel_unstarted at x
     else if sibling_of db p child x \<and> qr_status x \<in> active_statuses then request_cancellation at x else x)"

lemma cancel_unstarted_status [simp]: "qr_status (cancel_unstarted at x) = ''cancelled''" "qr_job_id (cancel_unstarted at x) = qr_job_id x"
  by (simp_all add: cancel_unstarted_def)

lemma request_cancellation_status [simp]: "qr_status (request_cancellation at x) = qr_status x" "qr_job_id (request_cancellation at x) = qr_job_id x"
  "qr_cancellation_requested_at (request_cancellation at x) \<noteq> None"
  by (simp_all add: request_cancellation_def or_time_def split: option.split)

lemma propagate_rows:
  assumes "List.find (\<lambda>(_, j). j = child) (qd_children db) = Some (p, child)"
    and "List.find (\<lambda>x. pl_pipeline_id x = p) (qd_pipelines db) = Some parent" "pl_status parent \<in> {''planned'', ''running''}"
    and "failed_parent_status (child_rows db p) \<noteq> []"
  shows "qd_jobs (propagatePipelineTerminal child at db) = map (stop_sibling db p child at) (qd_jobs db)"
    and "qd_pipelines (propagatePipelineTerminal child at db)
      = map (end_pipeline p (failed_parent_status (child_rows db p)) at) (qd_pipelines db)"
  unfolding propagatePipelineTerminal_def Let_def update_jobs_def using assms
  by (auto simp: stop_sibling_def)







definition recovered_db :: queue_db where
  "recovered_db = (queue_of [(sample_row ''running'' None)\<lparr>qr_job_id := ''j0'', qr_idempotency_key := None, qr_lease_expires_at := Some 3\<rparr>, sample_row ''running'' None])
     \<lparr>qd_instances := []\<rparr>"

lemma recovery_ends_the_other:
  "(case reconcileStaleQueueRecords sample_process (\<lambda>_. KillFailed) {} 40 Committed recovered_db of (res, db') \<Rightarrow>
     map qr_status (qd_jobs db')) = [''interrupted'', ''running'']"
  by code_simp


section \<open>Pipelines\<close>

lemma failed_parent_status_child:
  assumes "x \<in> set rs" "qr_status x \<in> {''failed'', ''interrupted'', ''not_resumable'', ''cancelled''}"
  shows "failed_parent_status rs \<in> {''failed'', ''cancelled''}"
  using assms unfolding failed_parent_status_def by (auto simp: list_ex_iff)

text \<open>C16: When a child of a running pipeline ends badly, no sibling that has not run is left waiting,
  every running sibling has a cancellation request, and the pipeline is over.\<close>

theorem failed_child_stops_siblings:
  assumes "List.find (\<lambda>(_, j). j = child) (qd_children db) = Some (p, child)"
    and "List.find (\<lambda>x. pl_pipeline_id x = p) (qd_pipelines db) = Some parent" "pl_status parent \<in> {''planned'', ''running''}"
    and "x \<in> set (qd_jobs db)" "qr_job_id x = child" "qr_status x \<in> {''failed'', ''interrupted'', ''not_resumable'', ''cancelled''}"
    and "y \<in> set (qd_jobs (propagatePipelineTerminal child at db))" "sibling_of db p child y"
  shows "qr_status y \<notin> pre_execution \<and> (qr_status y \<in> active_statuses \<longrightarrow> qr_cancellation_requested_at y \<noteq> None)
    \<and> (\<forall>q \<in> set (qd_pipelines (propagatePipelineTerminal child at db)). pl_pipeline_id q = p \<longrightarrow> pl_status q \<notin> {''planned'', ''running''})"
proof -
  have "(p, child) \<in> set (qd_children db)" using find_Some_ex [OF assms(1)] by blast
  then have "x \<in> set (child_rows db p)" unfolding child_rows_def using assms(4,5) by simp
  then have st: "failed_parent_status (child_rows db p) \<in> {''failed'', ''cancelled''}" by (rule failed_parent_status_child [OF _ assms(6)])
  then have ne: "failed_parent_status (child_rows db p) \<noteq> []" by auto
  note rows = propagate_rows [OF assms(1-3) ne]
  obtain z where z: "y = stop_sibling db p child at z" using assms(7) unfolding rows by auto
  have "qr_job_id y = qr_job_id z" unfolding z stop_sibling_def by simp
  then have sib: "sibling_of db p child z" using assms(8) unfolding sibling_of_def by simp
  have "qr_status y \<notin> pre_execution" using sib unfolding z stop_sibling_def by auto
  moreover have "qr_status y \<in> active_statuses \<longrightarrow> qr_cancellation_requested_at y \<noteq> None"
    using sib unfolding z stop_sibling_def by auto
  moreover have "pl_status (end_pipeline p (failed_parent_status (child_rows db p)) at q) \<notin> {''planned'', ''running''}"
    if "pl_pipeline_id (end_pipeline p (failed_parent_status (child_rows db p)) at q) = p" for q
    using that st unfolding end_pipeline_def by auto
  ultimately show ?thesis unfolding rows by auto
qed

definition failed_child :: queue_row where "failed_child = sample_row ''failed'' None"

definition waiting_child :: queue_row where
  "waiting_child = (sample_row ''pending'' None)\<lparr>qr_job_id := ''j2'', qr_idempotency_key := None\<rparr>"

definition sample_pipeline :: pipeline_row where
  "sample_pipeline = \<lparr>pl_pipeline_id = ''p1'', pl_status = ''running'', pl_owner_instance_id = ''b1'', pl_owner_generation = ''g1'',
     pl_owner_heartbeat_at = None, pl_owner_lease_expires_at = None, pl_expected_child_count = 2, pl_batch_state = ''released'',
     pl_updated_at = None, pl_finished_at = None, pl_revision = 1\<rparr>"

definition pipeline_db :: queue_db where
  "pipeline_db = (queue_of [failed_child, waiting_child])\<lparr>qd_children := [(''p1'', ''j1''), (''p1'', ''j2'')], qd_pipelines := [sample_pipeline]\<rparr>"

theorem failed_child_stops_siblings_witness:
  "qr_status (qd_jobs (propagatePipelineTerminal ''j1'' 9 pipeline_db) ! 1) \<notin> pre_execution"
proof -
  have p: "List.find (\<lambda>(_, j). j = ''j1'') (qd_children pipeline_db) = Some (''p1'', ''j1'')"
    "List.find (\<lambda>x. pl_pipeline_id x = ''p1'') (qd_pipelines pipeline_db) = Some sample_pipeline"
    by (simp_all add: pipeline_db_def sample_pipeline_def)
  have x: "failed_child \<in> set (qd_jobs pipeline_db)" by (simp add: pipeline_db_def queue_of_def)
  have c: "qr_job_id failed_child = ''j1''" "qr_status failed_child = ''failed''"
    by (simp_all add: failed_child_def sample_row_def insert_row_def sample_record_def)
  let ?y = "qd_jobs (propagatePipelineTerminal ''j1'' 9 pipeline_db) ! 1"
  have "length (qd_jobs (propagatePipelineTerminal ''j1'' 9 pipeline_db)) = 2" "qr_job_id ?y = ''j2''" by code_simp+
  then have y: "?y \<in> set (qd_jobs (propagatePipelineTerminal ''j1'' 9 pipeline_db))" "sibling_of pipeline_db ''p1'' ''j1'' ?y"
    by (simp_all add: sibling_of_def) (simp add: pipeline_db_def)
  show ?thesis
    by (rule failed_child_stops_siblings [THEN conjunct1, OF p _ x c(1) _ y]) (simp_all add: c(2) sample_pipeline_def)
qed

section \<open>Claims\<close>

lemma find_map_id:
  assumes "\<And>x. qr_job_id (g x) = qr_job_id x"
  shows "List.find (\<lambda>r. qr_job_id r = i) (map g xs) = map_option g (List.find (\<lambda>r. qr_job_id r = i) xs)"
  by (induction xs) (simp_all add: assms)

lemma find_job_update:
  assumes "\<And>x. qr_job_id (f x) = qr_job_id x"
  shows "find_job (snd (update_jobs P f db)) i = map_option (\<lambda>x. if P x then f x else x) (find_job db i)"
  unfolding find_job_def update_jobs_def by (simp add: find_map_id assms)

lemma updated_row:
  assumes "fst (update_jobs P f db) = 1" "unique_rows (qd_jobs db)" "find_job db i = Some x" "\<And>y. P y \<Longrightarrow> qr_job_id y = i"
  shows "P x"
proof -
  obtain y where y: "y \<in> set (qd_jobs db)" "P y"
    using assms(1) unfolding update_jobs_def by (force simp: length_Suc_conv filter_eq_Cons_iff)
  then show ?thesis using unique_row [OF assms(2) y(1), of x] find_job_Some [OF assms(3)] assms(4) by auto
qed

lemma claim_ok:
  assumes "claim_transaction qp now fresh r db = (ClaimOk, r', db')" "unique_rows (qd_jobs db)"
  obtains x where "find_job db (q_jobId r) = Some x" "claimable qp now r (claim_parent db (q_jobId r)) x"
    "r' = running_state qp now fresh r" "find_job db' (q_jobId r) = Some (claimed_row qp now r' x)"
proof -
  have "\<not> parent_ended (claim_parent db (q_jobId r)) (find_job db (q_jobId r))"
    using assms(1) unfolding claim_transaction_def Let_def by (auto split: prod.split_asm if_split_asm)
  then obtain x where x: "find_job db (q_jobId r) = Some x" "claimable qp now r (claim_parent db (q_jobId r)) x"
    using assms(1) unfolding claim_transaction_def Let_def by (auto split: option.split_asm if_split_asm)
  define P where "P = (\<lambda>y. same_row_version x y \<and> later_than (qr_lease_expires_at y) now \<and> qr_cancellation_requested_at y = None
                  \<and> instance_live db (qr_owner_instance_id y) now)"
  let ?u = "update_jobs P (claimed_row qp now (running_state qp now fresh r)) db"
  from assms(1) x \<open>\<not> parent_ended _ _\<close> have u: "fst ?u = 1" "db' = snd ?u" "r' = running_state qp now fresh r"
    unfolding claim_transaction_def Let_def P_def by (auto simp: split_beta split: if_split_asm)
  have "P x" by (rule updated_row [OF u(1) assms(2) x(1)]) (use find_job_Some [OF x(1)] in \<open>simp add: P_def same_row_version_def\<close>)
  then have "find_job db' (q_jobId r) = Some (claimed_row qp now r' x)"
    unfolding u(2,3) by (subst find_job_update) (simp_all add: x(1) claimed_row_def)
  then show ?thesis using that x u(3) by blast
qed

text \<open>Nobody claims or takes over a running row.\<close>

lemma running_not_claimed:
  assumes "find_job db i = Some y" "qr_status y = ''running''" "q_jobId s = i"
  shows "fst (claim_transaction qp now fresh s db) \<noteq> ClaimOk"
    "fst (claimPersistedQueueRecordForStartup qp now g i expected request db) = None"
  using assms unfolding claim_transaction_def claimPersistedQueueRecordForStartup_def parent_ended_def claimable_def Let_def
  by (auto split: option.split)

definition held_by :: "queue_process \<Rightarrow> int \<Rightarrow> queue_record \<Rightarrow> queue_row \<Rightarrow> bool" where
  "held_by qp now r x \<longleftrightarrow> qr_owner_instance_id x = qp_instance qp \<and> qr_owner_generation x = q_ownerGeneration r
     \<and> qr_revision x = q_revision r \<and> later_than (qr_lease_expires_at x) now"

text \<open>C6: A successful claim takes a waiting, uncancelled row the claimer holds under a live lease to
  running, and after it neither a claim nor a startup takeover of the same job succeeds.\<close>

theorem claimed_once:
  assumes "claim_transaction qp now fresh r db = (ClaimOk, r', db')" "unique_rows (qd_jobs db)"
  shows "(\<exists>x y. find_job db (q_jobId r) = Some x \<and> qr_status x \<in> {''pending'', ''planned'', ''blocked''} \<and> held_by qp now r x
      \<and> qr_cancellation_requested_at x = None \<and> find_job db' (q_jobId r) = Some y \<and> qr_status y = ''running'' \<and> qr_revision y = q_revision r')
    \<and> \<not> (\<exists>qp' now' fresh' s. q_jobId s = q_jobId r \<and> fst (claim_transaction qp' now' fresh' s db') = ClaimOk)
    \<and> \<not> (\<exists>qp' now' g v q. fst (claimPersistedQueueRecordForStartup qp' now' g (q_jobId r) v q db') \<noteq> None)"
proof -
  obtain x where x: "find_job db (q_jobId r) = Some x" "claimable qp now r (claim_parent db (q_jobId r)) x"
    "r' = running_state qp now fresh r" "find_job db' (q_jobId r) = Some (claimed_row qp now r' x)"
    by (rule claim_ok [OF assms])
  let ?y = "claimed_row qp now r' x"
  have y: "qr_status ?y = ''running''" "qr_revision ?y = q_revision r'"
    using x(2,3) by (simp_all add: claimed_row_def running_state_def claimable_def)
  show ?thesis
  proof (intro conjI)
    have "qr_status x \<in> {''pending'', ''planned'', ''blocked''}" "held_by qp now r x" "qr_cancellation_requested_at x = None"
      using x(2) unfolding claimable_def held_by_def by simp_all
    then show "\<exists>x y. find_job db (q_jobId r) = Some x \<and> qr_status x \<in> {''pending'', ''planned'', ''blocked''} \<and> held_by qp now r x
      \<and> qr_cancellation_requested_at x = None \<and> find_job db' (q_jobId r) = Some y \<and> qr_status y = ''running'' \<and> qr_revision y = q_revision r'"
      using x(1,4) y by (intro exI conjI)
  qed (use running_not_claimed [OF x(4) y(1)] in simp_all)
qed

definition claimed :: "claim_result \<times> queue_record \<times> queue_db" where
  "claimed = claim_transaction sample_process 9 ''g9'' (sample_record\<lparr>q_status := ''pending''\<rparr>) (queue_of [sample_row ''pending'' None])"

theorem claimed_once_witness:
  "fst claimed = ClaimOk \<and> (\<exists>y. find_job (snd (snd claimed)) ''j1'' = Some y \<and> qr_status y = ''running'')"
proof -
  have ok: "fst claimed = ClaimOk" by code_simp
  then obtain r' d where c: "claimed = (ClaimOk, r', d)" by (metis prod.collapse)
  have "qr_status y = ''running''" if "find_job d ''j1'' = Some y" for y
    using claimed_once [OF c [unfolded claimed_def]] that by (auto simp: queue_of_def sample_record_def)
  moreover obtain y where "find_job d ''j1'' = Some y"
    using claimed_once [OF c [unfolded claimed_def]] by (auto simp: queue_of_def sample_record_def)
  ultimately show ?thesis unfolding c by simp
qed

end
