(* ===== verification/RetrySafety.thy ===== *)
theory RetrySafety
  imports QueueRetry ProviderSafety
begin

text \<open>
  Properties of the retry policy: chains of retries end and keep their whole history, requeue keys are
  bounded, distinct and do not grow, and the model of the next attempt is a free one when there is one.
\<close>

section \<open>Chains of retries\<close>

definition continues :: "retry_fields \<Rightarrow> queue_record \<Rightarrow> bool" where
  "continues f s \<longleftrightarrow> q_retryAttempt s = rf_retryAttempt f \<and> q_attemptHistory s = rf_attemptHistory f
     \<and> q_slotWaitRequeues s = rf_slotWaitRequeues f \<and> q_pauseWaitRequeues s = rf_pauseWaitRequeues f
     \<and> q_infraRetryRequeues s = rf_infraRetryRequeues f"

lemma apply_retry_fields_continues: "continues f (apply_retry_fields f r)"
  by (simp add: continues_def apply_retry_fields_def)

text \<open>
  The newest record of a job and the rows and summaries of its failed attempts, the latest first, down to the
  record \<open>s0\<close> it was queued with; times, pauses and failures are arbitrary.
\<close>

inductive retry_chain :: "queue_config \<Rightarrow> retry_policy \<Rightarrow> queue_record \<Rightarrow> queue_record \<Rightarrow> (queue_row \<times> queue_record) list \<Rightarrow> bool"
  for qc p s0 where
  one: "retry_chain qc p s0 s0 []"
| more: "retry_chain qc p s0 s as \<Longrightarrow> retry_step qc pauses now p row s = StepRequeue spec f \<Longrightarrow> continues f t
    \<Longrightarrow> retry_chain qc p s0 t ((row, s) # as)"

text \<open>The line of the history for one failed attempt: its job, the model it ran on, and how it failed.\<close>

definition attempt_line :: "queue_row \<times> queue_record \<Rightarrow> string" where
  "attempt_line a = (case a of (row, s) \<Rightarrow> let e = retry_error_type row s in
     qr_job_id row @ '' '' @ retryPolicyModelLabel s @ '' '' @ e @ uncounted_note (uncounted_of e s))"

definition left_of :: "int \<Rightarrow> int \<Rightarrow> nat" where
  "left_of limit n = nat (limit - n)"

definition retry_budget :: "retry_policy \<Rightarrow> queue_record \<Rightarrow> nat" where
  "retry_budget p s = left_of (rp_maxAttempts p) (retry_attempt s) + left_of RETRY_POLICY_MAX_SLOT_WAITS (q_slotWaitRequeues s)
     + left_of RETRY_POLICY_MAX_PAUSE_WAITS (q_pauseWaitRequeues s) + left_of RETRY_POLICY_MAX_INFRA_RETRIES (q_infraRetryRequeues s)"

lemma spent_le: "left_of limit (if b then n + 1 else n) \<le> left_of limit n"
  by (cases b) (simp_all add: left_of_def)

lemma spent_less: "n < limit \<Longrightarrow> left_of limit (n + 1) < left_of limit n"
  by (simp add: left_of_def)

lemmas retry_limits = RETRY_POLICY_MAX_SLOT_WAITS_def RETRY_POLICY_MAX_PAUSE_WAITS_def RETRY_POLICY_MAX_INFRA_RETRIES_def
  RETRY_POLICY_MAX_ATTEMPTS_def

lemma retry_attempt_positive: "1 \<le> retry_attempt s"
  by (simp add: retry_attempt_def)

lemma retry_step_requeue:
  assumes "retry_step qc pauses now p row s = StepRequeue spec f"
  obtains e start where "e = retry_error_type row s" "f = next_fields p (qr_job_id row) e s start"
    "any_uncounted (uncounted_of e s) \<or> retry_attempt s < rp_maxAttempts p"
  using assms unfolding retry_step_def Let_def by (auto split: if_split_asm prod.split_asm)

lemma uncounted_limits:
  "un_slotWait (uncounted_of e s) \<Longrightarrow> q_slotWaitRequeues s < RETRY_POLICY_MAX_SLOT_WAITS"
  "un_pauseWait (uncounted_of e s) \<or> un_rateLimit (uncounted_of e s) \<Longrightarrow> q_pauseWaitRequeues s < RETRY_POLICY_MAX_PAUSE_WAITS"
  "un_infraRetry (uncounted_of e s) \<Longrightarrow> q_infraRetryRequeues s < RETRY_POLICY_MAX_INFRA_RETRIES"
  unfolding uncounted_of_def Let_def by auto

lemma retry_spends_budget:
  assumes "retry_step qc pauses now p row s = StepRequeue spec f" "continues f t"
  shows "retry_budget p t < retry_budget p s"
proof -
  obtain e start where f: "f = next_fields p (qr_job_id row) e s start"
    and go: "any_uncounted (uncounted_of e s) \<or> retry_attempt s < rp_maxAttempts p"
    by (rule retry_step_requeue [OF assms(1)])
  define u where "u = uncounted_of e s"
  have t: "q_retryAttempt t = (if any_uncounted u then retry_attempt s else retry_attempt s + 1)"
    "q_slotWaitRequeues t = (if un_slotWait u then q_slotWaitRequeues s + 1 else q_slotWaitRequeues s)"
    "q_pauseWaitRequeues t = (if un_pauseWait u \<or> un_rateLimit u then q_pauseWaitRequeues s + 1 else q_pauseWaitRequeues s)"
    "q_infraRetryRequeues t = (if un_infraRetry u then q_infraRetryRequeues s + 1 else q_infraRetryRequeues s)"
    using assms(2) unfolding f continues_def next_fields_def Let_def u_def by simp_all
  have a: "retry_attempt t = (if any_uncounted u then retry_attempt s else retry_attempt s + 1)"
    using retry_attempt_positive [of s] unfolding retry_attempt_def [of t] t(1) by auto
  have l: "un_slotWait u \<Longrightarrow> q_slotWaitRequeues s < RETRY_POLICY_MAX_SLOT_WAITS"
    "un_pauseWait u \<or> un_rateLimit u \<Longrightarrow> q_pauseWaitRequeues s < RETRY_POLICY_MAX_PAUSE_WAITS"
    "un_infraRetry u \<Longrightarrow> q_infraRetryRequeues s < RETRY_POLICY_MAX_INFRA_RETRIES"
    unfolding u_def by (rule uncounted_limits; assumption)+
  have le: "left_of RETRY_POLICY_MAX_SLOT_WAITS (q_slotWaitRequeues t) \<le> left_of RETRY_POLICY_MAX_SLOT_WAITS (q_slotWaitRequeues s)"
    "left_of RETRY_POLICY_MAX_PAUSE_WAITS (q_pauseWaitRequeues t) \<le> left_of RETRY_POLICY_MAX_PAUSE_WAITS (q_pauseWaitRequeues s)"
    "left_of RETRY_POLICY_MAX_INFRA_RETRIES (q_infraRetryRequeues t) \<le> left_of RETRY_POLICY_MAX_INFRA_RETRIES (q_infraRetryRequeues s)"
    unfolding t by (rule spent_le)+
  show ?thesis
  proof (cases "any_uncounted u")
    case True
    then consider "un_slotWait u" | "un_pauseWait u \<or> un_rateLimit u" | "un_infraRetry u" unfolding any_uncounted_def by blast
    then have "left_of RETRY_POLICY_MAX_SLOT_WAITS (q_slotWaitRequeues t) < left_of RETRY_POLICY_MAX_SLOT_WAITS (q_slotWaitRequeues s)
      \<or> left_of RETRY_POLICY_MAX_PAUSE_WAITS (q_pauseWaitRequeues t) < left_of RETRY_POLICY_MAX_PAUSE_WAITS (q_pauseWaitRequeues s)
      \<or> left_of RETRY_POLICY_MAX_INFRA_RETRIES (q_infraRetryRequeues t) < left_of RETRY_POLICY_MAX_INFRA_RETRIES (q_infraRetryRequeues s)"
      by cases (simp_all only: t if_True spent_less l simp_thms)
    moreover have "retry_attempt t = retry_attempt s" using a True by simp
    ultimately show ?thesis using le unfolding retry_budget_def by (elim disjE) simp_all
  next
    case False
    then have "retry_attempt t = retry_attempt s + 1" "retry_attempt s < rp_maxAttempts p" using a go u_def by simp_all
    then have "left_of (rp_maxAttempts p) (retry_attempt t) < left_of (rp_maxAttempts p) (retry_attempt s)" by (simp only: spent_less)
    then show ?thesis using le unfolding retry_budget_def by linarith
  qed
qed

lemma retry_chain_budget: "retry_chain qc p s0 t as \<Longrightarrow> length as + retry_budget p t \<le> retry_budget p s0"
proof (induction rule: retry_chain.induct)
  case (more s as pauses now row spec f t)
  then show ?case using retry_spends_budget [OF more.hyps(2,3)] by simp
qed simp

lemma last_entries_all: "length xs \<le> n \<Longrightarrow> last_entries n xs = xs"
  by (simp add: last_entries_def)

lemma retry_chain_history:
  "retry_chain qc p s0 t as \<Longrightarrow> q_attemptHistory s0 = [] \<Longrightarrow> length as \<le> RETRY_POLICY_HISTORY_MAX
    \<Longrightarrow> q_attemptHistory t = map attempt_line (rev as)"
proof (induction rule: retry_chain.induct)
  case (more s as pauses now row spec f t)
  obtain e start where e: "e = retry_error_type row s" and f: "f = next_fields p (qr_job_id row) e s start"
    by (rule retry_step_requeue [OF more.hyps(2)])
  then have "q_attemptHistory t = retry_history (qr_job_id row) e s"
    using more.hyps(3) unfolding continues_def next_fields_def Let_def by simp
  then show ?case using more.IH more.prems unfolding retry_history_def e by (simp add: last_entries_all attempt_line_def Let_def)
qed simp

lemma policy_attempts:
  assumes "jobRetryPolicy qc j = Policy p"
  shows "1 \<le> rp_maxAttempts p \<and> rp_maxAttempts p \<le> RETRY_POLICY_MAX_ATTEMPTS"
  using assms unfolding jobRetryPolicy_def RETRY_POLICY_MAX_ATTEMPTS_def RETRY_POLICY_DEFAULT_ATTEMPTS_def
  by (auto split: if_split_asm sum.split_asm option.split_asm)

text \<open>C15: A chain of requeues the retry policy makes of one job, which starts with an empty history and
  counters that are not negative, has fewer failed attempts than the history keeps lines, so the
  policy stops by itself, and the history of the newest job has exactly one line for each of them in
  order, with its job id, its model and its error.\<close>

theorem retries_end:
  assumes "jobRetryPolicy qc j = Policy p" "retry_chain qc p s0 t as"
    and "0 \<le> q_slotWaitRequeues s0" "0 \<le> q_pauseWaitRequeues s0" "0 \<le> q_infraRetryRequeues s0" "q_attemptHistory s0 = []"
  shows "length as < RETRY_POLICY_HISTORY_MAX \<and> q_attemptHistory t = map attempt_line (rev as)"
proof -
  have "retry_budget p s0 \<le> 48"
    using policy_attempts [OF assms(1)] retry_attempt_positive [of s0] assms(3-5) unfolding retry_budget_def left_of_def retry_limits by linarith
  then have "length as \<le> 48" using retry_chain_budget [OF assms(2)] by linarith
  then have l: "length as < RETRY_POLICY_HISTORY_MAX" by (simp add: RETRY_POLICY_HISTORY_MAX_def retry_limits)
  with retry_chain_history [OF assms(2,6)] show ?thesis by simp
qed

definition retried_job :: job where
  "retried_job = \<lparr>agent = ''builder'', task = ''t'', role = [], owner = [], job_mode = [], job_cwd = ''/r'', write_flag = None, lockType = [],
     lockMode = [], lockedPaths = [], ownedPaths = [], allowedEdits = [], forbiddenEdits = [], sharedFiles = [], serialOnly = [],
     scopeContract = None, job_delegation = None, job_scope = None, job_actions = [], job_validation = None, job_timeoutMs = None,
     job_timeoutPolicy = None, validationCommand = [], validationFixPasses = None, selfCheckPasses = None, sanitizedWorkspace = False,
     subagentStrategy = [], continueWorktree = None, autoIntegrate = None, job_models = None, maxAttempts = Some 2,
     allowFallbackToBuild = False, executionMode = [], orchestratorMode = [], userAuthorizedOrchestrator_flag = False,
     contractorAuthorizationToken_field = [], internalQueueJobId = [], internalQueueContractorProof = [], dryRun = False, maxWaitMs = None\<rparr>"

definition sample_policy :: retry_policy where
  "sample_policy = \<lparr>rp_models = [], rp_maxAttempts = 2\<rparr>"

definition first_attempt :: queue_record where
  "first_attempt = blank_record\<lparr>q_jobId := ''j1'', q_status := ''failed'', q_errorType := ''agent_timeout'', q_retryAttempt := 1\<rparr>"

definition second_attempt :: queue_record where
  "second_attempt = blank_record\<lparr>q_jobId := ''j2'', q_retryAttempt := 2, q_attemptHistory := [''j1 profile model agent_timeout'']\<rparr>"

definition sample_queue :: queue_config where
  "sample_queue = \<lparr>qc_config = sample_config, qc_provider = sample_provider, qc_allowlist = [], qc_blockedPollMs = 1000,
     qc_autoResumeInterrupted = True, qc_autoIntegrateAllowed = True\<rparr>"

definition failed_row :: queue_row where
  "failed_row = \<lparr>qr_job_id = ''j1'', qr_cwd = ''/r'', qr_status = ''failed'', qr_agent = ''builder'', qr_mode = ''write'', qr_created_at = None,
     qr_started_at = None, qr_finished_at = None, qr_updated_at = None, qr_owner_instance_id = [], qr_owner_process_id = 0,
     qr_owner_generation = [], qr_heartbeat_at = None, qr_lease_expires_at = None, qr_cancellation_requested_at = None,
     qr_child_process_id = 0, qr_child_process_started_at = None, qr_revision = 1, qr_idempotency_key = None, qr_request_encrypted = None,
     qr_result_encrypted = None, qr_record = None\<rparr>"

lemma sample_retry:
  "(case retry_step sample_queue (Some []) 5 sample_policy failed_row first_attempt of StepRequeue spec f \<Rightarrow> spec = [] \<and> continues f second_attempt
     | _ \<Rightarrow> False)"
  by code_simp

theorem retries_end_witness:
  "q_attemptHistory second_attempt = [attempt_line (failed_row, first_attempt)] \<and> (1 :: nat) < RETRY_POLICY_HISTORY_MAX"
proof -
  obtain spec f where f: "retry_step sample_queue (Some []) 5 sample_policy failed_row first_attempt = StepRequeue spec f" "continues f second_attempt"
    using sample_retry by (auto split: retry_step.split_asm)
  have "jobRetryPolicy sample_queue retried_job = Policy sample_policy" by code_simp
  moreover have "retry_chain sample_queue sample_policy first_attempt second_attempt [(failed_row, first_attempt)]"
    by (rule retry_chain.more [OF retry_chain.one f])
  ultimately have "length [(failed_row, first_attempt)] < RETRY_POLICY_HISTORY_MAX
      \<and> q_attemptHistory second_attempt = map attempt_line (rev [(failed_row, first_attempt)])"
    by (rule retries_end) (simp_all add: first_attempt_def blank_record_def)
  then show ?thesis by simp
qed

section \<open>Requeue keys\<close>

lemma decimal_ne [simp]: "decimal n \<noteq> []"
  by (subst decimal.simps) simp

lemma digit_char: "n < 10 \<Longrightarrow> is_digit (char_of (48 + n :: nat))"
  by (simp add: is_digit_def Let_def)

lemma decimal_digits: "list_all is_digit (decimal n)"
  by (induction n rule: decimal.induct) (subst decimal.simps, simp add: digit_char)

fun undecimal :: "string \<Rightarrow> nat" where
  "undecimal [] = 0"
| "undecimal (c # s) = (of_char c - 48) * 10 ^ length s + undecimal s"

lemma undecimal_append: "undecimal (s @ [c]) = 10 * undecimal s + (of_char c - 48)"
  by (induction s) (simp_all add: algebra_simps)

lemma undecimal_decimal: "undecimal (decimal n) = n"
proof (induction n rule: decimal.induct)
  case (1 n)
  then show ?case by (subst decimal.simps) (simp add: undecimal_append)
qed

lemma decimal_inj: "decimal m = decimal n \<Longrightarrow> m = n"
  by (metis undecimal_decimal)

lemma requeue_tail_suffix: "requeue_tail (t @ '':requeue:'' @ decimal n) = Some t"
proof -
  let ?ds = "rev (decimal n)" let ?mark = "rev '':requeue:''"
  have r: "rev (t @ '':requeue:'' @ decimal n) = ?ds @ ?mark @ rev t" by simp
  have ds: "\<forall>c \<in> set ?ds. is_digit c" using decimal_digits by (simp add: list_all_iff)
  have "takeWhile is_digit (?ds @ ?mark @ rev t) = ?ds @ takeWhile is_digit (?mark @ rev t)"
    by (rule takeWhile_append2) (use ds in blast)
  also have "takeWhile is_digit (?mark @ rev t) = []" by (simp add: is_digit_def Let_def)
  finally have w: "takeWhile is_digit (?ds @ ?mark @ rev t) = ?ds" by simp
  show ?thesis unfolding requeue_tail_def Let_def r w by (simp del: rev.simps(2) add: starts_with_iff)
qed

lemma strip_requeue_suffix: "strip_requeue (t @ '':requeue:'' @ decimal n) = strip_requeue t"
  by (subst strip_requeue.simps) (simp only: requeue_tail_suffix option.case)

lemma strip_requeue_idem: "strip_requeue (strip_requeue s) = strip_requeue s"
proof (induction s rule: strip_requeue.induct)
  case (1 s)
  show ?case
  proof (cases "requeue_tail s")
    case None
    then have "strip_requeue s = s" by (subst strip_requeue.simps) simp
    then show ?thesis by simp
  next
    case (Some t)
    then have "strip_requeue s = strip_requeue t" by (subst strip_requeue.simps) simp
    then show ?thesis using 1 Some by simp
  qed
qed

lemma requeue_key_ends:
  obtains t where "requeueIdempotencyKey sha key jobId n = t @ '':requeue:'' @ decimal n"
  unfolding requeueIdempotencyKey_def Let_def by (metis append.assoc append_Cons append_Nil)

text \<open>The text a requeue key is built on: the key without its requeue suffixes, or the job id of a job without a key.\<close>

definition requeue_base :: "string \<Rightarrow> string \<Rightarrow> string" where
  "requeue_base key jobId = or_string (strip_requeue key) jobId"

lemma requeue_key_base:
  "requeueIdempotencyKey sha key jobId n = requeueIdempotencyKey sha (requeue_base key jobId) [] n" if "strip_requeue jobId = jobId"
proof -
  have "strip_requeue (requeue_base key jobId) = requeue_base key jobId"
    using that strip_requeue_idem by (simp add: requeue_base_def or_string_def)
  then show ?thesis by (auto simp: requeueIdempotencyKey_def requeue_base_def or_string_def Let_def)
qed

text \<open>C36: For a job id that is not empty and ends with no requeue suffix, and sequence numbers of at most
  16 digits, a requeue key has at most 200 characters and differs for each sequence number; when the
  key without its requeue suffixes, or the job id of a job without a key, has at most 175 characters,
  requeuing a requeue replaces the suffix instead of growing the key.\<close>

theorem requeue_keys:
  assumes "length (decimal n) \<le> 16" "strip_requeue jobId = jobId" "jobId \<noteq> []"
  shows "length (requeueIdempotencyKey sha key jobId n) \<le> 200
    \<and> (requeueIdempotencyKey sha key jobId n = requeueIdempotencyKey sha key jobId m \<longrightarrow> n = m)
    \<and> (length (requeue_base key jobId) \<le> 175 \<and> length (decimal m) \<le> 16 \<longrightarrow>
         requeueIdempotencyKey sha (requeueIdempotencyKey sha key jobId m) j2 n = requeueIdempotencyKey sha key jobId n)"
proof (intro conjI impI)
  show "length (requeueIdempotencyKey sha key jobId n) \<le> 200"
    using assms(1) unfolding requeueIdempotencyKey_def Let_def by auto
  assume same: "requeueIdempotencyKey sha key jobId n = requeueIdempotencyKey sha key jobId m"
  obtain t where t: "requeueIdempotencyKey sha key jobId n = t @ '':requeue:'' @ decimal n" by (rule requeue_key_ends)
  obtain u where u: "requeueIdempotencyKey sha key jobId m = u @ '':requeue:'' @ decimal m" by (rule requeue_key_ends)
  have e: "t @ '':requeue:'' @ decimal n = u @ '':requeue:'' @ decimal m" using same unfolding t u .
  have "Some t = requeue_tail (t @ '':requeue:'' @ decimal n)" by (rule requeue_tail_suffix [symmetric])
  also have "\<dots> = Some u" unfolding e by (rule requeue_tail_suffix)
  finally have "t = u" by simp
  with e have "decimal n = decimal m" by simp
  then show "n = m" by (rule decimal_inj)
next
  assume l: "length (requeue_base key jobId) \<le> 175 \<and> length (decimal m) \<le> 16"
  let ?b = "requeue_base key jobId"
  have b: "strip_requeue ?b = ?b" "?b \<noteq> []" using assms(2,3) strip_requeue_idem by (simp_all add: requeue_base_def or_string_def)
  have key: "requeueIdempotencyKey sha key jobId i = requeueIdempotencyKey sha ?b [] i" for i by (rule requeue_key_base [OF assms(2)])
  have k: "requeueIdempotencyKey sha ?b [] m = ?b @ '':requeue:'' @ decimal m"
    using l b unfolding requeueIdempotencyKey_def Let_def by simp
  have "strip_requeue (requeueIdempotencyKey sha key jobId m) = ?b"
    unfolding key k by (simp only: strip_requeue_suffix b)
  then show "requeueIdempotencyKey sha (requeueIdempotencyKey sha key jobId m) j2 n = requeueIdempotencyKey sha key jobId n"
    using b unfolding key requeueIdempotencyKey_def [of _ "requeueIdempotencyKey sha ?b [] m"] requeueIdempotencyKey_def [of _ ?b _ n] by simp
qed

theorem requeue_keys_witness:
  "length (requeueIdempotencyKey (\<lambda>s. s) [] ''j1'' 1) \<le> 200"
proof -
  have "length (decimal 1) \<le> 16" "strip_requeue ''j1'' = ''j1''" "''j1'' \<noteq> []" by code_simp+
  then show ?thesis by (rule conjunct1 [OF requeue_keys])
qed

section \<open>The next model\<close>

definition held_until :: "queue_config \<Rightarrow> (string \<times> int) list \<Rightarrow> string \<times> string \<times> string \<Rightarrow> int" where
  "held_until qc ps c = (case c of (spec, provider, mdl) \<Rightarrow> if provider \<noteq> [] then candidatePausedUntil (qc_provider qc) ps provider mdl else 0)"

lemma first_free_best:
  assumes "first_free now cs (Some (s, u)) = (spec, Some t)"
  shows "(\<forall>c \<in> set cs. snd c \<noteq> 0 \<and> now < snd c \<and> t \<le> snd c) \<and> t \<le> u \<and> (spec, t) \<in> insert (s, u) (set cs)"
  using assms
proof (induction cs arbitrary: s u)
  case (Cons c cs)
  obtain sp un where c: "c = (sp, un)" by (cases c)
  from Cons.prems c have busy: "\<not> (un = 0 \<or> un \<le> now)" by (auto split: if_split_asm)
  then have "first_free now cs (Some (if un < u then (sp, un) else (s, u))) = (spec, Some t)"
    using Cons.prems c by (simp split: if_split_asm)
  then show ?case using Cons.IH [of "fst (if un < u then (sp, un) else (s, u))" "snd (if un < u then (sp, un) else (s, u))"] busy c
    by (auto split: if_split_asm)
qed simp

lemma first_free_wait:
  assumes "first_free now cs None = (spec, Some t)"
  shows "(\<forall>c \<in> set cs. now < snd c \<and> t \<le> snd c) \<and> (spec, t) \<in> set cs"
proof (cases cs)
  case (Cons c cs')
  obtain sp un where c: "c = (sp, un)" by (cases c)
  from assms Cons c have busy: "\<not> (un = 0 \<or> un \<le> now)" "first_free now cs' (Some (sp, un)) = (spec, Some t)" by (auto split: if_split_asm)
  then show ?thesis using first_free_best [OF busy(2)] Cons c by auto
qed (use assms in simp)

lemma first_free_now:
  assumes "first_free now cs b = (spec, None)" "cs \<noteq> [] \<or> b \<noteq> None"
  shows "\<exists>u. (spec, u) \<in> set cs \<and> (u = 0 \<or> u \<le> now)"
  using assms
proof (induction cs arbitrary: b)
  case Nil then show ?case by (cases b) auto
next
  case (Cons c cs)
  obtain sp un where c: "c = (sp, un)" by (cases c)
  show ?case
  proof (cases "un = 0 \<or> un \<le> now")
    case True then show ?thesis using Cons.prems c by auto
  next
    case False
    define b' where "b' = (case b of None \<Rightarrow> Some (sp, un) | Some (s, u) \<Rightarrow> if un < u then Some (sp, un) else Some (s, u))"
    have "first_free now cs b' = (spec, None)" "b' \<noteq> None" using Cons.prems(1) c False unfolding b'_def by (auto split: option.split prod.split)
    then show ?thesis using Cons.IH [of b'] by (metis list.set_intros(2))
  qed
qed

text \<open>The model chosen for the next attempt is a candidate that is not paused; when all are paused it
  is the one whose pause ends first, with that time as the start.\<close>

theorem next_model_is_free:
  assumes "chooseRetryModel qc (Some ps) now p n failed = (spec, start)"
  shows "case start of
      None \<Rightarrow> \<exists>c \<in> set (retry_candidates p n failed). fst c = spec \<and> held_until qc ps c \<le> max 0 now
    | Some t \<Rightarrow> (\<forall>c \<in> set (retry_candidates p n failed). now < held_until qc ps c \<and> t \<le> held_until qc ps c)
        \<and> (\<exists>c \<in> set (retry_candidates p n failed). fst c = spec \<and> held_until qc ps c = t)"
proof -
  let ?cs = "retry_candidates p n failed"
  have ff: "first_free now (map (\<lambda>c. (fst c, held_until qc ps c)) ?cs) None = (spec, start)"
    using assms unfolding chooseRetryModel_def Let_def held_until_def by (simp add: split_def)
  have ne: "?cs \<noteq> []" unfolding retry_candidates_def Let_def by auto
  show ?thesis
  proof (cases start)
    case None
    then show ?thesis using first_free_now [OF ff [unfolded None]] ne by fastforce
  next
    case (Some t)
    then show ?thesis using first_free_wait [OF ff [unfolded Some]] by fastforce
  qed
qed

definition two_models :: retry_policy where
  "two_models = \<lparr>rp_models = [\<lparr>me_provider = ''a'', me_model = ''m'', me_variant = []\<rparr>, \<lparr>me_provider = ''c'', me_model = ''m'', me_variant = []\<rparr>],
     rp_maxAttempts = 2\<rparr>"

theorem next_model_is_free_witness:
  "\<exists>c \<in> set (retry_candidates two_models 0 blank_record). fst c = ''c/m'' \<and> held_until sample_queue [(''oc:a'', 90)] c \<le> 5"
proof -
  have "chooseRetryModel sample_queue (Some [(''oc:a'', 90)]) 5 two_models 0 blank_record = (''c/m'', None)" by code_simp
  from next_model_is_free [OF this] show ?thesis by simp
qed

end
