(* ===== verification/ChangedFiles.thy ===== *)
theory ChangedFiles
  imports ParallelBatch
begin

text \<open>
  Model of the checks on the files a run has changed: the difference of two snapshots and the grouping of
  ignored files (\<open>lib/file-snapshot.js\<close>), the scope and plan checks (\<open>lib/rollback.js\<close>), and the drift of a
  checkout under a reader (\<open>lib/execute-job.js\<close>).  A snapshot is a list of paths with fingerprints; how Git and
  the file system produce it is outside the model.
\<close>

section \<open>Snapshots\<close>

definition changedFilesBetween :: "(string \<times> string) list \<Rightarrow> (string \<times> string) list \<Rightarrow> string list" where
  "changedFilesBetween before now = filter (\<lambda>f. map_of before f \<noteq> map_of now f) (text_sort (uniq (map fst before @ map fst now)))"

lemma changedFilesBetween_iff: "f \<in> set (changedFilesBetween before now) \<longleftrightarrow> map_of before f \<noteq> map_of now f"
proof -
  have "map_of before f \<noteq> map_of now f \<Longrightarrow> f \<in> fst ` set before \<or> f \<in> fst ` set now"
    using map_of_eq_None_iff [of before f] map_of_eq_None_iff [of now f] by auto
  then show ?thesis by (auto simp: changedFilesBetween_def)
qed

definition regenerable_names :: "string set" where
  "regenerable_names = {''node_modules'', ''.venv'', ''venv'', ''__pycache__'', ''.pytest_cache'', ''.mypy_cache'', ''.ruff_cache'',
     ''.tox'', ''.nox'', ''.cache'', ''.gradle'', ''.next'', ''.vs'', ''build'', ''dist'', ''out'', ''target'', ''obj'', ''bin'', ''debug'',
     ''release'', ''x64'', ''x86'', ''coverage'', ''htmlcov'', ''.eggs'', ''cmakefiles''}"

definition REGENERABLE_IGNORED_DIRECTORY :: "string \<Rightarrow> bool" where
  "REGENERABLE_IGNORED_DIRECTORY segment = (let s = js_lower segment in
     s \<in> regenerable_names \<or> starts_with ''cmake-build-'' s \<or> ends_with ''.egg-info'' s)"

definition FORBIDDEN_LOOKING_PATH :: "string \<Rightarrow> bool" where
  "FORBIDDEN_LOOKING_PATH file = (let segs = split_on slash (js_lower file); name = last segs in
     name = ''.env'' \<or> starts_with ''.env.'' name \<or> ends_with ''.pem'' name \<or> ends_with ''.key'' name \<or> ''secrets'' \<in> set (butlast segs))"

fun group_depth :: "string list \<Rightarrow> nat option" where
  "group_depth [] = None"
| "group_depth [s] = None"
| "group_depth (s # t # r) = (if REGENERABLE_IGNORED_DIRECTORY s then Some 0 else map_option Suc (group_depth (t # r)))"

definition ignored_entry :: "string \<Rightarrow> string" where
  "ignored_entry file = (let segs = split_on slash file in
     case group_depth segs of Some d \<Rightarrow> if FORBIDDEN_LOOKING_PATH file then file else join_with ''/'' (take (Suc d) segs) @ ''/''
     | None \<Rightarrow> file)"

fun add_member :: "string \<Rightarrow> string \<Rightarrow> (string \<times> string list) list \<Rightarrow> (string \<times> string list) list" where
  "add_member e f [] = [(e, [f])]"
| "add_member e f ((k, fs) # m) = (if k = e then (k, fs @ [f]) # m else (k, fs) # add_member e f m)"

text \<open>\<open>None\<close> when there are more groups than the limit.\<close>

definition groupIgnoredFiles :: "nat \<Rightarrow> string list \<Rightarrow> (string \<times> string list) list option" where
  "groupIgnoredFiles limit files = (let groups = fold (\<lambda>f. add_member (ignored_entry f) f) (text_sort files) []
     in if length groups > limit then None else Some groups)"

text \<open>Grouping neither loses nor invents a file.\<close>

fun in_groups :: "(string \<times> string list) list \<Rightarrow> (string \<times> string) set" where
  "in_groups [] = {}"
| "in_groups ((k, fs) # m) = {k} \<times> set fs \<union> in_groups m"

lemma in_groups_add: "in_groups (add_member e f m) = insert (e, f) (in_groups m)"
  by (induction m rule: in_groups.induct) (auto split: if_splits)

lemma in_groups_fold:
  "in_groups (fold (\<lambda>f. add_member (ignored_entry f) f) files m) = (\<lambda>f. (ignored_entry f, f)) ` set files \<union> in_groups m"
  by (induction files arbitrary: m) (auto simp: in_groups_add)

lemma groupIgnoredFiles_complete:
  "groupIgnoredFiles limit files = Some groups \<Longrightarrow> in_groups groups = (\<lambda>f. (ignored_entry f, f)) ` set files"
  by (auto simp: groupIgnoredFiles_def Let_def in_groups_fold split: if_splits)

lemma forbidden_looking_alone: "FORBIDDEN_LOOKING_PATH f \<Longrightarrow> ignored_entry f = f"
  by (simp add: ignored_entry_def Let_def split: option.split)

section \<open>The lists of changed files\<close>

definition ignoredEntryIsRegenerable :: "string \<Rightarrow> bool" where
  "ignoredEntryIsRegenerable entry = (let segs = split_on slash entry in
     list_ex REGENERABLE_IGNORED_DIRECTORY (if ends_with ''/'' entry then filter (\<lambda>s. s \<noteq> []) segs else butlast segs))"

datatype read_dir = DirEntries "(string \<times> bool) list" | DirMissing | DirError

text \<open>
  The walk below a wholly ignored directory; the top of the stack is the head.  The inner \<open>None\<close> is the
  error of the limit, the outer one a walk that does not end.
\<close>

partial_function (option) walk_ignored :: "(string \<Rightarrow> read_dir) \<Rightarrow> nat \<Rightarrow> string list \<Rightarrow> string list \<Rightarrow> string list option option" where
  "walk_ignored readdir bound stack expanded =
    (case stack of [] \<Rightarrow> Some (Some expanded)
     | d # rest \<Rightarrow> (case readdir d of
         DirMissing \<Rightarrow> walk_ignored readdir bound rest expanded
       | DirError \<Rightarrow> walk_ignored readdir bound rest (expanded @ [d @ ''/''])
       | DirEntries cs \<Rightarrow>
           if ''.git'' \<in> fst ` set cs then walk_ignored readdir bound rest (expanded @ [d @ ''/''])
           else let down = filter (\<lambda>c. snd c \<and> \<not> REGENERABLE_IGNORED_DIRECTORY (fst c)) cs;
                    found = filter (\<lambda>c. \<not> (snd c \<and> \<not> REGENERABLE_IGNORED_DIRECTORY (fst c))) cs;
                    expanded' = expanded @ map (\<lambda>c. d @ ''/'' @ fst c @ (if snd c then ''/'' else [])) found
                in if length expanded' > bound then Some None
                   else walk_ignored readdir bound (rev (map (\<lambda>c. d @ ''/'' @ fst c) down) @ rest) expanded'))"

fun expand_entries :: "(string \<Rightarrow> read_dir) \<Rightarrow> nat \<Rightarrow> string list \<Rightarrow> string list \<Rightarrow> string list option option" where
  "expand_entries readdir bound [] expanded = Some (Some expanded)"
| "expand_entries readdir bound (e # es) expanded =
     (if \<not> ends_with ''/'' e \<or> ignoredEntryIsRegenerable e then expand_entries readdir bound es (expanded @ [e])
      else case walk_ignored readdir bound [strip_tail e] expanded of
             Some (Some x) \<Rightarrow> expand_entries readdir bound es x | r \<Rightarrow> r)"

definition expandIgnoredDirectoryEntries :: "(string \<Rightarrow> read_dir) \<Rightarrow> nat \<Rightarrow> string list \<Rightarrow> string list option option" where
  "expandIgnoredDirectoryEntries readdir limit entries = expand_entries readdir (limit + length entries) entries []"

definition splitNulSeparated :: "string \<Rightarrow> string list" where
  "splitNulSeparated out = filter (\<lambda>f. f \<noteq> []) (split_on nul out)"

text \<open>The exit code and output of each Git listing; the last two only when ignored files are asked for.\<close>

record git_listings =
  gl_workingTree :: "int \<times> string"
  gl_staged :: "int \<times> string"
  gl_untracked :: "int \<times> string"
  gl_ignored :: "(int \<times> string) option"
  gl_forbiddenIgnored :: "(int \<times> string) option"

definition listing_failed :: "git_listings \<Rightarrow> bool" where
  "listing_failed g = list_ex (\<lambda>(exit, _). exit \<noteq> 0) ([gl_workingTree g, gl_staged g, gl_untracked g]
     @ (case gl_ignored g of Some r \<Rightarrow> [r] | None \<Rightarrow> []) @ (case gl_forbiddenIgnored g of Some r \<Rightarrow> [r] | None \<Rightarrow> []))"

definition listing_files :: "(int \<times> string) option \<Rightarrow> string list" where
  "listing_files r = (case r of Some (_, out) \<Rightarrow> splitNulSeparated out | None \<Rightarrow> [])"

definition ordinary_files :: "git_listings \<Rightarrow> string list" where
  "ordinary_files g = text_sort (uniq (splitNulSeparated (snd (gl_workingTree g)) @ splitNulSeparated (snd (gl_staged g))
     @ splitNulSeparated (snd (gl_untracked g))))"

text \<open>The ordinary list and the full one; \<open>None\<close> when a listing failed or the walk did.\<close>

definition gitChangedFileLists :: "(string \<Rightarrow> read_dir) \<Rightarrow> nat \<Rightarrow> git_listings \<Rightarrow> (string list \<times> string list) option" where
  "gitChangedFileLists readdir limit g =
    (if listing_failed g then None
     else case gl_ignored g of None \<Rightarrow> Some (ordinary_files g, ordinary_files g)
     | Some (_, out) \<Rightarrow> (case expandIgnoredDirectoryEntries readdir limit (splitNulSeparated out) of
         Some (Some ignored) \<Rightarrow> Some (ordinary_files g, text_sort (uniq (ordinary_files g @ ignored
             @ filter FORBIDDEN_LOOKING_PATH (listing_files (gl_forbiddenIgnored g)))))
       | _ \<Rightarrow> None))"

lemma gitChangedFileLists_ordinary:
  "gitChangedFileLists readdir limit g = Some (ordinary, everything) \<Longrightarrow>
     set ordinary \<subseteq> set everything \<and> (\<forall>r \<in> {gl_workingTree g, gl_staged g, gl_untracked g}. fst r = 0 \<and> set (splitNulSeparated (snd r)) \<subseteq> set ordinary)"
  unfolding gitChangedFileLists_def listing_failed_def ordinary_files_def
  by (auto split: option.split_asm if_split_asm prod.split_asm)

section \<open>Files a plan forbids\<close>

record scope_violations =
  sv_outsideWriteScope :: "string list"
  sv_forbiddenFiles :: "string list"
  sv_readOnlyChangedFiles :: "string list"

definition within_at :: "host \<Rightarrow> string list \<Rightarrow> string \<Rightarrow> string \<Rightarrow> bool option" where
  "within_at h paths cwd f = isWithinAnyPath h f paths cwd"

definition within_files :: "host \<Rightarrow> string list \<Rightarrow> string list \<Rightarrow> string \<Rightarrow> string list option" where
  "within_files h files paths cwd = opt_filter (within_at h paths cwd) files"

definition scopeChangedFileViolations :: "host \<Rightarrow> string list \<Rightarrow> lock_plan \<Rightarrow> scope_violations option" where
  "scopeChangedFileViolations h files p =
    (case lp_scopeContract p of None \<Rightarrow> Some \<lparr>sv_outsideWriteScope = [], sv_forbiddenFiles = [], sv_readOnlyChangedFiles = []\<rparr>
     | Some c \<Rightarrow>
       do { outside \<leftarrow> (if ct_withinWriteScope c \<and> ct_mode c = ''write'' then unsafeChangedFiles h files (ct_write c) (lp_cwd p) else Some []);
            forbidden \<leftarrow> (if ct_forbiddenNotChanged c then within_files h files (ct_forbidden c) (lp_cwd p) else Some []);
            Some \<lparr>sv_outsideWriteScope = normalizeLockPathList outside, sv_forbiddenFiles = normalizeLockPathList forbidden,
              sv_readOnlyChangedFiles = (if ct_readOnlyNotChanged c \<and> (ct_mode c = ''read'' \<or> lp_lockType p = ''read'')
                 then normalizeLockPathList files else [])\<rparr> })"

record changed_validation =
  cv_disallowedFiles :: "string list"
  cv_serialOnlyMatches :: "string list"
  cv_forbiddenFiles :: "string list"
  cv_sharedFiles :: "string list"
  cv_readOnlyChangedFiles :: "string list"
  cv_scopeViolations :: scope_violations

definition changedFileValidationErrorType :: "changed_validation \<Rightarrow> string" where
  "changedFileValidationErrorType v =
    (if sv_forbiddenFiles (cv_scopeViolations v) \<noteq> [] then ''forbidden_file_changed''
     else if sv_outsideWriteScope (cv_scopeViolations v) \<noteq> [] \<or> sv_readOnlyChangedFiles (cv_scopeViolations v) \<noteq> []
       then ''changed_file_validation_error''
     else if cv_forbiddenFiles v \<noteq> [] then ''forbidden_file_changed''
     else if cv_sharedFiles v \<noteq> [] then ''shared_file_parallel_write''
     else if cv_serialOnlyMatches v \<noteq> [] then ''serial_only_parallel_write''
     else ''changed_file_validation_error'')"

definition serial_file :: "host \<Rightarrow> lock_plan \<Rightarrow> string \<Rightarrow> bool option" where
  "serial_file h p f = map_option (\<lambda>m. m \<noteq> []) (findSerialOnlyMatches h [f] (lp_serialOnly p) (lp_cwd p))"

definition validateChangedFilesForPlan :: "host \<Rightarrow> string list \<Rightarrow> lock_plan \<Rightarrow> bool \<Rightarrow> changed_validation option" where
  "validateChangedFilesForPlan h files p batch =
    do { serial \<leftarrow> (if batch then findSerialOnlyMatches h files (lp_serialOnly p) (lp_cwd p) else Some []);
         scope \<leftarrow> scopeChangedFileViolations h files p;
         forbidden \<leftarrow> within_files h files (lp_forbiddenEdits p) (lp_cwd p);
         shared \<leftarrow> within_files h files (lp_sharedFiles p) (lp_cwd p);
         outside \<leftarrow> (if lp_lockType p \<noteq> ''read'' then unsafeChangedFiles h files (lp_allowedEdits p) (lp_cwd p) else Some files);
         serials \<leftarrow> (if serial \<noteq> [] then opt_filter (serial_file h p) files else Some []);
         let f = normalizeLockPathList forbidden; s = normalizeLockPathList shared;
             r = (if lp_lockType p = ''read'' \<and> files \<noteq> [] then normalizeLockPathList files else [])
         in Some \<lparr>cv_disallowedFiles = normalizeLockPathList (outside @ f @ sv_outsideWriteScope scope @ sv_forbiddenFiles scope
                @ sv_readOnlyChangedFiles scope @ s @ serials),
              cv_serialOnlyMatches = serial, cv_forbiddenFiles = f, cv_sharedFiles = s, cv_readOnlyChangedFiles = r,
              cv_scopeViolations = scope\<rparr> }"

section \<open>Drift under a reader\<close>

record drift =
  dr_files :: "string list"
  dr_fileCount :: nat
  dr_committedFiles :: "string list"

definition readOnlyWorkspaceDrift :: "string list \<Rightarrow> (string \<times> string) list \<Rightarrow> bool \<Rightarrow> drift" where
  "readOnlyWorkspaceDrift changed now headMoved =
    (let committed = (if headMoved then filter (\<lambda>f. map_of now f = None) changed else []);
         files = filter (\<lambda>f. f \<notin> set committed) changed
     in \<lparr>dr_files = take 50 files, dr_fileCount = length files, dr_committedFiles = take 50 committed\<rparr>)"

section \<open>What the checks let through\<close>

text \<open>
  The reported lists are in lock form, so a path without one is not reported.  \<open>has_lock_form\<close> asks for
  it twice, as some lists are normalised twice.
\<close>

definition has_lock_form :: "string \<Rightarrow> bool" where
  "has_lock_form f \<longleftrightarrow> normalizeLockPathList (normalizeLockPathList [f]) \<noteq> []"

lemma set_lock_list: "set (normalizeLockPathList xs) = {n. n \<noteq> [] \<and> (\<exists>x \<in> set xs. x \<noteq> [] \<and> js_trim x \<noteq> [] \<and> n = normalizeLockPath (js_trim x))}"
  by (auto simp: normalizeLockPathList_def uniqueList_def normalizeList_def)

lemma lock_list_mono: "set xs \<subseteq> set ys \<Longrightarrow> set (normalizeLockPathList xs) \<subseteq> set (normalizeLockPathList ys)"
  unfolding set_lock_list by blast

lemma lock_list_Nil_mem: "normalizeLockPathList ys = [] \<Longrightarrow> set xs \<subseteq> set ys \<Longrightarrow> normalizeLockPathList xs = []"
  using lock_list_mono [of xs ys] by simp

lemma lock_form_reported:
  assumes "has_lock_form f" "f \<in> set xs" shows "normalizeLockPathList xs \<noteq> []"
proof
  assume "normalizeLockPathList xs = []"
  then have "normalizeLockPathList [f] = []" by (rule lock_list_Nil_mem) (simp add: assms(2))
  then show False using assms(1) by (simp add: has_lock_form_def normalizeLockPathList_def uniqueList_def normalizeList_def)
qed

lemma lock_form_reported_twice:
  assumes "has_lock_form f" "f \<in> set xs" "set (normalizeLockPathList xs) \<subseteq> set ys" shows "normalizeLockPathList ys \<noteq> []"
proof
  assume "normalizeLockPathList ys = []"
  moreover have "set (normalizeLockPathList [f]) \<subseteq> set ys" using lock_list_mono [of "[f]" xs] assms(2,3) by simp
  ultimately have "normalizeLockPathList (normalizeLockPathList [f]) = []" by (rule lock_list_Nil_mem)
  then show False using assms(1) by (simp add: has_lock_form_def)
qed

lemma opt_filter_subset: "opt_filter P xs = Some ys \<Longrightarrow> set ys \<subseteq> set xs"
  by (induction xs arbitrary: ys) (auto simp: bind_eq_Some_conv split: if_splits)

lemma opt_filter_iff: "opt_filter P xs = Some ys \<Longrightarrow> x \<in> set xs \<Longrightarrow> P x = Some (x \<in> set ys)"
proof (induction xs arbitrary: ys)
  case (Cons a xs)
  from Cons.prems(1) obtain b zs where b: "P a = Some b" "opt_filter P xs = Some zs" "ys = (if b then a # zs else zs)"
    by (auto simp: bind_eq_Some_conv)
  show ?case
  proof (cases "x \<in> set xs")
    case True then show ?thesis using Cons.IH [OF b(2)] b by (cases "x = a") auto
  next
    case False then show ?thesis using Cons.prems(2) b opt_filter_subset [OF b(2)] by auto
  qed
qed simp

lemma within_files_iff:
  "within_files h files paths cwd = Some ys \<Longrightarrow> f \<in> set files \<Longrightarrow> isWithinAnyPath h f paths cwd = Some (f \<in> set ys)"
  unfolding within_files_def within_at_def [symmetric] by (rule opt_filter_iff)

lemma unsafe_files_iff:
  assumes "unsafeChangedFiles h files paths cwd = Some ys" "f \<in> set files" "f \<notin> set ys"
  shows "paths \<noteq> [] \<and> isWithinAnyPath h f paths cwd = Some True"
  using assms matcher_apply [of h paths cwd _ f] unfolding unsafeChangedFiles_def
  by (auto simp: bind_eq_Some_conv split: if_splits)

text \<open>What a contract asks of a changed file of a plan.\<close>

definition scope_allows :: "host \<Rightarrow> lock_plan \<Rightarrow> string \<Rightarrow> bool" where
  "scope_allows h p f \<longleftrightarrow> (case lp_scopeContract p of None \<Rightarrow> True
     | Some c \<Rightarrow> (ct_withinWriteScope c \<and> ct_mode c = ''write'' \<longrightarrow> ct_write c \<noteq> [] \<and> isWithinAnyPath h f (ct_write c) (lp_cwd p) = Some True)
         \<and> (ct_forbiddenNotChanged c \<longrightarrow> isWithinAnyPath h f (ct_forbidden c) (lp_cwd p) = Some False)
         \<and> \<not> (ct_readOnlyNotChanged c \<and> (ct_mode c = ''read'' \<or> lp_lockType p = ''read'')))"

lemma scope_allowsI:
  assumes "scopeChangedFileViolations h files p = Some s" "f \<in> set files" "has_lock_form f"
    and "normalizeLockPathList (sv_outsideWriteScope s) = []" "normalizeLockPathList (sv_forbiddenFiles s) = []"
    and "normalizeLockPathList (sv_readOnlyChangedFiles s) = []"
  shows "scope_allows h p f"
proof (cases "lp_scopeContract p")
  case None then show ?thesis by (simp add: scope_allows_def)
next
  case (Some c)
  then obtain outside forbidden where
    o: "(if ct_withinWriteScope c \<and> ct_mode c = ''write'' then unsafeChangedFiles h files (ct_write c) (lp_cwd p) else Some []) = Some outside"
    and fb: "(if ct_forbiddenNotChanged c then within_files h files (ct_forbidden c) (lp_cwd p) else Some []) = Some forbidden"
    and s: "sv_outsideWriteScope s = normalizeLockPathList outside" "sv_forbiddenFiles s = normalizeLockPathList forbidden"
      "sv_readOnlyChangedFiles s = (if ct_readOnlyNotChanged c \<and> (ct_mode c = ''read'' \<or> lp_lockType p = ''read'')
                 then normalizeLockPathList files else [])"
    using assms(1) unfolding scopeChangedFileViolations_def by (auto simp: bind_eq_Some_conv)
  have "f \<notin> set outside" "f \<notin> set forbidden"
    using lock_form_reported_twice [OF assms(3) _ subset_refl] assms(4,5) s by metis+
  moreover have "\<not> (ct_readOnlyNotChanged c \<and> (ct_mode c = ''read'' \<or> lp_lockType p = ''read''))"
    using lock_form_reported_twice [OF assms(3,2) subset_refl] assms(6) s(3) by (auto split: if_splits)
  ultimately show ?thesis unfolding scope_allows_def Some
    using o fb unsafe_files_iff [OF _ assms(2)] within_files_iff [OF _ assms(2)] by (auto split: if_splits)
qed

text \<open>A changed file that the check of a plan lets through belongs to a plan that edits, matches its
  allowed edits, matches no forbidden or shared entry and is allowed by its scope, if its name has a
  lock form.\<close>

theorem passed_changes_are_allowed:
  assumes "validateChangedFilesForPlan h files p batch = Some v" "cv_disallowedFiles v = []"
    and "f \<in> set files" "has_lock_form f"
  shows "lp_lockType p \<noteq> ''read'' \<and> lp_allowedEdits p \<noteq> [] \<and> isWithinAnyPath h f (lp_allowedEdits p) (lp_cwd p) = Some True
    \<and> isWithinAnyPath h f (lp_forbiddenEdits p) (lp_cwd p) = Some False
    \<and> isWithinAnyPath h f (lp_sharedFiles p) (lp_cwd p) = Some False
    \<and> scope_allows h p f \<and> (batch \<longrightarrow> cv_serialOnlyMatches v = [] \<or> serial_file h p f = Some False)"
proof -
  obtain serial scope forbidden shared outside serials where
    sc: "scopeChangedFileViolations h files p = Some scope"
    and fb: "within_files h files (lp_forbiddenEdits p) (lp_cwd p) = Some forbidden"
    and sh: "within_files h files (lp_sharedFiles p) (lp_cwd p) = Some shared"
    and ou: "(if lp_lockType p \<noteq> ''read'' then unsafeChangedFiles h files (lp_allowedEdits p) (lp_cwd p) else Some files) = Some outside"
    and se: "(if serial \<noteq> [] then opt_filter (serial_file h p) files else Some []) = Some serials" "cv_serialOnlyMatches v = serial"
    and d: "cv_disallowedFiles v = normalizeLockPathList (outside @ normalizeLockPathList forbidden @ sv_outsideWriteScope scope
       @ sv_forbiddenFiles scope @ sv_readOnlyChangedFiles scope @ normalizeLockPathList shared @ serials)"
    using assms(1) unfolding validateChangedFilesForPlan_def Let_def by (auto simp: bind_eq_Some_conv)
  note none = lock_list_Nil_mem [OF assms(2) [unfolded d]]
  have "f \<notin> set outside" using lock_form_reported [OF assms(4), of outside] none [of outside] by auto
  moreover have "f \<notin> set forbidden" "f \<notin> set shared"
    using lock_form_reported_twice [OF assms(4) _ subset_refl, of forbidden] lock_form_reported_twice [OF assms(4) _ subset_refl, of shared]
      none [of "normalizeLockPathList forbidden"] none [of "normalizeLockPathList shared"] by auto
  moreover have "f \<notin> set serials" using lock_form_reported [OF assms(4), of serials] none [of serials] by auto
  moreover have "serial \<noteq> [] \<Longrightarrow> serial_file h p f = Some (f \<in> set serials)"
    using se(1) opt_filter_iff [OF _ assms(3)] by auto
  moreover have "scope_allows h p f" by (rule scope_allowsI [OF sc assms(3,4)]) (rule none; auto)+
  ultimately show ?thesis
    using ou se unsafe_files_iff [OF _ assms(3)] within_files_iff [OF fb assms(3)] within_files_iff [OF sh assms(3)]
      assms(3) by (auto split: if_splits)
qed

definition changes_plan :: lock_plan where
  "changes_plan = sample_plan\<lparr>lp_agent := ''builder'', lp_cwd := [], lp_lockType := ''write'', lp_lockMode := ''simple'',
     lp_allowedEdits := [''out''], lp_lockedPaths := [''out''], lp_forbiddenEdits := [''.env''], lp_sharedFiles := [''package.json''], lp_serialOnly := []\<rparr>"

definition verdict_of :: "changed_validation option \<Rightarrow> string list option" where
  "verdict_of v = map_option cv_disallowedFiles v"

lemma out_file_verdict: "verdict_of (validateChangedFilesForPlan sample_host [''out/x.c''] changes_plan True) = Some []"
  by code_simp

lemma out_file_form: "has_lock_form ''out/x.c''" by code_simp

theorem passed_changes_are_allowed_witness:
  "has_lock_form ''out/x.c'' \<and> isWithinAnyPath sample_host ''out/x.c'' [''out''] [] = Some True"
proof -
  have "verdict_of (validateChangedFilesForPlan sample_host [''out/x.c''] changes_plan True) = Some []" by (rule out_file_verdict)
  then obtain v where v: "validateChangedFilesForPlan sample_host [''out/x.c''] changes_plan True = Some v" "cv_disallowedFiles v = []"
    unfolding verdict_of_def by auto
  from passed_changes_are_allowed [OF v _ out_file_form] out_file_form show ?thesis by (simp add: changes_plan_def)
qed

lemma blank_lock_list: "\<forall>f \<in> set files. js_trim f = [] \<Longrightarrow> set xs \<subseteq> set files \<Longrightarrow> normalizeLockPathList xs = []"
proof -
  assume "\<forall>f \<in> set files. js_trim f = []" "set xs \<subseteq> set files"
  then have "set (normalizeLockPathList xs) = {}" unfolding set_lock_list by blast
  then show "normalizeLockPathList xs = []" by simp
qed

lemma unsafe_files_subset: "unsafeChangedFiles h files paths cwd = Some ys \<Longrightarrow> set ys \<subseteq> set files"
  by (auto simp: unsafeChangedFiles_def bind_eq_Some_conv split: if_split_asm)

lemma within_files_subset: "within_files h files paths cwd = Some ys \<Longrightarrow> set ys \<subseteq> set files"
  unfolding within_files_def by (rule opt_filter_subset)

lemma blank_scope:
  assumes "scopeChangedFileViolations h files p = Some s" "\<forall>f \<in> set files. js_trim f = []"
  shows "sv_outsideWriteScope s = [] \<and> sv_forbiddenFiles s = [] \<and> sv_readOnlyChangedFiles s = []"
proof -
  note blank = blank_lock_list [OF assms(2)]
  have "normalizeLockPathList [] = []" by (rule blank) simp
  then show ?thesis using assms(1) blank [OF unsafe_files_subset] blank [OF within_files_subset] blank [OF subset_refl]
    unfolding scopeChangedFileViolations_def by (auto simp: bind_eq_Some_conv split: option.split_asm if_split_asm)
qed

text \<open>C40: Changed files whose names are blank are reported in no list of the check, for any plan, even
  one that only reads, so a run that changed only such files passes the check.\<close>

theorem blank_name_passes:
  assumes "validateChangedFilesForPlan h files p batch = Some v" "\<forall>f \<in> set files. js_trim f = []"
  shows "cv_disallowedFiles v = [] \<and> cv_forbiddenFiles v = [] \<and> cv_sharedFiles v = [] \<and> cv_readOnlyChangedFiles v = []
    \<and> cv_serialOnlyMatches v = [] \<and> sv_outsideWriteScope (cv_scopeViolations v) = []
    \<and> sv_forbiddenFiles (cv_scopeViolations v) = [] \<and> sv_readOnlyChangedFiles (cv_scopeViolations v) = []"
proof -
  note blank = blank_lock_list [OF assms(2)]
  have n: "normalizeLockPathList [] = []" "normalizeLockPathList files = []" by (rule blank; simp)+
  have serial: "m = []" if "findSerialOnlyMatches h files q c = Some m" for q c m
    using that n by (simp add: findSerialOnlyMatches_def)
  obtain se sc fb sh outside where c: "(if batch then findSerialOnlyMatches h files (lp_serialOnly p) (lp_cwd p) else Some []) = Some se"
    "scopeChangedFileViolations h files p = Some sc" "within_files h files (lp_forbiddenEdits p) (lp_cwd p) = Some fb"
    "within_files h files (lp_sharedFiles p) (lp_cwd p) = Some sh"
    "(if lp_lockType p \<noteq> ''read'' then unsafeChangedFiles h files (lp_allowedEdits p) (lp_cwd p) else Some files) = Some outside"
    using assms(1) unfolding validateChangedFilesForPlan_def by (auto simp: bind_eq_Some_conv)
  have "se = []" using c(1) serial by (auto split: if_split_asm)
  moreover note blank_scope [OF c(2) assms(2)] blank [OF within_files_subset [OF c(3)]] blank [OF within_files_subset [OF c(4)]]
  moreover have "set outside \<subseteq> set files" using c(5) unsafe_files_subset by (auto split: if_split_asm)
  then have "normalizeLockPathList outside = []" by (rule blank)
  ultimately show ?thesis using assms(1) c n blank [of outside] \<open>set outside \<subseteq> set files\<close>
    unfolding validateChangedFilesForPlan_def by (auto simp: Let_def)
qed

lemma blank_name_checked: "verdict_of (validateChangedFilesForPlan sample_host ['' ''] changes_plan True) = Some []
    \<and> isWithinAnyPath sample_host '' '' (lp_allowedEdits changes_plan) [] = Some False
    \<and> verdict_of (validateChangedFilesForPlan sample_host [''x''] changes_plan True) = Some [''x'']"
  by code_simp

theorem blank_name_passes_witness:
  "\<exists>v. validateChangedFilesForPlan sample_host ['' ''] changes_plan True = Some v \<and> cv_scopeViolations v
     = \<lparr>sv_outsideWriteScope = [], sv_forbiddenFiles = [], sv_readOnlyChangedFiles = []\<rparr>
   \<and> isWithinAnyPath sample_host '' '' (lp_allowedEdits changes_plan) [] = Some False"
proof -
  obtain v where v: "validateChangedFilesForPlan sample_host ['' ''] changes_plan True = Some v"
    using blank_name_checked unfolding verdict_of_def by blast
  have "\<forall>f \<in> set ['' '']. js_trim f = []" by code_simp
  from blank_name_passes [OF v this] v blank_name_checked show ?thesis by auto
qed

section \<open>A sample batch\<close>

lemma sample_views:
  obtains p q where "validateParallelWritePlan sample_config [batch_writer ''a'', batch_writer ''b''] = Some (None, [p, q])"
    "plan_view p = ([], ''write'', [''a''], default_forbidden, default_shared, [])" "contract_view p = Some (''write'', [''a''], [])"
    "lp_lockType q = ''write''" "lp_allowedEdits q = [''b'']"
proof -
  from batch_evaluated obtain ps where "validateParallelWritePlan sample_config [batch_writer ''a'', batch_writer ''b''] = Some (None, ps)"
    and v: "map plan_view ps = [([], ''write'', [''a''], default_forbidden, default_shared, []), ([], ''write'', [''b''], default_forbidden, default_shared, [])]"
      "map contract_view ps = [Some (''write'', [''a''], []), Some (''write'', [''b''], [])]"
    by (rule batch_viewsE)
  moreover from v obtain p q where "ps = [p, q]" by (auto simp: map_eq_Cons_conv)
  ultimately show ?thesis using that by (simp add: plan_view_def)
qed

lemma sample_checks:
  "unsafeChangedFiles sample_host [''a''] [''a''] [] = Some []" "within_files sample_host [''a''] default_forbidden [] = Some []"
  "within_files sample_host [''a''] default_shared [] = Some []" "findSerialOnlyMatches sample_host [''a''] [] [] = Some []"
  "within_files sample_host [''a''] [] [] = Some []" "normalizeLockPathList [] = []"
  by code_simp+

end
