(* ===== verification/ParallelRun.thy ===== *)
theory ParallelRun
  imports ChangedFiles LockQuarantine ProviderLeases
begin

text \<open>
  Model of \<open>lib/parallel-plan.js\<close> with \<open>parallelChangedFileKey\<close> and \<open>verifyGroup\<close> of \<open>lib/parallel-coordinator.js\<close>:
  the plan of a pipeline, the check of the results of a parallel group, its deadline, the evidence of
  overlap, and the check of one workspace after its jobs.  Texts of violations are a datatype.
\<close>

section \<open>Plans of a pipeline\<close>

definition validateDelegationPlanInputs :: "config \<Rightarrow> job list \<Rightarrow> (plan_error option \<times> lock_plan list \<times> string) option" where
  "validateDelegationPlanInputs cf jobs =
    (case jobs of [] \<Rightarrow> Some (Some (PlanError None [] []), [], ''none'')
     | [j] \<Rightarrow> map_option (\<lambda>(e, p). (e, [p], ''single'')) (validateSingleLockPlan cf j)
     | _ \<Rightarrow> map_option (\<lambda>(e, ps). (e, ps, ''parallel'')) (validateParallelWritePlan cf jobs))"

record pipeline_request =
  pq_name :: string
  pq_cwd :: string
  pq_jobs :: "job list"
  pq_requiresWorktrees :: bool
  pq_finalValidationCommand :: string
  pq_reviewerJob :: "job option"
  pq_testerJob :: "job option"
  pq_policy :: "project_policy option"
  pq_policyTrusted :: bool
  pq_sanitizedWorkspace :: bool

record integration_item =
  ii_agent :: string
  ii_allowedEdits :: "string list"
  ii_lockedPaths :: "string list"
  ii_forbiddenEdits :: "string list"
  ii_sharedFiles :: "string list"
  ii_serialOnly :: "string list"
  ii_validationCommand :: string
  ii_validationSource :: string

record pipeline_plan =
  pn_name :: string
  pn_cwd :: string
  pn_requiresWorktrees :: bool
  pn_jobs :: "job list"
  pn_lockPlans :: "lock_plan list"
  pn_integrationQueue :: "integration_item list"
  pn_finalValidationCommand :: string
  pn_finalValidationSource :: string
  pn_reviewerJob :: "job option"
  pn_testerJob :: "job option"

definition sanitized_child :: "bool \<Rightarrow> job \<Rightarrow> job" where
  "sanitized_child sanitized j = (if sanitized
     then j\<lparr>sanitizedWorkspace := True, subagentStrategy := or_string (subagentStrategy j) ''reject''\<rparr> else j)"

definition policy_command :: "pipeline_request \<Rightarrow> string" where
  "policy_command q = (case pq_policy q of None \<Rightarrow> [] | Some pol \<Rightarrow> pp_finalValidationCommand pol)"

definition final_command :: "pipeline_request \<Rightarrow> string" where
  "final_command q = or_string (js_trim (pq_finalValidationCommand q)) (js_trim (policy_command q))"

definition final_source :: "pipeline_request \<Rightarrow> string" where
  "final_source q = (if js_trim (pq_finalValidationCommand q) \<noteq> [] then ''caller'' else if policy_command q \<noteq> [] then ''policy'' else ''none'')"

definition integration_entry :: "pipeline_request \<Rightarrow> lock_plan \<Rightarrow> integration_item" where
  "integration_entry q p = \<lparr>ii_agent = lp_agent p, ii_allowedEdits = lp_allowedEdits p, ii_lockedPaths = lp_lockedPaths p,
     ii_forbiddenEdits = lp_forbiddenEdits p, ii_sharedFiles = lp_sharedFiles p, ii_serialOnly = lp_serialOnly p,
     ii_validationCommand = or_string (lp_validationCommand p) (final_command q),
     ii_validationSource = (if lp_validationCommand p \<noteq> [] then ''job'' else final_source q)\<rparr>"

definition pipeline_jobs :: "pipeline_request \<Rightarrow> job list" where
  "pipeline_jobs q = applyProjectPolicyToJobs (map (sanitized_child (pq_sanitizedWorkspace q)) (pq_jobs q)) (pq_policy q) (pq_policyTrusted q)"

definition pipeline_worktrees :: "pipeline_request \<Rightarrow> bool" where
  "pipeline_worktrees q \<longleftrightarrow> pq_requiresWorktrees q \<or> (case pq_policy q of None \<Rightarrow> False | Some pol \<Rightarrow> pp_requiresWorktrees pol)"

definition gate_jobs :: "pipeline_request \<Rightarrow> job list" where
  "gate_jobs q = (case pq_reviewerJob q of Some j \<Rightarrow> [j] | None \<Rightarrow> []) @ (case pq_testerJob q of Some j \<Rightarrow> [j] | None \<Rightarrow> [])"

text \<open>An error type on the left, the planned record on the right; \<open>None\<close> when a planner throws.\<close>

definition createPipelinePlan :: "config \<Rightarrow> pipeline_request \<Rightarrow> (string + pipeline_plan) option" where
  "createPipelinePlan cf q =
    (if list_ex (\<lambda>j. continueWorktree j \<noteq> None) (pq_jobs q @ gate_jobs q) then Some (Inl ''continue_worktree_unsupported_in_parallel'')
     else if list_ex (\<lambda>j. \<not> isManagedReadOnlyAgent cf (agent j)) (gate_jobs q) then Some (Inl ''pipeline_gate_agent_not_read_only'')
     else let jobs = pipeline_jobs q in
       if length jobs < 2 then Some (Inl ''pipeline_too_small'')
       else case validateDelegationPlanInputs cf jobs of None \<Rightarrow> None
         | Some (Some e, _, _) \<Rightarrow> Some (Inl (case errorType e of Some t \<Rightarrow> t | None \<Rightarrow> ''pipeline_plan_rejected''))
         | Some (None, ps, _) \<Rightarrow>
             let writers = filter (\<lambda>p. lp_lockType p = ''write'') ps in
             if pq_sanitizedWorkspace q \<and> writers \<noteq> [] then Some (Inl ''sanitized_workspace_write_forbidden'')
             else if pipeline_worktrees q \<and> writers \<noteq> [] \<and> worktreeMode cf = ''off'' then Some (Inl ''worktree_required_for_pipeline'')
             else if writers \<noteq> [] \<and> final_command q = [] then Some (Inl ''final_validation_required'')
             else Some (Inr \<lparr>pn_name = pq_name q,
                 pn_cwd = or_string (or_string (pq_cwd q) (case pq_jobs q of j # _ \<Rightarrow> job_cwd j | [] \<Rightarrow> [])) (process_cwd (host_of cf)),
                 pn_requiresWorktrees = pipeline_worktrees q, pn_jobs = jobs, pn_lockPlans = ps,
                 pn_integrationQueue = map (integration_entry q) writers, pn_finalValidationCommand = final_command q,
                 pn_finalValidationSource = final_source q, pn_reviewerJob = pq_reviewerJob q, pn_testerJob = pq_testerJob q\<rparr>))"

section \<open>Results of a group\<close>

text \<open>\<open>rs_exitCode\<close> is \<open>None\<close> for anything that is not a number; a time of 0 is no time.\<close>

record run_result =
  rs_changedFiles :: "string list"
  rs_timedOut :: bool
  rs_readOnlyUnavailable :: bool
  rs_exitCode :: "int option"
  rs_fallback :: bool
  rs_apiError :: bool
  rs_errorType :: string
  rs_headMove :: "string option"
  rs_heads :: "(string \<times> string) option"
  rs_intervals :: "(int \<times> int) list"
  rs_groupRejected :: bool

record job_result =
  jr_index :: nat
  jr_plan :: lock_plan
  jr_result :: "run_result option"

datatype violation =
    AgentTimeout string
  | ExitedWith nat "int option"
  | NativeFallback nat
  | ApiError nat
  | ReaderChanged nat "string list"
  | OutsideEdits nat "string list"
  | ForbiddenChanged nat "string list"
  | OutsideScope nat "string list"
  | ScopeForbidden nat "string list"
  | ScopeReadOnly nat "string list"
  | SharedChanged nat "string list"
  | SerialChanged nat "string list"
  | SameFile string "nat list"

definition changed_of :: "job_result \<Rightarrow> string list" where
  "changed_of r = (case jr_result r of None \<Rightarrow> [] | Some s \<Rightarrow> rs_changedFiles s)"

text \<open>The violations of how a run ended.\<close>

definition end_violations :: "job_result \<Rightarrow> violation list" where
  "end_violations r = (case jr_result r of None \<Rightarrow> []
     | Some s \<Rightarrow> let excused = (lp_lockType (jr_plan r) = ''read'' \<and> rs_readOnlyUnavailable s) in
         (if rs_timedOut s \<and> \<not> excused then [AgentTimeout (lp_agent (jr_plan r))]
          else if rs_exitCode s \<noteq> Some 0 \<and> \<not> excused then [ExitedWith (jr_index r) (rs_exitCode s)] else [])
         @ (if rs_fallback s then [NativeFallback (jr_index r)] else [])
         @ (if rs_apiError s then [ApiError (jr_index r)] else []))"

definition when_files :: "string list \<Rightarrow> (string list \<Rightarrow> violation) \<Rightarrow> violation list" where
  "when_files files v = (if files \<noteq> [] then [v files] else [])"

definition job_violations :: "host \<Rightarrow> job_result \<Rightarrow> violation list option" where
  "job_violations h r = (let p = jr_plan r; i = jr_index r; files = changed_of r in
     do { outside \<leftarrow> (if lp_lockType p = ''write'' then unsafeChangedFiles h files (lp_allowedEdits p) (lp_cwd p) else Some []);
          forbidden \<leftarrow> within_files h files (lp_forbiddenEdits p) (lp_cwd p);
          scope \<leftarrow> scopeChangedFileViolations h files p;
          shared \<leftarrow> within_files h files (lp_sharedFiles p) (lp_cwd p);
          serial \<leftarrow> findSerialOnlyMatches h files (lp_serialOnly p) (lp_cwd p);
          Some (end_violations r @ (if lp_lockType p = ''read'' then when_files files (ReaderChanged i) else [])
            @ when_files outside (OutsideEdits i) @ when_files forbidden (ForbiddenChanged i)
            @ when_files (sv_outsideWriteScope scope) (OutsideScope i) @ when_files (sv_forbiddenFiles scope) (ScopeForbidden i)
            @ when_files (sv_readOnlyChangedFiles scope) (ScopeReadOnly i) @ when_files shared (SharedChanged i)
            @ when_files serial (SerialChanged i)) })"

definition parallelChangedFileKey :: "host \<Rightarrow> lock_plan \<Rightarrow> string \<Rightarrow> string" where
  "parallelChangedFileKey h p f = (let root = path_resolve h (or_string (lp_cwd p) (process_cwd h))
     in normalizeFilesystemCase h root root @ [nul] @ normalizeFilesystemCase h (normalizeLockPath f) root)"

text \<open>The map from keys to the first spelling of the file and the jobs that changed it.\<close>

fun note_change :: "string \<Rightarrow> string \<Rightarrow> nat \<Rightarrow> (string \<times> string \<times> nat list) list \<Rightarrow> (string \<times> string \<times> nat list) list" where
  "note_change k f i [] = [(k, f, [i])]"
| "note_change k f i ((k', g, is) # m) = (if k = k' then (k', g, is @ [i]) # m else (k', g, is) # note_change k f i m)"

definition all_changes :: "host \<Rightarrow> job_result list \<Rightarrow> (string \<times> string \<times> nat) list" where
  "all_changes h rs = concat (map (\<lambda>r. map (\<lambda>f. (parallelChangedFileKey h (jr_plan r) f, f, jr_index r)) (changed_of r)) rs)"

definition changed_by_file :: "(string \<times> string \<times> nat) list \<Rightarrow> (string \<times> string \<times> nat list) list" where
  "changed_by_file xs = fold (\<lambda>(k, f, i). note_change k f i) xs []"

definition verifyParallelLockResults :: "host \<Rightarrow> job_result list \<Rightarrow> violation list option" where
  "verifyParallelLockResults h rs =
    map_option (\<lambda>vs. concat vs @ map (\<lambda>(_, f, is). SameFile f is) (filter (\<lambda>(_, _, is). length is > 1) (changed_by_file (all_changes h rs))))
      (opt_map (job_violations h) rs)"

section \<open>Deadline and overlap of a group\<close>

record run_timeouts =
  rt_agents :: agent_timeouts
  rt_readOnlyRetryMaxElapsed :: int
  rt_providerWaitMax :: int

definition PARALLEL_GROUP_DEADLINE_MARGIN_MS :: int where "PARALLEL_GROUP_DEADLINE_MARGIN_MS = 1000 * 60"

definition agent_budget :: "config \<Rightarrow> run_timeouts \<Rightarrow> lock_plan \<Rightarrow> int" where
  "agent_budget cf ts p = (let t = int (timeoutForAgent cf (rt_agents ts) (lp_agent p) p (lp_timeoutMs p))
     in if lp_lockType p = ''read'' then max (rt_readOnlyRetryMaxElapsed ts) t else t)"

definition validation_budget :: "run_timeouts \<Rightarrow> lock_plan \<Rightarrow> int" where
  "validation_budget ts p = (if js_trim (lp_validationCommand p) \<noteq> [] then int (at_validationCommand (rt_agents ts)) else 0)"

definition job_budget :: "config \<Rightarrow> run_timeouts \<Rightarrow> lock_plan \<times> json option \<Rightarrow> int option" where
  "job_budget cf ts pw = map_option (\<lambda>b. agent_budget cf ts (fst pw) + validation_budget ts (fst pw) + wb_effective b)
     (providerWaitBudget (rt_providerWaitMax ts) (snd pw))"

text \<open>\<open>waits\<close> are the wait bounds of the jobs, \<open>undefined\<close> past their end; \<open>None\<close> is the range error of a bound.\<close>

definition parallelGroupDeadlineMs :: "config \<Rightarrow> run_timeouts \<Rightarrow> lock_plan list \<Rightarrow> json option list \<Rightarrow> int option" where
  "parallelGroupDeadlineMs cf ts ps waits =
    map_option (\<lambda>budgets. fold max budgets 0 + PARALLEL_GROUP_DEADLINE_MARGIN_MS)
      (opt_map (job_budget cf ts) (zip ps (waits @ replicate (length ps) None)))"

definition intervals_overlap :: "(int \<times> int) list \<Rightarrow> (int \<times> int) list \<Rightarrow> bool" where
  "intervals_overlap ls rs = list_ex (\<lambda>(a, b). list_ex (\<lambda>(c, d). a \<noteq> 0 \<and> b \<noteq> 0 \<and> c \<noteq> 0 \<and> d \<noteq> 0 \<and> max a c < min b d) rs) ls"

definition intervals_of :: "job_result \<Rightarrow> (int \<times> int) list" where
  "intervals_of r = (case jr_result r of None \<Rightarrow> [] | Some s \<Rightarrow> rs_intervals s)"

definition parallelExecutionOverlapEvidence :: "job_result list \<Rightarrow> (nat \<times> nat) list" where
  "parallelExecutionOverlapEvidence rs = concat (map (\<lambda>i. map (Pair i)
     (filter (\<lambda>k. intervals_overlap (intervals_of (rs ! i)) (intervals_of (rs ! k))) [Suc i..<length rs])) [0..<length rs])"

section \<open>The check of one workspace\<close>

record scope_report =
  gr_headChanged :: bool
  gr_changedFiles :: "string list"
  gr_disallowedFiles :: "string list"
  gr_serialOnlyMatches :: "string list"
  gr_externalDriftFiles :: "string list"
  gr_rollback :: string
  gr_unresolvedFiles :: "string list"
  gr_checkFailed :: bool

text \<open>
  \<open>gw_idx\<close> are the jobs of the workspace, \<open>gw_move\<close> what a reader's head move is read as (a Git query).
\<close>

record group_workspace =
  gw_cwd :: string
  gw_idx :: "nat list"
  gw_before :: "(string \<times> string) list"
  gw_after :: "(string \<times> string) list"
  gw_expectedHead :: string
  gw_afterHead :: string
  gw_driftTolerated :: bool
  gw_move :: "lock_plan \<Rightarrow> string option"

definition head_changed :: "group_workspace \<Rightarrow> bool" where
  "head_changed w \<longleftrightarrow> gw_afterHead w \<noteq> gw_expectedHead w"

definition group_changes :: "group_workspace \<Rightarrow> string list" where
  "group_changes w = changedFilesBetween (gw_before w) (gw_after w)"

definition judged_changes :: "group_workspace \<Rightarrow> string list" where
  "judged_changes w = (if gw_driftTolerated w then [] else group_changes w)"

text \<open>The head move or the error a job of the workspace gets when the head changed.\<close>

definition note_head :: "group_workspace \<Rightarrow> bool \<Rightarrow> lock_plan \<Rightarrow> run_result \<Rightarrow> run_result" where
  "note_head w readOnlyCwd p s =
    (let s' = (case (if readOnlyCwd \<and> rs_errorType s = [] then gw_move w p else None) of
        Some m \<Rightarrow> s\<lparr>rs_headMove := Some m\<rparr>
      | None \<Rightarrow> s\<lparr>rs_errorType := or_string (rs_errorType s) ''repository_head_changed_during_execution''\<rparr>)
     in s'\<lparr>rs_heads := Some (gw_expectedHead w, gw_afterHead w)\<rparr>)"

definition note_heads :: "group_workspace \<Rightarrow> lock_plan list \<Rightarrow> job_result list \<Rightarrow> job_result list" where
  "note_heads w ps rs = (let plans = map (\<lambda>i. ps ! i) (gw_idx w);
       readOnlyCwd = (judged_changes w = [] \<and> list_all (\<lambda>p. lp_lockType p = ''read'') plans)
     in if head_changed w
        then map (\<lambda>(i, r). if i \<in> set (gw_idx w) then r\<lparr>jr_result := map_option (note_head w readOnlyCwd (ps ! i)) (jr_result r)\<rparr> else r)
               (zip [0..<length rs] rs)
        else rs)"

definition parallelGroupScopeReport :: "host \<Rightarrow> group_workspace \<Rightarrow> lock_plan list \<Rightarrow> job_result list \<Rightarrow> (scope_report \<times> job_result list) option" where
  "parallelGroupScopeReport h w ps rs =
    (let plans = map (\<lambda>i. ps ! i) (gw_idx w); writers = filter (\<lambda>p. lp_lockType p = ''write'') plans; changed = judged_changes w in
     do { serial \<leftarrow> findSerialOnlyMatches h changed (concat (map lp_serialOnly plans)) (gw_cwd w);
          outside \<leftarrow> (if writers \<noteq> [] then unsafeChangedFiles h changed (concat (map lp_allowedEdits writers)) (gw_cwd w) else Some changed);
          forbidden \<leftarrow> within_files h changed (concat (map (\<lambda>p. lp_forbiddenEdits p @ lp_sharedFiles p) plans)) (gw_cwd w);
          let bad = normalizeLockPathList (outside @ forbidden @ serial)
          in Some (\<lparr>gr_headChanged = head_changed w, gr_changedFiles = changed, gr_disallowedFiles = bad, gr_serialOnlyMatches = serial,
               gr_externalDriftFiles = (if gw_driftTolerated w \<and> group_changes w \<noteq> []
                  then dr_files (readOnlyWorkspaceDrift (group_changes w) (gw_after w) (head_changed w)) else []),
               gr_rollback = (if bad \<noteq> [] then ''not_attempted_unattributed_changes'' else ''not_needed''),
               gr_unresolvedFiles = bad, gr_checkFailed = False\<rparr>, note_heads w ps rs) })"

text \<open>
  \<open>verifyGroup\<close> on one workspace: a report with a finding rejects every job that had no error of its own;
  a check that throws, after the heads were noted, rejects as well.  \<open>initial\<close> are the error types the jobs ended with.
\<close>

definition reject_job :: "string \<Rightarrow> run_result \<Rightarrow> run_result" where
  "reject_job e s = s\<lparr>rs_groupRejected := True, rs_errorType := or_string (rs_errorType s) e\<rparr>"

definition rejects_job :: "scope_report \<Rightarrow> string \<Rightarrow> run_result \<Rightarrow> bool" where
  "rejects_job g initial s \<longleftrightarrow> initial = [] \<and> \<not> (gr_headChanged g \<and> rs_errorType s = [] \<and> gr_disallowedFiles g = [])"

definition update_jobs_of :: "nat list \<Rightarrow> (nat \<Rightarrow> run_result \<Rightarrow> run_result) \<Rightarrow> job_result list \<Rightarrow> job_result list" where
  "update_jobs_of idx f rs = map (\<lambda>(i, r). if i \<in> set idx then r\<lparr>jr_result := map_option (f i) (jr_result r)\<rparr> else r) (zip [0..<length rs] rs)"

definition failed_report :: scope_report where
  "failed_report = \<lparr>gr_headChanged = False, gr_changedFiles = [], gr_disallowedFiles = [], gr_serialOnlyMatches = [],
     gr_externalDriftFiles = [], gr_rollback = ''not_attempted_check_failed'', gr_unresolvedFiles = [], gr_checkFailed = True\<rparr>"

definition verify_workspace :: "host \<Rightarrow> group_workspace \<Rightarrow> lock_plan list \<Rightarrow> string list \<Rightarrow> job_result list \<Rightarrow> scope_report \<times> job_result list" where
  "verify_workspace h w ps initial rs =
    (case parallelGroupScopeReport h w ps rs of
       Some (g, rs') \<Rightarrow> (g, if gr_disallowedFiles g \<noteq> [] \<or> gr_headChanged g
         then update_jobs_of (gw_idx w) (\<lambda>i s. if rejects_job g (initial ! i) s then reject_job ''parallel_group_scope_violation'' s else s) rs'
         else rs')
     | None \<Rightarrow> (failed_report, update_jobs_of (gw_idx w)
         (\<lambda>i s. if initial ! i = [] then reject_job ''parallel_group_snapshot_failed'' s
                else s\<lparr>rs_errorType := or_string (rs_errorType s) ''parallel_group_snapshot_failed''\<rparr>) (note_heads w ps rs)))"

end
