(* ===== verification/ParallelRunSafety.thy ===== *)
theory ParallelRunSafety
  imports ParallelRun
begin

text \<open>
  What a planned pipeline guarantees, what a group of parallel runs without a violation has done, and that
  the check of a workspace rejects on every finding.
\<close>

section \<open>Pipelines\<close>

lemma delegation_two:
  "2 \<le> length jobs \<Longrightarrow> validateDelegationPlanInputs cf jobs = map_option (\<lambda>(e, ps). (e, ps, ''parallel'')) (validateParallelWritePlan cf jobs)"
  by (cases jobs rule: remdups_adj.cases) (simp_all add: validateDelegationPlanInputs_def)

lemma pipeline_planned:
  assumes "createPipelinePlan cf q = Some (Inr n)" "\<not> list_ex (\<lambda>j. \<not> isManagedReadOnlyAgent cf (agent j)) (gate_jobs q)"
    and "2 \<le> length (pipeline_jobs q)"
  obtains ps where "validateParallelWritePlan cf (pipeline_jobs q) = Some (None, ps)"
    "pn_jobs n = pipeline_jobs q" "pn_lockPlans n = ps" "pn_requiresWorktrees n = pipeline_worktrees q"
    "pn_integrationQueue n = map (integration_entry q) (filter (\<lambda>p. lp_lockType p = ''write'') ps)"
    "filter (\<lambda>p. lp_lockType p = ''write'') ps \<noteq> [] \<longrightarrow>
      \<not> pq_sanitizedWorkspace q \<and> \<not> (pipeline_worktrees q \<and> worktreeMode cf = ''off'') \<and> final_command q \<noteq> []"
proof (cases "validateParallelWritePlan cf (pipeline_jobs q)")
  case None
  then show ?thesis using assms unfolding createPipelinePlan_def Let_def delegation_two [OF assms(3)] by (simp split: if_split_asm)
next
  case (Some v)
  obtain e ps where v: "v = (e, ps)" by (cases v)
  define ws where "ws = filter (\<lambda>p. lp_lockType p = ''write'') ps"
  have e: "e = None"
    by (rule ccontr) (use assms Some v in \<open>auto simp: createPipelinePlan_def Let_def delegation_two split: if_split_asm\<close>)
  have "\<not> (pq_sanitizedWorkspace q \<and> ws \<noteq> [])" "\<not> (pipeline_worktrees q \<and> ws \<noteq> [] \<and> worktreeMode cf = ''off'')"
    "\<not> (ws \<noteq> [] \<and> final_command q = [])"
    using assms Some v e unfolding ws_def createPipelinePlan_def Let_def delegation_two [OF assms(3)] by (simp_all split: if_split_asm)
  moreover from this have "pn_jobs n = pipeline_jobs q" "pn_lockPlans n = ps" "pn_requiresWorktrees n = pipeline_worktrees q"
    "pn_integrationQueue n = map (integration_entry q) ws"
    using assms Some v e unfolding ws_def createPipelinePlan_def Let_def delegation_two [OF assms(3)] by (simp_all split: if_split_asm, (elim subst, simp)+)
  ultimately show ?thesis using that [of ps] Some v e unfolding ws_def by blast
qed

text \<open>C38: An accepted pipeline plan has at least two jobs that the parallel planner accepts with exactly
  the returned lock plans, its gate agents are managed read-only agents, its writers are not sanitized
  and have worktrees where required, and the integration queue lists exactly the writers in order,
  each with a validation command.\<close>

theorem pipeline_plan_sound:
  assumes "createPipelinePlan cf q = Some (Inr n)"
  defines "ws \<equiv> filter (\<lambda>p. lp_lockType p = ''write'') (pn_lockPlans n)"
  shows "2 \<le> length (pn_jobs n) \<and> validateParallelWritePlan cf (pn_jobs n) = Some (None, pn_lockPlans n)
    \<and> (\<forall>j \<in> set (gate_jobs q). isManagedReadOnlyAgent cf (agent j))
    \<and> (ws \<noteq> [] \<longrightarrow> \<not> pq_sanitizedWorkspace q \<and> (pn_requiresWorktrees n \<longrightarrow> worktreeMode cf \<noteq> ''off''))
    \<and> map ii_allowedEdits (pn_integrationQueue n) = map lp_allowedEdits ws
    \<and> (\<forall>e \<in> set (pn_integrationQueue n). ii_validationCommand e \<noteq> [])"
proof -
  have g: "\<not> list_ex (\<lambda>j. \<not> isManagedReadOnlyAgent cf (agent j)) (gate_jobs q)"
    by (rule ccontr) (use assms(1) in \<open>simp add: createPipelinePlan_def split: if_split_asm\<close>)
  have l: "2 \<le> length (pipeline_jobs q)"
    by (rule ccontr) (use assms(1) g in \<open>simp add: createPipelinePlan_def Let_def split: if_split_asm\<close>)
  obtain ps where ps: "validateParallelWritePlan cf (pipeline_jobs q) = Some (None, ps)"
    and n: "pn_jobs n = pipeline_jobs q" "pn_lockPlans n = ps" "pn_requiresWorktrees n = pipeline_worktrees q"
      "pn_integrationQueue n = map (integration_entry q) (filter (\<lambda>p. lp_lockType p = ''write'') ps)"
    and w: "filter (\<lambda>p. lp_lockType p = ''write'') ps \<noteq> [] \<longrightarrow>
      \<not> pq_sanitizedWorkspace q \<and> \<not> (pipeline_worktrees q \<and> worktreeMode cf = ''off'') \<and> final_command q \<noteq> []"
    by (rule pipeline_planned [OF assms(1) g l])
  have "ii_validationCommand e \<noteq> []" if "e \<in> set (pn_integrationQueue n)" for e
    using that w unfolding n(4)
    by (auto simp: integration_entry_def or_string_def filter_empty_conv split: if_split_asm)
  moreover have "map ii_allowedEdits (pn_integrationQueue n) = map lp_allowedEdits ws"
    unfolding ws_def n by (simp add: integration_entry_def comp_def)
  ultimately show ?thesis using g l ps w unfolding ws_def n by (auto simp: list_ex_iff)
qed

definition sample_pipeline :: pipeline_request where
  "sample_pipeline = \<lparr>pq_name = ''p'', pq_cwd = [], pq_jobs = [batch_writer ''a'', batch_writer ''b''], pq_requiresWorktrees = True,
     pq_finalValidationCommand = ''npm test'', pq_reviewerJob = Some (sample_job\<lparr>agent := ''reviewer''\<rparr>), pq_testerJob = None,
     pq_policy = None, pq_policyTrusted = False, pq_sanitizedWorkspace = False\<rparr>"

lemma sample_batch:
  obtains p q where "validateParallelWritePlan sample_config [batch_writer ''a'', batch_writer ''b''] = Some (None, [p, q])"
    "lp_lockType p = ''write''" "lp_lockType q = ''write''" "lp_allowedEdits p = [''a'']" "lp_allowedEdits q = [''b'']"
proof -
  obtain p q where b: "validateParallelWritePlan sample_config [batch_writer ''a'', batch_writer ''b''] = Some (None, [p, q])"
    "plan_view p = ([], ''write'', [''a''], default_forbidden, default_shared, [])" "contract_view p = Some (''write'', [''a''], [])"
    "lp_lockType q = ''write''" "lp_allowedEdits q = [''b'']"
    by (rule sample_views)
  show ?thesis by (rule that [OF b(1)]) (use b in \<open>simp_all add: plan_view_def\<close>)
qed

theorem pipeline_plan_sound_witness:
  "\<exists>n. createPipelinePlan sample_config sample_pipeline = Some (Inr n) \<and> 2 \<le> length (pn_jobs n)
     \<and> map ii_allowedEdits (pn_integrationQueue n) = [[''a''], [''b'']]"
proof -
  obtain p q where b: "validateParallelWritePlan sample_config [batch_writer ''a'', batch_writer ''b''] = Some (None, [p, q])"
    and t: "lp_lockType p = ''write''" "lp_lockType q = ''write''" "lp_allowedEdits p = [''a'']" "lp_allowedEdits q = [''b'']"
    by (rule sample_batch)
  have j: "pipeline_jobs sample_pipeline = [batch_writer ''a'', batch_writer ''b'']"
    by (simp add: pipeline_jobs_def sample_pipeline_def applyProjectPolicyToJobs_def sanitized_child_def)
  have g: "\<not> list_ex (\<lambda>j. \<not> isManagedReadOnlyAgent sample_config (agent j)) (gate_jobs sample_pipeline)"
    "\<not> list_ex (\<lambda>j. continueWorktree j \<noteq> None) (pq_jobs sample_pipeline @ gate_jobs sample_pipeline)"
    "final_command sample_pipeline \<noteq> []" "worktreeMode sample_config \<noteq> ''off''" "\<not> pq_sanitizedWorkspace sample_pipeline" by code_simp+
  have "\<exists>n. createPipelinePlan sample_config sample_pipeline = Some (Inr n) \<and> pn_lockPlans n = [p, q]"
    using g b t unfolding createPipelinePlan_def Let_def j validateDelegationPlanInputs_def by (simp split: if_split)
  then obtain n where n: "createPipelinePlan sample_config sample_pipeline = Some (Inr n)" "pn_lockPlans n = [p, q]" by blast
  from pipeline_plan_sound [OF n(1)] n t show ?thesis by auto
qed

section \<open>Groups without a violation\<close>

fun labels_of :: "string \<Rightarrow> (string \<times> string \<times> nat list) list \<Rightarrow> nat list" where
  "labels_of k [] = []"
| "labels_of k ((k', f, is) # m) = (if k = k' then is else labels_of k m)"

lemma labels_note: "labels_of k (note_change k' f i m) = labels_of k m @ (if k = k' then [i] else [])"
  by (induction k m rule: labels_of.induct) auto

lemma labels_fold:
  "labels_of k (fold (\<lambda>(k, f, i). note_change k f i) xs m) = labels_of k m @ map (snd \<circ> snd) (filter (\<lambda>x. fst x = k) xs)"
  by (induction xs arbitrary: m) (auto simp: labels_note)

lemma labels_mem: "labels_of k m \<noteq> [] \<Longrightarrow> \<exists>f. (k, f, labels_of k m) \<in> set m"
  by (induction k m rule: labels_of.induct) (auto split: if_split_asm)

lemma verified_jobs: "verifyParallelLockResults h rs = Some [] \<Longrightarrow> r \<in> set rs \<Longrightarrow> job_violations h r = Some []"
  unfolding verifyParallelLockResults_def
proof -
  assume "map_option (\<lambda>vs. concat vs @ map (\<lambda>(_, f, is). SameFile f is) (filter (\<lambda>(_, _, is). length is > 1) (changed_by_file (all_changes h rs))))
      (opt_map (job_violations h) rs) = Some []" and r: "r \<in> set rs"
  then obtain vs where vs: "opt_map (job_violations h) rs = Some vs" "\<forall>v \<in> set vs. v = []" by auto
  from vs r show "job_violations h r = Some []"
    by (induction rs arbitrary: vs) (auto simp: bind_eq_Some_conv)
qed

lemma verified_once:
  assumes "verifyParallelLockResults h rs = Some []" shows "length (filter (\<lambda>x. fst x = k) (all_changes h rs)) \<le> 1"
proof (rule ccontr)
  let ?m = "changed_by_file (all_changes h rs)"
  have l: "labels_of k ?m = map (snd \<circ> snd) (filter (\<lambda>x. fst x = k) (all_changes h rs))"
    unfolding changed_by_file_def labels_fold by simp
  assume "\<not> ?thesis"
  then have two: "length (labels_of k ?m) > 1" unfolding l by simp
  then have "labels_of k ?m \<noteq> []" by auto
  from labels_mem [OF this] two show False
    using assms unfolding verifyParallelLockResults_def by (auto simp: filter_empty_conv)
qed

lemma filter_two:
  assumes "r \<in> set as" "x \<in> set (F r)" "P x" shows "length (filter P (concat (map F as))) \<ge> 1"
proof -
  have "x \<in> set (filter P (concat (map F as)))" using assms by auto
  then show ?thesis by (cases "filter P (concat (map F as))") auto
qed

lemma verified_keys:
  assumes "verifyParallelLockResults h rs = Some []" "m < n" "n < length rs" "f \<in> set (changed_of (rs ! m))" "g \<in> set (changed_of (rs ! n))"
  shows "parallelChangedFileKey h (jr_plan (rs ! m)) f \<noteq> parallelChangedFileKey h (jr_plan (rs ! n)) g"
proof
  let ?k = "parallelChangedFileKey h (jr_plan (rs ! m)) f"
  let ?F = "\<lambda>r. map (\<lambda>f. (parallelChangedFileKey h (jr_plan r) f, f, jr_index r)) (changed_of r)"
  let ?P = "\<lambda>x :: string \<times> string \<times> nat. fst x = ?k"
  assume same: "?k = parallelChangedFileKey h (jr_plan (rs ! n)) g"
  have m: "rs ! m \<in> set (take n rs)" using assms(2,3) by (auto simp: in_set_conv_nth intro!: exI [of _ m])
  have "rs ! n \<in> set (drop n rs)" using assms(3) by (metis drop_eq_Nil hd_drop_conv_nth hd_in_set leD)
  then have "length (filter ?P (concat (map ?F (drop n rs)))) \<ge> 1"
    by (rule filter_two [where x = "(?k, g, jr_index (rs ! n))"]) (use assms(5) same in auto)
  moreover have "length (filter ?P (concat (map ?F (take n rs)))) \<ge> 1"
    by (rule filter_two [OF m, where x = "(?k, f, jr_index (rs ! m))"]) (use assms(4) in auto)
  moreover have "all_changes h rs = concat (map ?F (take n rs)) @ concat (map ?F (drop n rs))"
    unfolding all_changes_def by (metis append_take_drop_id concat_append map_append)
  ultimately show False using verified_once [OF assms(1), of ?k] by simp
qed

lemma when_files_Nil [simp]: "when_files xs v = [] \<longleftrightarrow> xs = []"
  by (simp add: when_files_def)

lemma opt_filter_none: "opt_filter P xs = Some [] \<Longrightarrow> set ys \<subseteq> set xs \<Longrightarrow> opt_filter P ys = Some []"
proof (induction ys)
  case (Cons y ys)
  then have "P y = Some False" using opt_filter_iff [of P xs "[]" y] by simp
  then show ?case using Cons by simp
qed simp

lemma serial_each:
  assumes "findSerialOnlyMatches h files serials cwd = Some []" "f \<in> set files" shows "findSerialOnlyMatches h [f] serials cwd = Some []"
proof -
  let ?pats = "mergePathLists [SERIAL_ONLY_PATHS, serials]" let ?P = "\<lambda>(c, p). pathOverlapsSerialPattern h c p cwd"
  have "opt_filter ?P (List.product (normalizeLockPathList files) ?pats) = Some []"
    using assms(1) unfolding findSerialOnlyMatches_def Let_def by auto
  moreover have "set (List.product (normalizeLockPathList [f]) ?pats) \<subseteq> set (List.product (normalizeLockPathList files) ?pats)"
    using lock_list_mono [of "[f]" files] assms(2) by auto
  ultimately show ?thesis unfolding findSerialOnlyMatches_def Let_def using opt_filter_none by fastforce
qed

lemma job_clean:
  assumes "job_violations h r = Some []" "f \<in> set (changed_of r)"
  shows "end_violations r = []" "lp_lockType (jr_plan r) \<noteq> ''read''"
    and "lp_lockType (jr_plan r) = ''write'' \<Longrightarrow> isWithinAnyPath h f (lp_allowedEdits (jr_plan r)) (lp_cwd (jr_plan r)) = Some True"
    and "isWithinAnyPath h f (lp_forbiddenEdits (jr_plan r)) (lp_cwd (jr_plan r)) = Some False"
    and "isWithinAnyPath h f (lp_sharedFiles (jr_plan r)) (lp_cwd (jr_plan r)) = Some False"
    and "findSerialOnlyMatches h [f] (lp_serialOnly (jr_plan r)) (lp_cwd (jr_plan r)) = Some []"
    and "has_lock_form f \<Longrightarrow> scope_allows h (jr_plan r) f"
proof -
  let ?p = "jr_plan r" let ?files = "changed_of r"
  obtain outside scope where e: "end_violations r = []" "lp_lockType ?p = ''read'' \<longrightarrow> ?files = []"
    and o: "(if lp_lockType ?p = ''write'' then unsafeChangedFiles h ?files (lp_allowedEdits ?p) (lp_cwd ?p) else Some []) = Some outside" "outside = []"
    and fb: "within_files h ?files (lp_forbiddenEdits ?p) (lp_cwd ?p) = Some []"
    and sc: "scopeChangedFileViolations h ?files ?p = Some scope" "sv_outsideWriteScope scope = []" "sv_forbiddenFiles scope = []" "sv_readOnlyChangedFiles scope = []"
    and sh: "within_files h ?files (lp_sharedFiles ?p) (lp_cwd ?p) = Some []"
    and se: "findSerialOnlyMatches h ?files (lp_serialOnly ?p) (lp_cwd ?p) = Some []"
    using assms(1) unfolding job_violations_def Let_def by (auto simp: bind_eq_Some_conv split: if_split_asm)
  show "end_violations r = []" by (rule e)
  show "lp_lockType ?p \<noteq> ''read''" using e(2) assms(2) by auto
  show "lp_lockType ?p = ''write'' \<Longrightarrow> isWithinAnyPath h f (lp_allowedEdits ?p) (lp_cwd ?p) = Some True"
    using o unsafe_files_iff [OF _ assms(2)] by simp
  show "isWithinAnyPath h f (lp_forbiddenEdits ?p) (lp_cwd ?p) = Some False" "isWithinAnyPath h f (lp_sharedFiles ?p) (lp_cwd ?p) = Some False"
    using within_files_iff [OF fb assms(2)] within_files_iff [OF sh assms(2)] by simp_all
  show "findSerialOnlyMatches h [f] (lp_serialOnly ?p) (lp_cwd ?p) = Some []" by (rule serial_each [OF se assms(2)])
  have "normalizeLockPathList [] = []" by (simp add: normalizeLockPathList_def uniqueList_def normalizeList_def)
  then show "has_lock_form f \<Longrightarrow> scope_allows h ?p f" using scope_allowsI [OF sc(1) assms(2)] sc(2-4) by simp
qed

text \<open>A run that ended well.\<close>

definition ended_well :: "run_result \<Rightarrow> bool" where
  "ended_well s \<longleftrightarrow> \<not> rs_timedOut s \<and> rs_exitCode s = Some 0 \<and> \<not> rs_fallback s \<and> \<not> rs_apiError s"

text \<open>C8: When the planner accepted the batch and the check of the results of its jobs reports no
  violation, every file a job changed is inside the allowed edits of its accepted plan and outside its
  forbidden, shared and serial-only entries and, if its name has a lock form, is allowed by its scope;
  the job ended well, and no other job changed the same file.\<close>

theorem verified_group_is_contained:
  assumes "validateParallelWritePlan cf jobs = Some (None, ps)" "verifyParallelLockResults (host_of cf) rs = Some []"
    and "m < length rs" "f \<in> set (changed_of (rs ! m))" "i < length jobs" "jr_plan (rs ! m) = ps ! i"
  shows "write_plan_ok cf (ps ! i)
    \<and> isWithinAnyPath (host_of cf) f (lp_allowedEdits (ps ! i)) (lp_cwd (ps ! i)) = Some True
    \<and> isWithinAnyPath (host_of cf) f (lp_forbiddenEdits (ps ! i)) (lp_cwd (ps ! i)) = Some False
    \<and> isWithinAnyPath (host_of cf) f (lp_sharedFiles (ps ! i)) (lp_cwd (ps ! i)) = Some False
    \<and> findSerialOnlyMatches (host_of cf) [f] (lp_serialOnly (ps ! i)) (lp_cwd (ps ! i)) = Some []
    \<and> (has_lock_form f \<longrightarrow> scope_allows (host_of cf) (ps ! i) f)
    \<and> (\<exists>s. jr_result (rs ! m) = Some s \<and> ended_well s)
    \<and> (\<forall>n < length rs. n \<noteq> m \<longrightarrow> (\<forall>g \<in> set (changed_of (rs ! n)).
         parallelChangedFileKey (host_of cf) (ps ! i) f \<noteq> parallelChangedFileKey (host_of cf) (jr_plan (rs ! n)) g))"
proof -
  have "job_violations (host_of cf) (rs ! m) = Some []" using verified_jobs [OF assms(2)] assms(3) by simp
  note c = job_clean [OF this assms(4), unfolded assms(6)]
  have w: "write_plan_ok cf (ps ! i)"
    by (rule parallel_write_ok [OF accepted_plan_checks [OF assms(1,5)] c(2)])
  have "lp_lockType (ps ! i) = ''write''" using w unfolding write_plan_ok_def by blast
  moreover obtain s where s: "jr_result (rs ! m) = Some s" using assms(4) unfolding changed_of_def by (cases "jr_result (rs ! m)") auto
  moreover have "ended_well s" using c(1,2) s assms(6) unfolding end_violations_def ended_well_def by (auto simp: Let_def split: if_split_asm)
  moreover have "parallelChangedFileKey (host_of cf) (ps ! i) f \<noteq> parallelChangedFileKey (host_of cf) (jr_plan (rs ! n)) g"
    if "n < length rs" "n \<noteq> m" "g \<in> set (changed_of (rs ! n))" for n g
    using verified_keys [OF assms(2), of m n f g] verified_keys [OF assms(2), of n m g f] that assms(3,4,6) by (metis linorder_neqE_nat)
  ultimately show ?thesis using w c by blast
qed

definition sample_ended :: "string \<Rightarrow> run_result" where
  "sample_ended f = \<lparr>rs_changedFiles = [f], rs_timedOut = False, rs_readOnlyUnavailable = False, rs_exitCode = Some 0,
     rs_fallback = False, rs_apiError = False, rs_errorType = [], rs_headMove = None, rs_heads = None, rs_intervals = [(1, 5)],
     rs_groupRejected = False\<rparr>"

lemma sample_clean:
  assumes "plan_view p = ([], ''write'', [''a''], default_forbidden, default_shared, [])" "contract_view p = Some (''write'', [''a''], [])"
  shows "job_violations sample_host \<lparr>jr_index = 0, jr_plan = p, jr_result = Some (sample_ended ''a'')\<rparr> = Some []"
proof -
  from assms(1) have p: "lp_cwd p = []" "lp_lockType p = ''write''" "lp_allowedEdits p = [''a'']" "lp_forbiddenEdits p = default_forbidden"
    "lp_sharedFiles p = default_shared" "lp_serialOnly p = []" by (simp_all add: plan_view_def)
  from assms(2) obtain c where c: "lp_scopeContract p = Some c" "ct_mode c = ''write''" "ct_write c = [''a'']" "ct_forbidden c = []"
    unfolding contract_view_def by auto
  have "scopeChangedFileViolations sample_host [''a''] p
      = Some \<lparr>sv_outsideWriteScope = [], sv_forbiddenFiles = [], sv_readOnlyChangedFiles = []\<rparr>"
    using c by (simp add: scopeChangedFileViolations_def p sample_checks)
  then show ?thesis by (simp add: job_violations_def p sample_checks changed_of_def end_violations_def sample_ended_def when_files_def)
qed

theorem verified_group_is_contained_witness:
  "\<exists>p. verifyParallelLockResults sample_host [\<lparr>jr_index = 0, jr_plan = p, jr_result = Some (sample_ended ''a'')\<rparr>] = Some []
     \<and> isWithinAnyPath sample_host ''a'' (lp_allowedEdits p) (lp_cwd p) = Some True"
proof -
  obtain p q where ps: "validateParallelWritePlan sample_config [batch_writer ''a'', batch_writer ''b''] = Some (None, [p, q])"
    "plan_view p = ([], ''write'', [''a''], default_forbidden, default_shared, [])" "contract_view p = Some (''write'', [''a''], [])"
    by (rule sample_views)
  let ?rs = "[\<lparr>jr_index = 0, jr_plan = p, jr_result = Some (sample_ended ''a'')\<rparr>]"
  have one: "opt_map (job_violations sample_host) ?rs = Some [[]]" by (simp add: sample_clean [OF ps(2,3)])
  have v: "verifyParallelLockResults sample_host ?rs = Some []"
    unfolding verifyParallelLockResults_def one by (simp add: all_changes_def changed_of_def sample_ended_def changed_by_file_def)
  have h: "host_of sample_config = sample_host" by (simp add: sample_config_def)
  from verified_group_is_contained [OF ps(1) v [folded h], of 0 "''a''" 0] v
  show ?thesis unfolding h by (auto simp: changed_of_def sample_ended_def)
qed

section \<open>The deadline of a group\<close>

lemma fold_max: "(x :: int) \<in> set xs \<or> x = m \<Longrightarrow> x \<le> fold max xs m"
proof (induction xs arbitrary: m x)
  case (Cons a xs)
  have "max a m \<le> fold max xs (max a m)" by (rule Cons.IH) simp
  then show ?case using Cons by auto
qed simp

lemma opt_map_nth: "opt_map f xs = Some ys \<Longrightarrow> i < length xs \<Longrightarrow> f (xs ! i) = Some (ys ! i)"
proof (induction xs arbitrary: ys i)
  case (Cons x xs)
  then show ?case by (cases i) (auto simp: bind_eq_Some_conv)
qed simp

lemma wait_budget_bounds:
  "providerWaitBudget m v = Some w \<Longrightarrow> 1 \<le> wb_effective w \<and> wb_effective w \<le> max 1 m"
  by (auto simp: providerWaitBudget_def safe_positive_def Let_def split: option.split_asm if_split_asm json.split_asm)

text \<open>C39: The deadline of a parallel group is at least, for each of its jobs, the budget of its run and
  of its validation, its wait for a provider slot (between 1 ms and the configured maximum), and the
  margin.\<close>

theorem group_deadline_covers_jobs:
  assumes "parallelGroupDeadlineMs cf ts ps waits = Some d" "i < length ps" "length waits = length ps"
  shows "\<exists>b. providerWaitBudget (rt_providerWaitMax ts) (waits ! i) = Some b
    \<and> 1 \<le> wb_effective b \<and> wb_effective b \<le> max 1 (rt_providerWaitMax ts)
    \<and> agent_budget cf ts (ps ! i) + validation_budget ts (ps ! i) + wb_effective b + 60000 \<le> d
    \<and> int (timeoutForAgent cf (rt_agents ts) (lp_agent (ps ! i)) (ps ! i) (lp_timeoutMs (ps ! i))) \<le> agent_budget cf ts (ps ! i)"
proof -
  let ?z = "zip ps (waits @ replicate (length ps) None)"
  obtain bs where bs: "opt_map (job_budget cf ts) ?z = Some bs" "d = fold max bs 0 + PARALLEL_GROUP_DEADLINE_MARGIN_MS"
    using assms(1) unfolding parallelGroupDeadlineMs_def by auto
  have z: "?z ! i = (ps ! i, waits ! i)" "i < length ?z" using assms(2,3) by (simp_all add: nth_append)
  have b: "job_budget cf ts (ps ! i, waits ! i) = Some (bs ! i)" using opt_map_nth [OF bs(1) z(2)] z(1) by simp
  obtain w where w: "providerWaitBudget (rt_providerWaitMax ts) (waits ! i) = Some w"
    using b by (cases "providerWaitBudget (rt_providerWaitMax ts) (waits ! i)") (auto simp: job_budget_def)
  with b have sum: "bs ! i = agent_budget cf ts (ps ! i) + validation_budget ts (ps ! i) + wb_effective w" by (simp add: job_budget_def)
  have "bs ! i \<in> set bs" using opt_map_length [OF bs(1)] z(2) by simp
  then have "bs ! i \<le> fold max bs 0" by (intro fold_max) simp
  moreover have "1 \<le> wb_effective w \<and> wb_effective w \<le> max 1 (rt_providerWaitMax ts)"
    by (rule wait_budget_bounds [OF w])
  ultimately show ?thesis using w sum bs(2) by (auto simp: PARALLEL_GROUP_DEADLINE_MARGIN_MS_def agent_budget_def Let_def)
qed

definition sample_timeouts :: run_timeouts where
  "sample_timeouts = \<lparr>rt_agents = \<lparr>at_readOnly = 300, at_write = 600, at_builder = 900, at_orchestrator = 700,
       at_contractor = 800, at_validationCommand = 50\<rparr>, rt_readOnlyRetryMaxElapsed = 400, rt_providerWaitMax = 100\<rparr>"

definition quick_plan :: lock_plan where "quick_plan = changes_plan\<lparr>lp_timeoutMs := Some 700\<rparr>"

lemma quick_timeout: "timeoutForAgent cf ats agt quick_plan (Some 700) = 700"
  by (simp add: timeoutForAgent_def unboundedTimeoutForAgent_def MAX_AGENT_TIMEOUT_MS_def)

theorem group_deadline_covers_jobs_witness:
  "parallelGroupDeadlineMs sample_config sample_timeouts [quick_plan] [Some (JInt 7)] = Some 60707
    \<and> agent_budget sample_config sample_timeouts quick_plan + 1 + 60000 \<le> 60707"
proof -
  have p: "lp_timeoutMs quick_plan = Some 700" "lp_lockType quick_plan = ''write''" "lp_validationCommand quick_plan = []"
    by (simp_all add: quick_plan_def changes_plan_def sample_plan_def)
  have v: "validation_budget sample_timeouts quick_plan = 0" by (simp add: validation_budget_def p js_trim_def)
  have w: "providerWaitBudget (rt_providerWaitMax sample_timeouts) (Some (JInt 7))
      = Some \<lparr>wb_requested = Some 7, wb_effective = 7, wb_clamped = False\<rparr>"
    by (simp add: providerWaitBudget_def sample_timeouts_def safe_positive_def MAX_SAFE_INTEGER_def Let_def)
  have d: "parallelGroupDeadlineMs sample_config sample_timeouts [quick_plan] [Some (JInt 7)] = Some 60707"
    by (simp add: parallelGroupDeadlineMs_def job_budget_def agent_budget_def v p w quick_timeout
      PARALLEL_GROUP_DEADLINE_MARGIN_MS_def Let_def)
  have "0 < length [quick_plan]" "length [Some (JInt 7)] = length [quick_plan]" by simp_all
  from group_deadline_covers_jobs [OF d this] obtain b :: wait_budget where "1 \<le> wb_effective b"
    "agent_budget sample_config sample_timeouts quick_plan + validation_budget sample_timeouts quick_plan + wb_effective b + 60000 \<le> 60707"
    unfolding nth_Cons_0 by blast
  then show ?thesis using d v by simp
qed

section \<open>The check of a workspace\<close>

lemma note_heads_nth:
  "i < length rs \<Longrightarrow> i \<in> set (gw_idx w) \<Longrightarrow> jr_result (rs ! i) = Some s \<Longrightarrow> head_changed w \<Longrightarrow>
   \<exists>b. jr_result (note_heads w ps rs ! i) = Some (note_head w b (ps ! i) s)"
  unfolding note_heads_def Let_def by auto

lemma note_heads_same: "\<not> head_changed w \<Longrightarrow> note_heads w ps rs = rs"
  by (simp add: note_heads_def Let_def)

lemma length_note_heads [simp]: "length (note_heads w ps rs) = length rs"
  by (simp add: note_heads_def Let_def)

lemma update_jobs_of_nth:
  "i < length rs \<Longrightarrow> i \<in> set idx \<Longrightarrow> jr_result (rs ! i) = Some s \<Longrightarrow> jr_result (update_jobs_of idx f rs ! i) = Some (f i s)"
  by (simp add: update_jobs_of_def)

lemma note_head_marks: "rs_errorType (note_head w b p s) \<noteq> [] \<or> rs_headMove (note_head w b p s) \<noteq> None"
  by (auto simp: note_head_def Let_def or_string_def split: option.split)

lemma noted_head:
  assumes "i < length rs" "i \<in> set (gw_idx w)" "jr_result (rs ! i) = Some s"
  obtains s1 where "jr_result (note_heads w ps rs ! i) = Some s1" "head_changed w \<longrightarrow> rs_errorType s1 \<noteq> [] \<or> rs_headMove s1 \<noteq> None"
proof (cases "head_changed w")
  case True
  then show ?thesis using note_heads_nth [OF assms] note_head_marks that by metis
next
  case False
  then show ?thesis using that assms(3) unfolding note_heads_same [OF False] by simp
qed

lemma reject_job_marks: "e \<noteq> [] \<Longrightarrow> rs_groupRejected (reject_job e s) \<and> rs_errorType (reject_job e s) \<noteq> []"
  by (simp add: reject_job_def or_string_def)

text \<open>C37: When the snapshot of a shared workspace cannot be checked, shows a disallowed file or a moved
  HEAD, every job of the workspace that has a result and had no violation of its own is rejected with
  an error type, or at least carries the moved HEAD.\<close>

theorem workspace_check_fails_closed:
  assumes "verify_workspace h w ps initial rs = (g, rs')" "gr_checkFailed g \<or> gr_disallowedFiles g \<noteq> [] \<or> gr_headChanged g"
    and "i \<in> set (gw_idx w)" "i < length rs" "jr_result (rs ! i) = Some s" "initial ! i = []"
  shows "\<exists>s'. jr_result (rs' ! i) = Some s' \<and> (rs_groupRejected s' \<and> rs_errorType s' \<noteq> []
    \<or> \<not> gr_checkFailed g \<and> gr_disallowedFiles g = [] \<and> rs_headMove s' \<noteq> None)"
proof (cases "parallelGroupScopeReport h w ps rs")
  case None
  then have r: "rs' = update_jobs_of (gw_idx w) (\<lambda>i s. if initial ! i = [] then reject_job ''parallel_group_snapshot_failed'' s
      else s\<lparr>rs_errorType := or_string (rs_errorType s) ''parallel_group_snapshot_failed''\<rparr>) (note_heads w ps rs)"
    using assms(1) by (simp add: verify_workspace_def)
  obtain s1 where s1: "jr_result (note_heads w ps rs ! i) = Some s1" by (rule noted_head [OF assms(4,3,5)])
  have "i < length (note_heads w ps rs)" using assms(4) by simp
  from update_jobs_of_nth [OF this assms(3) s1] show ?thesis unfolding r
    using assms(6) reject_job_marks [of "''parallel_group_snapshot_failed''" s1] by simp
next
  case (Some v)
  then obtain g' rs1 where v: "v = (g', rs1)" by (cases v)
  from Some v have rs1: "rs1 = note_heads w ps rs" "gr_headChanged g' = head_changed w" "\<not> gr_checkFailed g'"
    unfolding parallelGroupScopeReport_def Let_def by (auto simp: bind_eq_Some_conv)
  let ?f = "\<lambda>i s. if rejects_job g' (initial ! i) s then reject_job ''parallel_group_scope_violation'' s else s"
  have g: "g = g'" using assms(1) Some v by (simp add: verify_workspace_def)
  then have r: "rs' = update_jobs_of (gw_idx w) ?f rs1"
    using assms(1,2) Some v rs1(3) by (auto simp: verify_workspace_def)
  obtain s1 where s1: "jr_result (rs1 ! i) = Some s1" "head_changed w \<longrightarrow> rs_errorType s1 \<noteq> [] \<or> rs_headMove s1 \<noteq> None"
    unfolding rs1(1) by (rule noted_head [OF assms(4,3,5)])
  have "jr_result (rs' ! i) = Some (?f i s1)"
    unfolding r by (rule update_jobs_of_nth) (use assms(3,4) s1(1) rs1(1) in simp_all)
  then show ?thesis unfolding g
    using s1(2) rs1(2,3) assms(2,6) reject_job_marks [of "''parallel_group_scope_violation''" s1]
    by (auto simp: rejects_job_def g)
qed

definition sample_workspace :: group_workspace where
  "sample_workspace = \<lparr>gw_cwd = [], gw_idx = [0], gw_before = [], gw_after = [(''zz'', ''1'')], gw_expectedHead = ''h'', gw_afterHead = ''h'',
     gw_driftTolerated = False, gw_move = (\<lambda>_. None)\<rparr>"

definition settled :: "job_result list" where
  "settled = [\<lparr>jr_index = 0, jr_plan = changes_plan, jr_result = Some (sample_ended ''out/a'')\<rparr>]"

theorem workspace_check_fails_closed_witness:
  "gr_disallowedFiles (fst (verify_workspace sample_host sample_workspace [changes_plan] [[]] settled)) \<noteq> []
    \<and> (\<exists>s. jr_result (snd (verify_workspace sample_host sample_workspace [changes_plan] [[]] settled) ! 0) = Some s
        \<and> rs_errorType s \<noteq> [])"
proof -
  let ?v = "verify_workspace sample_host sample_workspace [changes_plan] [[]] settled"
  have d: "gr_disallowedFiles (fst ?v) \<noteq> []" by code_simp
  have s: "jr_result (settled ! 0) = Some (sample_ended ''out/a'')" "0 \<in> set (gw_idx sample_workspace)" "0 < length settled"
    by (simp_all add: settled_def sample_workspace_def)
  have e: "[[]] ! 0 = ([] :: string)" by simp
  from workspace_check_fails_closed [OF prod.collapse [symmetric] _ s(2,3,1) e] d show ?thesis by blast
qed

end
