(* ===== verification/QueueScheduler.thy ===== *)
theory QueueScheduler
  imports QueueClaims RetryPolicy
begin

text \<open>
  Model of the scheduler: \<open>lib/queue/scheduler.js\<close>, with the helpers it uses from \<open>server.js\<close> (conflicts of a
  record with running jobs, integrations and locks; memory gate; delay of the next pass) and from
  \<open>lib/queue/start.js\<close> (durable update with a re-taken lease).  The jobs a bridge process holds are a list in
  the order of its map.  A turn of the pass is one record; what runs while the turn awaits is part of its
  environment: a change of the whole state before it and of the database after the planning write.
\<close>

section \<open>Jobs of a process\<close>

text \<open>A record with the fields that live in memory only: they survive a reload from the row.\<close>

record sched_job =
  sj_record :: queue_record
  sj_errorReason :: string
  sj_blockedCount :: int
  sj_blockedRetryAt :: int
  sj_blockedOnJobId :: string
  sj_blockedOnGeneration :: string

record sched_state =
  ss_jobs :: "sched_job list"
  ss_db :: queue_db

record sched_config =
  sc_queue :: queue_config
  sc_parallelLimit :: int
  sc_conflictPolicy :: string

abbreviation sj_id :: "sched_job \<Rightarrow> string" where "sj_id j \<equiv> q_jobId (sj_record j)"
abbreviation sj_status :: "sched_job \<Rightarrow> string" where "sj_status j \<equiv> q_status (sj_record j)"

definition QUEUE_BLOCKED_BACKOFF_MAX_MS :: int where "QUEUE_BLOCKED_BACKOFF_MAX_MS = 60 * 1000"

definition find_sched :: "sched_job list \<Rightarrow> string \<Rightarrow> sched_job option" where
  "find_sched js i = List.find (\<lambda>j. sj_id j = i) js"

text \<open>The object in the map is changed in place; a deletion takes it out.\<close>

definition put_sched :: "string \<Rightarrow> sched_job \<Rightarrow> sched_job list \<Rightarrow> sched_job list" where
  "put_sched i j js = map (\<lambda>k. if sj_id k = i then j else k) js"

definition drop_sched :: "string \<Rightarrow> sched_job list \<Rightarrow> sched_job list" where
  "drop_sched i js = filter (\<lambda>k. sj_id k \<noteq> i) js"

definition runningQueueRecords :: "sched_job list \<Rightarrow> queue_record list" where
  "runningQueueRecords js = filter (\<lambda>r. q_status r \<in> active_statuses) (map sj_record js)"

section \<open>Conflicts of a record\<close>

definition queueLockPathsForRecord :: "host \<Rightarrow> queue_record \<Rightarrow> string list" where
  "queueLockPathsForRecord h r = normalizeLockPathListForCwd h
     (if q_mode r = ''read'' then firstNonEmptyList [q_lockedPaths r, q_readScope r, [REPOSITORY_SCOPE_LOCK_PATH]]
      else firstNonEmptyList [q_allowedEdits r, q_lockedPaths r]) (q_cwd r)"

definition record_root :: "host \<Rightarrow> string \<Rightarrow> string" where
  "record_root h cwd = path_resolve h (or_string cwd (process_cwd h))"

definition recordMatchesProject :: "host \<Rightarrow> queue_record \<Rightarrow> string \<Rightarrow> bool" where
  "recordMatchesProject h r root = (root = [] \<or> (let n = path_resolve h root in
     normalizeFilesystemCase h (record_root h (q_cwd r)) n = normalizeFilesystemCase h n n))"

text \<open>The stored JSON of every row in an active status.\<close>

definition persistedRunningQueueRecords :: "queue_process \<Rightarrow> queue_db \<Rightarrow> queue_record list" where
  "persistedRunningQueueRecords qp db = (if qp_mode qp \<noteq> ''sqlite'' then []
     else List.map_filter qr_record (filter (\<lambda>x. qr_status x \<in> active_statuses) (qd_jobs db)))"

fun add_missing :: "queue_record list \<Rightarrow> queue_record list \<Rightarrow> queue_record list" where
  "add_missing known [] = known"
| "add_missing known (r # rs) = add_missing (if \<exists>k \<in> set known. q_jobId k = q_jobId r then known else known @ [r]) rs"

record queue_conflict =
  qx_jobId :: string
  qx_paths :: "string list"
  qx_source :: string
  qx_errorType :: string
  qx_reason :: string

definition lock_kind :: "queue_record \<Rightarrow> string" where
  "lock_kind r = (if q_mode r = ''read'' then ''read'' else ''write'')"

definition record_claim :: "host \<Rightarrow> queue_record \<Rightarrow> lock_claim" where
  "record_claim h r = \<lparr>cl_lockType = lock_kind r, cl_paths = queueLockPathsForRecord h r, cl_origin = [], cl_editsCheckout = None\<rparr>"

definition overlap_paths :: "string option \<times> string option \<Rightarrow> string list" where
  "overlap_paths xy = filter (\<lambda>p. p \<noteq> []) (List.map_filter id [fst xy, snd xy])"

definition running_conflict :: "config \<Rightarrow> queue_record \<Rightarrow> queue_record \<Rightarrow> (string option \<times> string option) option" where
  "running_conflict cf r running = (let h = host_of cf in
     if q_jobId running = q_jobId r \<or> (q_mode r = ''read'' \<and> q_mode running = ''read'')
        \<or> \<not> recordMatchesProject h running (record_root h (q_cwd r)) then None
     else conflictsWithActiveLock h (worktreeMode cf) (record_claim h r) (record_claim h running))"

definition queue_blocker :: "queue_record \<Rightarrow> string option \<times> string option \<Rightarrow> queue_conflict" where
  "queue_blocker running hit = \<lparr>qx_jobId = q_jobId running, qx_paths = overlap_paths hit, qx_source = ''queue'',
     qx_errorType = ''write_lock_conflict'',
     qx_reason = ''Waiting for queued write job '' @ q_jobId running @ '' to release: '' @ join_with '', '' (overlap_paths hit)\<rparr>"

text \<open>A running job of another process only counts while a lock overlaps as well; listing locks expires rows.\<close>

fun running_block ::
  "config \<Rightarrow> int \<Rightarrow> string list \<Rightarrow> queue_record \<Rightarrow> queue_record list \<Rightarrow> lock_db \<Rightarrow> queue_conflict option \<times> lock_db" where
  "running_block cf now known r [] ldb = (None, ldb)"
| "running_block cf now known r (running # rest) ldb =
    (case running_conflict cf r running of None \<Rightarrow> running_block cf now known r rest ldb
     | Some hit \<Rightarrow> if q_jobId running \<in> set known then (Some (queue_blocker running hit), ldb)
         else (case listLocksFromDb ldb now of (active, ldb') \<Rightarrow>
           if list_ex (\<lambda>a. conflictsWithActiveLock (host_of cf) (worktreeMode cf) (record_claim (host_of cf) r) a \<noteq> None) active
           then (Some (queue_blocker running hit), ldb') else running_block cf now known r rest ldb'))"

definition open_operation :: "host \<Rightarrow> string \<Rightarrow> lock_db \<Rightarrow> integration_row option" where
  "open_operation h root ldb = List.find (\<lambda>o'. normalizeFilesystemCase h (record_root h (io_cwd o')) [] = normalizeFilesystemCase h root [])
     (sort_key (\<lambda>o'. (io_updated_at o', io_operation_id o'))
        (filter (\<lambda>o'. io_status o' \<notin> INTEGRATION_RESOLVED_STATUSES) (integration_operations ldb)))"

definition operation_block :: "integration_row \<Rightarrow> queue_conflict" where
  "operation_block op = \<lparr>qx_jobId = [], qx_paths = [REPOSITORY_SCOPE_LOCK_PATH], qx_source = ''integration'',
     qx_errorType = ''integration_recovery_pending'',
     qx_reason = (if io_status op = ''quarantined''
       then ''Waiting for quarantined integration operation '' @ io_operation_id op @ '' of this repository to be recovered; see ''
         @ ''diagnose_opencode_bridge, and resolve_integration_quarantine if it does not clear.''
       else ''Waiting for integration operation '' @ io_operation_id op @ '' ('' @ io_status op @ '') of this repository to finish.'')\<rparr>"

definition lock_block :: "lock_view \<Rightarrow> string option \<times> string option \<Rightarrow> queue_conflict" where
  "lock_block a hit = (let paths = (if overlap_paths hit \<noteq> [] then overlap_paths hit else lockPaths a) in
     \<lparr>qx_jobId = [], qx_paths = paths, qx_source = ''lock'', qx_errorType = ''write_lock_conflict'',
      qx_reason = ''Waiting for the active '' @ or_string (cl_origin a) ''legacy'' @ '' '' @ cl_lockType a @ '' lock '' @ lv_id a
        @ '' ('' @ or_string (lv_agent a) ''unknown'' @ '') to release: '' @ or_string (join_with '', '' paths) ''the repository''\<rparr>)"

definition request_dry :: "queue_record \<Rightarrow> bool" where
  "request_dry r = (case q_request r of None \<Rightarrow> False | Some j \<Rightarrow> dryRun j)"

definition findQueueRecordRepositoryBlock :: "config \<Rightarrow> int \<Rightarrow> queue_record \<Rightarrow> lock_db \<Rightarrow> queue_conflict option \<times> lock_db" where
  "findQueueRecordRepositoryBlock cf now r ldb = (let h = host_of cf; root = record_root h (q_cwd r) in
     if q_dryRun r \<or> request_dry r then (None, ldb)
     else case (if lock_kind r = ''read'' then None else open_operation h root ldb) of
       Some op \<Rightarrow> (Some (operation_block op), ldb)
     | None \<Rightarrow> (case listLocksFromDb ldb now of (active, ldb') \<Rightarrow>
         let hit = (\<lambda>a. conflictsWithActiveLock h (worktreeMode cf) ((record_claim h r)\<lparr>cl_origin := ''internal''\<rparr>) a) in
         (map_option (\<lambda>a. lock_block a (the (hit a))) (List.find (\<lambda>a. hit a \<noteq> None) active), ldb')))"

definition findQueueWriteConflict ::
  "config \<Rightarrow> queue_process \<Rightarrow> int \<Rightarrow> sched_job list \<Rightarrow> queue_record \<Rightarrow> queue_db \<Rightarrow> queue_conflict option \<times> queue_db" where
  "findQueueWriteConflict cf qp now js r db =
    (case running_block cf now (map sj_id js) r (add_missing (runningQueueRecords js) (persistedRunningQueueRecords qp db)) (qd_locks db) of
       (Some c, ldb) \<Rightarrow> (Some c, db\<lparr>qd_locks := ldb\<rparr>)
     | (None, ldb) \<Rightarrow> (case findQueueRecordRepositoryBlock cf now r ldb of (b, ldb') \<Rightarrow> (b, db\<lparr>qd_locks := ldb'\<rparr>)))"

section \<open>Paused models\<close>

definition requirement_of :: "queue_record \<Rightarrow> model_requirement option" where
  "requirement_of r = (case Option.bind (q_request r) (\<lambda>j. Option.bind (scopeContract j) rc_modelRequirement) of
     Some q \<Rightarrow> Some q | None \<Rightarrow> q_modelRequirement r)"

definition listed_models :: "queue_record \<Rightarrow> string list" where
  "listed_models r = (case Option.bind (q_request r) job_models of Some ms \<Rightarrow> ms | None \<Rightarrow> [])"

definition pauseWaitCandidates :: "queue_record \<Rightarrow> (string \<times> string) list" where
  "pauseWaitCandidates r = (let models = List.map_filter parseModelAllowlistEntry (listed_models r) in
     if models \<noteq> [] then map (\<lambda>m. (me_provider m, me_model m)) models
     else case requirement_of r of None \<Rightarrow> []
       | Some q \<Rightarrow> if mr_provider q \<noteq> [] then [(mr_provider q, mr_model q)] else [])"

definition min_list :: "int list \<Rightarrow> int" where
  "min_list xs = (case xs of [] \<Rightarrow> 0 | x # ys \<Rightarrow> fold min ys x)"

text \<open>\<open>pauses\<close> is \<open>None\<close> when the provider database cannot be read.\<close>

definition allCandidatesPausedUntil :: "queue_config \<Rightarrow> (string \<times> int) list option \<Rightarrow> int \<Rightarrow> queue_record \<Rightarrow> int" where
  "allCandidatesPausedUntil qc pauses now r =
    (let agent_name = or_string (case q_request r of Some j \<Rightarrow> agent j | None \<Rightarrow> []) (q_agent r); candidates = pauseWaitCandidates r in
     if (case q_request r of Some j \<Rightarrow> sanitizedWorkspace j | None \<Rightarrow> False) then 0
     else if listed_models r = [] \<and> allowlistedModelOverride (qc_allowlist qc) (requirement_of r) agent_name = None then 0
     else if candidates = [] \<or> request_dry r then 0
     else case pauses of None \<Rightarrow> 0
       | Some ps \<Rightarrow> (let untils = map (\<lambda>(provider, mdl). candidatePausedUntil (qc_provider qc) ps provider mdl) candidates in
           if list_all (\<lambda>u. u > now) untils then min_list untils else 0))"

definition waits_for_pause :: "int \<Rightarrow> sched_job \<Rightarrow> bool" where
  "waits_for_pause now j \<longleftrightarrow> sj_status j \<in> {''pending'', ''planned''} \<and> q_startAfterReason (sj_record j) = ''provider_pause''
     \<and> queueStartAfterPending (sj_record j) now"

definition still_paused :: "queue_config \<Rightarrow> (string \<times> int) list \<Rightarrow> int \<Rightarrow> bool \<Rightarrow> queue_record \<Rightarrow> bool" where
  "still_paused qc ps now force r = (let candidates = pauseWaitCandidates r in
     if candidates = [] then \<not> force
     else list_all (\<lambda>(provider, mdl). candidatePausedUntil (qc_provider qc) ps provider mdl > now) candidates)"

definition released_wait :: "sched_job \<Rightarrow> sched_job" where
  "released_wait j = j\<lparr>sj_record := (sj_record j)\<lparr>q_startAfter := None, q_startAfterReason := []\<rparr>\<rparr>"

text \<open>The number of released waits, the jobs, and the time of the last check.\<close>

definition releaseResumedPauseWaits ::
  "queue_config \<Rightarrow> (string \<times> int) list option \<Rightarrow> int \<Rightarrow> bool \<Rightarrow> int \<Rightarrow> sched_job list \<Rightarrow> nat \<times> sched_job list \<times> int" where
  "releaseResumedPauseWaits qc pauses now force checkedAt js =
    (let waiting = filter (waits_for_pause now) js in
     if waiting = [] \<or> (\<not> force \<and> now - checkedAt < max 250 (qc_blockedPollMs qc)) then (0, js, checkedAt)
     else case pauses of None \<Rightarrow> (0, js, now)
       | Some ps \<Rightarrow> let free = (\<lambda>j. waits_for_pause now j \<and> \<not> still_paused qc ps now force (sj_record j)) in
           (length (filter free js), map (\<lambda>j. if free j then released_wait j else j) js, now))"

section \<open>Waiting and waking\<close>

definition backoff_ms :: "int \<Rightarrow> int \<Rightarrow> int" where
  "backoff_ms poll count = min QUEUE_BLOCKED_BACKOFF_MAX_MS (max 1 poll * 2 ^ nat (min (count - 1) 16))"

definition deferBlockedRecord :: "int \<Rightarrow> int \<Rightarrow> sched_job \<Rightarrow> sched_job" where
  "deferBlockedRecord poll now j = (let count = sj_blockedCount j + 1 in
     j\<lparr>sj_blockedCount := count, sj_blockedRetryAt := now + backoff_ms poll count\<rparr>)"

definition rememberLocalBlocker :: "sched_job list \<Rightarrow> queue_conflict \<Rightarrow> sched_job \<Rightarrow> sched_job" where
  "rememberLocalBlocker js c j = (case (if qx_source c = ''queue'' then find_sched js (qx_jobId c) else None) of
       None \<Rightarrow> j\<lparr>sj_blockedOnJobId := [], sj_blockedOnGeneration := []\<rparr>
     | Some b \<Rightarrow> j\<lparr>sj_blockedOnJobId := sj_id b, sj_blockedOnGeneration := q_ownerGeneration (sj_record b)\<rparr>)"

definition queueMemoryGate :: "int \<Rightarrow> int \<Rightarrow> bool" where
  "queueMemoryGate floorMb freeBytes \<longleftrightarrow> floorMb > 0 \<and> freeBytes div (1024 * 1024) < floorMb"

text \<open>\<open>None\<close> sets no timer.\<close>

definition nextQueueScheduleDelay :: "int \<Rightarrow> sched_job list \<Rightarrow> bool \<Rightarrow> bool \<Rightarrow> int \<Rightarrow> int option" where
  "nextQueueScheduleDelay poll js hasCapacity progressed now =
    (if \<not> hasCapacity then None
     else if list_ex (\<lambda>j. sj_status j \<in> {''pending'', ''planned''}) js then Some (if progressed then 0 else poll)
     else let blocked = filter (\<lambda>j. sj_status j = ''blocked'') js in
       if blocked = [] then None
       else Some (max poll (min_list (map (\<lambda>j. max 0 (sj_blockedRetryAt j - now)) blocked))))"

section \<open>Durable updates of a job\<close>

definition persisted :: "persist_result \<Rightarrow> bool" where
  "persisted res = (case res of Persisted _ _ \<Rightarrow> True | PersistTerminal (TerminalPersisted _ _) \<Rightarrow> True | _ \<Rightarrow> False)"

definition persist_threw :: "persist_result \<Rightarrow> bool" where
  "persist_threw res \<longleftrightarrow> res \<in> {PersistThrown, PersistFull, PersistTerminal TerminalThrown}"

text \<open>
  \<open>patch\<close> is the durable part of the patch and \<open>mem\<close> its part that only memory has.  A throw leaves the
  object as a heartbeat left it.
\<close>

record update_env =
  ue_persist :: persist_env
  ue_heartbeat :: "queue_record \<Rightarrow> queue_record"

definition update_sched ::
  "queue_process \<Rightarrow> update_env \<Rightarrow> (queue_record \<Rightarrow> queue_record) \<Rightarrow> (sched_job \<Rightarrow> sched_job) \<Rightarrow> sched_job \<Rightarrow> queue_db
    \<Rightarrow> persist_result \<times> sched_job \<times> queue_db" where
  "update_sched qp e patch mem j db =
    (case updateQueueRecordDurable qp (ue_persist e) patch (ue_heartbeat e) (sj_record j) db of (res, r, db') \<Rightarrow>
       (res, if persist_threw res then j\<lparr>sj_record := ue_heartbeat e (sj_record j)\<rparr> else (mem j)\<lparr>sj_record := r\<rparr>, db'))"

record reacquire_env =
  rq_first :: update_env
  rq_opens :: bool
  rq_now :: int
  rq_second :: update_env

definition reacquireQueueRecordLease :: "queue_process \<Rightarrow> int \<Rightarrow> queue_record \<Rightarrow> queue_db \<Rightarrow> queue_record option \<times> queue_db" where
  "reacquireQueueRecordLease qp now r db = (if qp_mode qp \<noteq> ''sqlite'' then (None, db)
     else reacquirePersistedQueueRecordLease qp now (now + qp_leaseMs qp) r db)"

definition queueRecordOwnedElsewhere :: "queue_process \<Rightarrow> queue_record \<Rightarrow> string \<Rightarrow> bool" where
  "queueRecordOwnedElsewhere qp r generation \<longleftrightarrow> q_ownerInstanceId r \<noteq> qp_instance qp \<or> q_ownerGeneration r \<noteq> generation"

definition updateQueueRecordDurableReacquiringLease ::
  "queue_process \<Rightarrow> reacquire_env \<Rightarrow> (queue_record \<Rightarrow> queue_record) \<Rightarrow> (sched_job \<Rightarrow> sched_job) \<Rightarrow> sched_job \<Rightarrow> queue_db
    \<Rightarrow> persist_result \<times> sched_job \<times> queue_db" where
  "updateQueueRecordDurableReacquiringLease qp e patch mem j db =
    (let generation = q_ownerGeneration (sj_record j) in
     case update_sched qp (rq_first e) patch mem j db of (res, j1, db1) \<Rightarrow>
       if persist_threw res \<or> persisted res \<or> generation = [] \<or> qp_mode qp \<noteq> ''sqlite'' then (res, j1, db1)
       else if queueRecordOwnedElsewhere qp (sj_record j1) generation \<or> q_cancellationRequested (sj_record j1)
          \<or> sj_status j1 \<in> terminal_statuses then (res, j1, db1)
       else if \<not> rq_opens e then (PersistThrown, j1, db1)
       else case reacquireQueueRecordLease qp (rq_now e) (sj_record j1) db1 of
         (None, db2) \<Rightarrow> (res, j1, db2)
       | (Some r, db2) \<Rightarrow> update_sched qp (rq_second e) patch mem (j1\<lparr>sj_record := r\<rparr>) db2)"

section \<open>One record of a pass\<close>

datatype turn_outcome =
    NotWaiting | RecoveryWait | CancelledNow | MemoryHeld | StartsLater | Draining | BlockerRuns | BacksOff | StillBlocked
  | NotPlanned | PauseHeld | ConflictFailed | ConflictBlocked | NotClaimed | Started | TurnThrew

text \<open>
  What a turn meets.  \<open>te_before\<close> and \<open>te_meanwhile\<close> are what this process and others did to the jobs and the
  database before the turn and during the planning write; \<open>te_late\<close> what others did between the conflict
  look and the claim.  \<open>te_look1\<close> and \<open>te_look2\<close> tell whether the database opens for the two looks.
\<close>

record turn_env =
  te_before :: "sched_state \<Rightarrow> sched_state"
  te_recoveryRoots :: "string list"
  te_now :: int
  te_draining :: bool
  te_mark :: update_env
  te_look1 :: bool
  te_plan :: reacquire_env
  te_meanwhile :: "sched_state \<Rightarrow> sched_state"
  te_look2 :: bool
  te_look2_now :: int
  te_block :: update_env
  te_draining_late :: bool
  te_late :: "queue_db \<Rightarrow> queue_db"
  te_claim_now :: int
  te_fresh :: string
  te_claim_commit :: commit_outcome

abbreviation waiting_statuses :: "string set" where "waiting_statuses \<equiv> {''pending'', ''planned'', ''blocked''}"

definition in_recovery :: "host \<Rightarrow> string list \<Rightarrow> queue_record \<Rightarrow> bool" where
  "in_recovery h roots r \<longleftrightarrow> or_string (q_cwd r) (process_cwd h) \<in> set roots \<and> q_mode r \<noteq> ''read''"

definition blocker_runs :: "sched_job list \<Rightarrow> sched_job \<Rightarrow> bool" where
  "blocker_runs js j \<longleftrightarrow> sj_status j = ''blocked'' \<and> sj_blockedOnJobId j \<noteq> []
     \<and> (case find_sched js (sj_blockedOnJobId j) of None \<Rightarrow> False
        | Some b \<Rightarrow> sj_status b \<in> active_statuses \<and> q_ownerGeneration (sj_record b) = sj_blockedOnGeneration j)"

text \<open>The reasons not to look at a job any further in this pass, in the order they are tested.\<close>

definition early_outcome :: "host \<Rightarrow> bool \<Rightarrow> turn_env \<Rightarrow> sched_job list \<Rightarrow> sched_job \<Rightarrow> turn_outcome option" where
  "early_outcome h holdStarts e js j =
    (if in_recovery h (te_recoveryRoots e) (sj_record j) then Some RecoveryWait
     else if q_cancellationRequested (sj_record j) then Some CancelledNow
     else if holdStarts then Some MemoryHeld
     else if sj_status j \<in> {''pending'', ''planned''} \<and> queueStartAfterPending (sj_record j) (te_now e) then Some StartsLater
     else if te_draining e then Some Draining
     else if blocker_runs js j then Some BlockerRuns else None)"

definition recovery_reason :: string where
  "recovery_reason = ''Waiting for the repository's integration journal to recover (a quarantined integration blocks writers); see diagnose_opencode_bridge.''"

definition mark_turn :: "queue_process \<Rightarrow> turn_env \<Rightarrow> turn_outcome \<Rightarrow> sched_job \<Rightarrow> queue_db \<Rightarrow> persist_result option \<times> sched_job \<times> queue_db" where
  "mark_turn qp e out j db =
    (if out = RecoveryWait \<and> q_errorType (sj_record j) \<noteq> ''integration_recovery_pending'' then
       (case update_sched qp (te_mark e) (\<lambda>r. r\<lparr>q_status := ''blocked'', q_errorType := ''integration_recovery_pending''\<rparr>)
          (\<lambda>k. k\<lparr>sj_errorReason := recovery_reason\<rparr>) j db of (res, j', db') \<Rightarrow> (Some res, j', db'))
     else if out = CancelledNow then
       (case update_sched qp (te_mark e) (\<lambda>r. r\<lparr>q_status := ''cancelled'', q_finishedAt := Some (te_now e)\<rparr>) id j db of
          (res, j', db') \<Rightarrow> (Some res, j', db'))
     else (None, j, db))"

definition forget_blocker :: "sched_job \<Rightarrow> sched_job" where
  "forget_blocker j = (if sj_status j = ''blocked'' \<and> sj_blockedOnJobId j \<noteq> []
     then j\<lparr>sj_blockedOnJobId := [], sj_blockedOnGeneration := [], sj_blockedRetryAt := 0\<rparr> else j)"

text \<open>A stage ends the turn or goes on with the job as it now is.\<close>

datatype stage = Stop turn_outcome sched_state | Go sched_job sched_state

definition with_job :: "string \<Rightarrow> sched_job \<Rightarrow> queue_db \<Rightarrow> sched_state \<Rightarrow> sched_state" where
  "with_job i j db s = s\<lparr>ss_jobs := put_sched i j (ss_jobs s), ss_db := db\<rparr>"

definition early_stage :: "sched_config \<Rightarrow> queue_process \<Rightarrow> bool \<Rightarrow> turn_env \<Rightarrow> string \<Rightarrow> sched_state \<Rightarrow> stage" where
  "early_stage sc qp holdStarts e i s =
    (case find_sched (ss_jobs s) i of None \<Rightarrow> Stop NotWaiting s
     | Some j \<Rightarrow> if sj_status j \<notin> waiting_statuses then Stop NotWaiting s
       else case early_outcome (host_of (qc_config (sc_queue sc))) holdStarts e (ss_jobs s) j of
         Some out \<Rightarrow> (case mark_turn qp e out j (ss_db s) of (res, j', db') \<Rightarrow>
            Stop (case res of Some x \<Rightarrow> if persist_threw x then TurnThrew else out | None \<Rightarrow> out) (with_job i j' db' s))
       | None \<Rightarrow> (let j' = forget_blocker j; s' = with_job i j' (ss_db s) s in
            if sj_status j' = ''blocked'' \<and> sj_blockedRetryAt j' > te_now e then Stop BacksOff s' else Go j' s'))"

text \<open>A job that is blocked for the same reason as before is not planned again.\<close>

definition standing_stage :: "sched_config \<Rightarrow> queue_process \<Rightarrow> turn_env \<Rightarrow> string \<Rightarrow> sched_job \<Rightarrow> sched_state \<Rightarrow> stage" where
  "standing_stage sc qp e i j s =
    (if sj_status j \<noteq> ''blocked'' then Go j s
     else if \<not> te_look1 e then Stop TurnThrew s
     else case findQueueWriteConflict (qc_config (sc_queue sc)) qp (te_now e) (ss_jobs s) (sj_record j) (ss_db s) of
       (Some c, db) \<Rightarrow> if qx_errorType c = q_errorType (sj_record j) \<and> qx_reason c = sj_errorReason j
          then Stop StillBlocked (with_job i (rememberLocalBlocker (ss_jobs s) c
                 (deferBlockedRecord (qc_blockedPollMs (sc_queue sc)) (te_now e) j)) db s)
          else Go j (s\<lparr>ss_db := db\<rparr>)
     | (None, db) \<Rightarrow> Go j (s\<lparr>ss_db := db\<rparr>))"

definition pause_of :: "sched_config \<Rightarrow> (string \<times> int) list option \<Rightarrow> turn_env \<Rightarrow> sched_job \<Rightarrow> int" where
  "pause_of sc pauses e j = (if sj_status j \<in> {''pending'', ''planned''}
     then allCandidatesPausedUntil (sc_queue sc) pauses (te_now e) (sj_record j) else 0)"

definition plan_patch :: "int \<Rightarrow> queue_record \<Rightarrow> queue_record" where
  "plan_patch until r = (if until \<noteq> 0 then r\<lparr>q_startAfter := Some until, q_startAfterReason := ''provider_pause''\<rparr>
     else r\<lparr>q_status := ''planned''\<rparr>)"

definition plan_stage :: "sched_config \<Rightarrow> queue_process \<Rightarrow> (string \<times> int) list option \<Rightarrow> turn_env \<Rightarrow> string \<Rightarrow> sched_job \<Rightarrow> sched_state \<Rightarrow> stage" where
  "plan_stage sc qp pauses e i j s =
    (let until = pause_of sc pauses e j; generation = q_ownerGeneration (sj_record j) in
     case updateQueueRecordDurableReacquiringLease qp (te_plan e) (plan_patch until) id j (ss_db s) of (res, j', db') \<Rightarrow>
       let s' = with_job i j' db' s in
       if persist_threw res then Stop TurnThrew s'
       else if \<not> persisted res then Stop NotPlanned
         (if queueRecordOwnedElsewhere qp (sj_record j') generation then s'\<lparr>ss_jobs := drop_sched i (ss_jobs s')\<rparr> else s')
       else if until \<noteq> 0 then Stop PauseHeld s'
       else if sj_status j' \<noteq> ''planned'' then Stop NotPlanned s'
       else let s'' = te_meanwhile e s' in Go (case find_sched (ss_jobs s'') i of Some k \<Rightarrow> k | None \<Rightarrow> j') s'')"

definition conflict_patch :: "bool \<Rightarrow> int \<Rightarrow> queue_conflict \<Rightarrow> queue_record \<Rightarrow> queue_record" where
  "conflict_patch reject now c r = (if reject then r\<lparr>q_status := ''failed'', q_finishedAt := Some now, q_errorType := ''write_lock_conflict''\<rparr>
     else r\<lparr>q_status := ''blocked'', q_errorType := or_string (qx_errorType c) ''write_lock_conflict''\<rparr>)"

definition conflict_reason :: "bool \<Rightarrow> queue_conflict \<Rightarrow> string" where
  "conflict_reason reject c = (if reject then ''Write lock conflict on: '' @ (case qx_paths c of p # _ \<Rightarrow> or_string p ''unknown'' | [] \<Rightarrow> ''unknown'')
     else or_string (qx_reason c) (''Waiting for queued write job '' @ qx_jobId c @ '' to release: '' @ join_with '', '' (qx_paths c)))"

definition start_stage :: "sched_config \<Rightarrow> queue_process \<Rightarrow> turn_env \<Rightarrow> string \<Rightarrow> sched_job \<Rightarrow> sched_state \<Rightarrow> turn_outcome \<times> sched_state" where
  "start_stage sc qp e i j s =
    (if \<not> te_look2 e then (TurnThrew, s)
     else case findQueueWriteConflict (qc_config (sc_queue sc)) qp (te_look2_now e) (ss_jobs s) (sj_record j) (ss_db s) of
       (Some c, db) \<Rightarrow> (let reject = (sc_conflictPolicy sc = ''reject'' \<and> qx_errorType c \<noteq> ''integration_recovery_pending'') in
          case update_sched qp (te_block e) (conflict_patch reject (te_look2_now e) c) (\<lambda>k. k\<lparr>sj_errorReason := conflict_reason reject c\<rparr>) j db of
            (res, j', db') \<Rightarrow> if persist_threw res then (TurnThrew, with_job i j' db' s)
              else if reject then (ConflictFailed, with_job i j' db' s)
              else (ConflictBlocked, with_job i (rememberLocalBlocker (ss_jobs s) c
                 (deferBlockedRecord (qc_blockedPollMs (sc_queue sc)) (te_look2_now e) j')) db' s))
     | (None, db) \<Rightarrow> if te_draining_late e then (Draining, s\<lparr>ss_db := db\<rparr>)
         else (case claimQueueRecord qp (te_claim_now e) (te_fresh e) (te_claim_commit e) (sj_record j) (te_late e db) of
           (res, r, db') \<Rightarrow> (case res of ClaimOk \<Rightarrow> Started | ClaimRefused _ \<Rightarrow> NotClaimed | ClaimThrown \<Rightarrow> TurnThrew,
              with_job i (j\<lparr>sj_record := r\<rparr>) db' s)))"

definition prepare_turn ::
  "sched_config \<Rightarrow> queue_process \<Rightarrow> bool \<Rightarrow> (string \<times> int) list option \<Rightarrow> turn_env \<Rightarrow> string \<Rightarrow> sched_state \<Rightarrow> stage" where
  "prepare_turn sc qp holdStarts pauses e i s =
    (case early_stage sc qp holdStarts e i s of Stop out s' \<Rightarrow> Stop out s'
     | Go j s1 \<Rightarrow> (case standing_stage sc qp e i j s1 of Stop out s' \<Rightarrow> Stop out s'
        | Go j' s2 \<Rightarrow> plan_stage sc qp pauses e i j' s2))"

definition schedule_turn ::
  "sched_config \<Rightarrow> queue_process \<Rightarrow> bool \<Rightarrow> (string \<times> int) list option \<Rightarrow> turn_env \<Rightarrow> string \<Rightarrow> sched_state \<Rightarrow> turn_outcome \<times> sched_state" where
  "schedule_turn sc qp holdStarts pauses e i s =
    (case prepare_turn sc qp holdStarts pauses e i (te_before e s) of Stop out s' \<Rightarrow> (out, s') | Go j s' \<Rightarrow> start_stage sc qp e i j s')"

section \<open>A pass\<close>

text \<open>A record of the map that changed its status or left the map is progress.\<close>

definition turn_progressed :: "string \<Rightarrow> sched_state \<Rightarrow> turn_outcome \<Rightarrow> sched_state \<Rightarrow> bool" where
  "turn_progressed i s out s' \<longleftrightarrow> out \<noteq> NotWaiting \<and> (case (find_sched (ss_jobs s) i, find_sched (ss_jobs s') i) of
     (Some j, Some k) \<Rightarrow> sj_status k \<noteq> sj_status j | _ \<Rightarrow> True)"

fun pass_turns ::
  "sched_config \<Rightarrow> queue_process \<Rightarrow> bool \<Rightarrow> (string \<times> int) list option \<Rightarrow> nat \<Rightarrow> (turn_env \<times> string) list \<Rightarrow> sched_state
    \<Rightarrow> (string \<times> turn_outcome) list \<times> bool \<times> sched_state" where
  "pass_turns sc qp holdStarts pauses capacity [] s = ([], False, s)"
| "pass_turns sc qp holdStarts pauses capacity ((e, i) # ts) s =
    (if capacity = 0 then ([], False, s)
     else case schedule_turn sc qp holdStarts pauses e i s of (out, s') \<Rightarrow>
       let progressed = turn_progressed i (te_before e s) out s' in
       if out = TurnThrew then ([(i, out)], progressed, s')
       else case pass_turns sc qp holdStarts pauses (if out = Started then capacity - 1 else capacity) ts s' of
         (outs, later, s'') \<Rightarrow> ((i, out) # outs, progressed \<or> later, s''))"

text \<open>\<open>pa_requested\<close> tells whether a wake was asked for during the pass; \<open>pa_after\<close> is what happened up to its end.\<close>

record pass_env =
  pa_now :: int
  pa_checkedAt :: int
  pa_pauses :: "(string \<times> int) list option"
  pa_floorMb :: int
  pa_freeBytes :: int
  pa_turns :: "(turn_env \<times> string) list"
  pa_requested :: bool
  pa_endRoots :: "string list"
  pa_end :: int

record pass_result =
  pr_outcomes :: "(string \<times> turn_outcome) list"
  pr_progressed :: bool
  pr_delay :: "int option"
  pr_checkedAt :: int

definition pass_end :: "sched_config \<Rightarrow> pass_env \<Rightarrow> bool \<Rightarrow> sched_job list \<Rightarrow> int option" where
  "pass_end sc p progressed js = nextQueueScheduleDelay (qc_blockedPollMs (sc_queue sc))
     (filter (\<lambda>j. \<not> in_recovery (host_of (qc_config (sc_queue sc))) (pa_endRoots p) (sj_record j)) js)
     (int (length (runningQueueRecords js)) < sc_parallelLimit sc) (progressed \<or> pa_requested p) (pa_end p)"

definition schedule_pass :: "sched_config \<Rightarrow> queue_process \<Rightarrow> pass_env \<Rightarrow> sched_state \<Rightarrow> pass_result \<times> sched_state" where
  "schedule_pass sc qp p s =
    (let capacity = nat (sc_parallelLimit sc - int (length (runningQueueRecords (ss_jobs s)))) in
     if capacity = 0 then (\<lparr>pr_outcomes = [], pr_progressed = False, pr_delay = pass_end sc p False (ss_jobs s), pr_checkedAt = pa_checkedAt p\<rparr>, s)
     else case releaseResumedPauseWaits (sc_queue sc) (pa_pauses p) (pa_now p) False (pa_checkedAt p) (ss_jobs s) of (released, js, checkedAt) \<Rightarrow>
       let holdStarts = (queueMemoryGate (pa_floorMb p) (pa_freeBytes p) \<and> list_ex (\<lambda>j. sj_status j \<in> waiting_statuses) js) in
       case pass_turns sc qp holdStarts (pa_pauses p) capacity (pa_turns p) (s\<lparr>ss_jobs := js\<rparr>) of (outs, progressed, s') \<Rightarrow>
         (\<lparr>pr_outcomes = outs, pr_progressed = progressed, pr_delay = pass_end sc p progressed (ss_jobs s'), pr_checkedAt = checkedAt\<rparr>, s'))"

end
