(* ===== verification/QueueWorker.thy ===== *)
theory QueueWorker
  imports QueueScheduler ChangedFiles
begin

text \<open>
  Model of \<open>lib/queue/start.js\<close>: what happens to a claimed job whose worker has run.  A refused lock or an
  unready workspace blocks the job again with a backoff, up to a bound; every other end is committed with
  bounded retries, and a commit that fails for good is recorded as a failure or the worker is abandoned
  for recovery.  An abandoned job is no longer in the map of the process.  What other processes do
  during a delay is an argument of each attempt.
\<close>

definition QUEUE_RETRYABLE_LOCK_ERROR_TYPES :: "string set" where
  "QUEUE_RETRYABLE_LOCK_ERROR_TYPES = {''queue_lock_conflict'', ''integration_recovery_pending''}"

definition QUEUE_WORKSPACE_WAIT_ERROR_TYPES :: "string set" where
  "QUEUE_WORKSPACE_WAIT_ERROR_TYPES = {''dirty_worktree_requires_checkpoint'', ''worktree_source_checkpoint_changed'', ''worktree_capacity_exceeded''}"

definition QUEUE_WORKSPACE_WAIT_MAX :: int where "QUEUE_WORKSPACE_WAIT_MAX = 60"
definition QUEUE_TERMINAL_COMMIT_ATTEMPTS :: nat where "QUEUE_TERMINAL_COMMIT_ATTEMPTS = 5"

section \<open>The state of a worker\<close>

text \<open>\<open>wk_tracked\<close>: the object is still the one the process's map has for its id.\<close>

record worker =
  wk_job :: sched_job
  wk_tracked :: bool
  wk_ownershipLost :: bool

definition abandonLocalQueueWorker :: "queue_process \<Rightarrow> worker \<Rightarrow> worker" where
  "abandonLocalQueueWorker qp w = w\<lparr>wk_ownershipLost := True, wk_tracked := wk_tracked w \<and> qp_mode qp \<noteq> ''sqlite''\<rparr>"

definition ownership_lost :: "persist_result \<Rightarrow> bool" where
  "ownership_lost res = (case res of PersistTerminal (TerminalRefused _ _ lost) \<Rightarrow> lost | _ \<Rightarrow> False)"

definition result_status :: "persist_result \<Rightarrow> string" where
  "result_status res = (case res of Persisted s _ \<Rightarrow> s | PersistRefused s _ \<Rightarrow> s | PersistTerminal (TerminalPersisted s _) \<Rightarrow> s
     | PersistTerminal (TerminalRefused s _ _) \<Rightarrow> s | _ \<Rightarrow> [])"

definition updateQueueTerminalRecordDurable ::
  "queue_process \<Rightarrow> update_env \<Rightarrow> (queue_record \<Rightarrow> queue_record) \<Rightarrow> (sched_job \<Rightarrow> sched_job) \<Rightarrow> worker \<Rightarrow> queue_db
    \<Rightarrow> persist_result \<times> worker \<times> queue_db" where
  "updateQueueTerminalRecordDurable qp e patch mem w db =
    (case update_sched qp e patch mem (wk_job w) db of (res, j, db') \<Rightarrow>
       let w' = w\<lparr>wk_job := j\<rparr> in
       (res, if \<not> persist_threw res \<and> \<not> persisted res \<and> ownership_lost res then abandonLocalQueueWorker qp w' else w', db'))"

section \<open>The commit of an end\<close>

record commit_turn =
  cu_others :: "queue_db \<Rightarrow> queue_db"
  cu_update :: update_env

text \<open>The result that ends the loop, if an attempt gave one; the list has one turn per attempt.\<close>

fun commit_loop ::
  "queue_process \<Rightarrow> (queue_record \<Rightarrow> queue_record) \<Rightarrow> (sched_job \<Rightarrow> sched_job) \<Rightarrow> commit_turn list \<Rightarrow> worker \<Rightarrow> queue_db
    \<Rightarrow> persist_result option \<times> worker \<times> queue_db" where
  "commit_loop qp patch mem [] w db = (None, w, db)"
| "commit_loop qp patch mem (t # ts) w db =
    (case updateQueueTerminalRecordDurable qp (cu_update t) patch mem w (cu_others t db) of (res, w', db') \<Rightarrow>
       if \<not> persist_threw res \<and> (persisted res \<or> ownership_lost res \<or> result_status res \<notin> active_statuses)
       then (Some res, w', db') else commit_loop qp patch mem ts w' db')"

definition infrastructure_patch :: "int \<Rightarrow> bool \<Rightarrow> (queue_record \<Rightarrow> queue_record) \<Rightarrow> queue_record \<Rightarrow> queue_record" where
  "infrastructure_patch now quarantined patch r = (let n = patch r in
     n\<lparr>q_status := ''failed'', q_finishedAt := or_time (q_finishedAt n) (Some now), q_heartbeatAt := None, q_leaseExpiresAt := None,
       q_errorType := ''queue_worker_infrastructure_failed'',
       q_childProcessId := (if quarantined then q_childProcessId n else 0),
       q_childProcessStartedAt := (if quarantined then q_childProcessStartedAt n else None)\<rparr>)"

text \<open>Aborting the child process and log lines are left out; the result is only logged.\<close>

definition handleQueueWorkerInfrastructureFailure ::
  "queue_process \<Rightarrow> int \<Rightarrow> bool \<Rightarrow> (queue_record \<Rightarrow> queue_record) \<Rightarrow> string \<Rightarrow> update_env \<Rightarrow> worker \<Rightarrow> queue_db
    \<Rightarrow> worker \<times> queue_db" where
  "handleQueueWorkerInfrastructureFailure qp now quarantined patch reason e w db =
    (case updateQueueTerminalRecordDurable qp e (infrastructure_patch now quarantined patch) (\<lambda>j. j\<lparr>sj_errorReason := reason\<rparr>) w db of
       (res, w', db') \<Rightarrow>
         (if persist_threw res \<or> (\<not> persisted res \<and> result_status res \<notin> terminal_statuses) then abandonLocalQueueWorker qp w' else w', db'))"

text \<open>The answer of a commit is \<open>None\<close> when every attempt was refused or threw: the failure was recorded instead.\<close>

record commit_env =
  ce_now :: int
  ce_turns :: "commit_turn list"
  ce_quarantined :: bool
  ce_failure_reason :: string
  ce_failure :: update_env

definition retry_intent :: "int \<Rightarrow> (queue_record \<Rightarrow> queue_record) \<Rightarrow> queue_record \<Rightarrow> queue_record \<Rightarrow> queue_record" where
  "retry_intent now patch r0 r = (if queueRetryDecisionPending (patch r0) (q_requestEncrypted r0 \<noteq> [] \<or> q_request r0 \<noteq> None)
     then (patch r)\<lparr>q_retryDecisionPendingAt := or_time (q_retryDecisionPendingAt r0) (Some now)\<rparr> else patch r)"

definition commitQueueTerminalRecord ::
  "queue_process \<Rightarrow> commit_env \<Rightarrow> (queue_record \<Rightarrow> queue_record) \<Rightarrow> (sched_job \<Rightarrow> sched_job) \<Rightarrow> worker \<Rightarrow> queue_db
    \<Rightarrow> persist_result option \<times> worker \<times> queue_db" where
  "commitQueueTerminalRecord qp e patch0 mem w db =
    (let patch = retry_intent (ce_now e) patch0 (sj_record (wk_job w)) in
     case commit_loop qp patch mem (take QUEUE_TERMINAL_COMMIT_ATTEMPTS (ce_turns e)) w db of
       (Some res, w', db') \<Rightarrow> (Some res, w', db')
     | (None, w', db') \<Rightarrow> (case handleQueueWorkerInfrastructureFailure qp (ce_now e) (ce_quarantined e) patch (ce_failure_reason e) (ce_failure e) w' db' of
         (w'', db'') \<Rightarrow> (None, w'', db'')))"

section \<open>Waiting again\<close>

datatype block_outcome = BlockFailed string string | BlockedAgain | BlockHandled

text \<open>The attempts to store \<open>blocked\<close>: the first that does not throw answers.\<close>

record block_turn =
  bt_others :: "queue_db \<Rightarrow> queue_db"
  bt_update :: reacquire_env

fun block_loop ::
  "queue_process \<Rightarrow> (queue_record \<Rightarrow> queue_record) \<Rightarrow> (sched_job \<Rightarrow> sched_job) \<Rightarrow> block_turn list \<Rightarrow> sched_job \<Rightarrow> queue_db
    \<Rightarrow> persist_result option \<times> sched_job \<times> queue_db" where
  "block_loop qp patch mem [] j db = (None, j, db)"
| "block_loop qp patch mem (t # ts) j db =
    (case updateQueueRecordDurableReacquiringLease qp (bt_update t) patch mem j (bt_others t db) of (res, j', db') \<Rightarrow>
       if persist_threw res then block_loop qp patch mem ts j' db' else (Some res, j', db'))"

definition blocked_patch :: "string \<Rightarrow> queue_record \<Rightarrow> queue_record" where
  "blocked_patch err r = r\<lparr>q_status := ''blocked'', q_errorType := err, q_childProcessId := 0, q_childProcessStartedAt := None\<rparr>"

definition queueBlockedBackoffPatch :: "int \<Rightarrow> int \<Rightarrow> sched_job \<Rightarrow> int \<times> int" where
  "queueBlockedBackoffPatch poll now j = (let count = sj_blockedCount j + 1 in (count, now + backoff_ms poll count))"

definition backoff_note :: "int \<times> int \<Rightarrow> string \<Rightarrow> sched_job \<Rightarrow> sched_job" where
  "backoff_note b reason j = j\<lparr>sj_errorReason := reason, sj_blockedCount := fst b, sj_blockedRetryAt := snd b\<rparr>"

definition refusal_text :: "lock_refusal \<Rightarrow> string" where
  "refusal_text l = (case l of RepositoryScopeReserved \<Rightarrow> ''repository_scope'' | UnsafeLockPath _ \<Rightarrow> ''unsafe_path''
     | LockPathsRequired \<Rightarrow> ''lock_paths_required'' | AmbiguousLockPath \<Rightarrow> ''ambiguous_path'')"

text \<open>\<open>bk_look\<close>: the conflict look did not throw.\<close>

record block_env =
  bk_now :: int
  bk_look :: bool
  bk_turns :: "block_turn list"
  bk_cancel :: commit_env

definition lock_refusal_type :: "string \<Rightarrow> queue_conflict option \<Rightarrow> string" where
  "lock_refusal_type err cause =
    (if (case cause of Some c \<Rightarrow> qx_errorType c = ''integration_recovery_pending'' | None \<Rightarrow> False) \<or> err = ''integration_recovery_pending''
     then ''integration_recovery_pending'' else ''queue_lock_conflict'')"

definition lock_refusal_reason :: "string \<Rightarrow> queue_conflict option \<Rightarrow> string" where
  "lock_refusal_reason blocked cause = or_string (case cause of Some c \<Rightarrow> qx_reason c | None \<Rightarrow> [])
     (if blocked = ''integration_recovery_pending''
      then ''Waiting for the repository's unresolved integration operation to finish or be recovered; see diagnose_opencode_bridge.''
      else ''Waiting for the active cross-process reader/writer consistency lock to be released.'')"

definition cancelled_waiting :: "int \<Rightarrow> queue_record \<Rightarrow> queue_record" where
  "cancelled_waiting now r = r\<lparr>q_status := ''cancelled'', q_finishedAt := Some now, q_heartbeatAt := None, q_leaseExpiresAt := None,
     q_errorType := ''agent_cancelled'', q_childProcessId := 0, q_childProcessStartedAt := None\<rparr>"

definition give_up_unless_ended :: "queue_process \<Rightarrow> worker \<Rightarrow> worker" where
  "give_up_unless_ended qp w = (if sj_status (wk_job w) \<notin> terminal_statuses then abandonLocalQueueWorker qp w else w)"

definition blockQueueRecordAfterLockRefusal ::
  "config \<Rightarrow> int \<Rightarrow> queue_process \<Rightarrow> block_env \<Rightarrow> sched_job list \<Rightarrow> string \<Rightarrow> worker \<Rightarrow> queue_db
    \<Rightarrow> block_outcome \<times> worker \<times> queue_db" where
  "blockQueueRecordAfterLockRefusal cf poll qp e js err w db0 =
    (let j = wk_job w;
         (cause, db) = (if bk_look e then findQueueWriteConflict cf qp (bk_now e) js (sj_record j) db0 else (None, db0));
         refusal = (if cause = None \<and> err \<noteq> ''integration_recovery_pending'' then queueHardLockRequestRefusal (host_of cf) (sj_record j) else None);
         blocked = lock_refusal_type err cause
     in case refusal of Some l \<Rightarrow> (BlockFailed ''lock_request_rejected'' (refusal_text l), w, db)
     | None \<Rightarrow> (case block_loop qp (blocked_patch blocked) (backoff_note (queueBlockedBackoffPatch poll (bk_now e) j) (lock_refusal_reason blocked cause))
          (take 3 (bk_turns e)) j db of (res, j', db') \<Rightarrow>
         let w' = w\<lparr>wk_job := j'\<rparr> in
         if (case res of Some x \<Rightarrow> persisted x | None \<Rightarrow> False) then (BlockedAgain, w', db')
         else if q_cancellationRequested (sj_record j') then
           (case commitQueueTerminalRecord qp (bk_cancel e) (cancelled_waiting (ce_now (bk_cancel e))) id w' db' of (_, w'', db'') \<Rightarrow> (BlockHandled, w'', db''))
         else (BlockHandled, give_up_unless_ended qp w', db')))"

definition workspace_what :: "string \<Rightarrow> string list \<Rightarrow> string" where
  "workspace_what err files =
    (if err = ''dirty_worktree_requires_checkpoint'' then ''The source checkout has uncommitted changes inside this job's write scope''
       @ (if files = [] then [] else '' ('' @ join_with '', '' (take 8 files) @ (if length files > 8 then '', +'' @ decimal (length files - 8) else []) @ '')'')
       @ ''; commit or revert them and the job runs by itself''
     else if err = ''worktree_capacity_exceeded'' then ''The retained worktrees of this repository reached their cap; integrate or remove ''
       @ ''retained worktrees (list_opencode_jobs, integrate_opencode_worktree) and the job runs by itself''
     else ''Repository HEAD kept moving while the worktree was being created; the job tries again by itself'')"

definition blockQueueRecordForWorkspace ::
  "int \<Rightarrow> queue_process \<Rightarrow> block_env \<Rightarrow> string \<Rightarrow> string list \<Rightarrow> worker \<Rightarrow> queue_db \<Rightarrow> block_outcome \<times> worker \<times> queue_db" where
  "blockQueueRecordForWorkspace poll qp e err files w db =
    (let j = wk_job w; waits = q_workspaceWaits (sj_record j) + 1; what = workspace_what err files in
     if waits > QUEUE_WORKSPACE_WAIT_MAX then
       (BlockFailed err (what @ ''. Waited 60 times (about an hour) without the workspace becoming ready, so the job failed.''), w, db)
     else let b = queueBlockedBackoffPatch poll (bk_now e) j;
        reason = what @ '' (wait '' @ decimal (nat waits) @ '' of 60, next check in '' @ decimal (nat ((snd b - bk_now e + 500) div 1000)) @ '' s).'' in
       case block_loop qp (\<lambda>r. (blocked_patch err r)\<lparr>q_workspaceWaits := waits\<rparr>) (backoff_note b reason) (take 3 (bk_turns e)) j db of
         (res, j', db') \<Rightarrow> let w' = w\<lparr>wk_job := j'\<rparr> in
           if (case res of Some x \<Rightarrow> persisted x | None \<Rightarrow> False) then (BlockedAgain, w', db')
           else (BlockHandled, give_up_unless_ended qp w', db'))"

section \<open>The end of a run\<close>

text \<open>The fields of an execution that the decision and the record take.\<close>

record execution =
  ex_errorType :: string
  ex_validation :: "changed_validation option"
  ex_changedFiles :: "string list"
  ex_blockingFiles :: "string list"
  ex_noChanges :: bool
  ex_resultText :: string
  ex_reportTruncated :: bool
  ex_provider :: string
  ex_model :: string
  ex_slotRefused :: bool
  ex_cooldownUntil :: "int option"
  ex_outputCount :: int
  ex_finalResponse :: bool
  ex_agentProcessMs :: "int option"
  ex_afterAgentMs :: "int option"
  ex_worktreePath :: string
  ex_baseCommit :: string
  ex_patchSha256 :: string
  ex_failureReason :: string

text \<open>A job cancelled before its run is not executed.\<close>

datatype execution_result = NotExecuted | ExecutionThrew string string | Executed execution

definition execution_error :: "execution \<Rightarrow> string" where
  "execution_error x = or_string (ex_errorType x) (case ex_validation x of None \<Rightarrow> []
     | Some v \<Rightarrow> if cv_disallowedFiles v \<noteq> [] then changedFileValidationErrorType v else [])"

definition PROCESS_TREE_UNCONFIRMED :: string where "PROCESS_TREE_UNCONFIRMED = ''process_tree_termination_unconfirmed''"

datatype worker_end = EndCancelled | EndWorkspaceWait | EndLockWait | EndRun

definition worker_end_of :: "string \<Rightarrow> queue_record \<Rightarrow> string \<Rightarrow> worker_end" where
  "worker_end_of policy r err =
    (if (q_cancellationRequested r \<or> err = ''agent_cancelled'') \<and> err \<noteq> PROCESS_TREE_UNCONFIRMED then EndCancelled
     else if err \<in> QUEUE_WORKSPACE_WAIT_ERROR_TYPES \<and> \<not> q_cancellationRequested r then EndWorkspaceWait
     else if err \<in> QUEUE_RETRYABLE_LOCK_ERROR_TYPES \<and> policy = ''wait'' then EndLockWait else EndRun)"

definition ended_fields :: "int \<Rightarrow> string \<Rightarrow> string \<Rightarrow> queue_record \<Rightarrow> queue_record" where
  "ended_fields now status err r = r\<lparr>q_status := status, q_finishedAt := Some now, q_heartbeatAt := None, q_leaseExpiresAt := None,
     q_errorType := err, q_childProcessId := 0, q_childProcessStartedAt := None\<rparr>"

definition queueResultFields :: "execution \<Rightarrow> queue_record \<Rightarrow> queue_record" where
  "queueResultFields x r = r\<lparr>q_resultText := ex_resultText x, q_resultReportTruncated := ex_reportTruncated x\<rparr>"

definition run_fields :: "execution \<Rightarrow> queue_record \<Rightarrow> queue_record" where
  "run_fields x r = (queueResultFields x r)\<lparr>q_changedFiles := ex_changedFiles x, q_configuredProvider := ex_provider x,
     q_configuredModel := ex_model x, q_worktreePath := ex_worktreePath x, q_worktreeBaseCommit := ex_baseCommit x,
     q_patchSha256 := ex_patchSha256 x\<rparr>"

definition no_output_failure :: "execution \<Rightarrow> queue_record \<Rightarrow> bool" where
  "no_output_failure x r \<longleftrightarrow> execution_error x = [] \<and> q_mode r = ''write'' \<and> ex_noChanges x \<and> request_asks_retries (q_request r)"

definition run_error :: "execution \<Rightarrow> queue_record \<Rightarrow> string" where
  "run_error x r = (if no_output_failure x r then ''writer_no_changes'' else execution_error x)"

text \<open>A process tree that may still run keeps its identity on the record.\<close>

definition run_patch :: "int \<Rightarrow> execution \<Rightarrow> queue_record \<Rightarrow> queue_record \<Rightarrow> queue_record" where
  "run_patch now x r0 r = (let unconfirmed = (execution_error x = PROCESS_TREE_UNCONFIRMED) in
     (run_fields x (ended_fields now (if run_error x r0 \<noteq> [] then ''failed'' else ''completed'') (run_error x r0) r))\<lparr>
       q_noChanges := ex_noChanges x, q_providerRefusedUntil := (if ex_slotRefused x then ex_cooldownUntil x else None),
       q_outputCount := ex_outputCount x, q_finalResponseDetected := ex_finalResponse x,
       q_agentProcessMs := ex_agentProcessMs x, q_afterAgentMs := ex_afterAgentMs x,
       q_childProcessId := (if unconfirmed then q_childProcessId r0 else 0),
       q_childProcessStartedAt := (if unconfirmed then q_childProcessStartedAt r0 else None)\<rparr>)"

definition run_reason :: "execution \<Rightarrow> queue_record \<Rightarrow> string" where
  "run_reason x r = (if no_output_failure x r
     then ''The writer finished without changing any file; with a retry policy (models/maxAttempts) that counts as no output.''
     else if execution_error x \<noteq> [] then ex_failureReason x else [])"

definition set_reason :: "string \<Rightarrow> sched_job \<Rightarrow> sched_job" where "set_reason t j = j\<lparr>sj_errorReason := t\<rparr>"

text \<open>
  \<open>fe_policy\<close> is the write conflict policy, \<open>fe_jobs\<close> the jobs of the process at a conflict look, \<open>fe_poll\<close> the
  blocked poll interval.  The answer tells the stored end, if one was committed.
\<close>

record finish_env =
  fe_now :: int
  fe_policy :: string
  fe_poll :: int
  fe_jobs :: "sched_job list"
  fe_commit :: commit_env
  fe_block :: block_env

definition finish_worker ::
  "config \<Rightarrow> queue_process \<Rightarrow> finish_env \<Rightarrow> execution_result \<Rightarrow> worker \<Rightarrow> queue_db \<Rightarrow> persist_result option \<times> worker \<times> queue_db" where
  "finish_worker cf qp e res w db = (let r = sj_record (wk_job w); commit = commitQueueTerminalRecord qp (fe_commit e) in
     case res of NotExecuted \<Rightarrow> commit (\<lambda>n. n\<lparr>q_status := ''cancelled'', q_finishedAt := Some (fe_now e), q_heartbeatAt := None,
         q_leaseExpiresAt := None\<rparr>) id w db
     | ExecutionThrew err reason \<Rightarrow> commit (ended_fields (fe_now e) ''failed'' (or_string err ''queue_job_failed'')) (set_reason reason) w db
     | Executed x \<Rightarrow> (case worker_end_of (fe_policy e) r (execution_error x) of
         EndCancelled \<Rightarrow> commit (\<lambda>n. run_fields x (ended_fields (fe_now e) ''cancelled'' ''agent_cancelled'' n))
           (set_reason ''Cancelled by request after the OpenCode process tree terminated.'') w db
       | EndWorkspaceWait \<Rightarrow> (case blockQueueRecordForWorkspace (fe_poll e) qp (fe_block e) (execution_error x) (ex_blockingFiles x) w db of
           (BlockFailed err reason, w', db') \<Rightarrow> commit (\<lambda>n. queueResultFields x (ended_fields (fe_now e) ''failed'' err n)) (set_reason reason) w' db'
         | (_, w', db') \<Rightarrow> (None, w', db'))
       | EndLockWait \<Rightarrow> (case blockQueueRecordAfterLockRefusal cf (fe_poll e) qp (fe_block e) (fe_jobs e) (execution_error x) w db of
           (BlockFailed err reason, w', db') \<Rightarrow> commit (\<lambda>n. queueResultFields x (ended_fields (fe_now e) ''failed'' err n)) (set_reason reason) w' db'
         | (_, w', db') \<Rightarrow> (None, w', db'))
       | EndRun \<Rightarrow> commit (run_patch (fe_now e) x r) (set_reason (run_reason x r)) w db))"

text \<open>Whether the finished writer is handed to the automatic integration.\<close>

definition schedules_integration :: "queue_config \<Rightarrow> execution \<Rightarrow> persist_result option \<Rightarrow> queue_record \<Rightarrow> bool" where
  "schedules_integration qc x committed r \<longleftrightarrow> qc_autoIntegrateAllowed qc
     \<and> (case committed of Some res \<Rightarrow> persisted res \<and> result_status res = ''completed'' | None \<Rightarrow> False)
     \<and> (case q_request r of Some j \<Rightarrow> autoIntegrate j = Some True | None \<Rightarrow> False)
     \<and> q_mode r = ''write'' \<and> q_parentJobId r = [] \<and> ex_changedFiles x \<noteq> [] \<and> ex_worktreePath x \<noteq> []"

text \<open>The end of every worker: whether its pipeline is reconciled, and what the process keeps of the job.\<close>

definition release_worker :: "queue_process \<Rightarrow> worker \<Rightarrow> bool \<times> worker" where
  "release_worker qp w = (let j = wk_job w; r = sj_record j; over = (q_status r \<in> terminal_statuses);
       j' = (if over then j\<lparr>sj_record := r\<lparr>q_request := None\<rparr>, sj_blockedCount := 0, sj_blockedRetryAt := 0\<rparr> else j)
     in (q_parentJobId r \<noteq> [] \<and> over, w\<lparr>wk_job := j'\<lparr>sj_record := releaseFinishedQueueDetails qp False (sj_record j')\<rparr>\<rparr>))"

end
