(* ===== verification/SchedulerSafety.thy ===== *)
theory SchedulerSafety
  imports QueueWorker QueueProperties LockSafety ProviderSafety
begin

text \<open>
  Properties of the scheduler: a pass is a run of the queue's transactions, stays within the parallel limit,
  starts only what conflicts with nothing, keeps the retry times of blocked jobs within the longest backoff,
  and never leaves waiting work without a next pass.
\<close>

section \<open>A pass is a run of queue transactions\<close>

definition benign_update :: "update_env \<Rightarrow> bool" where
  "benign_update e \<longleftrightarrow> (\<forall>d. queue_run d (pe_others (ue_persist e) d))"

definition benign_turn :: "turn_env \<Rightarrow> bool" where
  "benign_turn e \<longleftrightarrow> benign_update (te_mark e) \<and> benign_update (rq_first (te_plan e)) \<and> benign_update (rq_second (te_plan e))
     \<and> benign_update (te_block e) \<and> (\<forall>s. queue_run (ss_db s) (ss_db (te_before e s)))
     \<and> (\<forall>s. queue_run (ss_db s) (ss_db (te_meanwhile e s))) \<and> (\<forall>d. queue_run d (te_late e d))"

lemma same_jobs_run: "qd_jobs d = qd_jobs db \<Longrightarrow> queue_run db d"
  by (rule r_into_rtranclp, rule queue_step.other) simp

lemma run_trans: "queue_run a b \<Longrightarrow> queue_run b c \<Longrightarrow> queue_run a c" by (rule rtranclp_trans)

lemma persist_terminal_run: "persistTerminalQueueRecord qp now commit envelope r db = (res, r', d) \<Longrightarrow> queue_run db d"
proof -
  assume p: "persistTerminalQueueRecord qp now commit envelope r db = (res, r', d)"
  obtain res1 r1 d1 where t: "terminal_transaction qp now envelope r db = (res1, r1, d1)" by (rule prod_cases3)
  have "queue_run db d1" by (rule r_into_rtranclp, rule queue_step.terminal [OF t])
  moreover have "d = d1 \<or> d = db" using p t by (auto simp: persistTerminalQueueRecord_def split: if_split_asm commit_outcome.split_asm)
  ultimately show ?thesis by auto
qed

lemma persist_run:
  assumes "\<And>d. queue_run d (pe_others e d)" "persistQueueRecord qp e r0 db = (res, r', d)"
  shows "queue_run db d"
proof -
  define r where "r = enforceQueueResultEvidence qp r0"
  note u = assms(2) [unfolded persistQueueRecord_def Let_def, folded r_def]
  consider (memory) "d = db"
    | (terminal) "qp_mode qp = ''sqlite''" "q_status r \<in> {''completed'', ''failed'', ''cancelled''}"
    | (insert) "qp_mode qp = ''sqlite''" "q_status r \<notin> {''completed'', ''failed'', ''cancelled''}" "find_job db (q_jobId r) = None"
    | (update) row where "qp_mode qp = ''sqlite''" "q_status r \<notin> {''completed'', ''failed'', ''cancelled''}" "find_job db (q_jobId r) = Some row"
    using u by (cases "qp_mode qp = ''sqlite''"; cases "q_status r \<in> {''completed'', ''failed'', ''cancelled''}"; cases "find_job db (q_jobId r)") auto
  then show ?thesis
  proof cases
    case terminal
    obtain res1 r1 d1 where t1: "persistTerminalQueueRecord qp (pe_now e) (pe_commit e) None r db = (res1, r1, d1)" by (rule prod_cases3)
    obtain res2 r2 d2 where t2: "persistTerminalQueueRecord qp (pe_now2 e) (pe_commit2 e) (Some (qp_encrypt qp (applyDurableCancellationOutcome r None))) r
        (pe_others e d1) = (res2, r2, d2)" by (rule prod_cases3)
    have "d = d1 \<or> d = d2" using u terminal t1 t2 by (simp split: if_split_asm)
    moreover have "queue_run db d1" by (rule persist_terminal_run [OF t1])
    moreover have "queue_run d1 d2" using assms(1) persist_terminal_run [OF t2] by (rule run_trans)
    ultimately show ?thesis using run_trans by blast
  next
    case insert
    obtain res1 d1 where t: "insert_transaction qp e r db = (res1, d1)" by (rule prod.exhaust)
    have "d = d1 \<or> d = db" using u insert t by (auto split: persist_result.split_asm commit_outcome.split_asm)
    moreover have "queue_run db d1" by (rule r_into_rtranclp, rule queue_step.insert [OF insert(3) t])
    ultimately show ?thesis by auto
  next
    case update
    obtain res1 r1 d1 where t: "update_transaction qp (pe_now e) r row db = (res1, r1, d1)" by (rule prod_cases3)
    have "d = d1 \<or> d = db" using u update t by (auto split: commit_outcome.split_asm)
    moreover have "queue_run db d1" by (rule r_into_rtranclp, rule queue_step.update [OF update(3) t])
    ultimately show ?thesis by auto
  qed simp
qed

lemma update_sched_run:
  assumes "benign_update e" "update_sched qp e patch note j db = (res, j', d)" shows "queue_run db d"
proof -
  obtain res1 r1 d1 where t: "persistQueueRecord qp (ue_persist e) (patch (sj_record j)) db = (res1, r1, d1)" by (rule prod_cases3)
  have "d = d1" using assms(2) t by (simp add: update_sched_def updateQueueRecordDurable_def)
  then show ?thesis using persist_run [OF _ t] assms(1) unfolding benign_update_def by blast
qed

lemma reacquiring_run:
  assumes "benign_update (rq_first e)" "benign_update (rq_second e)"
    and "updateQueueRecordDurableReacquiringLease qp e patch note j db = (res, j', d)"
  shows "queue_run db d"
proof -
  obtain res1 j1 d1 where t1: "update_sched qp (rq_first e) patch note j db = (res1, j1, d1)" by (rule prod_cases3)
  obtain rn d2 where t2: "reacquireQueueRecordLease qp (rq_now e) (sj_record j1) d1 = (rn, d2)" by (rule prod.exhaust)
  have 1: "queue_run db d1" by (rule update_sched_run [OF assms(1) t1])
  have 2: "queue_run d1 d2" using t2 unfolding reacquireQueueRecordLease_def
    by (auto split: if_split_asm intro: r_into_rtranclp queue_step.reacquire)
  have 3: "queue_run d2 d" if "update_sched qp (rq_second e) patch note x d2 = (res, j', d)" for x
    by (rule update_sched_run [OF assms(2) that])
  have "d = d1 \<or> d = d2 \<or> (\<exists>x. update_sched qp (rq_second e) patch note x d2 = (res, j', d))"
    using assms(3) t1 t2 unfolding updateQueueRecordDurableReacquiringLease_def Let_def
    by (auto split: if_split_asm option.split_asm)
  then show ?thesis using 1 2 3 run_trans by metis
qed

lemma conflict_look_jobs: "findQueueWriteConflict cf qp now js r db = (c, d) \<Longrightarrow> qd_jobs d = qd_jobs db"
  by (auto simp: findQueueWriteConflict_def split: prod.split_asm option.split_asm)

lemma claim_run:
  assumes "claimQueueRecord qp now fresh commit r db = (res, r', d)" shows "queue_run db d"
proof -
  obtain res1 r1 d1 where t: "claim_transaction qp now fresh r db = (res1, r1, d1)" by (rule prod_cases3)
  have "queue_run db d1" by (rule r_into_rtranclp, rule queue_step.claim [OF t])
  moreover have "d = d1 \<or> d = db" using assms t by (auto simp: claimQueueRecord_def split: if_split_asm)
  ultimately show ?thesis by auto
qed

lemma with_job_db [simp]: "ss_db (with_job i j d s) = d" by (simp add: with_job_def)

definition stage_db :: "stage \<Rightarrow> queue_db" where
  "stage_db st = (case st of Stop out s \<Rightarrow> ss_db s | Go j s \<Rightarrow> ss_db s)"

lemma mark_run:
  assumes "benign_turn e" "mark_turn qp e out j db = (res, j', d)" shows "queue_run db d"
proof -
  have "benign_update (te_mark e)" using assms(1) by (simp add: benign_turn_def)
  then have "queue_run db d'" if "update_sched qp (te_mark e) patch mem j db = (r', k, d')" for patch mem r' k d'
    using update_sched_run that by blast
  with assms(2) show ?thesis unfolding mark_turn_def by (auto split: if_split_asm prod.split_asm)
qed

lemma early_run:
  assumes "benign_turn e" shows "queue_run (ss_db s) (stage_db (early_stage sc qp holdStarts e i s))"
proof (cases "find_sched (ss_jobs s) i")
  case None then show ?thesis by (simp add: early_stage_def stage_db_def)
next
  case (Some j)
  show ?thesis
  proof (cases "early_outcome (host_of (qc_config (sc_queue sc))) holdStarts e (ss_jobs s) j")
    case None then show ?thesis by (simp add: early_stage_def stage_db_def Some Let_def)
  next
    case (Some out)
    obtain res j' d where m: "mark_turn qp e out j (ss_db s) = (res, j', d)" by (rule prod_cases3)
    from mark_run [OF assms m] show ?thesis
      by (simp add: early_stage_def stage_db_def \<open>find_sched (ss_jobs s) i = Some j\<close> Some m)
  qed
qed

lemma standing_run: "queue_run (ss_db s) (stage_db (standing_stage sc qp e i j s))"
proof -
  obtain c d where l: "findQueueWriteConflict (qc_config (sc_queue sc)) qp (te_now e) (ss_jobs s) (sj_record j) (ss_db s) = (c, d)" by (rule prod.exhaust)
  have "stage_db (standing_stage sc qp e i j s) \<in> {ss_db s, d}"
    unfolding standing_stage_def l stage_db_def by (cases c) simp_all
  then consider "stage_db (standing_stage sc qp e i j s) = ss_db s" | "stage_db (standing_stage sc qp e i j s) = d" by blast
  then show ?thesis by cases (simp_all add: same_jobs_run [OF conflict_look_jobs [OF l]])
qed

lemma plan_run:
  assumes "benign_turn e" shows "queue_run (ss_db s) (stage_db (plan_stage sc qp pauses e i j s))"
proof -
  obtain res j' d where t: "updateQueueRecordDurableReacquiringLease qp (te_plan e) (plan_patch (pause_of sc pauses e j)) id j (ss_db s) = (res, j', d)"
    by (rule prod_cases3)
  have p: "queue_run (ss_db s) d" using assms reacquiring_run [OF _ _ t] unfolding benign_turn_def by blast
  have m: "queue_run d (ss_db (te_meanwhile e (with_job i j' d s)))" using assms unfolding benign_turn_def by (metis with_job_db)
  have "stage_db (plan_stage sc qp pauses e i j s) \<in> {d, ss_db (te_meanwhile e (with_job i j' d s))}"
    unfolding plan_stage_def Let_def t stage_db_def by simp
  then consider "stage_db (plan_stage sc qp pauses e i j s) = d"
    | "stage_db (plan_stage sc qp pauses e i j s) = ss_db (te_meanwhile e (with_job i j' d s))" by blast
  then show ?thesis by cases (simp_all only: p run_trans [OF p m])
qed

lemma start_run:
  assumes "benign_turn e" "start_stage sc qp e i j s = (out, s')" shows "queue_run (ss_db s) (ss_db s')"
proof (cases "te_look2 e")
  case True
  obtain c d where l: "findQueueWriteConflict (qc_config (sc_queue sc)) qp (te_look2_now e) (ss_jobs s) (sj_record j) (ss_db s) = (c, d)" by (rule prod.exhaust)
  have look: "queue_run (ss_db s) d" by (rule same_jobs_run [OF conflict_look_jobs [OF l]])
  show ?thesis
  proof (cases c)
    case None
    obtain res r d' where cl: "claimQueueRecord qp (te_claim_now e) (te_fresh e) (te_claim_commit e) (sj_record j) (te_late e d) = (res, r, d')" by (rule prod_cases3)
    have "queue_run d d'" using claim_run [OF cl] assms(1) run_trans unfolding benign_turn_def by blast
    then show ?thesis using assms(2) True l None cl look run_trans by (auto simp: start_stage_def split: if_split_asm)
  next
    case (Some x)
    define reject where "reject = (sc_conflictPolicy sc = ''reject'' \<and> qx_errorType x \<noteq> ''integration_recovery_pending'')"
    obtain res j' d' where u: "update_sched qp (te_block e) (conflict_patch reject (te_look2_now e) x) (\<lambda>k. k\<lparr>sj_errorReason := conflict_reason reject x\<rparr>) j d
      = (res, j', d')" by (rule prod_cases3)
    have "queue_run d d'" using update_sched_run [OF _ u] assms(1) unfolding benign_turn_def by blast
    moreover have "ss_db s' = d'" using assms(2) True l Some u
      by (auto simp: start_stage_def Let_def reject_def [symmetric] split: if_split_asm)
    ultimately show ?thesis using look run_trans by blast
  qed
qed (use assms(2) in \<open>simp add: start_stage_def\<close>)

lemma prepare_run:
  assumes "benign_turn e" shows "queue_run (ss_db s) (stage_db (prepare_turn sc qp holdStarts pauses e i s))"
proof (cases "early_stage sc qp holdStarts e i s")
  case (Stop out s1)
  then show ?thesis using early_run [OF assms, of s sc qp holdStarts i] by (simp add: prepare_turn_def)
next
  case (Go j s1)
  have 1: "queue_run (ss_db s) (ss_db s1)" using early_run [OF assms, of s sc qp holdStarts i] Go by (simp add: stage_db_def)
  show ?thesis
  proof (cases "standing_stage sc qp e i j s1")
    case (Stop out s2)
    then show ?thesis using 1 standing_run [of s1 sc qp e i j] Go run_trans by (simp add: prepare_turn_def)
  next
    case (Go k s2)
    have "queue_run (ss_db s1) (ss_db s2)" using standing_run [of s1 sc qp e i j] Go by (simp add: stage_db_def)
    with 1 plan_run [OF assms, of s2 sc qp pauses i k] have "queue_run (ss_db s) (stage_db (plan_stage sc qp pauses e i k s2))"
      using run_trans by blast
    then show ?thesis using \<open>early_stage sc qp holdStarts e i s = stage.Go j s1\<close> Go by (simp add: prepare_turn_def)
  qed
qed

lemma turn_run:
  assumes "benign_turn e" "schedule_turn sc qp holdStarts pauses e i s = (out, s')" shows "queue_run (ss_db s) (ss_db s')"
proof -
  let ?st = "prepare_turn sc qp holdStarts pauses e i (te_before e s)"
  have b: "queue_run (ss_db s) (stage_db ?st)"
    using assms(1) prepare_run [OF assms(1), of "te_before e s"] run_trans unfolding benign_turn_def by blast
  show ?thesis
  proof (cases ?st)
    case (Go j s1)
    then have "start_stage sc qp e i j s1 = (out, s')" using assms(2) by (simp add: schedule_turn_def)
    from start_run [OF assms(1) this] b show ?thesis unfolding Go stage_db_def stage.case by (rule run_trans [rotated])
  qed (use assms(2) b in \<open>simp add: schedule_turn_def stage_db_def\<close>)
qed

lemma turns_run:
  assumes "pass_turns sc qp holdStarts pauses capacity ts s = (outs, progressed, s')" "\<forall>(e, i) \<in> set ts. benign_turn e"
  shows "queue_run (ss_db s) (ss_db s')"
  using assms
proof (induction ts arbitrary: capacity s outs progressed s')
  case (Cons t ts)
  obtain e i where t: "t = (e, i)" by (rule prod.exhaust)
  obtain out s1 where s1: "schedule_turn sc qp holdStarts pauses e i s = (out, s1)" by (rule prod.exhaust)
  have 1: "queue_run (ss_db s) (ss_db s1)" using turn_run [OF _ s1] Cons.prems(2) t by simp
  show ?case
  proof (cases "capacity = 0 \<or> out = TurnThrew")
    case True then show ?thesis using Cons.prems(1) 1 s1 unfolding t by (auto split: if_split_asm)
  next
    case False
    obtain outs' later s2 where r: "pass_turns sc qp holdStarts pauses (if out = Started then capacity - 1 else capacity) ts s1 = (outs', later, s2)"
      by (rule prod_cases3)
    have "s' = s2" using Cons.prems(1) False s1 r unfolding t by (simp add: Let_def)
    then show ?thesis using Cons.IH [OF r] Cons.prems(2) 1 run_trans by auto
  qed
qed simp

text \<open>C11: When what happens meanwhile consists of queue transactions, a whole pass of the scheduler
  changes the database only by a sequence of queue transactions, so every invariant of theirs holds
  across it; job ids stay distinct.\<close>

theorem pass_is_a_queue_run:
  assumes "schedule_pass sc qp p s = (r, s')" "\<forall>(e, i) \<in> set (pa_turns p). benign_turn e"
  shows "queue_run (ss_db s) (ss_db s') \<and> (unique_rows (qd_jobs (ss_db s)) \<longrightarrow> unique_rows (qd_jobs (ss_db s')))"
proof -
  let ?c = "nat (sc_parallelLimit sc - int (length (runningQueueRecords (ss_jobs s))))"
  have "queue_run (ss_db s) (ss_db s')"
  proof (cases "?c = 0")
    case True then show ?thesis using assms(1) by (simp add: schedule_pass_def Let_def)
  next
    case False
    obtain n js t where w: "releaseResumedPauseWaits (sc_queue sc) (pa_pauses p) (pa_now p) False (pa_checkedAt p) (ss_jobs s) = (n, js, t)"
      by (rule prod_cases3)
    define hold where "hold = (queueMemoryGate (pa_floorMb p) (pa_freeBytes p) \<and> list_ex (\<lambda>j. sj_status j \<in> waiting_statuses) js)"
    obtain outs pr s2 where t: "pass_turns sc qp hold (pa_pauses p) ?c (pa_turns p) (s\<lparr>ss_jobs := js\<rparr>) = (outs, pr, s2)" by (rule prod_cases3)
    have "s' = s2" using assms(1) False unfolding schedule_pass_def Let_def w prod.case hold_def [symmetric] t by simp
    then show ?thesis using turns_run [OF t assms(2)] by simp
  qed
  then show ?thesis using run_unique by blast
qed

section \<open>The parallel limit\<close>

lemma pass_turns_started:
  "pass_turns sc qp holdStarts pauses capacity ts s = (outs, progressed, s') \<Longrightarrow> length (filter (\<lambda>x. snd x = Started) outs) \<le> capacity"
proof (induction ts arbitrary: capacity s outs progressed s')
  case (Cons t ts)
  obtain e i where t: "t = (e, i)" by (rule prod.exhaust)
  obtain out s1 where s1: "schedule_turn sc qp holdStarts pauses e i s = (out, s1)" by (rule prod.exhaust)
  show ?case
  proof (cases "capacity = 0 \<or> out = TurnThrew")
    case True then show ?thesis using Cons.prems s1 unfolding t by (auto split: if_split_asm)
  next
    case False
    let ?c = "if out = Started then capacity - 1 else capacity"
    obtain outs' later s2 where r: "pass_turns sc qp holdStarts pauses ?c ts s1 = (outs', later, s2)" by (rule prod_cases3)
    have "outs = (i, out) # outs'" using Cons.prems False s1 r unfolding t by (simp add: Let_def)
    then show ?thesis using Cons.IH [OF r] False by (auto split: if_split_asm)
  qed
qed simp

text \<open>C19: A pass starts at most as many jobs as the parallel limit leaves beside the jobs the process
  already runs, and none when nothing is left.\<close>

theorem pass_respects_limit:
  assumes "schedule_pass sc qp p s = (r, s')"
  shows "int (length (filter (\<lambda>x. snd x = Started) (pr_outcomes r)))
    \<le> max 0 (sc_parallelLimit sc - int (length (runningQueueRecords (ss_jobs s))))"
proof -
  let ?c = "nat (sc_parallelLimit sc - int (length (runningQueueRecords (ss_jobs s))))"
  have "length (filter (\<lambda>x. snd x = Started) (pr_outcomes r)) \<le> ?c"
  proof (cases "?c = 0")
    case True then show ?thesis using assms by (auto simp: schedule_pass_def Let_def)
  next
    case False
    then show ?thesis using assms pass_turns_started unfolding schedule_pass_def Let_def
      by (auto split: prod.split_asm)
  qed
  then show ?thesis by linarith
qed

section \<open>What is started\<close>

definition startable :: "host \<Rightarrow> bool \<Rightarrow> turn_env \<Rightarrow> sched_job \<Rightarrow> bool" where
  "startable h holdStarts e j \<longleftrightarrow> sj_status j \<in> waiting_statuses \<and> \<not> in_recovery h (te_recoveryRoots e) (sj_record j)
     \<and> \<not> q_cancellationRequested (sj_record j) \<and> \<not> holdStarts \<and> \<not> te_draining e
     \<and> (sj_status j = ''blocked'' \<or> \<not> queueStartAfterPending (sj_record j) (te_now e))"

text \<open>No running job of this process, no unresolved integration and no live lock stands in the way.\<close>

definition nothing_conflicts :: "config \<Rightarrow> int \<Rightarrow> sched_state \<Rightarrow> queue_record \<Rightarrow> bool" where
  "nothing_conflicts cf now s r \<longleftrightarrow>
     (\<forall>k \<in> set (runningQueueRecords (ss_jobs s)). running_conflict cf r k = None)
     \<and> (q_dryRun r \<or> request_dry r \<or>
        (lock_kind r = ''read'' \<or> open_operation (host_of cf) (record_root (host_of cf) (q_cwd r)) (qd_locks (ss_db s)) = None)
        \<and> (\<forall>a \<in> set (rowsToLocks (live_rows (qd_locks (ss_db s)) now)).
             conflictsWithActiveLock (host_of cf) (worktreeMode cf) ((record_claim (host_of cf) r)\<lparr>cl_origin := ''internal''\<rparr>) a = None))"

lemma locks_listed: "listLocksFromDb db now = (rowsToLocks (live_rows db now), expireLocksFromDb db now)"
  by (simp add: listLocksFromDb_def live_rows_def Let_def)

lemma live_rows_expired [simp]: "live_rows (expireLocksFromDb db now) now = live_rows db now"
  by (simp add: live_rows_def)

lemma running_block_locks:
  "running_block cf now known r rs ldb = (c, ldb') \<Longrightarrow> live_rows ldb' now = live_rows ldb now \<and> integration_operations ldb' = integration_operations ldb"
proof (induction rs arbitrary: ldb)
  case (Cons k rs)
  then show ?case by (auto simp: locks_listed split: option.split_asm if_split_asm)
qed simp

lemma running_block_None:
  "running_block cf now known r rs ldb = (None, ldb') \<Longrightarrow> k \<in> set rs \<Longrightarrow> running_conflict cf r k = None \<or> q_jobId k \<notin> set known"
proof (induction rs arbitrary: ldb)
  case (Cons x rs)
  then show ?case by (auto simp: locks_listed split: option.split_asm if_split_asm)
qed simp

lemma add_missing_known: "set known \<subseteq> set (add_missing known rs)"
proof (induction rs arbitrary: known)
  case (Cons r rs)
  let ?k = "if \<exists>k \<in> set known. q_jobId k = q_jobId r then known else known @ [r]"
  have "set known \<subseteq> set ?k" by auto
  also have "set ?k \<subseteq> set (add_missing ?k rs)" by (rule Cons.IH)
  finally show ?case by simp
qed simp

lemma no_conflict_found:
  assumes "findQueueWriteConflict cf qp now (ss_jobs s) r (ss_db s) = (None, d)"
  shows "nothing_conflicts cf now s r"
proof -
  let ?known = "map sj_id (ss_jobs s)" let ?rs = "add_missing (runningQueueRecords (ss_jobs s)) (persistedRunningQueueRecords qp (ss_db s))"
  obtain c ldb where b: "running_block cf now ?known r ?rs (qd_locks (ss_db s)) = (c, ldb)" by (rule prod.exhaust)
  have c: "c = None" using assms b by (simp add: findQueueWriteConflict_def split: option.split_asm)
  have l: "live_rows ldb now = live_rows (qd_locks (ss_db s)) now" "integration_operations ldb = integration_operations (qd_locks (ss_db s))"
    using running_block_locks [OF b] by simp_all
  have o: "open_operation h root ldb = open_operation h root (qd_locks (ss_db s))" for h root
    unfolding open_operation_def l(2) ..
  have "running_conflict cf r k = None" if "k \<in> set (runningQueueRecords (ss_jobs s))" for k
  proof -
    have "q_jobId k \<in> set ?known" using that by (auto simp: runningQueueRecords_def)
    moreover have "k \<in> set ?rs" using that add_missing_known by blast
    ultimately show ?thesis using running_block_None [OF b [unfolded c]] by blast
  qed
  moreover have "fst (findQueueRecordRepositoryBlock cf now r ldb) = None"
    using assms b c by (simp add: findQueueWriteConflict_def split: prod.split_asm)
  ultimately show ?thesis
    unfolding nothing_conflicts_def findQueueRecordRepositoryBlock_def Let_def locks_listed prod.case o l(1)
    by (auto split: if_split_asm option.split_asm simp: find_None_iff simp del: not_None_eq)
qed

lemma early_go:
  assumes "early_stage sc qp holdStarts e i s = Go j' s1"
  obtains j where "find_sched (ss_jobs s) i = Some j" "startable (host_of (qc_config (sc_queue sc))) holdStarts e j" "j' = forget_blocker j"
proof -
  obtain j where j: "find_sched (ss_jobs s) i = Some j" "sj_status j \<in> waiting_statuses"
    using assms by (auto simp: early_stage_def split: option.split_asm if_split_asm)
  have n: "early_outcome (host_of (qc_config (sc_queue sc))) holdStarts e (ss_jobs s) j = None"
    using assms j by (auto simp: early_stage_def split: option.split_asm prod.split_asm)
  have "j' = forget_blocker j" using assms j n by (simp add: early_stage_def Let_def split: if_split_asm)
  moreover have "startable (host_of (qc_config (sc_queue sc))) holdStarts e j"
    using n j(2) unfolding early_outcome_def startable_def by (auto split: if_split_asm)
  ultimately show ?thesis using that j(1) by blast
qed

lemma early_stop: "early_stage sc qp holdStarts e i s = Stop out s' \<Longrightarrow> out \<noteq> Started"
proof -
  assume a: "early_stage sc qp holdStarts e i s = Stop out s'"
  have o: "early_outcome h holdStarts e js j \<noteq> Some Started" for h js j by (simp add: early_outcome_def)
  show ?thesis
  proof
    assume "out = Started"
    with a obtain j where j: "find_sched (ss_jobs s) i = Some j" "sj_status j \<in> waiting_statuses"
      by (auto simp: early_stage_def split: option.split_asm if_split_asm)
    show False
    proof (cases "early_outcome (host_of (qc_config (sc_queue sc))) holdStarts e (ss_jobs s) j")
      case None then show False using a j \<open>out = Started\<close> by (simp add: early_stage_def Let_def split: if_split_asm)
    next
      case (Some x)
      obtain res j' d where m: "mark_turn qp e x j (ss_db s) = (res, j', d)" by (rule prod_cases3)
      show False using a j o [of "host_of (qc_config (sc_queue sc))" "ss_jobs s" j] Some \<open>out = Started\<close>
        by (simp add: early_stage_def m split: option.split_asm if_split_asm)
    qed
  qed
qed

lemma standing_stop: "standing_stage sc qp e i j s = Stop out s' \<Longrightarrow> out \<noteq> Started"
  unfolding standing_stage_def by (simp split: option.split_asm if_split_asm prod.split_asm)

lemma plan_stop: "plan_stage sc qp pauses e i j s = Stop out s' \<Longrightarrow> out \<noteq> Started"
  unfolding plan_stage_def Let_def by (simp split: if_split_asm prod.split_asm)

lemma prepare_stop: "prepare_turn sc qp holdStarts pauses e i s = Stop out s' \<Longrightarrow> out \<noteq> Started"
  unfolding prepare_turn_def using early_stop standing_stop plan_stop by (simp split: stage.split_asm)

lemma start_started:
  assumes "start_stage sc qp e i j s = (Started, s')"
  obtains d r d' where "findQueueWriteConflict (qc_config (sc_queue sc)) qp (te_look2_now e) (ss_jobs s) (sj_record j) (ss_db s) = (None, d)"
    "\<not> te_draining_late e"
    "claimQueueRecord qp (te_claim_now e) (te_fresh e) (te_claim_commit e) (sj_record j) (te_late e d) = (ClaimOk, r, d')"
    "ss_db s' = d'"
proof -
  obtain c d where l: "findQueueWriteConflict (qc_config (sc_queue sc)) qp (te_look2_now e) (ss_jobs s) (sj_record j) (ss_db s) = (c, d)" by (rule prod.exhaust)
  have c: "c = None" using assms l by (auto simp: start_stage_def Let_def split: if_split_asm option.split_asm prod.split_asm)
  obtain res r d' where cl: "claimQueueRecord qp (te_claim_now e) (te_fresh e) (te_claim_commit e) (sj_record j) (te_late e d) = (res, r, d')" by (rule prod_cases3)
  have "\<not> te_draining_late e" "res = ClaimOk" "ss_db s' = d'"
    using assms l c cl by (auto simp: start_stage_def split: if_split_asm claim_result.split_asm)
  then show ?thesis using that l c cl by blast
qed

text \<open>C9: When a turn of the scheduler starts a job, the job waited, was not cancelled, no memory hold,
  drain or recovery of its project applied, and, unless it was blocked, its start time had come; at
  the look before the claim no running job of the process conflicted with it and, unless it is a dry
  run, no live lock did and, unless it only reads, no integration of its repository was unresolved;
  its row is now running and owned by the process. The job table has distinct ids, is kept in SQLite,
  and other processes only run queue transactions meanwhile.\<close>

theorem started_job_was_free:
  assumes "schedule_turn sc qp holdStarts pauses e i s = (Started, s')" "qp_mode qp = ''sqlite''" "benign_turn e"
    and "unique_rows (qd_jobs (ss_db s))"
  shows "\<exists>j k s1 x. find_sched (ss_jobs (te_before e s)) i = Some j \<and> startable (host_of (qc_config (sc_queue sc))) holdStarts e j
    \<and> prepare_turn sc qp holdStarts pauses e i (te_before e s) = Go k s1 \<and> \<not> te_draining_late e
    \<and> nothing_conflicts (qc_config (sc_queue sc)) (te_look2_now e) s1 (sj_record k)
    \<and> find_job (ss_db s') (q_jobId (sj_record k)) = Some x \<and> qr_status x = ''running'' \<and> qr_owner_instance_id x = qp_instance qp"
proof -
  let ?st = "prepare_turn sc qp holdStarts pauses e i (te_before e s)"
  obtain k s1 where go: "?st = Go k s1" and start: "start_stage sc qp e i k s1 = (Started, s')"
  proof (cases ?st)
    case (Stop out s1)
    then show ?thesis using assms(1) prepare_stop [OF Stop] by (simp add: schedule_turn_def)
  qed (use assms(1) that in \<open>simp add: schedule_turn_def\<close>)
  obtain j0 s0 where early: "early_stage sc qp holdStarts e i (te_before e s) = Go j0 s0"
    using go by (auto simp: prepare_turn_def split: stage.split_asm)
  obtain j where j: "find_sched (ss_jobs (te_before e s)) i = Some j" "startable (host_of (qc_config (sc_queue sc))) holdStarts e j"
    by (rule early_go [OF early])
  obtain d r d' where f: "findQueueWriteConflict (qc_config (sc_queue sc)) qp (te_look2_now e) (ss_jobs s1) (sj_record k) (ss_db s1) = (None, d)"
    "\<not> te_draining_late e" and cl: "claimQueueRecord qp (te_claim_now e) (te_fresh e) (te_claim_commit e) (sj_record k) (te_late e d) = (ClaimOk, r, d')"
    and d': "ss_db s' = d'" by (rule start_started [OF start])
  have "queue_run (ss_db s) (ss_db s1)"
    using assms(3) prepare_run [OF assms(3), of "te_before e s" sc qp holdStarts pauses i] run_trans
    unfolding go stage_db_def stage.case benign_turn_def by blast
  moreover have "queue_run (ss_db s1) (te_late e d)"
    using same_jobs_run [OF conflict_look_jobs [OF f(1)]] assms(3) run_trans unfolding benign_turn_def by blast
  ultimately have u: "unique_rows (qd_jobs (te_late e d))" using run_unique assms(4) run_trans by blast
  have t: "claim_transaction qp (te_claim_now e) (te_fresh e) (sj_record k) (te_late e d) = (ClaimOk, r, d')"
    using cl assms(2) by (auto simp: claimQueueRecord_def split: prod.split_asm if_split_asm)
  obtain x where x: "claimable qp (te_claim_now e) (sj_record k) (claim_parent (te_late e d) (q_jobId (sj_record k))) x"
    "find_job d' (q_jobId (sj_record k)) = Some (claimed_row qp (te_claim_now e) r x)"
    by (rule claim_ok [OF t u])
  have "qr_status (claimed_row qp (te_claim_now e) r x) = ''running''" "qr_owner_instance_id (claimed_row qp (te_claim_now e) r x) = qp_instance qp"
    using x(1) by (simp_all add: claimed_row_def claimable_def)
  then show ?thesis using j go f(2) no_conflict_found [OF f(1)] x(2) unfolding d' by blast
qed

section \<open>The next pass\<close>

lemma min_list_le: "x \<in> set xs \<Longrightarrow> min_list xs \<le> x"
proof -
  have f: "fold min ys m \<le> m \<and> (\<forall>y \<in> set ys. fold min ys m \<le> y)" for ys :: "int list" and m
  proof (induction ys arbitrary: m)
    case (Cons y ys)
    show ?case using Cons.IH [of "min y m"] by auto
  qed simp
  assume "x \<in> set xs"
  then show ?thesis using f [of "tl xs" "hd xs"] by (cases xs) (auto simp: min_list_def)
qed

lemma backoff_bounds: "1 \<le> n \<Longrightarrow> 0 < backoff_ms poll n \<and> backoff_ms poll n \<le> QUEUE_BLOCKED_BACKOFF_MAX_MS"
proof -
  have "0 < max 1 poll * 2 ^ nat (min (n - 1) 16)" by (intro mult_pos_pos) simp_all
  then show ?thesis by (simp add: backoff_ms_def QUEUE_BLOCKED_BACKOFF_MAX_MS_def)
qed

lemma pass_delay:
  "schedule_pass sc qp p s = (r, s') \<Longrightarrow> pr_delay r = pass_end sc p (pr_progressed r) (ss_jobs s')"
  unfolding schedule_pass_def Let_def by (auto split: if_split_asm prod.split_asm)

section \<open>Retry times of blocked jobs\<close>

text \<open>No retry time lies further ahead of \<open>t\<close> than the longest backoff.\<close>

definition retries_within :: "int \<Rightarrow> sched_job list \<Rightarrow> bool" where
  "retries_within t js \<longleftrightarrow> (\<forall>j \<in> set js. sj_blockedRetryAt j \<le> t + QUEUE_BLOCKED_BACKOFF_MAX_MS)"

text \<open>A turn before \<open>t\<close>, during which the rest of the process keeps the retry times of blocked jobs so.\<close>

definition timely_turn :: "int \<Rightarrow> turn_env \<Rightarrow> bool" where
  "timely_turn t e \<longleftrightarrow> te_now e \<le> t \<and> te_look2_now e \<le> t
     \<and> (\<forall>s. retries_within t (ss_jobs s) \<longrightarrow> retries_within t (ss_jobs (te_before e s)) \<and> retries_within t (ss_jobs (te_meanwhile e s)))"

definition retry_ok :: "int \<Rightarrow> sched_job \<Rightarrow> bool" where
  "retry_ok t j \<longleftrightarrow> sj_blockedRetryAt j \<le> t + QUEUE_BLOCKED_BACKOFF_MAX_MS"

lemma retries_put: "retries_within t js \<Longrightarrow> retry_ok t j \<Longrightarrow> retries_within t (put_sched i j js)"
  by (auto simp: retries_within_def retry_ok_def put_sched_def)

lemma retries_drop: "retries_within t js \<Longrightarrow> retries_within t (drop_sched i js)"
  by (simp add: retries_within_def drop_sched_def)

lemma retries_find: "retries_within t js \<Longrightarrow> find_sched js i = Some j \<Longrightarrow> retry_ok t j"
  unfolding retries_within_def retry_ok_def find_sched_def find_Some_iff by (metis nth_mem)

lemma retries_with_job: "retries_within t (ss_jobs s) \<Longrightarrow> retry_ok t j \<Longrightarrow> retries_within t (ss_jobs (with_job i j db s))"
  by (simp add: with_job_def retries_put)

lemma defer_ok: "now \<le> t \<Longrightarrow> retry_ok t (rememberLocalBlocker js c (deferBlockedRecord poll now j))"
  by (auto simp: retry_ok_def rememberLocalBlocker_def deferBlockedRecord_def backoff_ms_def Let_def split: option.split)

lemma update_sched_retry:
  "update_sched qp e patch mem j db = (res, j', db') \<Longrightarrow> (\<And>k. sj_blockedRetryAt (mem k) = sj_blockedRetryAt k) \<Longrightarrow> sj_blockedRetryAt j' = sj_blockedRetryAt j"
  by (auto simp: update_sched_def split: prod.split_asm)

lemma reacquiring_retry:
  assumes "updateQueueRecordDurableReacquiringLease qp e patch id j db = (res, j', db')"
  shows "sj_blockedRetryAt j' = sj_blockedRetryAt j"
proof -
  obtain res1 j1 d1 where t: "update_sched qp (rq_first e) patch id j db = (res1, j1, d1)" by (rule prod_cases3)
  have one: "sj_blockedRetryAt j1 = sj_blockedRetryAt j" by (rule update_sched_retry [OF t]) simp
  have two: "sj_blockedRetryAt j' = sj_blockedRetryAt j" if "update_sched qp (rq_second e) patch id (j1\<lparr>sj_record := r\<rparr>) d2 = (res, j', db')" for r d2
    using update_sched_retry [OF that] one by simp
  show ?thesis using assms t one two unfolding updateQueueRecordDurableReacquiringLease_def Let_def
    by (auto split: if_split_asm prod.split_asm option.split_asm)
qed

lemma mark_retry: "mark_turn qp e out j db = (res, j', db') \<Longrightarrow> sj_blockedRetryAt j' = sj_blockedRetryAt j"
  unfolding mark_turn_def by (auto split: if_split_asm prod.split_asm dest!: update_sched_retry)

definition stage_ok :: "int \<Rightarrow> stage \<Rightarrow> bool" where
  "stage_ok t st \<longleftrightarrow> (case st of Stop out s \<Rightarrow> retries_within t (ss_jobs s) | Go j s \<Rightarrow> retry_ok t j \<and> retries_within t (ss_jobs s))"

lemma early_ok:
  assumes "retries_within t (ss_jobs s)" "0 \<le> t" shows "stage_ok t (early_stage sc qp holdStarts e i s)"
proof -
  have "retry_ok t (forget_blocker j)" if "retry_ok t j" for j
    using that assms(2) by (simp add: retry_ok_def forget_blocker_def QUEUE_BLOCKED_BACKOFF_MAX_MS_def)
  then show ?thesis using assms(1) retries_find [OF assms(1)] mark_retry
    unfolding early_stage_def stage_ok_def Let_def
    by (auto simp: retries_with_job split: option.split prod.split stage.split) (metis retries_with_job retry_ok_def)+
qed

lemma standing_ok:
  assumes "retries_within t (ss_jobs s)" "retry_ok t j" "te_now e \<le> t" shows "stage_ok t (standing_stage sc qp e i j s)"
  using assms unfolding standing_stage_def stage_ok_def
  by (auto intro!: retries_with_job defer_ok split: option.split prod.split)

lemma plan_ok:
  assumes "retries_within t (ss_jobs s)" "retry_ok t j" "timely_turn t e" shows "stage_ok t (plan_stage sc qp pauses e i j s)"
proof -
  obtain res j' d where u: "updateQueueRecordDurableReacquiringLease qp (te_plan e) (plan_patch (pause_of sc pauses e j)) id j (ss_db s) = (res, j', d)"
    by (rule prod_cases3)
  have j': "retry_ok t j'" using reacquiring_retry [OF u] assms(2) by (simp add: retry_ok_def)
  define s' where "s' = with_job i j' d s"
  have w: "retries_within t (ss_jobs s')" unfolding s'_def by (rule retries_with_job [OF assms(1) j'])
  then have "retries_within t (ss_jobs (te_meanwhile e s'))" using assms(3) by (simp add: timely_turn_def)
  then show ?thesis using w j' retries_drop retries_find unfolding plan_stage_def stage_ok_def Let_def u prod.case s'_def [symmetric]
    by (auto split: option.split)
qed

lemma start_ok:
  assumes "retries_within t (ss_jobs s)" "retry_ok t j" "te_look2_now e \<le> t" "start_stage sc qp e i j s = (out, s')"
  shows "retries_within t (ss_jobs s')"
proof -
  obtain c db where l: "findQueueWriteConflict (qc_config (sc_queue sc)) qp (te_look2_now e) (ss_jobs s) (sj_record j) (ss_db s) = (c, db)"
    by (rule prod.exhaust)
  show ?thesis
  proof (cases "te_look2 e \<and> c \<noteq> None")
    case True
    then obtain x where x: "c = Some x" by blast
    define rj where "rj = (sc_conflictPolicy sc = ''reject'' \<and> qx_errorType x \<noteq> ''integration_recovery_pending'')"
    obtain res j' d where u: "update_sched qp (te_block e) (conflict_patch rj (te_look2_now e) x) (\<lambda>k. k\<lparr>sj_errorReason := conflict_reason rj x\<rparr>) j db = (res, j', d)"
      by (rule prod_cases3)
    have "retry_ok t j'" using update_sched_retry [OF u] assms(2) by (simp add: retry_ok_def)
    then show ?thesis using assms(1,3,4) True l u unfolding start_stage_def x rj_def [symmetric] Let_def
      by (auto intro!: retries_with_job defer_ok simp: rj_def [symmetric] split: if_split_asm)
  next
    case False
    then show ?thesis using assms(1,2,4) l unfolding start_stage_def
      by (auto intro!: retries_with_job simp: retry_ok_def split: if_split_asm prod.split_asm)
  qed
qed

lemma stage_okD: "stage_ok t (Stop out s) \<Longrightarrow> retries_within t (ss_jobs s)" "stage_ok t (Go j s) \<Longrightarrow> retry_ok t j \<and> retries_within t (ss_jobs s)"
  by (simp_all add: stage_ok_def)

lemma prepare_ok:
  assumes "retries_within t (ss_jobs s)" "0 \<le> t" "timely_turn t e"
  shows "stage_ok t (prepare_turn sc qp holdStarts pauses e i s)"
proof (cases "early_stage sc qp holdStarts e i s")
  case (Stop out s1)
  then show ?thesis using early_ok [OF assms(1,2), of sc qp holdStarts e i] by (simp add: prepare_turn_def)
next
  case (Go j s1)
  have now: "te_now e \<le> t" using assms(3) by (simp add: timely_turn_def)
  have 1: "retry_ok t j \<and> retries_within t (ss_jobs s1)" using early_ok [OF assms(1,2), of sc qp holdStarts e i] Go by (simp add: stage_ok_def)
  have 2: "stage_ok t (standing_stage sc qp e i j s1)" by (rule standing_ok) (use 1 now in simp_all)
  show ?thesis
  proof (cases "standing_stage sc qp e i j s1")
    case (Stop out s2)
    then show ?thesis using 2 Go by (simp add: prepare_turn_def)
  next
    case (Go j' s2)
    then have "stage_ok t (plan_stage sc qp pauses e i j' s2)" using plan_ok [OF _ _ assms(3)] 2 stage_okD(2) by metis
    then show ?thesis using Go \<open>early_stage sc qp holdStarts e i s = stage.Go j s1\<close> by (simp add: prepare_turn_def)
  qed
qed

lemma turn_ok:
  assumes "retries_within t (ss_jobs s)" "0 \<le> t" "timely_turn t e" "schedule_turn sc qp holdStarts pauses e i s = (out, s')"
  shows "retries_within t (ss_jobs s')"
proof -
  have b: "retries_within t (ss_jobs (te_before e s))" "te_look2_now e \<le> t" using assms(1,3) by (simp_all add: timely_turn_def)
  note ok = prepare_ok [OF b(1) assms(2,3), of sc qp holdStarts pauses i]
  show ?thesis
  proof (cases "prepare_turn sc qp holdStarts pauses e i (te_before e s)")
    case (Stop out1 s1)
    then show ?thesis using ok assms(4) stage_okD(1) by (simp add: schedule_turn_def)
  next
    case (Go j s1)
    then have "retries_within t (ss_jobs s1)" "retry_ok t j" using ok stage_okD(2) by auto
    then show ?thesis by (rule start_ok [OF _ _ b(2)]) (use assms(4) Go in \<open>simp add: schedule_turn_def\<close>)
  qed
qed

lemma turns_ok:
  "pass_turns sc qp holdStarts pauses capacity ts s = (outs, progressed, s') \<Longrightarrow> retries_within t (ss_jobs s) \<Longrightarrow> 0 \<le> t
    \<Longrightarrow> \<forall>(e, i) \<in> set ts. timely_turn t e \<Longrightarrow> retries_within t (ss_jobs s')"
proof (induction ts arbitrary: capacity s outs progressed s')
  case (Cons x ts)
  obtain e i where x: "x = (e, i)" by (rule prod.exhaust)
  obtain out s1 where o: "schedule_turn sc qp holdStarts pauses e i s = (out, s1)" by (rule prod.exhaust)
  have s1: "retries_within t (ss_jobs s1)" by (rule turn_ok [OF Cons.prems(2,3) _ o]) (use Cons.prems(4) x in auto)
  show ?case
  proof (cases "capacity = 0 \<or> out = TurnThrew")
    case True then show ?thesis using Cons.prems(1,2) x o s1 by (auto simp: Let_def split: if_split_asm)
  next
    case False
    then obtain outs' later where "pass_turns sc qp holdStarts pauses (if out = Started then capacity - 1 else capacity) ts s1 = (outs', later, s')"
      using Cons.prems(1) x o by (auto simp: Let_def split: prod.split_asm)
    then show ?thesis by (rule Cons.IH [OF _ s1 Cons.prems(3)]) (use Cons.prems(4) in auto)
  qed
qed simp

lemma released_ok: "releaseResumedPauseWaits qc pauses now force checkedAt js = (n, js', c) \<Longrightarrow> retries_within t js \<Longrightarrow> retries_within t js'"
  unfolding releaseResumedPauseWaits_def Let_def
  by (auto simp: retries_within_def released_wait_def split: if_split_asm option.split_asm)

lemma pass_ok:
  assumes "schedule_pass sc qp p s = (r, s')" "retries_within t (ss_jobs s)" "0 \<le> t" "\<forall>(e, i) \<in> set (pa_turns p). timely_turn t e"
  shows "retries_within t (ss_jobs s')"
  using assms unfolding schedule_pass_def Let_def
  by (auto split: if_split_asm prod.split_asm dest!: turns_ok released_ok [of _ _ _ _ _ _ _ _ _ t])

text \<open>The backoff a worker notes on a job it blocks again keeps the bound as well.\<close>

lemma backoff_note_ok: "now \<le> t \<Longrightarrow> retry_ok t (backoff_note (queueBlockedBackoffPatch poll now j) reason k)"
  by (auto simp: retry_ok_def backoff_note_def queueBlockedBackoffPatch_def backoff_ms_def Let_def)

section \<open>Work that waits\<close>

text \<open>C20: When no retry time of a blocked job lies further ahead than the longest backoff, and what else
  the process does during the pass keeps that, a pass keeps it too; and while a job of the map then
  waits outside recovery and the process has capacity, it asks for a next pass within the longer of
  the (positive) poll time and the longest backoff, and not before the poll time unless there was
  progress or a wake was asked for.\<close>

theorem waiting_work_gets_a_pass:
  assumes "schedule_pass sc qp p s = (r, s')" "0 < qc_blockedPollMs (sc_queue sc)" "0 \<le> pa_end p"
    and "retries_within (pa_end p) (ss_jobs s)" "\<forall>(e, i) \<in> set (pa_turns p). timely_turn (pa_end p) e"
    and "j \<in> set (ss_jobs s')" "sj_status j \<in> waiting_statuses"
    and "\<not> in_recovery (host_of (qc_config (sc_queue sc))) (pa_endRoots p) (sj_record j)"
    and "int (length (runningQueueRecords (ss_jobs s'))) < sc_parallelLimit sc"
  shows "retries_within (pa_end p) (ss_jobs s') \<and> (\<exists>d. pr_delay r = Some d \<and> 0 \<le> d \<and> d \<le> max (qc_blockedPollMs (sc_queue sc)) QUEUE_BLOCKED_BACKOFF_MAX_MS
    \<and> (\<not> pr_progressed r \<and> \<not> pa_requested p \<longrightarrow> qc_blockedPollMs (sc_queue sc) \<le> d))"
proof (rule conjI)
  show within: "retries_within (pa_end p) (ss_jobs s')" by (rule pass_ok [OF assms(1,4,3,5)])
  have retry: "sj_blockedRetryAt j \<le> pa_end p + QUEUE_BLOCKED_BACKOFF_MAX_MS" using within assms(6) by (simp add: retries_within_def)
  let ?poll = "qc_blockedPollMs (sc_queue sc)"
  let ?js = "filter (\<lambda>j. \<not> in_recovery (host_of (qc_config (sc_queue sc))) (pa_endRoots p) (sj_record j)) (ss_jobs s')"
  have j: "j \<in> set ?js" using assms(6,8) by simp
  have d: "pr_delay r = nextQueueScheduleDelay ?poll ?js True (pr_progressed r \<or> pa_requested p) (pa_end p)"
    using pass_delay [OF assms(1)] assms(9) by (simp add: pass_end_def)
  show "\<exists>d. pr_delay r = Some d \<and> 0 \<le> d \<and> d \<le> max ?poll QUEUE_BLOCKED_BACKOFF_MAX_MS
    \<and> (\<not> pr_progressed r \<and> \<not> pa_requested p \<longrightarrow> ?poll \<le> d)"
  proof (cases "list_ex (\<lambda>j. sj_status j \<in> {''pending'', ''planned''}) ?js")
    case True
    then have "pr_delay r = Some (if pr_progressed r \<or> pa_requested p then 0 else ?poll)" unfolding d nextQueueScheduleDelay_def by simp
    then show ?thesis using assms(2) by (auto simp: max_def)
  next
    case False
    let ?b = "filter (\<lambda>j. sj_status j = ''blocked'') ?js"
    have b: "j \<in> set ?b" using False j assms(7) by (auto simp: list_ex_iff)
    let ?waits = "map (\<lambda>j. max 0 (sj_blockedRetryAt j - pa_end p)) ?b"
    have "pr_delay r = Some (max ?poll (min_list ?waits))" unfolding d nextQueueScheduleDelay_def Let_def using False b
      by (metis (no_types, lifting) empty_iff list.set(1))
    moreover have "min_list ?waits \<le> max 0 (sj_blockedRetryAt j - pa_end p)" by (rule min_list_le) (use b in auto)
    ultimately show ?thesis using assms(2) retry by (auto simp: QUEUE_BLOCKED_BACKOFF_MAX_MS_def)
  qed
qed

section \<open>A sample pass\<close>

definition idle_turn :: turn_env where
  "idle_turn = \<lparr>te_before = id, te_recoveryRoots = [], te_now = 9, te_draining = False, te_mark = \<lparr>ue_persist = quiet_env, ue_heartbeat = id\<rparr>,
     te_look1 = True, te_plan = \<lparr>rq_first = \<lparr>ue_persist = quiet_env, ue_heartbeat = id\<rparr>, rq_opens = True, rq_now = 9,
       rq_second = \<lparr>ue_persist = quiet_env, ue_heartbeat = id\<rparr>\<rparr>, te_meanwhile = id, te_look2 = True, te_look2_now = 9,
     te_block = \<lparr>ue_persist = quiet_env, ue_heartbeat = id\<rparr>, te_draining_late = False, te_late = id, te_claim_now = 9, te_fresh = ''g9'',
     te_claim_commit = Committed\<rparr>"

definition sample_sched :: "string \<Rightarrow> sched_job" where
  "sample_sched st = \<lparr>sj_record = sample_record\<lparr>q_status := st\<rparr>, sj_errorReason = [], sj_blockedCount = 0, sj_blockedRetryAt = 0,
     sj_blockedOnJobId = [], sj_blockedOnGeneration = []\<rparr>"

definition waiting_state :: sched_state where
  "waiting_state = \<lparr>ss_jobs = [sample_sched ''pending''], ss_db = queue_of [sample_row ''pending'' None]\<rparr>"

definition sample_sched_config :: sched_config where
  "sample_sched_config = \<lparr>sc_queue = \<lparr>qc_config = sample_config, qc_provider = sample_provider, qc_allowlist = [], qc_blockedPollMs = 20,
     qc_autoResumeInterrupted = False, qc_autoIntegrateAllowed = False\<rparr>, sc_parallelLimit = 1, sc_conflictPolicy = ''wait''\<rparr>"

definition sample_pass :: pass_env where
  "sample_pass = \<lparr>pa_now = 9, pa_checkedAt = 0, pa_pauses = None, pa_floorMb = 0, pa_freeBytes = 0, pa_turns = [(idle_turn, ''j1'')],
     pa_requested = False, pa_endRoots = [], pa_end = 9\<rparr>"

definition passed :: "pass_result \<times> sched_state" where
  "passed = schedule_pass sample_sched_config sample_process sample_pass waiting_state"

definition turned :: "turn_outcome \<times> sched_state" where
  "turned = schedule_turn sample_sched_config sample_process False None idle_turn ''j1'' waiting_state"

lemma idle_benign: "benign_turn idle_turn"
  by (simp add: benign_turn_def benign_update_def idle_turn_def quiet_env_def)

lemma passed_view: "map snd (pr_outcomes (fst passed)) = [Started] \<and> map qr_status (qd_jobs (ss_db (snd passed))) = [''running'']"
  by code_simp

lemma turned_view: "fst turned = Started"
  by code_simp

theorem pass_is_a_queue_run_witness:
  "queue_run (queue_of [sample_row ''pending'' None]) (ss_db (snd passed)) \<and> map qr_status (qd_jobs (ss_db (snd passed))) = [''running'']"
proof -
  obtain r s' where p: "passed = (r, s')" by (rule prod.exhaust)
  have "queue_run (ss_db waiting_state) (ss_db s')"
    by (rule pass_is_a_queue_run [OF p [unfolded passed_def], THEN conjunct1]) (simp add: sample_pass_def idle_benign)
  then show ?thesis using passed_view unfolding p by (simp add: waiting_state_def)
qed

theorem pass_respects_limit_witness:
  "length (filter (\<lambda>x. snd x = Started) (pr_outcomes (fst passed))) = 1 \<and> sc_parallelLimit sample_sched_config = 1"
proof -
  obtain r s' where p: "passed = (r, s')" by (rule prod.exhaust)
  have "int (length (filter (\<lambda>x. snd x = Started) (pr_outcomes r))) \<le> 1"
    using pass_respects_limit [OF p [unfolded passed_def]] by (simp add: sample_sched_config_def)
  moreover have "\<exists>x \<in> set (pr_outcomes r). snd x = Started" using passed_view unfolding p by force
  then have "filter (\<lambda>x. snd x = Started) (pr_outcomes r) \<noteq> []" by (auto simp: filter_empty_conv)
  ultimately have "length (filter (\<lambda>x. snd x = Started) (pr_outcomes r)) = 1"
    by (cases "filter (\<lambda>x. snd x = Started) (pr_outcomes r)") auto
  then show ?thesis unfolding p by (simp add: sample_sched_config_def)
qed

theorem started_job_was_free_witness:
  "\<exists>k s1 x. prepare_turn sample_sched_config sample_process False None idle_turn ''j1'' waiting_state = Go k s1
     \<and> nothing_conflicts sample_config 9 s1 (sj_record k)
     \<and> find_job (ss_db (snd turned)) (q_jobId (sj_record k)) = Some x \<and> qr_status x = ''running''"
proof -
  obtain s' where t: "turned = (Started, s')" using turned_view by (metis prod.collapse)
  have "unique_rows (qd_jobs (ss_db waiting_state))" by (simp add: waiting_state_def queue_of_def)
  from started_job_was_free [OF t [unfolded turned_def] _ idle_benign this] show ?thesis unfolding t
    by (simp add: sample_process_def sample_sched_config_def idle_turn_def) blast
qed

definition blocked_state :: sched_state where
  "blocked_state = \<lparr>ss_jobs = [(sample_sched ''blocked'')\<lparr>sj_blockedRetryAt := 400\<rparr>], ss_db = queue_of []\<rparr>"

lemma idle_timely: "9 \<le> t \<Longrightarrow> timely_turn t idle_turn"
  by (simp add: timely_turn_def idle_turn_def)

theorem waiting_work_gets_a_pass_witness:
  "\<exists>d. pr_delay (fst (schedule_pass sample_sched_config sample_process sample_pass blocked_state)) = Some d \<and> 20 \<le> d \<and> d \<le> 60000"
proof -
  let ?p = "schedule_pass sample_sched_config sample_process sample_pass blocked_state"
  obtain r s' where p: "?p = (r, s')" by (rule prod.exhaust)
  have v: "ss_jobs (snd ?p) = ss_jobs blocked_state \<and> pr_progressed (fst ?p) = False" by code_simp
  have j: "(sample_sched ''blocked'')\<lparr>sj_blockedRetryAt := 400\<rparr> \<in> set (ss_jobs s')" using v p by (simp add: blocked_state_def)
  have "\<exists>d. pr_delay r = Some d \<and> 0 \<le> d \<and> d \<le> max (qc_blockedPollMs (sc_queue sample_sched_config)) QUEUE_BLOCKED_BACKOFF_MAX_MS
    \<and> (\<not> pr_progressed r \<and> \<not> pa_requested sample_pass \<longrightarrow> qc_blockedPollMs (sc_queue sample_sched_config) \<le> d)"
    by (rule waiting_work_gets_a_pass [OF p _ _ _ _ j, THEN conjunct2])
      (use v p in \<open>simp_all add: sample_sched_config_def sample_sched_def in_recovery_def idle_timely retries_within_def sample_pass_def
         runningQueueRecords_def blocked_state_def sample_record_def QUEUE_BLOCKED_BACKOFF_MAX_MS_def\<close>)
  then show ?thesis using v unfolding p by (simp add: sample_sched_config_def sample_pass_def QUEUE_BLOCKED_BACKOFF_MAX_MS_def) blast
qed

end
