(* ===== verification/WorkerSafety.thy ===== *)
theory WorkerSafety
  imports QueueWorker QueueProperties
begin

text \<open>
  Properties of a worker: its end is stored or the worker is given up, a run is stored as completed only when
  it had no error and its changed files passed the check, and waits for a workspace end.
\<close>

section \<open>The status a terminal write leaves\<close>

definition ending :: "string set" where "ending = {''completed'', ''failed'', ''cancelled''}"

definition busy :: "string \<Rightarrow> bool" where "busy st \<longleftrightarrow> st \<in> active_statuses"

definition over :: "string \<Rightarrow> bool" where "over st \<longleftrightarrow> st \<in> terminal_statuses"

lemma ending_not_busy: "st \<in> ending \<Longrightarrow> \<not> busy st" by (auto simp: ending_def busy_def)

lemma over_not_busy: "over st \<Longrightarrow> \<not> busy st" by (auto simp: over_def busy_def)

lemma ending_members [simp]: "''completed'' \<in> ending" "''failed'' \<in> ending" "''cancelled'' \<in> ending" by (simp_all add: ending_def)

lemma enforce_status:
  "q_status (enforceQueueResultEvidence qp r) = q_status r \<or> q_status (enforceQueueResultEvidence qp r) = ''failed''"
  by (simp add: enforceQueueResultEvidence_def Let_def)

lemma enforce_ending: "q_status r \<in> ending \<Longrightarrow> q_status (enforceQueueResultEvidence qp r) \<in> ending"
  using enforce_status [of qp r] by auto

lemma release_status [simp]: "q_status (releaseFinishedQueueDetails qp x r) = q_status r"
  by (simp add: releaseFinishedQueueDetails_def queueRecordDurableSummary_def Let_def)

lemma merge_status [simp]: "q_status (merge_live l c) = q_status c"
  by (simp add: merge_live_def)

lemma load_status: "q_status (loadPersistedQueueRecord r row) = (case row of None \<Rightarrow> q_status r | Some x \<Rightarrow> qr_status x)"
  by (auto simp: loadPersistedQueueRecord_def with_columns_def split: option.split)

text \<open>What a terminal write of \<open>r\<close> answers, and the status of the record it leaves.\<close>

definition leaves :: "queue_record \<Rightarrow> terminal_result \<Rightarrow> queue_record \<Rightarrow> bool" where
  "leaves r res r' \<longleftrightarrow> (case res of
      TerminalPersisted st b \<Rightarrow> q_status r' = st \<and> st \<in> {q_status r, ''cancelled''}
    | NeedsCancellationEnvelope \<Rightarrow> q_status r' = q_status r
    | TerminalRefused st c lost \<Rightarrow> q_status r' = q_status r \<and> st = ''missing'' \<or> q_status r' = st
    | TerminalThrown \<Rightarrow> r' = r)"

lemma ended_status: "q_status (ended_record qp now current r) \<in> {q_status r, ''cancelled''}"
  by (auto simp: ended_record_def terminal_record_def unleased_def applyDurableCancellationOutcome_def Let_def split: option.split)

lemma cancelled_record_status [simp]: "q_status (cancelled_record now r x) = ''cancelled''"
  by (simp add: cancelled_record_def unleased_def applyDurableCancellationOutcome_def)

lemma terminal_leaves:
  assumes "terminal_transaction qp now envelope r db = (res, r', d)" shows "leaves r res r'"
proof -
  let ?t = "noteRetryIntent now (find_job db (q_jobId r)) (ended_record qp now (find_job db (q_jobId r)) r)"
  have t: "q_status ?t \<in> {q_status r, ''cancelled''}" using ended_status by simp
  have refused: "leaves r (terminal_refusal qp r n db) (loadPersistedQueueRecord r (find_job db (q_jobId r)))" for n
    by (simp add: leaves_def terminal_refusal_def load_status split: option.split)
  consider "(res, r') = (NeedsCancellationEnvelope, r)" | b where "(res, r') = (TerminalPersisted (q_status ?t) b, ?t)"
    | "(res, r') = (TerminalPersisted ''cancelled'' True, cancelled_record now r (the (find_job db (q_jobId r))))"
    | n where "(res, r') = (terminal_refusal qp r n db, loadPersistedQueueRecord r (find_job db (q_jobId r)))"
    using assms unfolding terminal_transaction_def Let_def by (auto split: if_split_asm prod.split_asm)
  then show ?thesis using t refused by cases (auto simp: leaves_def)
qed

lemma persist_terminal_leaves: "persistTerminalQueueRecord qp now commit envelope r db = (res, r', d) \<Longrightarrow> leaves r res r'"
proof -
  assume p: "persistTerminalQueueRecord qp now commit envelope r db = (res, r', d)"
  obtain res1 r1 d1 where t: "terminal_transaction qp now envelope r db = (res1, r1, d1)" by (rule prod_cases3)
  have "(res = res1 \<and> r' = r1) \<or> (res = TerminalThrown \<and> r' = r)"
    using p t by (auto simp: persistTerminalQueueRecord_def split: if_split_asm commit_outcome.split_asm)
  then show ?thesis using terminal_leaves [OF t] by (auto simp: leaves_def)
qed

text \<open>The same for a persisted record in a terminal status.\<close>

definition settled :: "queue_record \<Rightarrow> persist_result \<Rightarrow> queue_record \<Rightarrow> bool" where
  "settled r res r' \<longleftrightarrow> persist_threw res
     \<or> (persisted res \<and> result_status res = q_status r' \<and> q_status r' \<in> ending \<and> (q_status r' = ''completed'' \<longrightarrow> q_status r = ''completed''))
     \<or> (\<not> persisted res \<and> (q_status r' \<in> ending \<or> q_status r' = result_status res))"

lemma persist_settled:
  assumes "persistQueueRecord qp e r0 db = (res, r', d)" "q_status r0 \<in> ending" shows "settled r0 res r'"
proof -
  define r where "r = enforceQueueResultEvidence qp r0"
  have r: "q_status r \<in> ending" "q_status r = ''completed'' \<Longrightarrow> q_status r0 = ''completed''"
    using enforce_ending [OF assms(2)] enforce_status [of qp r0] unfolding r_def by auto
  note u = assms(1) [unfolded persistQueueRecord_def Let_def, folded r_def]
  show ?thesis
  proof (cases "qp_mode qp = ''sqlite''")
    case False
    then have "res = Persisted (q_status r) (q_revision r + 1)" "q_status r' = q_status r" using u by auto
    then show ?thesis using r by (auto simp: settled_def persisted_def result_status_def)
  next
    case True
    obtain res1 r1 d1 where t1: "persistTerminalQueueRecord qp (pe_now e) (pe_commit e) None r db = (res1, r1, d1)" by (rule prod_cases3)
    obtain res2 r2 d2 where t2: "persistTerminalQueueRecord qp (pe_now2 e) (pe_commit2 e) (Some (qp_encrypt qp (applyDurableCancellationOutcome r None))) r
        (pe_others e d1) = (res2, r2, d2)" by (rule prod_cases3)
    obtain t rt where t: "res = PersistTerminal t" "leaves r t rt" "q_status r' = q_status rt"
    proof (cases "res1 = NeedsCancellationEnvelope")
      case True
      then have "res = PersistTerminal res2" "q_status r' = q_status r2" using u \<open>qp_mode qp = _\<close> r(1) [unfolded ending_def] t1 t2
        by (auto split: terminal_result.split_asm if_split_asm)
      then show ?thesis using that persist_terminal_leaves [OF t2] by blast
    next
      case False
      then have "res = PersistTerminal res1" "q_status r' = q_status r1" using u \<open>qp_mode qp = _\<close> r(1) [unfolded ending_def] t1
        by (auto split: terminal_result.split_asm if_split_asm)
      then show ?thesis using that persist_terminal_leaves [OF t1] by blast
    qed
    show ?thesis
    proof (cases t)
      case (TerminalPersisted st b)
      then have st: "q_status r' = st" "st = q_status r \<or> st = ''cancelled''" using t(2,3) by (auto simp: leaves_def)
      then show ?thesis using r TerminalPersisted t(1) by (auto simp: settled_def persisted_def result_status_def)
    next
      case NeedsCancellationEnvelope
      then have "q_status r' = q_status r" using t(2,3) by (simp add: leaves_def)
      then show ?thesis using r(1) t(1) NeedsCancellationEnvelope by (auto simp: settled_def persisted_def)
    next
      case (TerminalRefused st c lost)
      then have "q_status r' = q_status r \<or> q_status r' = st" using t(2,3) by (auto simp: leaves_def)
      then show ?thesis using r(1) t(1) TerminalRefused by (auto simp: settled_def persisted_def result_status_def)
    next
      case TerminalThrown
      then show ?thesis using t(1) by (simp add: settled_def persist_threw_def)
    qed
  qed
qed

lemma update_settled:
  assumes "update_sched qp e patch keep j db = (res, j', d)" "q_status (patch (sj_record j)) \<in> ending"
  shows "settled (patch (sj_record j)) res (sj_record j')"
proof -
  obtain res1 r1 d1 where p: "persistQueueRecord qp (ue_persist e) (patch (sj_record j)) db = (res1, r1, d1)" by (rule prod_cases3)
  have "res = res1" "persist_threw res \<or> q_status (sj_record j') = q_status r1"
    using assms(1) p by (auto simp: update_sched_def updateQueueRecordDurable_def split: if_split_asm)
  then show ?thesis using persist_settled [OF p assms(2)] unfolding settled_def by auto
qed

section \<open>The commit of an end\<close>

definition given_up :: "worker \<Rightarrow> bool" where "given_up w \<longleftrightarrow> \<not> wk_tracked w \<and> wk_ownershipLost w"

lemma abandoned_given_up: "qp_mode qp = ''sqlite'' \<Longrightarrow> given_up (abandonLocalQueueWorker qp w)"
  by (simp add: given_up_def abandonLocalQueueWorker_def)

lemma abandon_job [simp]: "wk_job (abandonLocalQueueWorker qp w) = wk_job w"
  by (simp add: abandonLocalQueueWorker_def)

text \<open>An attempt that answers leaves the record in a status that is not active, or gives the worker up.\<close>

lemma terminal_update:
  assumes "updateQueueTerminalRecordDurable qp e patch keep w db = (res, w', d)" "\<And>r. q_status (patch r) \<in> ending"
  shows "persist_threw res \<or> (\<not> persisted res \<and> ownership_lost res \<longrightarrow> qp_mode qp = ''sqlite'' \<longrightarrow> given_up w')
     \<and> (persisted res \<longrightarrow> result_status res = sj_status (wk_job w') \<and> sj_status (wk_job w') \<in> ending)
     \<and> (\<not> persisted res \<longrightarrow> sj_status (wk_job w') \<in> ending \<or> sj_status (wk_job w') = result_status res)"
proof -
  obtain res1 j1 d1 where u: "update_sched qp e patch keep (wk_job w) db = (res1, j1, d1)" by (rule prod_cases3)
  have s: "settled (patch (sj_record (wk_job w))) res1 (sj_record j1)" by (rule update_settled [OF u assms(2)])
  have w: "res = res1" "wk_job w' = j1"
    "\<not> persist_threw res \<and> \<not> persisted res \<and> ownership_lost res \<Longrightarrow> w' = abandonLocalQueueWorker qp (w\<lparr>wk_job := j1\<rparr>)"
    using assms(1) u by (auto simp: updateQueueTerminalRecordDurable_def Let_def)
  then show ?thesis using s abandoned_given_up [of qp "w\<lparr>wk_job := j1\<rparr>"] unfolding settled_def w(1,2) by auto
qed

lemma commit_loop_answer:
  assumes "commit_loop qp patch keep ts w db = (Some res, w', d)" "\<And>r. q_status (patch r) \<in> ending" "qp_mode qp = ''sqlite''"
  shows "given_up w' \<or> \<not> busy (sj_status (wk_job w'))"
  using assms(1)
proof (induction ts arbitrary: w db)
  case (Cons t ts)
  obtain res1 w1 d1 where u: "updateQueueTerminalRecordDurable qp (cu_update t) patch keep w (cu_others t db) = (res1, w1, d1)" by (rule prod_cases3)
  show ?case
  proof (cases "\<not> persist_threw res1 \<and> (persisted res1 \<or> ownership_lost res1 \<or> result_status res1 \<notin> active_statuses)")
    case True
    then have w: "w' = w1" using Cons.prems u by simp
    note up = terminal_update [OF u assms(2)]
    from True have nt: "\<not> persist_threw res1" and or: "persisted res1 \<or> ownership_lost res1 \<or> \<not> busy (result_status res1)"
      by (simp_all add: busy_def)
    from or up nt show ?thesis unfolding w using assms(3) ending_not_busy by metis
  next
    case False
    then have "commit_loop qp patch keep ts w1 d1 = (Some res, w', d)" using Cons.prems u by (simp split: if_split_asm)
    then show ?thesis by (rule Cons.IH)
  qed
qed simp

lemma retry_intent_status [simp]: "q_status (retry_intent now patch r0 r) = q_status (patch r)"
  by (simp add: retry_intent_def)

text \<open>C18: When the commit of the end of a worker returns, whatever failed on the way, its job is no
  longer in an active status here, or the worker is given up, untracked and without ownership, for
  recovery to take over.\<close>

theorem worker_end_is_settled:
  assumes "commitQueueTerminalRecord qp e patch keep w db = (res, w', d)" "\<And>r. q_status (patch r) \<in> {''completed'', ''failed'', ''cancelled''}"
    and "qp_mode qp = ''sqlite''"
  shows "(\<not> wk_tracked w' \<and> wk_ownershipLost w') \<or> sj_status (wk_job w') \<notin> active_statuses"
proof -
  define p where "p = retry_intent (ce_now e) patch (sj_record (wk_job w))"
  have p: "q_status (p r) \<in> ending" for r using assms(2) by (simp add: p_def ending_def)
  obtain res1 w1 d1 where l: "commit_loop qp p keep (take QUEUE_TERMINAL_COMMIT_ATTEMPTS (ce_turns e)) w db = (res1, w1, d1)" by (rule prod_cases3)
  have "given_up w' \<or> \<not> busy (sj_status (wk_job w'))"
  proof (cases res1)
    case (Some x)
    then have "w' = w1" using assms(1) l unfolding commitQueueTerminalRecord_def Let_def p_def [symmetric] by simp
    then show ?thesis using commit_loop_answer [OF l [unfolded Some] p assms(3)] by simp
  next
    case None
    define ip where "ip = infrastructure_patch (ce_now e) (ce_quarantined e) p"
    have ip: "q_status (ip r) \<in> ending" for r by (simp add: ip_def infrastructure_patch_def Let_def)
    obtain res2 w2 d2 where u: "updateQueueTerminalRecordDurable qp (ce_failure e) ip (\<lambda>j. j\<lparr>sj_errorReason := ce_failure_reason e\<rparr>) w1 d1
      = (res2, w2, d2)" by (rule prod_cases3)
    have w': "w' = (if persist_threw res2 \<or> (\<not> persisted res2 \<and> \<not> over (result_status res2)) then abandonLocalQueueWorker qp w2 else w2)"
      using assms(1) l None u unfolding commitQueueTerminalRecord_def Let_def p_def [symmetric] handleQueueWorkerInfrastructureFailure_def ip_def [symmetric]
      over_def by simp
    show ?thesis
    proof (cases "persist_threw res2 \<or> (\<not> persisted res2 \<and> \<not> over (result_status res2))")
      case True then show ?thesis using w' abandoned_given_up [OF assms(3)] by simp
    next
      case False
      then have "w' = w2" using w' by auto
      then show ?thesis using False terminal_update [OF u ip] ending_not_busy over_not_busy by metis
    qed
  qed
  then show ?thesis by (simp add: given_up_def busy_def)
qed

text \<open>A running job whose end cannot be committed at all: the worker is given up.\<close>

definition quiet_update :: update_env where "quiet_update = \<lparr>ue_persist = quiet_env, ue_heartbeat = id\<rparr>"
definition lost_update :: update_env where "lost_update = \<lparr>ue_persist = quiet_env\<lparr>pe_commit := CommitLost\<rparr>, ue_heartbeat = id\<rparr>"

definition sample_worker :: worker where
  "sample_worker = \<lparr>wk_job = \<lparr>sj_record = sample_record, sj_errorReason = [], sj_blockedCount = 0, sj_blockedRetryAt = 0,
     sj_blockedOnJobId = [], sj_blockedOnGeneration = []\<rparr>, wk_tracked = True, wk_ownershipLost = False\<rparr>"

definition lost_commit :: commit_env where
  "lost_commit = \<lparr>ce_now = 9, ce_turns = [\<lparr>cu_others = id, cu_update = lost_update\<rparr>], ce_quarantined = False,
     ce_failure_reason = [], ce_failure = lost_update\<rparr>"

definition lost_end :: "persist_result option \<times> worker \<times> queue_db" where
  "lost_end = commitQueueTerminalRecord sample_process lost_commit (ended_fields 9 ''completed'' []) id sample_worker
     (queue_of [sample_row ''running'' None])"

lemma lost_end_view: "fst lost_end = None \<and> wk_ownershipLost (fst (snd lost_end)) \<and> sj_status (wk_job (fst (snd lost_end))) = ''running''"
  by code_simp

theorem worker_end_is_settled_witness:
  "sj_status (wk_job (fst (snd lost_end))) = ''running'' \<and> \<not> wk_tracked (fst (snd lost_end))"
proof -
  obtain res w' d where l: "lost_end = (res, w', d)" by (rule prod_cases3)
  have "(\<not> wk_tracked w' \<and> wk_ownershipLost w') \<or> sj_status (wk_job w') \<notin> active_statuses"
    by (rule worker_end_is_settled [OF l [unfolded lost_end_def]]) (simp_all add: sample_process_def ended_fields_def)
  then show ?thesis using lost_end_view unfolding l by auto
qed

section \<open>Completed runs\<close>

lemma commit_loop_completed:
  assumes "commit_loop qp patch keep ts w db = (Some res, w', d)" "\<And>r. q_status (patch r) \<in> ending" "persisted res" "result_status res = ''completed''"
  shows "\<exists>r. q_status (patch r) = ''completed''"
  using assms(1)
proof (induction ts arbitrary: w db)
  case (Cons t ts)
  obtain res1 w1 d1 where u: "updateQueueTerminalRecordDurable qp (cu_update t) patch keep w (cu_others t db) = (res1, w1, d1)" by (rule prod_cases3)
  obtain res2 j2 d2 where v: "update_sched qp (cu_update t) patch keep (wk_job w) (cu_others t db) = (res2, j2, d2)" by (rule prod_cases3)
  show ?case
  proof (cases "\<not> persist_threw res1 \<and> (persisted res1 \<or> ownership_lost res1 \<or> result_status res1 \<notin> active_statuses)")
    case True
    then have r: "res = res1" "res1 = res2" using Cons.prems u v by (auto simp: updateQueueTerminalRecordDurable_def Let_def)
    have "settled (patch (sj_record (wk_job w))) res (sj_record j2)" using update_settled [OF v assms(2)] r by simp
    moreover have "\<not> persist_threw res" using True r by simp
    ultimately show ?thesis using assms(3,4) unfolding settled_def by metis
  next
    case False
    then have "commit_loop qp patch keep ts w1 d1 = (Some res, w', d)" using Cons.prems u by (simp split: if_split_asm)
    then show ?thesis by (rule Cons.IH)
  qed
qed simp

lemma commit_completed:
  assumes "commitQueueTerminalRecord qp e patch keep w db = (Some res, w', d)" "\<And>r. q_status (patch r) \<in> ending"
    and "persisted res" "result_status res = ''completed''"
  shows "\<exists>r. q_status (patch r) = ''completed''"
proof -
  define p where "p = retry_intent (ce_now e) patch (sj_record (wk_job w))"
  have p: "q_status (p r) = q_status (patch r)" for r by (simp add: p_def)
  obtain res1 w1 d1 where l: "commit_loop qp p keep (take QUEUE_TERMINAL_COMMIT_ATTEMPTS (ce_turns e)) w db = (res1, w1, d1)" by (rule prod_cases3)
  have "res1 = Some res"
    using assms(1) l unfolding commitQueueTerminalRecord_def Let_def p_def [symmetric] by (auto split: option.split_asm prod.split_asm)
  from commit_loop_completed [OF l [unfolded this] _ assms(3,4)] p assms(2) show ?thesis by auto
qed

lemma ended_fields_status [simp]: "q_status (ended_fields now st err r) = st"
  by (simp add: ended_fields_def)

lemma result_fields_status [simp]: "q_status (queueResultFields x r) = q_status r" "q_status (run_fields x r) = q_status r"
  by (simp_all add: queueResultFields_def run_fields_def)

lemma run_patch_status: "q_status (run_patch now x r0 r) = (if run_error x r0 \<noteq> [] then ''failed'' else ''completed'')"
  by (simp add: run_patch_def Let_def)

lemma no_run_error: "run_error x r = [] \<Longrightarrow> execution_error x = []"
  by (simp add: run_error_def split: if_split_asm)

lemma validation_type_not_empty: "changedFileValidationErrorType v \<noteq> []"
  by (simp add: changedFileValidationErrorType_def)

lemma no_execution_error:
  "execution_error x = [] \<Longrightarrow> ex_errorType x = [] \<and> (\<forall>v. ex_validation x = Some v \<longrightarrow> cv_disallowedFiles v = [])"
  using validation_type_not_empty unfolding execution_error_def or_string_def by (auto split: if_split_asm option.split_asm)

lemma bad_end_not_completed:
  assumes "commitQueueTerminalRecord qp e patch keep w db = (Some res, w', d)" "\<And>r. q_status (patch r) \<in> {''failed'', ''cancelled''}"
    and "persisted res" "result_status res = ''completed''"
  shows False
proof -
  have "q_status (patch r) \<in> ending" for r using assms(2) [of r] by (auto simp: ending_def)
  then obtain r where "q_status (patch r) = ''completed''" using commit_completed [OF assms(1) _ assms(3,4)] by blast
  then show False using assms(2) [of r] by simp
qed

text \<open>Only a run that ended on its own terms is stored completed: no other end commits that status.\<close>

lemma completed_run_ended:
  assumes "finish_worker cf qp e (Executed x) w db = (Some res, w', d)" "persisted res" "result_status res = ''completed''"
  shows "worker_end_of (fe_policy e) (sj_record (wk_job w)) (execution_error x) = EndRun"
proof -
  let ?r = "sj_record (wk_job w)"
  show ?thesis
  proof (cases "worker_end_of (fe_policy e) ?r (execution_error x)")
    case EndCancelled
    then have "commitQueueTerminalRecord qp (fe_commit e) (\<lambda>n. run_fields x (ended_fields (fe_now e) ''cancelled'' ''agent_cancelled'' n))
         (set_reason ''Cancelled by request after the OpenCode process tree terminated.'') w db = (Some res, w', d)"
      using assms(1) by (simp add: finish_worker_def)
    then have False by (rule bad_end_not_completed [OF _ _ assms(2,3)]) simp_all
    then show ?thesis ..
  next
    case EndWorkspaceWait
    obtain o1 w1 d1 where b: "blockQueueRecordForWorkspace (fe_poll e) qp (fe_block e) (execution_error x) (ex_blockingFiles x) w db = (o1, w1, d1)"
      by (rule prod_cases3)
    then obtain err reason where "o1 = BlockFailed err reason" using assms(1) EndWorkspaceWait by (cases o1) (auto simp: finish_worker_def)
    then have "commitQueueTerminalRecord qp (fe_commit e) (\<lambda>n. queueResultFields x (ended_fields (fe_now e) ''failed'' err n)) (set_reason reason) w1 d1
      = (Some res, w', d)" using assms(1) EndWorkspaceWait b by (simp add: finish_worker_def)
    then have False by (rule bad_end_not_completed [OF _ _ assms(2,3)]) simp_all
    then show ?thesis ..
  next
    case EndLockWait
    obtain o1 w1 d1 where b: "blockQueueRecordAfterLockRefusal cf (fe_poll e) qp (fe_block e) (fe_jobs e) (execution_error x) w db = (o1, w1, d1)"
      by (rule prod_cases3)
    then obtain err reason where "o1 = BlockFailed err reason" using assms(1) EndLockWait by (cases o1) (auto simp: finish_worker_def)
    then have "commitQueueTerminalRecord qp (fe_commit e) (\<lambda>n. queueResultFields x (ended_fields (fe_now e) ''failed'' err n)) (set_reason reason) w1 d1
      = (Some res, w', d)" using assms(1) EndLockWait b by (simp add: finish_worker_def)
    then have False by (rule bad_end_not_completed [OF _ _ assms(2,3)]) simp_all
    then show ?thesis ..
  qed
qed

text \<open>C10: When the worker of a job stores it completed after a run whose changed files were checked
  against a plan, the run reported no error, no cancellation was requested, the plan edits, and every
  changed file with a lock form is inside its allowed edits, outside its forbidden entries and allowed
  by its scope.\<close>

theorem completed_job_changed_what_it_may:
  assumes "finish_worker cf qp e (Executed x) w db = (Some res, w', d)" "persisted res" "result_status res = ''completed''"
    and "ex_validation x = Some v" "validateChangedFilesForPlan h files p batch = Some v" "f \<in> set files" "has_lock_form f"
  shows "ex_errorType x = [] \<and> \<not> q_cancellationRequested (sj_record (wk_job w)) \<and> lp_lockType p \<noteq> ''read''
    \<and> isWithinAnyPath h f (lp_allowedEdits p) (lp_cwd p) = Some True
    \<and> isWithinAnyPath h f (lp_forbiddenEdits p) (lp_cwd p) = Some False \<and> scope_allows h p f"
proof -
  let ?r = "sj_record (wk_job w)"
  have end_run: "worker_end_of (fe_policy e) ?r (execution_error x) = EndRun" by (rule completed_run_ended [OF assms(1-3)])
  then have c: "commitQueueTerminalRecord qp (fe_commit e) (run_patch (fe_now e) x ?r) (set_reason (run_reason x ?r)) w db = (Some res, w', d)"
    using assms(1) by (simp add: finish_worker_def Let_def)
  have "\<exists>r. q_status (run_patch (fe_now e) x ?r r) = ''completed''"
    by (rule commit_completed [OF c _ assms(2,3)]) (simp add: run_patch_status)
  then have ok: "run_error x ?r = []" by (simp add: run_patch_status split: if_split_asm)
  have none: "execution_error x = []" by (rule no_run_error [OF ok])
  have "\<not> q_cancellationRequested ?r"
    using end_run none by (auto simp: worker_end_of_def PROCESS_TREE_UNCONFIRMED_def split: if_split_asm)
  moreover have "cv_disallowedFiles v = []" "ex_errorType x = []" using no_execution_error [OF none] assms(4) by auto
  moreover note passed_changes_are_allowed [OF assms(5) this(1) assms(6,7)]
  ultimately show ?thesis by blast
qed

definition sample_finish :: finish_env where
  "sample_finish = \<lparr>fe_now = 9, fe_policy = ''wait'', fe_poll = 20, fe_jobs = [],
     fe_commit = lost_commit\<lparr>ce_turns := [\<lparr>cu_others = id, cu_update = quiet_update\<rparr>]\<rparr>,
     fe_block = \<lparr>bk_now = 9, bk_look = True, bk_turns = [], bk_cancel = lost_commit\<rparr>\<rparr>"

definition sample_execution :: "changed_validation option \<Rightarrow> execution" where
  "sample_execution v = \<lparr>ex_errorType = [], ex_validation = v, ex_changedFiles = [''out/x.c''], ex_blockingFiles = [], ex_noChanges = False,
     ex_resultText = ''done'', ex_reportTruncated = False, ex_provider = [], ex_model = [], ex_slotRefused = False, ex_cooldownUntil = None,
     ex_outputCount = 1, ex_finalResponse = True, ex_agentProcessMs = None, ex_afterAgentMs = None, ex_worktreePath = [], ex_baseCommit = [],
     ex_patchSha256 = [], ex_failureReason = []\<rparr>"

definition sample_end :: "changed_validation option \<Rightarrow> persist_result option \<times> worker \<times> queue_db" where
  "sample_end v = finish_worker sample_config sample_process sample_finish (Executed (sample_execution v)) sample_worker
     (queue_of [sample_row ''running'' None])"

lemma sample_end_plain: "map_option result_status (fst (sample_end None)) = Some ''completed'' \<and> map_option persisted (fst (sample_end None)) = Some True"
  by code_simp

text \<open>A validation without a disallowed file makes no difference to the end.\<close>

lemma sample_execution_fields:
  "ex_changedFiles (sample_execution (Some v)) = ex_changedFiles (sample_execution None)"
  "ex_blockingFiles (sample_execution (Some v)) = ex_blockingFiles (sample_execution None)"
  "ex_noChanges (sample_execution (Some v)) = ex_noChanges (sample_execution None)"
  "ex_resultText (sample_execution (Some v)) = ex_resultText (sample_execution None)"
  "ex_reportTruncated (sample_execution (Some v)) = ex_reportTruncated (sample_execution None)"
  "ex_provider (sample_execution (Some v)) = ex_provider (sample_execution None)"
  "ex_model (sample_execution (Some v)) = ex_model (sample_execution None)"
  "ex_slotRefused (sample_execution (Some v)) = ex_slotRefused (sample_execution None)"
  "ex_cooldownUntil (sample_execution (Some v)) = ex_cooldownUntil (sample_execution None)"
  "ex_outputCount (sample_execution (Some v)) = ex_outputCount (sample_execution None)"
  "ex_finalResponse (sample_execution (Some v)) = ex_finalResponse (sample_execution None)"
  "ex_agentProcessMs (sample_execution (Some v)) = ex_agentProcessMs (sample_execution None)"
  "ex_afterAgentMs (sample_execution (Some v)) = ex_afterAgentMs (sample_execution None)"
  "ex_worktreePath (sample_execution (Some v)) = ex_worktreePath (sample_execution None)"
  "ex_baseCommit (sample_execution (Some v)) = ex_baseCommit (sample_execution None)"
  "ex_patchSha256 (sample_execution (Some v)) = ex_patchSha256 (sample_execution None)"
  "ex_failureReason (sample_execution (Some v)) = ex_failureReason (sample_execution None)"
  by (simp_all add: sample_execution_def)

lemma sample_end_same: "cv_disallowedFiles v = [] \<Longrightarrow> sample_end (Some v) = sample_end None"
proof -
  assume v: "cv_disallowedFiles v = []"
  have e: "execution_error (sample_execution (Some v)) = []" "execution_error (sample_execution None) = []"
    using v by (simp_all add: execution_error_def sample_execution_def or_string_def)
  have run: "worker_end_of (fe_policy sample_finish) (sj_record (wk_job sample_worker)) [] = EndRun" by code_simp
  have p: "run_patch now (sample_execution (Some v)) r0 = run_patch now (sample_execution None) r0" for now r0
    by (rule ext) (simp add: run_patch_def run_fields_def queueResultFields_def run_error_def no_output_failure_def Let_def e sample_execution_fields)
  have t: "run_reason (sample_execution (Some v)) r0 = run_reason (sample_execution None) r0" for r0
    by (simp add: run_reason_def no_output_failure_def e sample_execution_fields)
  show ?thesis unfolding sample_end_def finish_worker_def Let_def execution_result.case e run worker_end.case p t ..
qed

theorem completed_job_changed_what_it_may_witness:
  "\<exists>v. map_option result_status (fst (sample_end (Some v))) = Some ''completed''
     \<and> isWithinAnyPath sample_host ''out/x.c'' (lp_allowedEdits changes_plan) (lp_cwd changes_plan) = Some True"
proof -
  have "verdict_of (validateChangedFilesForPlan sample_host [''out/x.c''] changes_plan True) = Some []" by (rule out_file_verdict)
  then obtain v where v: "validateChangedFilesForPlan sample_host [''out/x.c''] changes_plan True = Some v" "cv_disallowedFiles v = []"
    unfolding verdict_of_def by auto
  obtain res w' d where e: "sample_end (Some v) = (res, w', d)" by (rule prod_cases3)
  then obtain r where r: "res = Some r" "persisted r" "result_status r = ''completed''"
    using sample_end_plain sample_end_same [OF v(2)] by auto
  have x: "ex_validation (sample_execution (Some v)) = Some v" by (simp add: sample_execution_def)
  have "isWithinAnyPath sample_host ''out/x.c'' (lp_allowedEdits changes_plan) (lp_cwd changes_plan) = Some True"
    using completed_job_changed_what_it_may [OF e [unfolded sample_end_def r(1)] r(2,3) x v(1) _ out_file_form] by simp
  moreover have "map_option result_status (fst (sample_end (Some v))) = Some ''completed''" unfolding e using r by simp
  ultimately show ?thesis by blast
qed

section \<open>Workspace waits\<close>

text \<open>A worker that blocks again for its workspace has waited at most sixty times, and counts the wait.\<close>

lemma workspace_wait_counted:
  assumes "blockQueueRecordForWorkspace poll qp e err files w db = (BlockedAgain, w', d)"
  shows "q_workspaceWaits (sj_record (wk_job w)) < QUEUE_WORKSPACE_WAIT_MAX"
  using assms unfolding blockQueueRecordForWorkspace_def Let_def by (auto split: if_split_asm)

lemma workspace_wait_ends:
  "QUEUE_WORKSPACE_WAIT_MAX \<le> q_workspaceWaits (sj_record (wk_job w)) \<Longrightarrow>
   \<exists>reason. blockQueueRecordForWorkspace poll qp e err files w db = (BlockFailed err reason, w, db)"
  unfolding blockQueueRecordForWorkspace_def Let_def by simp

end
