(* ===== verification/Spec2Isabelle.thy ===== *)
theory Spec2Isabelle
  imports ParallelBatch LockSafety ProviderSafety QueueProperties RetrySafety ParallelRunSafety SchedulerSafety WorkerSafety
begin

text \<open>
  Verification of Agent_MCP-Bridge, a server that runs coding agents against one checkout for several
  clients at once.  The bridge decides which paths a job may edit, holds a lock on them while the job runs,
  rations the slots of model providers, and keeps a durable queue of jobs that several bridge processes
  share through one SQLite database.  This development models those decisions and the transactions on the
  shared tables, and proves what they are there to guarantee.

  How the parts interact.  A job (\<open>LockPlan.job\<close>) carries a Scope Contract and its paths.  The planners turn
  it into a lock plan or refuse it; an accepted plan is what \<open>acquireHardLock\<close> takes into the lock table.
  Queue admission runs the same planner, writes a row, and the claim, heartbeat, terminal and recovery
  transactions move that row; the retry policy decides after a failed attempt whether admission is run again
  for a successor.  A running job waits for a slot of its provider in the lease table.

  Theories and sources.

  Prelude: strings as character lists with the JavaScript operations the code uses, the outcome of a
  database commit, shared list lemmas.  Interfaces: the locales, each interpreted on the model's own
  definitions by the theory that provides them (expiring rows, lock tables, slots).

  Paths and Glob, \<open>lib/paths.js\<close>: lock paths, containment in the project, links, overlap of paths, glob
  patterns as regular expressions and the indexed matcher.  ScopeContract, \<open>lib/scope-contract.js\<close>:
  contracts, their schema and normal form, the project policy.  OrchestratorPolicy,
  \<open>lib/orchestrator-policy.js\<close>: which agents may delegate and the contractor's proof.  ValidationCommand,
  \<open>lib/validation-command.js\<close>: tokenizer and trust rules of gate commands.  LockPlan, \<open>lib/lock-plan.js\<close>:
  the plan of a job and every guard of the single planner; ParallelBatch: the parallel planner.

  ChangedFiles, \<open>lib/rollback.js\<close>, \<open>lib/file-snapshot.js\<close> and the Git listings of \<open>server.js\<close>: which files
  a run changed and whether its plan allows them.  ParallelRun, \<open>lib/parallel-plan.js\<close>,
  \<open>lib/parallel-coordinator.js\<close> and \<open>lib/opencode-command.js\<close>: the plan of a pipeline, the checks of a group of
  jobs after they ran, of the workspaces they shared, and the deadline of the group.  ParallelRunSafety: its
  properties, composed with those of the planner.

  LockStore, \<open>lib/locks.js\<close>: the tables \<open>locks\<close>, \<open>runs\<close>, \<open>queue_job_locks\<close>, and acquisition, listing, release,
  expiry, reclaim and heartbeat.  LockQuarantine: quarantine of a held lock, the finalizer's exclusive
  protection, migration, containment evidence.  LockSafety: the step relation of all lock operations and
  its invariants.

  ProviderLimits, ProviderLeases, \<open>lib/provider-leases.js\<close> and \<open>lib/provider-quarantine.js\<close>: limits, keys,
  pauses, looks for a slot, the wait, heartbeats and quarantines.  ProviderSafety: the step relation, its
  invariants and the refinement of a counting semaphore.

  QueueRecord, \<open>lib/queue.js\<close>: the record of a job and the pure policies on it.  QueueStore,
  \<open>lib/queue/store.js\<close> with the schema of \<open>lib/state\<close>: the tables and the insert, update, cancel and
  terminal transactions, with the propagation to a parent pipeline (\<open>server.js\<close>).  QueueLeases,
  \<open>lib/queue/leases.js\<close>: ownership, heartbeat, recovery of stale rows.  QueueClaims, \<open>server.js\<close>: the claim
  before a job runs, takeover at startup, activation of a pipeline batch, retention.  RetryPolicy and
  QueueRetry, \<open>lib/queue/retry.js\<close>: policy, choice of a model, the decision after a failure, requeue.
  QueueAdmission, \<open>enqueueQueueJob\<close> of \<open>server.js\<close>.  QueueSafety: the step relation of all transactions on the
  job table and the invariants of a row's life (the locale of versioned rows and its interpretation).
  QueueProperties and RetrySafety: the properties.

  QueueScheduler, \<open>lib/queue/scheduler.js\<close> and its helpers in \<open>server.js\<close>: the pass of a bridge process over the
  jobs in its map, which ones it blocks, plans, holds back, refuses or claims, and when the next pass comes.
  QueueWorker, \<open>lib/queue/start.js\<close>: the end of a claimed job whose worker ran: blocked again, committed with
  retries, failed, or given up to recovery.  Both are built from the queue transactions, the listing of locks
  and, for the verdict on a run, the check of changed files.  SchedulerSafety and WorkerSafety: their
  properties, by composition with those of the queue and of the check.

  Conventions.  Texts are lists of 8-bit characters, so what JavaScript does with other code points (the line
  separators U+2028 and U+2029 end the dot of a pattern, for one) is not modelled.  Times are milliseconds (\<open>int\<close>); an absent time is \<open>None\<close>, an absent text the empty string,
  as the code treats them alike.  A transaction is one step on the database; its commit is an outcome
  (\<open>Committed\<close>, \<open>CommitLost\<close>, or \<open>CommitDurableError\<close>, an error reported after the commit took effect).  Where
  an operation reads, lets other processes run and then writes, what they do is an argument: a list of
  database functions, one per turn of a retry loop, or a field of an environment.  Steps of the relations
  are taken by any process with any arguments, so the invariants hold for every interleaving.  A thrown
  exception is a value (\<open>None\<close> or a constructor ending in \<open>Thrown\<close>).  Digests, encryption, random text, the
  file system, the process table and Git are fields of an environment record; a digest is assumed free of
  collisions only where a statement says so.

  What the lemmas show.  Planning: an accepted writer edits only inside its contract and its locks, no git
  control file, and never overlaps another writer of the batch; after the run, a group that is reported
  clean changed only what its accepted plans allow, and no file twice.  Locks: two live locks never conflict, and
  nobody without the token releases or renews one.  Providers: slots never exceed the limits.  Queue: a
  finished row is final, a cancellation is not overwritten by a completion, a key names one job, an owner
  that lost its generation writes nothing, recovery spares rows of live owners, a job is claimed once, and
  retries end.  Scheduler: a pass is a run of the queue transactions, starts no more jobs than the process may
  hold, starts only a job no running job, integration or lock stands against, and is followed by another
  pass while work waits.  Worker: every end leaves the job settled or given up to recovery, and a job is
  stored completed only if the files of its run are those its plan allows.  Deviations are stated next
  to what holds: the vector of a self-check command is the one that is run exactly when its blanks are
  spaces (\<open>self_check_blank_mismatch\<close> computes one that differs), two locks are exclusive when no lock form begins
  or ends with a blank (\<open>one_path_locked_twice\<close> computes a path with blank segments that is locked twice), and changed
  files with blank names are reported by no list of their check.

  Bounds.  No fuel is used by the planners.  The resolution of links and the retry loops of the store are
  recursive on the list of turns they are given; the store and the commit of a worker's end give up after the
  number of turns the code has.  The chain of retries is bounded by a budget of the constants of the code.

  Not modelled.  Running agents, Git, worktrees, integration of results, the MCP server and its tools,
  the installers and command line programs: they drive processes, files and the network.  Log lines,
  error texts and suggested fixes carry no decision and are left out; error types and conflicting paths
  are kept.  Of the queue, the re-encryption of legacy rows and the reconciliation of legacy pipeline
  batches at startup are no steps of the relation.  The caches of path checks and of case sensitivity
  only memoise.  Schema migrations other than the one of the lock table, encryption, and the tables of
  the integration journal and of worktrees are left out, as are, of the scheduler, its wake timer and
  the report of held starts and, of the worker, the callbacks during a run and the fields that are only
  reported; the queue reads and writes none of them in the modelled transactions except the lock tables.
\<close>

end
